(* ===== verification/Prelude.thy ===== *)
theory Prelude
  imports "HOL-Library.Word" "HOL-Library.List_Lexorder" "HOL-Library.Char_ord"
    "HOL-Library.Monad_Syntax"
begin

text \<open>
  Shared vocabulary of the development: the fixed-width integers of the Rust sources with their
  checked and saturating operations, strings as byte lists ordered bytewise, the parts of
  \<^verbatim>\<open>BTreeMap\<close> and \<^verbatim>\<open>BTreeSet\<close> the engine uses (as ascending association lists and
  ascending lists), \<^verbatim>\<open>str::split\<close>, and the generic facts on them that the component theories
  rely on.  The laws of the ordered map are stated once as the interface \<open>ordered_map\<close> and
  interpreted on the association-list operations.
\<close>

section \<open>Collections of rewrite rules\<close>

named_theorems step_table \<open>rewrite rules for lookups in an updated node table\<close>
named_theorems reducer_frame \<open>what a reducer operation leaves unchanged\<close>

section \<open>Fixed-width integers\<close>

type_synonym u8 = "8 word"
type_synonym u64 = "64 word"

definition checked_add :: "'a::len word \<Rightarrow> 'a word \<Rightarrow> 'a word option" where
  "checked_add a b = (if uint a + uint b < 2 ^ LENGTH('a) then Some (a + b) else None)"

definition checked_sub :: "'a::len word \<Rightarrow> 'a word \<Rightarrow> 'a word option" where
  "checked_sub a b = (if b \<le> a then Some (a - b) else None)"

definition checked_mul :: "'a::len word \<Rightarrow> 'a word \<Rightarrow> 'a word option" where
  "checked_mul a b = (if uint a * uint b < 2 ^ LENGTH('a) then Some (a * b) else None)"

definition saturating_add :: "'a::len word \<Rightarrow> 'a word \<Rightarrow> 'a word" where
  "saturating_add a b = (if uint a + uint b < 2 ^ LENGTH('a) then a + b else - 1)"

lemma int_less_exp: "int n < 2 ^ k \<longleftrightarrow> n < 2 ^ k"
  using of_nat_less_iff [of n "2 ^ k", where 'a = int] by simp

lemma uint_add_less_exp: "uint a + uint b < 2 ^ k \<longleftrightarrow> unat a + unat b < 2 ^ k"
proof -
  have "uint a + uint b = int (unat a + unat b)"
    by simp
  then show ?thesis
    by (simp only: int_less_exp)
qed

lemma uint_mul_less_exp: "uint a * uint b < 2 ^ k \<longleftrightarrow> unat a * unat b < 2 ^ k"
proof -
  have "uint a * uint b = int (unat a * unat b)"
    by simp
  then show ?thesis
    by (simp only: int_less_exp)
qed

lemma checked_add_SomeD:
  "checked_add a b = Some c \<Longrightarrow> unat c = unat a + unat b"
  by (auto simp: checked_add_def uint_add_less_exp unat_word_ariths split: if_splits)

lemma checked_sub_SomeD:
  "checked_sub a b = Some c \<Longrightarrow> unat c = unat a - unat b \<and> unat b \<le> unat a"
  by (auto simp: checked_sub_def unat_sub word_le_nat_alt split: if_splits)

lemma checked_mul_SomeD:
  "checked_mul a b = Some c \<Longrightarrow> unat c = unat a * unat b"
  by (auto simp: checked_mul_def uint_mul_less_exp unat_word_ariths split: if_splits)

lemma unat_saturating_add:
  "unat (saturating_add (a :: 'a::len word) b) = min (unat a + unat b) (2 ^ LENGTH('a) - 1)"
  by (auto simp: saturating_add_def uint_add_less_exp unat_word_ariths unsigned_minus_1_eq_mask mask_eq_exp_minus_1
      min_def)

section \<open>Option and list helpers\<close>

text \<open>\<^verbatim>\<open>Iterator::find_map\<close>: the first \<open>Some\<close> an element yields.\<close>

primrec find_map :: "('a \<Rightarrow> 'b option) \<Rightarrow> 'a list \<Rightarrow> 'b option" where
  "find_map f [] = None"
| "find_map f (x # xs) = (case f x of None \<Rightarrow> find_map f xs | Some y \<Rightarrow> Some y)"

lemma find_map_SomeD: "find_map f xs = Some y \<Longrightarrow> \<exists>x\<in>set xs. f x = Some y"
  by (induction xs) (auto split: option.splits)

lemma find_map_NoneD: "find_map f xs = None \<Longrightarrow> x \<in> set xs \<Longrightarrow> f x = None"
  by (induction xs) (auto split: option.splits)

lemma find_map_None_iff: "find_map f xs = None \<longleftrightarrow> (\<forall>x\<in>set xs. f x = None)"
  by (induction xs) (auto split: option.splits)

lemma find_SomeD: "find P xs = Some x \<Longrightarrow> x \<in> set xs \<and> P x"
  by (auto simp: find_Some_iff)

text \<open>\<^verbatim>\<open>Vec::dedup\<close>: of equal neighbours the first stays.\<close>

fun dedup :: "'a list \<Rightarrow> 'a list" where
  "dedup [] = []"
| "dedup [x] = [x]"
| "dedup (x # y # zs) = (if x = y then dedup (x # zs) else x # dedup (y # zs))"

lemma set_dedup [simp]: "set (dedup xs) = set xs"
  by (induction xs rule: dedup.induct) auto

lemma length_dedup_le: "length (dedup xs) \<le> length xs"
  by (induction xs rule: dedup.induct) auto

lemma dedup_eq_Nil [simp]: "dedup xs = [] \<longleftrightarrow> xs = []"
  by (metis set_dedup set_empty)

text \<open>A sum over a list does not grow when every summand does not.\<close>

lemma sum_list_map_le:
  "(\<And>x. x \<in> set xs \<Longrightarrow> (f x :: nat) \<le> g x) \<Longrightarrow> sum_list (map f xs) \<le> sum_list (map g xs)"
  by (induction xs) (auto intro: add_mono)

section \<open>Splitting strings\<close>

text \<open>\<^verbatim>\<open>str::split(char)\<close>: the pieces between separators; a string without one is one piece.\<close>

fun str_split :: "char \<Rightarrow> string \<Rightarrow> string list" where
  "str_split c [] = [[]]"
| "str_split c (x # xs) =
     (if x = c then [] # str_split c xs
      else case str_split c xs of [] \<Rightarrow> [[x]] | p # ps \<Rightarrow> (x # p) # ps)"

lemma str_split_not_Nil [simp]: "str_split c s \<noteq> []"
  by (induction s) (auto split: list.splits)

lemma str_split_no_sep: "c \<notin> set s \<Longrightarrow> str_split c s = [s]"
  by (induction s) auto

lemma str_split_append:
  "c \<notin> set s \<Longrightarrow> str_split c (s @ c # t) = s # str_split c t"
  by (induction s) auto

lemma str_split_pieces: "p \<in> set (str_split c s) \<Longrightarrow> c \<notin> set p"
  by (induction s arbitrary: p) (fastforce split: list.splits if_splits)+

text \<open>\<^verbatim>\<open>str::strip_prefix(char)\<close>.\<close>

definition strip_prefix_char :: "char \<Rightarrow> string \<Rightarrow> string option" where
  "strip_prefix_char c s = (case s of [] \<Rightarrow> None | x # xs \<Rightarrow> if x = c then Some xs else None)"

definition ascii_digit :: "char \<Rightarrow> bool" where
  "ascii_digit c \<longleftrightarrow> CHR ''0'' \<le> c \<and> c \<le> CHR ''9''"

definition ascii_lowercase :: "char \<Rightarrow> bool" where
  "ascii_lowercase c \<longleftrightarrow> CHR ''a'' \<le> c \<and> c \<le> CHR ''z''"

definition ascii_uppercase :: "char \<Rightarrow> bool" where
  "ascii_uppercase c \<longleftrightarrow> CHR ''A'' \<le> c \<and> c \<le> CHR ''Z''"

definition ascii_alphabetic :: "char \<Rightarrow> bool" where
  "ascii_alphabetic c \<longleftrightarrow> ascii_lowercase c \<or> ascii_uppercase c"

definition ascii_alphanumeric :: "char \<Rightarrow> bool" where
  "ascii_alphanumeric c \<longleftrightarrow> ascii_alphabetic c \<or> ascii_digit c"

section \<open>Ordered maps\<close>

text \<open>
  A \<^verbatim>\<open>BTreeMap\<close> is the list of its entries in ascending key order, which is also the order in
  which it iterates.  \<open>map_of\<close> is \<^verbatim>\<open>get\<close>; \<open>bt_modify\<close> is a write through \<^verbatim>\<open>get_mut\<close>,
  a no-op when the key is absent.
\<close>

type_synonym ('k, 'v) btree_map = "('k \<times> 'v) list"

definition bt_wf :: "('k::linorder, 'v) btree_map \<Rightarrow> bool" where
  "bt_wf m \<longleftrightarrow> sorted_wrt (<) (map fst m)"

definition bt_keys :: "('k, 'v) btree_map \<Rightarrow> 'k list" where
  "bt_keys m = map fst m"

definition bt_values :: "('k, 'v) btree_map \<Rightarrow> 'v list" where
  "bt_values m = map snd m"

definition bt_contains_key :: "('k, 'v) btree_map \<Rightarrow> 'k \<Rightarrow> bool" where
  "bt_contains_key m k \<longleftrightarrow> map_of m k \<noteq> None"

primrec bt_insert :: "'k::linorder \<Rightarrow> 'v \<Rightarrow> ('k, 'v) btree_map \<Rightarrow> ('k, 'v) btree_map" where
  "bt_insert k v [] = [(k, v)]"
| "bt_insert k v (e # m) =
     (if k < fst e then (k, v) # e # m
      else if k = fst e then (k, v) # m
      else e # bt_insert k v m)"

primrec bt_modify :: "'k \<Rightarrow> ('v \<Rightarrow> 'v) \<Rightarrow> ('k, 'v) btree_map \<Rightarrow> ('k, 'v) btree_map" where
  "bt_modify k f [] = []"
| "bt_modify k f (e # m) =
     (if fst e = k then (fst e, f (snd e)) # m else e # bt_modify k f m)"

text \<open>\<^verbatim>\<open>collect\<close> into a map: a later entry replaces an earlier one with its key.\<close>

definition bt_collect :: "('k::linorder \<times> 'v) list \<Rightarrow> ('k, 'v) btree_map" where
  "bt_collect xs = fold (\<lambda>(k, v) m. bt_insert k v m) xs []"

lemma map_of_bt_insert [simp]: "map_of (bt_insert k v m) = (map_of m)(k \<mapsto> v)"
  by (induction m) (auto simp: fun_eq_iff)

lemma map_of_bt_modify:
  "map_of (bt_modify k f m) = (map_of m)(k := map_option f (map_of m k))"
  by (induction m) (auto simp: fun_eq_iff)

lemma map_of_bt_modify_same [simp, step_table]:
  "map_of (bt_modify k f m) k = map_option f (map_of m k)"
  by (simp add: map_of_bt_modify)

lemma map_of_bt_modify_other [simp, step_table]:
  "k' \<noteq> k \<Longrightarrow> map_of (bt_modify k f m) k' = map_of m k'"
  by (simp add: map_of_bt_modify)

lemma map_fst_bt_modify [simp, reducer_frame]: "map fst (bt_modify k f m) = map fst m"
  by (induction m) auto

lemma fst_set_bt_insert: "fst ` set (bt_insert k v m) = insert k (fst ` set m)"
  by (induction m) auto

lemma bt_wf_Nil [simp]: "bt_wf []"
  by (simp add: bt_wf_def)

lemma bt_wf_distinct: "bt_wf m \<Longrightarrow> distinct (map fst m)"
  by (simp add: bt_wf_def strict_sorted_iff)

lemma bt_wf_modify [simp]: "bt_wf (bt_modify k f m) = bt_wf m"
  by (simp add: bt_wf_def)

lemma bt_wf_insert: "bt_wf m \<Longrightarrow> bt_wf (bt_insert k v m)"
proof (induction m)
  case Nil
  then show ?case by (simp add: bt_wf_def)
next
  case (Cons e m)
  have "fst ` set (bt_insert k v m) = insert k (fst ` set m)"
    by (rule fst_set_bt_insert)
  with Cons show ?case
    by (auto simp: bt_wf_def)
qed

lemma bt_wf_collect: "bt_wf (bt_collect xs)"
proof -
  have "bt_wf m \<Longrightarrow> bt_wf (fold (\<lambda>(k, v) m. bt_insert k v m) xs m)" for m
    by (induction xs arbitrary: m) (auto simp: bt_wf_insert)
  then show ?thesis
    by (simp add: bt_collect_def)
qed

lemma bt_modify_modify:
  "bt_modify k f (bt_modify k g m) = bt_modify k (f \<circ> g) m"
  by (induction m) auto

lemma bt_modify_absent: "map_of m k = None \<Longrightarrow> bt_modify k f m = m"
  by (induction m) (auto split: if_splits)

lemma bt_modify_cong:
  "(\<And>v. map_of m k = Some v \<Longrightarrow> f v = g v) \<Longrightarrow> bt_modify k f m = bt_modify k g m"
  by (induction m) auto

lemma bt_modify_ident: "(\<And>v. map_of m k = Some v \<Longrightarrow> f v = v) \<Longrightarrow> bt_modify k f m = m"
  by (induction m) auto

text \<open>
  A sum over the values of a map changes by the change of the one entry that is modified.
\<close>

lemma sum_bt_modify:
  "map_of m k = Some v \<Longrightarrow>
   sum_list (map (\<lambda>e. w (fst e) (snd e)) (bt_modify k f m)) + w k v =
   sum_list (map (\<lambda>e. w (fst e) (snd e)) m) + (w k (f v) :: nat)"
  by (induction m) (auto split: if_splits)

subsection \<open>Collected maps\<close>

lemma map_of_fold_insert:
  "map_of (fold (\<lambda>(k, v) m. bt_insert k v m) xs m) = map_of m ++ map_of (rev xs)"
  by (induction xs arbitrary: m) (auto simp: map_add_assoc)

lemma map_of_rev_distinct: "distinct (map fst xs) \<Longrightarrow> map_of (rev xs) = map_of xs"
  by (induction xs) (force simp: fun_eq_iff map_add_def split: option.splits dest: map_of_SomeD)+

lemma map_of_bt_collect: "distinct (map fst xs) \<Longrightarrow> map_of (bt_collect xs) = map_of xs"
  by (simp add: bt_collect_def map_of_fold_insert map_of_rev_distinct)

lemma sum_bt_insert:
  "k \<notin> fst ` set m \<Longrightarrow>
   (\<Sum>e \<leftarrow> bt_insert k v m. w e) = w (k, v) + (\<Sum>e \<leftarrow> m. w e :: nat)"
  by (induction m) auto

lemma sum_bt_collect:
  assumes "distinct (map fst xs)"
  shows "(\<Sum>e \<leftarrow> bt_collect xs. w e) = (\<Sum>e \<leftarrow> xs. w e :: nat)"
proof -
  have "distinct (map fst xs) \<Longrightarrow> fst ` set m \<inter> fst ` set xs = {} \<Longrightarrow>
    (\<Sum>e \<leftarrow> fold (\<lambda>(k, v) m. bt_insert k v m) xs m. w e) = (\<Sum>e \<leftarrow> xs. w e) + (\<Sum>e \<leftarrow> m. w e)" for m
  proof (induction xs arbitrary: m)
    case (Cons e xs)
    obtain k v where e: "e = (k, v)"
      by (cases e)
    have "fst ` set (bt_insert k v m) \<inter> fst ` set xs = {}"
      using Cons.prems e by (auto simp: fst_set_bt_insert)
    then show ?case
      using Cons e by (simp add: sum_bt_insert)
  qed simp
  from this [of "[]"] show ?thesis
    using assms by (simp add: bt_collect_def)
qed

subsection \<open>The interface of an ordered map\<close>

text \<open>
  What the engine relies on of an ordered map: reads after writes, the key order, and that a
  write through a mutable borrow never changes the key set.
\<close>

locale ordered_map =
  fixes get :: "'m \<Rightarrow> 'k \<Rightarrow> 'v option"
    and insert_entry :: "'k \<Rightarrow> 'v \<Rightarrow> 'm \<Rightarrow> 'm"
    and modify :: "'k \<Rightarrow> ('v \<Rightarrow> 'v) \<Rightarrow> 'm \<Rightarrow> 'm"
    and keys :: "'m \<Rightarrow> 'k list"
    and wf :: "'m \<Rightarrow> bool"
  assumes get_insert: "get (insert_entry k v m) k' = (if k' = k then Some v else get m k')"
    and get_modify: "get (modify k f m) k' = (if k' = k then map_option f (get m k) else get m k')"
    and keys_modify: "keys (modify k f m) = keys m"
    and keys_get: "k \<in> set (keys m) \<longleftrightarrow> get m k \<noteq> None"
    and wf_distinct: "wf m \<Longrightarrow> distinct (keys m)"
    and wf_insert: "wf m \<Longrightarrow> wf (insert_entry k v m)"
    and wf_modify: "wf m \<Longrightarrow> wf (modify k f m)"
begin

lemma modify_keeps_domain: "get (modify k f m) k' = None \<longleftrightarrow> get m k' = None"
  by (simp add: get_modify)

lemma fold_modify_keys: "keys (fold (\<lambda>k. modify k f) ks m) = keys m"
  by (induction ks arbitrary: m) (simp_all add: keys_modify)

lemma fold_modify_get:
  "distinct ks \<Longrightarrow>
   get (fold (\<lambda>k. modify k f) ks m) k' = (if k' \<in> set ks then map_option f (get m k') else get m k')"
  by (induction ks arbitrary: m) (auto simp: get_modify)

lemma insert_keeps_others: "k' \<noteq> k \<Longrightarrow> get (insert_entry k v m) k' = get m k'"
  by (simp add: get_insert)

lemma keys_insert: "set (keys (insert_entry k v m)) = insert k (set (keys m))"
  by (auto simp: keys_get get_insert split: if_splits)

end

interpretation bt: ordered_map map_of bt_insert bt_modify bt_keys
    "bt_wf :: ('k::linorder, 'v) btree_map \<Rightarrow> bool"
  by unfold_locales
    (auto simp: bt_keys_def map_of_bt_modify bt_wf_distinct bt_wf_insert map_of_eq_None_iff
      image_iff)

section \<open>Ordered sets\<close>

text \<open>A \<^verbatim>\<open>BTreeSet\<close> is the ascending list of its elements.\<close>

type_synonym 'a btree_set = "'a list"

definition bs_contains :: "'a btree_set \<Rightarrow> 'a \<Rightarrow> bool" where
  "bs_contains s x \<longleftrightarrow> x \<in> set s"

primrec bs_insert :: "'a::linorder \<Rightarrow> 'a btree_set \<Rightarrow> 'a btree_set" where
  "bs_insert x [] = [x]"
| "bs_insert x (y # ys) = (if x < y then x # y # ys else if x = y then y # ys else y # bs_insert x ys)"

lemma set_bs_insert [simp]: "set (bs_insert x s) = insert x (set s)"
  by (induction s) auto

lemma length_bs_insert: "length (bs_insert x s) \<le> Suc (length s)"
  by (induction s) auto

lemma set_fold_bs_insert [simp]: "set (fold bs_insert xs s) = set xs \<union> set s"
  by (induction xs arbitrary: s) auto

lemma strict_sorted_bs_insert [simp]: "sorted_wrt (<) s \<Longrightarrow> sorted_wrt (<) (bs_insert x s)"
  by (induction s) (auto simp: not_less)

lemma strict_sorted_fold_bs_insert: "sorted_wrt (<) s \<Longrightarrow> sorted_wrt (<) (fold bs_insert xs s)"
  by (induction xs arbitrary: s) auto

section \<open>Results\<close>

text \<open>
  \<^verbatim>\<open>Option::ok_or\<close>, the propagation of an error by \<^verbatim>\<open>?\<close>, the collection of an iterator of results,
  and a loop whose body may return an error.
\<close>

definition ok_or :: "'e \<Rightarrow> 'a option \<Rightarrow> 'e + 'a" where
  "ok_or e x = (case x of None \<Rightarrow> Inl e | Some y \<Rightarrow> Inr y)"

definition try_in :: "'e + 'a \<Rightarrow> ('a \<Rightarrow> 'e + 'b) \<Rightarrow> 'e + 'b" where
  "try_in x f = (case x of Inl e \<Rightarrow> Inl e | Inr y \<Rightarrow> f y)"

primrec try_map :: "('a \<Rightarrow> 'e + 'b) \<Rightarrow> 'a list \<Rightarrow> 'e + 'b list" where
  "try_map f [] = Inr []"
| "try_map f (x # xs) = try_in (f x) (\<lambda>y. try_in (try_map f xs) (\<lambda>ys. Inr (y # ys)))"

primrec try_fold :: "('a \<Rightarrow> 's \<Rightarrow> 'e + 's) \<Rightarrow> 'a list \<Rightarrow> 's \<Rightarrow> 'e + 's" where
  "try_fold f [] s = Inr s"
| "try_fold f (x # xs) s = try_in (f x s) (try_fold f xs)"

lemma try_in_Inr [simp]: "try_in x f = Inr z \<longleftrightarrow> (\<exists>y. x = Inr y \<and> f y = Inr z)"
  by (cases x) (auto simp: try_in_def)

lemma ok_or_Inr [simp]: "ok_or e x = Inr y \<longleftrightarrow> x = Some y"
  by (cases x) (auto simp: ok_or_def)

lemma try_map_Inr: "try_map f xs = Inr ys \<longleftrightarrow> list_all2 (\<lambda>x y. f x = Inr y) xs ys"
  by (induction xs arbitrary: ys) (auto simp: list_all2_Cons1)

lemma try_fold_keeps:
  "try_fold f xs s = Inr t \<Longrightarrow> P s \<Longrightarrow>
   (\<And>x s t. x \<in> set xs \<Longrightarrow> P s \<Longrightarrow> f x s = Inr t \<Longrightarrow> P t) \<Longrightarrow> P t"
  by (induction xs arbitrary: s) auto

section \<open>Decimal numerals\<close>

text \<open>The digits \<^verbatim>\<open>to_string\<close> and \<^verbatim>\<open>format!\<close> write for an unsigned integer.\<close>

fun dec_digits :: "nat \<Rightarrow> nat list" where
  "dec_digits n = (if n < 10 then [n] else dec_digits (n div 10) @ [n mod 10])"

declare dec_digits.simps [simp del]

definition digit_char :: "nat \<Rightarrow> char" where
  "digit_char d = char_of (48 + d)"

definition digit_value :: "char \<Rightarrow> nat" where
  "digit_value c = of_char c - 48"

definition nat_to_string :: "nat \<Rightarrow> string" where
  "nat_to_string n = map digit_char (dec_digits n)"

text \<open>The number a digit list denotes, most significant digit first.\<close>

definition dec_value :: "nat list \<Rightarrow> nat" where
  "dec_value ds = foldl (\<lambda>n d. 10 * n + d) 0 ds"

lemma foldl_dec: "foldl (\<lambda>n d. 10 * n + d) a ds = a * 10 ^ length ds + dec_value ds"
proof (induction ds arbitrary: a)
  case Nil
  then show ?case by (simp add: dec_value_def)
next
  case (Cons d ds)
  have "dec_value (d # ds) = foldl (\<lambda>n d. 10 * n + d) d ds"
    by (simp add: dec_value_def)
  also have "\<dots> = d * 10 ^ length ds + dec_value ds"
    by (rule Cons.IH)
  finally show ?case
    using Cons.IH [of "10 * a + d"] by (simp add: algebra_simps)
qed

lemma dec_value_Nil [simp]: "dec_value [] = 0"
  by (simp add: dec_value_def)

lemma dec_value_Cons: "dec_value (d # ds) = d * 10 ^ length ds + dec_value ds"
  using foldl_dec [of d ds] by (simp add: dec_value_def)

lemma dec_value_append: "dec_value (xs @ ys) = dec_value xs * 10 ^ length ys + dec_value ys"
  using foldl_dec [of "dec_value xs" ys] by (simp add: dec_value_def)

lemma dec_value_snoc [simp]: "dec_value (xs @ [d]) = 10 * dec_value xs + d"
  by (simp add: dec_value_append dec_value_Cons)

lemma dec_value_digits [simp]: "dec_value (dec_digits n) = n"
  by (induction n rule: dec_digits.induct) (subst dec_digits.simps, simp add: dec_value_Cons)

lemma dec_digits_not_Nil [simp]: "dec_digits n \<noteq> []"
  by (subst dec_digits.simps) simp

lemma dec_digits_small: "d \<in> set (dec_digits n) \<Longrightarrow> d < 10"
proof (induction n rule: dec_digits.induct)
  case (1 n)
  then show ?case
    by (subst (asm) (2) dec_digits.simps) (auto split: if_splits)
qed

lemma hd_dec_digits: "n \<noteq> 0 \<Longrightarrow> hd (dec_digits n) \<noteq> 0"
proof (induction n rule: dec_digits.induct)
  case (1 n)
  show ?case
  proof (cases "n < 10")
    case True
    with "1.prems" show ?thesis by (subst dec_digits.simps) simp
  next
    case False
    then have "n div 10 \<noteq> 0" by simp
    with "1.IH" False have "hd (dec_digits (n div 10)) \<noteq> 0" by simp
    with False show ?thesis by (subst dec_digits.simps) (simp add: hd_append)
  qed
qed

lemma dec_value_bound: "\<forall>d\<in>set ds. d < 10 \<Longrightarrow> dec_value ds < 10 ^ length ds"
proof (induction ds)
  case Nil
  then show ?case by simp
next
  case (Cons d ds)
  then have "dec_value ds < 10 ^ length ds" and "d \<le> 9" by auto
  then have "d * 10 ^ length ds + dec_value ds < 9 * 10 ^ length ds + 10 ^ length ds"
    by (intro add_le_less_mono) simp_all
  then show ?case by (simp add: dec_value_Cons)
qed

text \<open>Two digit lists of one length that denote the same number are equal.\<close>

lemma dec_value_inj_length:
  "length xs = length ys \<Longrightarrow> \<forall>d\<in>set xs. d < 10 \<Longrightarrow> \<forall>d\<in>set ys. d < 10 \<Longrightarrow>
   dec_value xs = dec_value ys \<Longrightarrow> xs = ys"
proof (induction xs ys rule: rev_induct2)
  case (4 x xs y ys)
  have "x < 10" and "y < 10" using "4.prems" by auto
  moreover have eq: "10 * dec_value xs + x = 10 * dec_value ys + y"
    using "4.prems" by simp
  ultimately have "x = y" and "dec_value xs = dec_value ys"
    by presburger+
  with 4 show ?case by simp
qed auto

text \<open>A digit list without a leading zero is determined by the number it denotes.\<close>

lemma dec_value_lower: "ds \<noteq> [] \<Longrightarrow> hd ds \<noteq> 0 \<Longrightarrow> 10 ^ (length ds - 1) \<le> dec_value ds"
  by (cases ds) (auto simp: dec_value_Cons trans_le_add1)

lemma dec_value_length_eq:
  assumes "xs \<noteq> []" "hd xs \<noteq> 0" "\<forall>d\<in>set ys. d < 10" "dec_value xs = dec_value ys"
  shows "length xs \<le> length ys"
proof -
  have "(10::nat) ^ (length xs - 1) \<le> dec_value xs"
    by (rule dec_value_lower) fact+
  also have "\<dots> < 10 ^ length ys"
    using assms dec_value_bound by simp
  finally have "length xs - 1 < length ys"
    by (simp add: power_strict_increasing_iff)
  then show ?thesis by simp
qed

lemma dec_value_inj:
  assumes "xs \<noteq> []" "ys \<noteq> []" "hd xs \<noteq> 0" "hd ys \<noteq> 0"
    and "\<forall>d\<in>set xs. d < 10" "\<forall>d\<in>set ys. d < 10" and "dec_value xs = dec_value ys"
  shows "xs = ys"
proof (rule dec_value_inj_length)
  show "length xs = length ys"
    using assms dec_value_length_eq [of xs ys] dec_value_length_eq [of ys xs] by simp
qed fact+

end
