(* ===== verification/Condition.thy ===== *)
theory Condition
  imports Prelude
begin

text \<open>
  The condition language of \<^verbatim>\<open>crates/execution/src/workflow/condition.rs\<close>: JSON Pointers and
  their selection, resolved operands and predicates, the short-circuiting evaluator with its trace
  of evaluated predicates, and JSON equality with exact comparison of arbitrary-precision numbers.
  A JSON number is its text, as \<^verbatim>\<open>serde_json\<close> keeps it under \<^verbatim>\<open>arbitrary_precision\<close>; strings
  are their UTF-8 bytes.
\<close>

section \<open>JSON values and workflow nodes\<close>

datatype json =
    JNull
  | JBool bool
  | JNumber string
  | JString string
  | JArray "json list"
  | JObject "(string \<times> json) list"

datatype workflow_node_role = RoleStep | RoleFinalizer

datatype workflow_node = WorkflowNode (node_id: string) (node_role: workflow_node_role)

datatype workflow_value_type = VtText | VtAttachmentCollection | VtJson | VtFile | VtGitBranch

datatype resolved_output_source =
  ResolvedOutputSource (ros_node: workflow_node) (ros_output: string)
    (ros_value_type: workflow_value_type)

definition output_reference :: "resolved_output_source \<Rightarrow> string" where
  "output_reference self =
     ''outputs.'' @ node_id (ros_node self) @ ''.'' @ ros_output self"

section \<open>JSON Pointers\<close>

record json_pointer =
  authored :: string
  tokens :: "string list"

datatype invalid_json_pointer = InvalidJsonPointer

datatype json_selection = Selected json | Missing

text \<open>The loop over the characters of one token: \<^verbatim>\<open>~0\<close> and \<^verbatim>\<open>~1\<close> are the only escapes.\<close>

fun decode_pointer_characters :: "string \<Rightarrow> invalid_json_pointer + string" where
  "decode_pointer_characters [] = Inr []"
| "decode_pointer_characters (c # cs) =
     (if c \<noteq> CHR ''~'' then map_sum id (Cons c) (decode_pointer_characters cs)
      else case cs of
        [] \<Rightarrow> Inl InvalidJsonPointer
      | d # ds \<Rightarrow>
          if d = CHR ''0'' then map_sum id (Cons (CHR ''~'')) (decode_pointer_characters ds)
          else if d = CHR ''1'' then map_sum id (Cons (CHR ''/'')) (decode_pointer_characters ds)
          else Inl InvalidJsonPointer)"

definition decode_pointer_token :: "string \<Rightarrow> invalid_json_pointer + string" where
  "decode_pointer_token token =
     (if CHR ''~'' \<notin> set token then Inr token else decode_pointer_characters token)"

fun decode_pointer_tokens :: "string list \<Rightarrow> invalid_json_pointer + string list" where
  "decode_pointer_tokens [] = Inr []"
| "decode_pointer_tokens (t # ts) =
     (case decode_pointer_token t of
        Inl e \<Rightarrow> Inl e
      | Inr t' \<Rightarrow> map_sum id (Cons t') (decode_pointer_tokens ts))"

definition json_pointer_parse :: "string \<Rightarrow> invalid_json_pointer + json_pointer" where
  "json_pointer_parse text =
     (if text = [] then Inr \<lparr>authored = text, tokens = []\<rparr>
      else case strip_prefix_char (CHR ''/'') text of
        None \<Rightarrow> Inl InvalidJsonPointer
      | Some rest \<Rightarrow>
          map_sum id (\<lambda>ts. \<lparr>authored = text, tokens = ts\<rparr>)
            (decode_pointer_tokens (str_split (CHR ''/'') rest)))"

text \<open>
  Array indices are canonical decimal numerals; \<^verbatim>\<open>token.parse()\<close> fails beyond \<^verbatim>\<open>usize\<close>,
  64 bits on the supported targets.
\<close>

definition parse_array_index :: "string \<Rightarrow> nat option" where
  "parse_array_index token =
     (case token of
        [] \<Rightarrow> None
      | first # rest \<Rightarrow>
          if token = ''0'' then Some 0
          else if ascii_digit first \<and> first \<noteq> CHR ''0'' \<and> list_all ascii_digit rest
          then (let n = dec_value (map digit_value token) in if int n < 2 ^ 64 then Some n else None)
          else None)"

fun select_tokens :: "string list \<Rightarrow> json \<Rightarrow> json_selection" where
  "select_tokens [] value = Selected value"
| "select_tokens (token # rest) (JObject object) =
     (case map_of object token of None \<Rightarrow> Missing | Some value \<Rightarrow> select_tokens rest value)"
| "select_tokens (token # rest) (JArray array) =
     (case parse_array_index token of
        None \<Rightarrow> Missing
      | Some index \<Rightarrow> if index < length array then select_tokens rest (array ! index) else Missing)"
| "select_tokens (token # rest) _ = Missing"

definition json_pointer_select :: "json_pointer \<Rightarrow> json \<Rightarrow> json_selection" where
  "json_pointer_select pointer value = select_tokens (tokens pointer) value"

section \<open>Operands and predicates\<close>

datatype condition_value_kind = KindText | KindJson

datatype resolved_operand_value =
    OperandReference string "json_pointer option"
  | TextLiteral string
  | JsonLiteral json

datatype resolved_operand =
  ResolvedOperand (operand_kind: condition_value_kind) (operand_value: resolved_operand_value)

definition text_reference :: "string \<Rightarrow> resolved_operand" where
  "text_reference canonical_ref = ResolvedOperand KindText (OperandReference canonical_ref None)"

definition json_reference :: "string \<Rightarrow> json_pointer option \<Rightarrow> resolved_operand" where
  "json_reference canonical_ref pointer =
     ResolvedOperand KindJson (OperandReference canonical_ref pointer)"

definition text_literal :: "string \<Rightarrow> resolved_operand" where
  "text_literal value = ResolvedOperand KindText (TextLiteral value)"

definition json_literal :: "json \<Rightarrow> resolved_operand" where
  "json_literal value = ResolvedOperand KindJson (JsonLiteral value)"

datatype resolved_selector =
  ResolvedSelector (selector_ref: string) (selector_pointer: json_pointer)

datatype terminal_disposition =
    TdSucceeded | TdFailed | TdSkipped | TdBlocked | TdNotRun | TdCancelled | TdInherited

datatype resolved_predicate =
    All "resolved_predicate list"
  | Any "resolved_predicate list"
  | Not resolved_predicate
  | Equals resolved_operand resolved_operand
  | Exists resolved_selector
  | Disposition workflow_node terminal_disposition

type_synonym predicate_path = string

definition path_root :: predicate_path where
  "path_root = []"

definition path_child :: "predicate_path \<Rightarrow> string \<Rightarrow> predicate_path" where
  "path_child path segment = path @ CHR ''/'' # segment"

datatype evaluated_predicate = EvaluatedPredicate (ep_path: predicate_path) (ep_result: bool)

datatype unavailable_condition_input =
    UnavailableValue string
  | UnavailableDisposition workflow_node

datatype condition_evaluation =
    Passed
  | EvaluatedFalse "evaluated_predicate list"
  | EvaluationFailed string string
  | EvaluationUnavailable unavailable_condition_input

datatype captured_condition_value = CapturedText string | CapturedJson json

type_synonym condition_values = "(string, captured_condition_value) btree_map"

definition insert_text_value :: "string \<Rightarrow> string \<Rightarrow> condition_values \<Rightarrow> condition_values" where
  "insert_text_value canonical_ref value values = bt_insert canonical_ref (CapturedText value) values"

definition insert_json_value :: "string \<Rightarrow> json \<Rightarrow> condition_values \<Rightarrow> condition_values" where
  "insert_json_value canonical_ref value values = bt_insert canonical_ref (CapturedJson value) values"

text \<open>
  \<^verbatim>\<open>ConditionDispositions\<close> maps nodes to dispositions; only lookups are made, so the entries stand
  in insertion order with the latest first.
\<close>

type_synonym condition_dispositions = "(workflow_node \<times> terminal_disposition) list"

section \<open>Exact decimal numbers\<close>

text \<open>
  \<^verbatim>\<open>SignedDecimal\<close>: a sign and a magnitude as decimal digits, most significant first.  The digits
  are below ten, so the eight-bit sums and differences of the source never leave their range.
\<close>

record signed_decimal =
  sd_negative :: bool
  magnitude :: "nat list"

definition signed_decimal_zero :: signed_decimal where
  "signed_decimal_zero = \<lparr>sd_negative = False, magnitude = [0]\<rparr>"

definition signed_decimal_parse :: "string \<Rightarrow> signed_decimal option" where
  "signed_decimal_parse value =
     (let (negative, digits) =
        (case strip_prefix_char (CHR ''-'') value of
           Some digits \<Rightarrow> (True, digits)
         | None \<Rightarrow>
             (case strip_prefix_char (CHR ''+'') value of
                Some digits \<Rightarrow> (False, digits)
              | None \<Rightarrow> (False, value)))
      in if digits = [] \<or> \<not> list_all ascii_digit digits then None
         else let significant = dropWhile (\<lambda>d. d = CHR ''0'') digits in
           if significant = [] then Some signed_decimal_zero
           else Some \<lparr>sd_negative = negative, magnitude = map digit_value significant\<rparr>)"

text \<open>The reversed-digit loops of addition and subtraction.\<close>

fun add_loop :: "nat list \<Rightarrow> nat list \<Rightarrow> nat \<Rightarrow> nat list" where
  "add_loop [] [] carry = (if carry = 0 then [] else carry mod 10 # add_loop [] [] (carry div 10))"
| "add_loop (l # ls) [] carry = (l + carry) mod 10 # add_loop ls [] ((l + carry) div 10)"
| "add_loop [] (r # rs) carry = (r + carry) mod 10 # add_loop [] rs ((r + carry) div 10)"
| "add_loop (l # ls) (r # rs) carry =
     (l + r + carry) mod 10 # add_loop ls rs ((l + r + carry) div 10)"

definition add_decimal_magnitudes :: "nat list \<Rightarrow> nat list \<Rightarrow> nat list" where
  "add_decimal_magnitudes left right = rev (add_loop (rev left) (rev right) 0)"

fun subtract_loop :: "nat list \<Rightarrow> nat list \<Rightarrow> int \<Rightarrow> nat list" where
  "subtract_loop [] smaller borrow = []"
| "subtract_loop (l # ls) smaller borrow =
     (let (s, rest) = (case smaller of [] \<Rightarrow> (0, []) | s # ss \<Rightarrow> (s, ss));
          digit = int l - int s - borrow
      in if digit < 0 then nat (digit + 10) # subtract_loop ls rest 1
         else nat digit # subtract_loop ls rest 0)"

text \<open>\<^verbatim>\<open>while result.len() > 1 && result.last() == Some(&0) { result.pop(); }\<close> before the final reverse.\<close>

fun strip_leading_zeroes :: "nat list \<Rightarrow> nat list" where
  "strip_leading_zeroes (0 # d # ds) = strip_leading_zeroes (d # ds)"
| "strip_leading_zeroes ds = ds"

definition subtract_decimal_magnitudes :: "nat list \<Rightarrow> nat list \<Rightarrow> nat list" where
  "subtract_decimal_magnitudes larger smaller =
     strip_leading_zeroes (rev (subtract_loop (rev larger) (rev smaller) 0))"

datatype ordering = Less | Equal | Greater

fun compare_digits :: "nat list \<Rightarrow> nat list \<Rightarrow> ordering" where
  "compare_digits [] [] = Equal"
| "compare_digits [] (r # rs) = Less"
| "compare_digits (l # ls) [] = Greater"
| "compare_digits (l # ls) (r # rs) =
     (if l < r then Less else if r < l then Greater else compare_digits ls rs)"

definition compare_decimal_magnitudes :: "nat list \<Rightarrow> nat list \<Rightarrow> ordering" where
  "compare_decimal_magnitudes left right =
     (if length left < length right then Less
      else if length right < length left then Greater
      else compare_digits left right)"

definition signed_decimal_add :: "signed_decimal \<Rightarrow> signed_decimal \<Rightarrow> signed_decimal" where
  "signed_decimal_add self other =
     (if sd_negative self = sd_negative other
      then self\<lparr>magnitude := add_decimal_magnitudes (magnitude self) (magnitude other)\<rparr>
      else case compare_decimal_magnitudes (magnitude self) (magnitude other) of
        Greater \<Rightarrow>
          self\<lparr>magnitude := subtract_decimal_magnitudes (magnitude self) (magnitude other)\<rparr>
      | Less \<Rightarrow>
          self\<lparr>magnitude := subtract_decimal_magnitudes (magnitude other) (magnitude self),
            sd_negative := sd_negative other\<rparr>
      | Equal \<Rightarrow> signed_decimal_zero)"

definition signed_decimal_add_unsigned :: "signed_decimal \<Rightarrow> nat \<Rightarrow> bool \<Rightarrow> signed_decimal" where
  "signed_decimal_add_unsigned self value negative =
     (if value = 0 then self
      else signed_decimal_add self \<lparr>sd_negative = negative, magnitude = dec_digits value\<rparr>)"

record normalized_number =
  nn_negative :: bool
  significant_digits :: string
  decimal_exponent :: signed_decimal

definition split_exponent :: "string \<Rightarrow> string \<times> string option" where
  "split_exponent unsigned_text =
     (let mantissa = takeWhile (\<lambda>c. c \<noteq> CHR ''e'' \<and> c \<noteq> CHR ''E'') unsigned_text
      in case drop (length mantissa) unsigned_text of
           [] \<Rightarrow> (unsigned_text, None)
         | _ # exponent \<Rightarrow> (mantissa, Some exponent))"

definition split_fraction :: "string \<Rightarrow> string \<times> string" where
  "split_fraction mantissa =
     (let integer = takeWhile (\<lambda>c. c \<noteq> CHR ''.'') mantissa
      in case drop (length integer) mantissa of
           [] \<Rightarrow> (mantissa, [])
         | _ # fraction \<Rightarrow> (integer, fraction))"

definition normalized_number_parse :: "string \<Rightarrow> normalized_number option" where
  "normalized_number_parse number =
     (let (negative, unsigned_text) =
            (case strip_prefix_char (CHR ''-'') number of
               Some unsigned_text \<Rightarrow> (True, unsigned_text) | None \<Rightarrow> (False, number));
          (mantissa, explicit_exponent) = split_exponent unsigned_text;
          (integer, fraction) = split_fraction mantissa
      in if integer = [] \<or> \<not> list_all ascii_digit integer \<or> \<not> list_all ascii_digit fraction
         then None
         else let digits = integer @ fraction;
                  leading_zeroes = length (takeWhile (\<lambda>d. d = CHR ''0'') digits)
           in if leading_zeroes = length digits
              then Some \<lparr>nn_negative = False, significant_digits = ''0'',
                     decimal_exponent = signed_decimal_zero\<rparr>
              else let trailing_zeroes = length (takeWhile (\<lambda>d. d = CHR ''0'') (rev digits));
                       significant_end = length digits - trailing_zeroes;
                       significant = drop leading_zeroes (take significant_end digits)
                in case (case explicit_exponent of
                           Some exponent \<Rightarrow> signed_decimal_parse exponent
                         | None \<Rightarrow> Some signed_decimal_zero) of
                     None \<Rightarrow> None
                   | Some exponent \<Rightarrow>
                       Some \<lparr>nn_negative = negative, significant_digits = significant,
                         decimal_exponent =
                           signed_decimal_add_unsigned
                             (signed_decimal_add_unsigned exponent trailing_zeroes False)
                             (length fraction) True\<rparr>)"

definition numbers_semantically_equal :: "string \<Rightarrow> string \<Rightarrow> bool" where
  "numbers_semantically_equal left right =
     (case (normalized_number_parse left, normalized_number_parse right) of
        (Some l, Some r) \<Rightarrow> l = r
      | _ \<Rightarrow> False)"

lemma size_zip_left [termination_simp]:
  "(a, b) \<in> set (zip xs ys) \<Longrightarrow> size a < Suc (size_list size xs)"
  by (auto dest!: set_zip_leftD intro: le_imp_less_Suc size_list_estimation')

fun json_semantically_equal :: "json \<Rightarrow> json \<Rightarrow> bool" where
  "json_semantically_equal JNull right = (case right of JNull \<Rightarrow> True | _ \<Rightarrow> False)"
| "json_semantically_equal (JBool l) right = (case right of JBool r \<Rightarrow> l = r | _ \<Rightarrow> False)"
| "json_semantically_equal (JNumber l) right =
     (case right of JNumber r \<Rightarrow> numbers_semantically_equal l r | _ \<Rightarrow> False)"
| "json_semantically_equal (JString l) right = (case right of JString r \<Rightarrow> l = r | _ \<Rightarrow> False)"
| "json_semantically_equal (JArray left) right =
     (case right of
        JArray right \<Rightarrow>
          length left = length right \<and>
          list_all (\<lambda>(l, r). json_semantically_equal l r) (zip left right)
      | _ \<Rightarrow> False)"
| "json_semantically_equal (JObject left) right =
     (case right of
        JObject right \<Rightarrow>
          length left = length right \<and>
          list_all (\<lambda>(name, l).
              case map_of right name of
                None \<Rightarrow> False
              | Some r \<Rightarrow> json_semantically_equal l r) left
      | _ \<Rightarrow> False)"

section \<open>Evaluation\<close>

datatype evaluation_failure =
    PointerMissing string string
  | FailureUnavailable unavailable_condition_input

datatype selected_operand = SelectedText string | SelectedJson json

definition resolve_operand ::
  "resolved_operand \<Rightarrow> condition_values \<Rightarrow> evaluation_failure + selected_operand" where
  "resolve_operand operand values =
     (case operand_value operand of
        TextLiteral value \<Rightarrow> Inr (SelectedText value)
      | JsonLiteral value \<Rightarrow> Inr (SelectedJson value)
      | OperandReference canonical_ref pointer \<Rightarrow>
          (case (operand_kind operand, map_of values canonical_ref) of
             (KindText, Some (CapturedText value)) \<Rightarrow> Inr (SelectedText value)
           | (KindJson, Some (CapturedJson value)) \<Rightarrow>
               (case pointer of
                  None \<Rightarrow> Inr (SelectedJson value)
                | Some pointer \<Rightarrow>
                    (case json_pointer_select pointer value of
                       Selected selected \<Rightarrow> Inr (SelectedJson selected)
                     | Missing \<Rightarrow> Inl (PointerMissing canonical_ref (authored pointer))))
           | _ \<Rightarrow> Inl (FailureUnavailable (UnavailableValue canonical_ref))))"

definition resolve_json_reference :: "string \<Rightarrow> condition_values \<Rightarrow> evaluation_failure + json" where
  "resolve_json_reference canonical_ref values =
     (case map_of values canonical_ref of
        Some (CapturedJson value) \<Rightarrow> Inr value
      | _ \<Rightarrow> Inl (FailureUnavailable (UnavailableValue canonical_ref)))"

fun operands_equal :: "selected_operand \<Rightarrow> selected_operand \<Rightarrow> bool" where
  "operands_equal (SelectedText left) (SelectedText right) = (left = right)"
| "operands_equal (SelectedJson left) (SelectedJson right) = json_semantically_equal left right"
| "operands_equal _ _ = False"

text \<open>
  The trace is appended to after a predicate is decided; on a failure the caller drops it, so the
  result carries it only on success.  The two \<^verbatim>\<open>for\<close> loops over the children are the functions
  \<open>evaluate_all\<close> and \<open>evaluate_any\<close> with the loop body and the index of the next child as
  arguments.
\<close>

type_synonym traced_result = "evaluation_failure + (bool \<times> evaluated_predicate list)"

fun evaluate_all ::
  "(nat \<Rightarrow> 'a \<Rightarrow> evaluated_predicate list \<Rightarrow> traced_result) \<Rightarrow> nat \<Rightarrow> 'a list \<Rightarrow>
   evaluated_predicate list \<Rightarrow> traced_result" where
  "evaluate_all body index [] trace = Inr (True, trace)"
| "evaluate_all body index (child # children) trace =
     (case body index child trace of
        Inl e \<Rightarrow> Inl e
      | Inr (result, trace) \<Rightarrow>
          if \<not> result then Inr (False, trace)
          else evaluate_all body (Suc index) children trace)"

fun evaluate_any ::
  "(nat \<Rightarrow> 'a \<Rightarrow> evaluated_predicate list \<Rightarrow> traced_result) \<Rightarrow> nat \<Rightarrow> 'a list \<Rightarrow>
   evaluated_predicate list \<Rightarrow> traced_result" where
  "evaluate_any body index [] trace = Inr (False, trace)"
| "evaluate_any body index (child # children) trace =
     (case body index child trace of
        Inl e \<Rightarrow> Inl e
      | Inr (result, trace) \<Rightarrow>
          if result then Inr (True, trace)
          else evaluate_any body (Suc index) children trace)"

lemma evaluate_all_cong [fundef_cong]:
  assumes "children = children'"
    and "\<And>i c t. c \<in> set children' \<Longrightarrow> body i c t = body' i c t"
    and "index = index'" and "trace = trace'"
  shows "evaluate_all body index children trace = evaluate_all body' index' children' trace'"
  unfolding assms(1,3,4) using assms(2)
  by (induction body index' children' trace' rule: evaluate_all.induct)
    (auto split: sum.splits)

lemma evaluate_any_cong [fundef_cong]:
  assumes "children = children'"
    and "\<And>i c t. c \<in> set children' \<Longrightarrow> body i c t = body' i c t"
    and "index = index'" and "trace = trace'"
  shows "evaluate_any body index children trace = evaluate_any body' index' children' trace'"
  unfolding assms(1,3,4) using assms(2)
  by (induction body index' children' trace' rule: evaluate_any.induct)
    (auto split: sum.splits)

definition traced :: "predicate_path \<Rightarrow> bool \<Rightarrow> evaluated_predicate list \<Rightarrow> traced_result" where
  "traced path result trace = Inr (result, trace @ [EvaluatedPredicate path result])"

fun evaluate_predicate ::
  "resolved_predicate \<Rightarrow> predicate_path \<Rightarrow> condition_values \<Rightarrow> condition_dispositions \<Rightarrow>
   evaluated_predicate list \<Rightarrow> traced_result" where
  "evaluate_predicate (All children) path values dispositions trace =
     (case evaluate_all
             (\<lambda>index child trace. evaluate_predicate child
                (path_child path (''all/'' @ nat_to_string index)) values dispositions trace)
             0 children trace of
        Inl e \<Rightarrow> Inl e
      | Inr (result, trace) \<Rightarrow> traced path result trace)"
| "evaluate_predicate (Any children) path values dispositions trace =
     (case evaluate_any
             (\<lambda>index child trace. evaluate_predicate child
                (path_child path (''any/'' @ nat_to_string index)) values dispositions trace)
             0 children trace of
        Inl e \<Rightarrow> Inl e
      | Inr (result, trace) \<Rightarrow> traced path result trace)"
| "evaluate_predicate (Not child) path values dispositions trace =
     (case evaluate_predicate child (path_child path ''not'') values dispositions trace of
        Inl e \<Rightarrow> Inl e
      | Inr (result, trace) \<Rightarrow> traced path (\<not> result) trace)"
| "evaluate_predicate (Equals first second) path values dispositions trace =
     (case resolve_operand first values of
        Inl e \<Rightarrow> Inl e
      | Inr left \<Rightarrow>
          (case resolve_operand second values of
             Inl e \<Rightarrow> Inl e
           | Inr right \<Rightarrow> traced path (operands_equal left right) trace))"
| "evaluate_predicate (Exists selector) path values dispositions trace =
     (case resolve_json_reference (selector_ref selector) values of
        Inl e \<Rightarrow> Inl e
      | Inr value \<Rightarrow>
          traced path (json_pointer_select (selector_pointer selector) value \<noteq> Missing) trace)"
| "evaluate_predicate (Disposition node is) path values dispositions trace =
     (case map_of dispositions node of
        None \<Rightarrow> Inl (FailureUnavailable (UnavailableDisposition node))
      | Some disposition \<Rightarrow> traced path (disposition = is) trace)"

definition evaluate ::
  "resolved_predicate \<Rightarrow> condition_values \<Rightarrow> condition_dispositions \<Rightarrow> condition_evaluation" where
  "evaluate predicate values dispositions =
     (case evaluate_predicate predicate path_root values dispositions [] of
        Inr (True, trace) \<Rightarrow> Passed
      | Inr (False, trace) \<Rightarrow> EvaluatedFalse trace
      | Inl (PointerMissing canonical_ref pointer) \<Rightarrow> EvaluationFailed canonical_ref pointer
      | Inl (FailureUnavailable input) \<Rightarrow> EvaluationUnavailable input)"

end
