(* ===== verification/Evidence.thy ===== *)
theory Evidence
  imports Condition "HOL-Library.Product_Lexorder"
begin

text \<open>
  Node evidence, \<^verbatim>\<open>crates/execution/src/workflow/evidence.rs\<close>: failure details and their
  validation, blocked, skipped and non-execution details, and the mapping of every typed failure
  cause of the step runtime to a canonical failure detail.  The \<^verbatim>\<open>Deserialize\<close> implementations
  are modelled from the parsed wire structures on.
\<close>

section \<open>Failure details\<close>

type_synonym i32 = "32 word"

datatype cancellation_reason =
    UserRequest | TerminationRequest | CallerOutputFailure | RunnerShutdown
  | ExecutionLeaseExpired | ForceAbort

definition maximum_prerequisites :: nat where
  "maximum_prerequisites = 1024"

datatype failure_phase = PhaseStart | PhaseCondition | PhaseExecution | PhaseOutputCapture

text \<open>
  The variants of \<^verbatim>\<open>FailureCode\<close> in source order, cut into consecutive groups so that no
  enumeration is very long; \<open>failure_code\<close> is their disjoint union.
\<close>

datatype start_failure_code =
    FcStepUnavailable | FcPreparationTaskUnavailable | FcInputsUnavailable
  | FcOutputsUnsupported | FcAgentRuntimeUnavailable | FcAgentStepUnavailable
  | FcAgentAdmissionUnavailable | FcAgentInputsUnavailable | FcAgentInputMissingUpstream
  | FcAgentInputTypeMismatch | FcAgentSourceUnavailable | FcAgentSourceTextInvalid
  | FcAgentResultSchemaUnavailable | FcAgentValueModeInvalid | FcAgentAttachmentCountLimit
  | FcAgentAttachmentBytesLimit | FcArtifactStagingMismatch | FcAgentStagingMismatch
  | FcAgentInputStagingUnavailable

datatype harness_failure_code =
    FcHarnessStartFailed | FcHarnessInputTooLarge | FcHarnessFailed | FcHarnessProtocolFailed
  | FcMissingResponse | FcMissingResult | FcResultValidationLimitExceeded
  | FcCapturedValueTooLarge | FcResultSettlementFailed

datatype input_failure_code =
    FcInputInvalidName | FcInputValueCountLimit | FcInputValueSizeLimit | FcInputTotalSizeLimit
  | FcInputCollectionOrdinalLimit | FcInputTypeMismatch | FcInputSourceUnavailable
  | FcInputStagingUnavailable | FcInputLiveLimit

datatype launch_failure_code =
    FcExecutionRootRebound | FcWorkingDirectoryUnavailable | FcWorkingDirectoryEscape
  | FcWorkingDirectoryNotDirectory | FcCommandArgvInvalid | FcCommandPathUnconfigured
  | FcExecutableNotFound | FcExecutableUnavailable | FcCommandLaunchNotFound
  | FcCommandLaunchPermissionDenied | FcCommandLaunchInvalidInput | FcCommandLaunchFailed

datatype run_failure_code =
    FcJsonPointerMissing | FcCommandExit | FcCommandWaitFailed | FcExecutionTaskUnavailable

datatype output_failure_code =
    FcOutputUnsupported | FcCaptureTaskUnavailable | FcOutputPathAbsolute | FcOutputPathEscape
  | FcOutputPathEmpty | FcOutputMissing | FcOutputSymbolicLink | FcOutputParentNotDirectory
  | FcOutputNotRegularFile | FcOutputSourceUnavailable | FcOutputInvalidUtf8
  | FcOutputInvalidJson | FcOutputDuplicateJsonMember | FcOutputJsonSchemaMismatch

datatype limit_failure_code =
    FcCapturedFileCountLimit | FcCapturedFileSizeLimit | FcCapturedTotalSizeLimit
  | FcCapturedGitCarrierCountLimit | FcCapturedGitCarrierSizeLimit
  | FcCapturedTotalGitCarrierSizeLimit

datatype git_failure_code =
    FcGitExecutionRootRebound | FcGitHeadUnavailable | FcGitBaselineNotAncestor
  | FcGitCleanlinessUnavailable | FcGitWorkspaceDirty | FcGitTreeUnavailable
  | FcGitRequiredObjectsUnavailable | FcGitSourceAuthorityChanged | FcGitStructureLimitExceeded
  | FcGitCommandTimedOut | FcGitBundleGenerationFailed | FcGitBundleProfileInvalid
  | FcGitBundleVerificationFailed | FcGitWorkspaceChanged | FcGitTemporaryStorageUnavailable
  | FcOutputStagingUnavailable

datatype failure_code =
    StartCode start_failure_code
  | HarnessCode harness_failure_code
  | InputCode input_failure_code
  | LaunchCode launch_failure_code
  | RunCode run_failure_code
  | OutputCode output_failure_code
  | LimitCode limit_failure_code
  | GitCode git_failure_code


record failure_detail =
  fd_phase :: failure_phase
  fd_code :: failure_code
  fd_input :: "string option"
  fd_collection_index :: "u64 option"
  fd_output :: "string option"
  fd_exit_code :: "i32 option"
  fd_ref :: "string option"
  fd_pointer :: "string option"

datatype evidence_error =
    ErrFailureCause | ErrFailureDetail | ErrPrerequisite | ErrPrerequisiteCount
  | ErrInvalidConditionFalseDetail

subsection \<open>Identifiers and references\<close>

definition is_workflow_node_identifier :: "string \<Rightarrow> bool" where
  "is_workflow_node_identifier value =
     (case value of
        [] \<Rightarrow> False
      | first # rest \<Rightarrow>
          ascii_alphabetic first \<and> length value \<le> 64 \<and>
          list_all (\<lambda>b. ascii_alphanumeric b \<or> b = CHR ''_'' \<or> b = CHR ''-'') rest)"

definition is_workflow_value_identifier :: "string \<Rightarrow> bool" where
  "is_workflow_value_identifier value =
     (case value of
        [] \<Rightarrow> False
      | first # rest \<Rightarrow>
          ascii_lowercase first \<and> length value \<le> 64 \<and> list_all ascii_alphanumeric rest)"

definition is_output_reference :: "string \<Rightarrow> bool" where
  "is_output_reference value =
     (case str_split (CHR ''.'') value of
        [prefix, node, output] \<Rightarrow>
          prefix = ''outputs'' \<and>
          is_workflow_node_identifier node \<and> is_workflow_value_identifier output
      | _ \<Rightarrow> False)"

definition is_condition_json_reference :: "string \<Rightarrow> bool" where
  "is_condition_json_reference value =
     (value = ''finalization.context'' \<or> is_output_reference value)"

text \<open>The byte loop over one token: every tilde is followed by \<^verbatim>\<open>0\<close> or \<^verbatim>\<open>1\<close>.\<close>

fun valid_pointer_token :: "string \<Rightarrow> bool" where
  "valid_pointer_token [] = True"
| "valid_pointer_token (b # bs) =
     (if b = CHR ''~''
      then (case bs of
              [] \<Rightarrow> False
            | c # cs \<Rightarrow> (c = CHR ''0'' \<or> c = CHR ''1'') \<and> valid_pointer_token cs)
      else valid_pointer_token bs)"

definition valid_json_pointer :: "string \<Rightarrow> bool" where
  "valid_json_pointer value =
     (if value = [] then True
      else case strip_prefix_char (CHR ''/'') value of
        None \<Rightarrow> False
      | Some rest \<Rightarrow> list_all valid_pointer_token (str_split (CHR ''/'') rest))"

subsection \<open>Construction and validation\<close>

definition failure_detail_code :: "failure_phase \<Rightarrow> failure_code \<Rightarrow> failure_detail" where
  "failure_detail_code phase code =
     \<lparr>fd_phase = phase, fd_code = code, fd_input = None, fd_collection_index = None,
      fd_output = None, fd_exit_code = None, fd_ref = None, fd_pointer = None\<rparr>"

definition harness_codes :: "failure_code list" where
  "harness_codes =
     [HarnessCode FcHarnessStartFailed, HarnessCode FcHarnessInputTooLarge
       , HarnessCode FcHarnessFailed, HarnessCode FcHarnessProtocolFailed
       , HarnessCode FcMissingResponse, HarnessCode FcMissingResult
       , HarnessCode FcResultValidationLimitExceeded, HarnessCode FcCapturedValueTooLarge
       , HarnessCode FcResultSettlementFailed]"

definition output_capture_codes :: "failure_code list" where
  "output_capture_codes =
     [OutputCode FcOutputUnsupported, OutputCode FcCaptureTaskUnavailable
       , OutputCode FcOutputPathAbsolute, OutputCode FcOutputPathEscape
       , OutputCode FcOutputPathEmpty, OutputCode FcOutputMissing
       , OutputCode FcOutputSymbolicLink, OutputCode FcOutputParentNotDirectory
       , OutputCode FcOutputNotRegularFile, OutputCode FcOutputSourceUnavailable
       , OutputCode FcOutputInvalidUtf8, OutputCode FcOutputInvalidJson
       , OutputCode FcOutputDuplicateJsonMember, OutputCode FcOutputJsonSchemaMismatch
       , LimitCode FcCapturedFileCountLimit, LimitCode FcCapturedFileSizeLimit
       , LimitCode FcCapturedTotalSizeLimit, LimitCode FcCapturedGitCarrierCountLimit
       , LimitCode FcCapturedGitCarrierSizeLimit, LimitCode FcCapturedTotalGitCarrierSizeLimit
       , GitCode FcGitExecutionRootRebound, GitCode FcGitHeadUnavailable
       , GitCode FcGitBaselineNotAncestor, GitCode FcGitCleanlinessUnavailable
       , GitCode FcGitWorkspaceDirty, GitCode FcGitTreeUnavailable
       , GitCode FcGitRequiredObjectsUnavailable, GitCode FcGitSourceAuthorityChanged
       , GitCode FcGitStructureLimitExceeded, GitCode FcGitCommandTimedOut
       , GitCode FcGitBundleGenerationFailed, GitCode FcGitBundleProfileInvalid
       , GitCode FcGitBundleVerificationFailed, GitCode FcGitWorkspaceChanged
       , GitCode FcGitTemporaryStorageUnavailable, GitCode FcOutputStagingUnavailable]"

definition input_preparation_codes :: "failure_code list" where
  "input_preparation_codes =
     [InputCode FcInputValueCountLimit, InputCode FcInputValueSizeLimit
       , InputCode FcInputTotalSizeLimit, InputCode FcInputCollectionOrdinalLimit
       , InputCode FcInputTypeMismatch, InputCode FcInputSourceUnavailable
       , InputCode FcInputStagingUnavailable, InputCode FcInputLiveLimit]"

definition failure_phase_valid :: "failure_phase \<Rightarrow> failure_code \<Rightarrow> bool" where
  "failure_phase_valid phase code =
     (if code = RunCode FcJsonPointerMissing then phase = PhaseCondition
      else if code = StartCode FcStepUnavailable then phase = PhaseStart \<or> phase = PhaseOutputCapture
      else if code \<in> set harness_codes then phase = PhaseStart \<or> phase = PhaseExecution
      else if code = RunCode FcCommandExit \<or> code = RunCode FcCommandWaitFailed \<or>
        code = RunCode FcExecutionTaskUnavailable then phase = PhaseExecution
      else if code \<in> set output_capture_codes then phase = PhaseOutputCapture
      else phase = PhaseStart)"

definition failure_detail_validate :: "failure_detail \<Rightarrow> evidence_error + unit" where
  "failure_detail_validate self =
     (let phase = fd_phase self; code = fd_code self;
          input_invalid_name = (code = InputCode FcInputInvalidName);
          input_preparation = (code \<in> set input_preparation_codes);
          output_failure = (phase = PhaseOutputCapture \<and>
            code \<notin> {StartCode FcStepUnavailable, OutputCode FcOutputUnsupported, OutputCode FcCaptureTaskUnavailable});
          input_valid =
            (case fd_input self of
               None \<Rightarrow> \<not> input_invalid_name
             | Some input \<Rightarrow>
                 if input_invalid_name then input \<noteq> [] \<and> length input \<le> 4096
                 else input_preparation \<and> is_workflow_value_identifier input);
          condition_failure = (phase = PhaseCondition \<and> code = RunCode FcJsonPointerMissing \<and>
            (case fd_ref self of None \<Rightarrow> False | Some r \<Rightarrow> is_condition_json_reference r) \<and>
            (case fd_pointer self of None \<Rightarrow> False | Some p \<Rightarrow> valid_json_pointer p))
      in if \<not> failure_phase_valid phase code then Inl ErrFailureDetail
         else if \<not> input_valid
           \<or> (fd_collection_index self \<noteq> None \<and> \<not> input_preparation)
           \<or> (output_failure \<and>
               (case fd_output self of None \<Rightarrow> True | Some out \<Rightarrow> \<not> is_workflow_value_identifier out))
           \<or> (\<not> output_failure \<and> fd_output self \<noteq> None)
           \<or> (fd_exit_code self \<noteq> None \<and> (code \<noteq> RunCode FcCommandExit \<or> fd_exit_code self = Some 0))
           \<or> (phase = PhaseCondition \<and> \<not> condition_failure)
           \<or> (phase \<noteq> PhaseCondition \<and> (fd_ref self \<noteq> None \<or> fd_pointer self \<noteq> None))
         then Inl ErrFailureDetail
         else Inr ())"

definition failure_detail_new ::
  "failure_phase \<Rightarrow> failure_code \<Rightarrow> string option \<Rightarrow> u64 option \<Rightarrow> string option \<Rightarrow> i32 option \<Rightarrow>
   evidence_error + failure_detail" where
  "failure_detail_new phase code input collection_index out exit_code =
     (let detail = \<lparr>fd_phase = phase, fd_code = code, fd_input = input,
            fd_collection_index = collection_index, fd_output = out, fd_exit_code = exit_code,
            fd_ref = None, fd_pointer = None\<rparr>
      in map_sum id (\<lambda>_. detail) (failure_detail_validate detail))"

definition json_pointer_missing :: "string \<Rightarrow> string \<Rightarrow> evidence_error + failure_detail" where
  "json_pointer_missing reference pointer =
     (let detail = (failure_detail_code PhaseCondition (RunCode FcJsonPointerMissing))
            \<lparr>fd_ref := Some reference, fd_pointer := Some pointer\<rparr>
      in map_sum id (\<lambda>_. detail) (failure_detail_validate detail))"

text \<open>
  \<^verbatim>\<open>FailureDetailWire\<close> has the fields of \<^verbatim>\<open>FailureDetail\<close>, so the parsed wire structure is a
  \<open>failure_detail\<close> that has not been validated.
\<close>

definition failure_detail_deserialize :: "failure_detail \<Rightarrow> evidence_error + failure_detail" where
  "failure_detail_deserialize wire =
     (case failure_detail_new (fd_phase wire) (fd_code wire) (fd_input wire)
             (fd_collection_index wire) (fd_output wire) (fd_exit_code wire) of
        Inl e \<Rightarrow> Inl e
      | Inr detail \<Rightarrow>
          (let detail = detail\<lparr>fd_ref := fd_ref wire, fd_pointer := fd_pointer wire\<rparr>
           in map_sum id (\<lambda>_. detail) (failure_detail_validate detail)))"

section \<open>Prerequisites and blocked details\<close>

datatype prerequisite_kind = PkControl | PkCondition | PkBody

datatype prerequisite = PControl string | PCondition string | PBody string

fun kind_of :: "prerequisite \<Rightarrow> prerequisite_kind" where
  "kind_of (PControl _) = PkControl"
| "kind_of (PCondition _) = PkCondition"
| "kind_of (PBody _) = PkBody"

fun prerequisite_target :: "prerequisite \<Rightarrow> string" where
  "prerequisite_target (PControl node) = node"
| "prerequisite_target (PCondition r) = r"
| "prerequisite_target (PBody r) = r"

definition prerequisite_control :: "string \<Rightarrow> evidence_error + prerequisite" where
  "prerequisite_control node = (if node \<noteq> [] then Inr (PControl node) else Inl ErrPrerequisite)"

definition prerequisite_condition :: "string \<Rightarrow> evidence_error + prerequisite" where
  "prerequisite_condition reference =
     (if is_output_reference reference then Inr (PCondition reference) else Inl ErrPrerequisite)"

definition prerequisite_body :: "string \<Rightarrow> evidence_error + prerequisite" where
  "prerequisite_body reference =
     (if is_output_reference reference then Inr (PBody reference) else Inl ErrPrerequisite)"

text \<open>The derived order of \<^verbatim>\<open>PrerequisiteKind\<close> is the order of its variants.\<close>

fun kind_rank :: "prerequisite_kind \<Rightarrow> nat" where
  "kind_rank PkControl = 0"
| "kind_rank PkCondition = 1"
| "kind_rank PkBody = 2"

definition prerequisite_key :: "prerequisite \<Rightarrow> nat \<times> string" where
  "prerequisite_key p = (kind_rank (kind_of p), prerequisite_target p)"

lemma prerequisite_key_inj: "prerequisite_key p = prerequisite_key q \<Longrightarrow> p = q"
  by (cases p; cases q) (simp_all add: prerequisite_key_def)

instantiation prerequisite :: linorder
begin

definition less_eq_prerequisite :: "prerequisite \<Rightarrow> prerequisite \<Rightarrow> bool" where
  "p \<le> q \<longleftrightarrow> prerequisite_key p \<le> prerequisite_key q"

definition less_prerequisite :: "prerequisite \<Rightarrow> prerequisite \<Rightarrow> bool" where
  "p < q \<longleftrightarrow> prerequisite_key p < prerequisite_key q"

instance
  by standard
    (auto simp: less_eq_prerequisite_def less_prerequisite_def intro: prerequisite_key_inj)

end

datatype blocked_code = PrerequisitesUnsatisfied

datatype blocked_detail =
  BlockedDetail (bd_code: blocked_code) (bd_prerequisites: "prerequisite list")

definition blocked_detail_new :: "prerequisite list \<Rightarrow> evidence_error + blocked_detail" where
  "blocked_detail_new items =
     (let prerequisites = dedup (sort items)
      in if prerequisites = [] \<or> length prerequisites > maximum_prerequisites
         then Inl ErrPrerequisiteCount
         else if list_ex (\<lambda>p. prerequisite_target p = [] \<or>
             (kind_of p \<noteq> PkControl \<and> \<not> is_output_reference (prerequisite_target p)))
           prerequisites
         then Inl ErrPrerequisite
         else Inr (BlockedDetail PrerequisitesUnsatisfied prerequisites))"

definition blocked_detail_deserialize :: "blocked_detail \<Rightarrow> evidence_error + blocked_detail" where
  "blocked_detail_deserialize wire =
     (case blocked_detail_new (bd_prerequisites wire) of
        Inl e \<Rightarrow> Inl e
      | Inr detail \<Rightarrow>
          if bd_code detail \<noteq> bd_code wire \<or> bd_prerequisites detail \<noteq> bd_prerequisites wire
          then Inl ErrPrerequisite
          else Inr detail)"

section \<open>The other details\<close>

datatype non_execution_code = FailureStop | FinalizerTriggerNotSelected

datatype non_execution_detail = NonExecutionDetail (ne_code: non_execution_code)

definition failure_stop :: non_execution_detail where
  "failure_stop = NonExecutionDetail FailureStop"

definition finalizer_trigger_not_selected :: non_execution_detail where
  "finalizer_trigger_not_selected = NonExecutionDetail FinalizerTriggerNotSelected"

datatype cancellation_detail = CancellationDetail (cd_code: cancellation_reason)

datatype skipped_code = ConditionFalse

datatype evaluated_predicate_evidence =
  EvaluatedPredicateEvidence (epe_path: string) (epe_result: bool)

datatype condition_false_detail =
  ConditionFalseDetail (cf_code: skipped_code)
    (cf_evaluated_predicates: "evaluated_predicate_evidence list")

definition condition_false_detail_new ::
  "evaluated_predicate_evidence list \<Rightarrow> evidence_error + condition_false_detail" where
  "condition_false_detail_new evaluated_predicates =
     (if evaluated_predicates = []
        \<or> length evaluated_predicates > 256
        \<or> epe_path (last evaluated_predicates) \<noteq> [] \<or> epe_result (last evaluated_predicates)
        \<or> list_ex (\<lambda>entry. \<not> valid_json_pointer (epe_path entry)) evaluated_predicates
        \<or> \<not> distinct (map epe_path evaluated_predicates)
      then Inl ErrInvalidConditionFalseDetail
      else Inr (ConditionFalseDetail ConditionFalse evaluated_predicates))"

definition condition_false_detail_deserialize ::
  "condition_false_detail \<Rightarrow> evidence_error + condition_false_detail" where
  "condition_false_detail_deserialize wire =
     (if cf_code wire \<noteq> ConditionFalse then Inl ErrInvalidConditionFalseDetail
      else condition_false_detail_new (cf_evaluated_predicates wire))"

datatype inherited_prior_state = PriorSucceeded | PriorSkipped | PriorInherited

record inherited_detail =
  prior_attempt_id :: string
  prior_attempt_number :: u64
  prior_state :: inherited_prior_state
  definition_changed :: bool

datatype node_detail =
    NdFailed failure_detail
  | NdBlocked blocked_detail
  | NdSkipped condition_false_detail
  | NdNotRun non_execution_detail
  | NdCancellation cancellation_detail
  | NdInherited inherited_detail

datatype primary_issue_detail = PidFailed failure_detail | PidBlocked blocked_detail

datatype primary_issue_state = PisFailed | PisBlocked

record primary_issue =
  pi_node :: workflow_node
  pi_state :: primary_issue_state
  pi_detail :: primary_issue_detail

definition primary_issue_failed :: "workflow_node \<Rightarrow> failure_detail \<Rightarrow> primary_issue" where
  "primary_issue_failed node detail =
     \<lparr>pi_node = node, pi_state = PisFailed, pi_detail = PidFailed detail\<rparr>"

definition primary_issue_blocked :: "workflow_node \<Rightarrow> blocked_detail \<Rightarrow> primary_issue" where
  "primary_issue_blocked node detail =
     \<lparr>pi_node = node, pi_state = PisBlocked, pi_detail = PidBlocked detail\<rparr>"

section \<open>Failure causes\<close>

text \<open>
  The typed causes the step runtime reports (\<^verbatim>\<open>step_runtime.rs\<close>, \<^verbatim>\<open>agent.rs\<close>,
  \<^verbatim>\<open>agent_input.rs\<close>, \<^verbatim>\<open>artifact.rs\<close>, \<^verbatim>\<open>git_capture.rs\<close>, \<^verbatim>\<open>input.rs\<close>).  Diagnostic payloads
  that no modelled operation reads have an opaque type.
\<close>

typedecl agent_protocol_rejection_diagnostic
typedecl agent_diagnostic_session_error
typedecl recovery_handler_failure
typedecl positive_duration
typedecl git_command_timeout

datatype working_directory_failure =
    WdExecutionRootRebound | WdUnavailable | WdEscapesExecutionRoot | WdNotDirectory

datatype command_preparation_failure =
    CpInvalidArgv | CpPathNotConfigured | CpExecutableNotFound | CpExecutableUnavailable

datatype command_launch_failure = ClNotFound | ClPermissionDenied | ClInvalidInput | ClOther

datatype input_preparation_failure_kind =
    IpInvalidInputName | IpValueCountLimitExceeded | IpValueSizeLimitExceeded
  | IpTotalSizeLimitExceeded | IpCollectionOrdinalLimitExceeded | IpValueTypeMismatch
  | IpSourceUnavailable | IpStagingUnavailable | IpLiveLimitExceeded

record input_preparation_failure =
  ip_input_identity :: "string option"
  ip_collection_index :: "u64 option"
  ip_kind :: input_preparation_failure_kind

datatype agent_input_start_failure =
    AiStepUnavailable
  | AiAgentAdmissionUnavailable
  | AiInputsUnavailable
  | AiMissingUpstreamValue resolved_output_source
  | AiValueTypeMismatch resolved_output_source
  | AiRetainedSourceUnavailable string
  | AiInvalidRetainedText string
  | AiResultSchemaUnavailable string
  | AiInvalidValueMode
  | AiAttachmentCountLimitExceeded nat
  | AiAttachmentBytesLimitExceeded u64
  | AiWorkingDirectory working_directory_failure
  | AiArtifactStagingMismatch
  | AiAgentStagingMismatch
  | AiStagingUnavailable
  | AiDiagnosticSessionUnavailable agent_diagnostic_session_error

datatype agent_harness_failure_detail =
    ModelOutputTruncated | UnexpectedTerminalToolUse | ModelError | ModelAborted
  | HarnessUnsuccessfulExit

datatype agent_harness_setup_stage =
    StageExecutableLaunch | StageInitialization | StageEffectiveConfiguration
  | StageThreadStart | StageTurnStart | StageStartAcknowledgement

datatype agent_input_kind = AgentSystemPrompt | AgentMessage

datatype agent_failure_cause =
    AfHarnessStartFailed string string
  | AfHarnessSetupFailed agent_harness_setup_stage
  | AfHarnessSetupRejected agent_harness_setup_stage string
  | AfHarnessInputTooLarge agent_input_kind u64 u64
  | AfHarnessFailed agent_harness_failure_detail
  | AfHarnessProtocolFailed
  | AfMissingResponse
  | AfMissingResult
  | AfResultValidationLimitExceeded positive_duration
  | AfCapturedValueTooLarge
  | AfResultSettlementFailed

datatype agent_failure =
  AgentFailure (af_cause: agent_failure_cause)
    (af_protocol_rejection: "agent_protocol_rejection_diagnostic option")

datatype step_start_failure =
    SsStepUnavailable
  | SsPreparationTaskUnavailable
  | SsInputsUnavailable
  | SsInputPreparation input_preparation_failure
  | SsAgentInput agent_input_start_failure
  | SsAgent agent_failure
  | SsAgentRuntimeUnavailable
  | SsOutputsUnsupported
  | SsWorkingDirectory working_directory_failure
  | SsCommandPreparation command_preparation_failure
  | SsCommandLaunch command_launch_failure

datatype command_execution_failure = UnsuccessfulExit "i32 option" | CommandWait

datatype step_execution_failure =
    SeCommand command_execution_failure
  | SeAgent agent_failure
  | SeTaskUnavailable

datatype capture_failure_kind =
    CkAbsolutePath | CkLexicalEscape | CkEmptyPath | CkMissing | CkSymbolicLink | CkNotDirectory
  | CkNotRegularFile | CkSourceUnavailable | CkInvalidTextEncoding | CkInvalidJson
  | CkDuplicateJsonMember | CkJsonSchemaMismatch | CkFileCountLimitExceeded
  | CkFileSizeLimitExceeded | CkTotalSizeLimitExceeded | CkGitCarrierCountLimitExceeded
  | CkGitCarrierSizeLimitExceeded | CkTotalGitCarrierSizeLimitExceeded
  | CkCarrierProducerUnavailable | CkStagingUnavailable

datatype capture_failure =
  CaptureFailure (cap_output_identity: string) (cap_kind: capture_failure_kind)

datatype git_capture_failure =
    GcCancelled | GcExecutionRootRebound | GcStagingMismatch | GcHeadUnavailable
  | GcBaselineNotAncestor | GcCleanlinessUnavailable | GcWorkspaceDirty | GcTreeUnavailable
  | GcRequiredObjectsUnavailable | GcSourceAuthorityChanged | GcGitStructureLimitExceeded
  | GcCommandTimedOut git_command_timeout | GcBundleGenerationFailed | GcBundleProfileInvalid
  | GcBundleVerificationFailed | GcWorkspaceChanged | GcTemporaryStorageUnavailable
  | GcArtifact capture_failure

datatype output_capture_failure =
    OcStepUnavailable
  | OcUnsupportedOutput
  | OcCapture capture_failure
  | OcGit string git_capture_failure
  | OcTaskUnavailable

datatype step_failure_cause =
    CauseStart step_start_failure
  | CauseExecution step_execution_failure
  | CauseOutputCapture output_capture_failure
  | CauseRecoveryHandler recovery_handler_failure

definition working_directory_detail :: "working_directory_failure \<Rightarrow> failure_detail" where
  "working_directory_detail source =
     failure_detail_code PhaseStart
       (case source of
          WdExecutionRootRebound \<Rightarrow> LaunchCode FcExecutionRootRebound
        | WdUnavailable \<Rightarrow> LaunchCode FcWorkingDirectoryUnavailable
        | WdEscapesExecutionRoot \<Rightarrow> LaunchCode FcWorkingDirectoryEscape
        | WdNotDirectory \<Rightarrow> LaunchCode FcWorkingDirectoryNotDirectory)"

definition agent_input_failure_detail :: "agent_input_start_failure \<Rightarrow> failure_detail" where
  "agent_input_failure_detail source =
     (case source of
        AiWorkingDirectory source \<Rightarrow> working_directory_detail source
      | AiStepUnavailable \<Rightarrow> failure_detail_code PhaseStart (StartCode FcAgentStepUnavailable)
      | AiAgentAdmissionUnavailable \<Rightarrow>
          failure_detail_code PhaseStart (StartCode FcAgentAdmissionUnavailable)
      | AiInputsUnavailable \<Rightarrow> failure_detail_code PhaseStart (StartCode FcAgentInputsUnavailable)
      | AiMissingUpstreamValue _ \<Rightarrow>
          failure_detail_code PhaseStart (StartCode FcAgentInputMissingUpstream)
      | AiValueTypeMismatch _ \<Rightarrow> failure_detail_code PhaseStart (StartCode FcAgentInputTypeMismatch)
      | AiRetainedSourceUnavailable _ \<Rightarrow>
          failure_detail_code PhaseStart (StartCode FcAgentSourceUnavailable)
      | AiInvalidRetainedText _ \<Rightarrow> failure_detail_code PhaseStart (StartCode FcAgentSourceTextInvalid)
      | AiResultSchemaUnavailable _ \<Rightarrow>
          failure_detail_code PhaseStart (StartCode FcAgentResultSchemaUnavailable)
      | AiInvalidValueMode \<Rightarrow> failure_detail_code PhaseStart (StartCode FcAgentValueModeInvalid)
      | AiAttachmentCountLimitExceeded _ \<Rightarrow>
          failure_detail_code PhaseStart (StartCode FcAgentAttachmentCountLimit)
      | AiAttachmentBytesLimitExceeded _ \<Rightarrow>
          failure_detail_code PhaseStart (StartCode FcAgentAttachmentBytesLimit)
      | AiArtifactStagingMismatch \<Rightarrow> failure_detail_code PhaseStart (StartCode FcArtifactStagingMismatch)
      | AiAgentStagingMismatch \<Rightarrow> failure_detail_code PhaseStart (StartCode FcAgentStagingMismatch)
      | AiStagingUnavailable \<Rightarrow>
          failure_detail_code PhaseStart (StartCode FcAgentInputStagingUnavailable)
      | AiDiagnosticSessionUnavailable _ \<Rightarrow>
          failure_detail_code PhaseStart (StartCode FcAgentInputStagingUnavailable))"

definition agent_failure_detail :: "failure_phase \<Rightarrow> agent_failure \<Rightarrow> failure_detail" where
  "agent_failure_detail phase source =
     failure_detail_code phase
       (case af_cause source of
          AfHarnessStartFailed _ _ \<Rightarrow> HarnessCode FcHarnessStartFailed
        | AfHarnessSetupFailed _ \<Rightarrow> HarnessCode FcHarnessStartFailed
        | AfHarnessSetupRejected _ _ \<Rightarrow> HarnessCode FcHarnessStartFailed
        | AfHarnessInputTooLarge _ _ _ \<Rightarrow> HarnessCode FcHarnessInputTooLarge
        | AfHarnessFailed _ \<Rightarrow> HarnessCode FcHarnessFailed
        | AfHarnessProtocolFailed \<Rightarrow> HarnessCode FcHarnessProtocolFailed
        | AfMissingResponse \<Rightarrow> HarnessCode FcMissingResponse
        | AfMissingResult \<Rightarrow> HarnessCode FcMissingResult
        | AfResultValidationLimitExceeded _ \<Rightarrow> HarnessCode FcResultValidationLimitExceeded
        | AfCapturedValueTooLarge \<Rightarrow> HarnessCode FcCapturedValueTooLarge
        | AfResultSettlementFailed \<Rightarrow> HarnessCode FcResultSettlementFailed)"

definition input_preparation_code :: "input_preparation_failure_kind \<Rightarrow> failure_code" where
  "input_preparation_code kind =
     (case kind of
        IpInvalidInputName \<Rightarrow> InputCode FcInputInvalidName
      | IpValueCountLimitExceeded \<Rightarrow> InputCode FcInputValueCountLimit
      | IpValueSizeLimitExceeded \<Rightarrow> InputCode FcInputValueSizeLimit
      | IpTotalSizeLimitExceeded \<Rightarrow> InputCode FcInputTotalSizeLimit
      | IpCollectionOrdinalLimitExceeded \<Rightarrow> InputCode FcInputCollectionOrdinalLimit
      | IpValueTypeMismatch \<Rightarrow> InputCode FcInputTypeMismatch
      | IpSourceUnavailable \<Rightarrow> InputCode FcInputSourceUnavailable
      | IpStagingUnavailable \<Rightarrow> InputCode FcInputStagingUnavailable
      | IpLiveLimitExceeded \<Rightarrow> InputCode FcInputLiveLimit)"

definition start_failure_detail :: "step_start_failure \<Rightarrow> evidence_error + failure_detail" where
  "start_failure_detail source =
     (let detail =
        (case source of
           SsStepUnavailable \<Rightarrow> failure_detail_code PhaseStart (StartCode FcStepUnavailable)
         | SsPreparationTaskUnavailable \<Rightarrow>
             failure_detail_code PhaseStart (StartCode FcPreparationTaskUnavailable)
         | SsInputsUnavailable \<Rightarrow> failure_detail_code PhaseStart (StartCode FcInputsUnavailable)
         | SsInputPreparation source \<Rightarrow>
             (failure_detail_code PhaseStart (input_preparation_code (ip_kind source)))
               \<lparr>fd_input := ip_input_identity source,
                fd_collection_index := ip_collection_index source\<rparr>
         | SsAgentInput source \<Rightarrow> agent_input_failure_detail source
         | SsAgent source \<Rightarrow> agent_failure_detail PhaseStart source
         | SsAgentRuntimeUnavailable \<Rightarrow>
             failure_detail_code PhaseStart (StartCode FcAgentRuntimeUnavailable)
         | SsOutputsUnsupported \<Rightarrow> failure_detail_code PhaseStart (StartCode FcOutputsUnsupported)
         | SsWorkingDirectory source \<Rightarrow> working_directory_detail source
         | SsCommandPreparation source \<Rightarrow>
             failure_detail_code PhaseStart
               (case source of
                  CpInvalidArgv \<Rightarrow> LaunchCode FcCommandArgvInvalid
                | CpPathNotConfigured \<Rightarrow> LaunchCode FcCommandPathUnconfigured
                | CpExecutableNotFound \<Rightarrow> LaunchCode FcExecutableNotFound
                | CpExecutableUnavailable \<Rightarrow> LaunchCode FcExecutableUnavailable)
         | SsCommandLaunch source \<Rightarrow>
             failure_detail_code PhaseStart
               (case source of
                  ClNotFound \<Rightarrow> LaunchCode FcCommandLaunchNotFound
                | ClPermissionDenied \<Rightarrow> LaunchCode FcCommandLaunchPermissionDenied
                | ClInvalidInput \<Rightarrow> LaunchCode FcCommandLaunchInvalidInput
                | ClOther \<Rightarrow> LaunchCode FcCommandLaunchFailed))
      in map_sum id (\<lambda>_. detail) (failure_detail_validate detail))"

definition execution_failure_detail :: "step_execution_failure \<Rightarrow> failure_detail" where
  "execution_failure_detail source =
     (case source of
        SeCommand (UnsuccessfulExit status) \<Rightarrow>
          (failure_detail_code PhaseExecution (RunCode FcCommandExit))\<lparr>fd_exit_code := status\<rparr>
      | SeCommand CommandWait \<Rightarrow> failure_detail_code PhaseExecution (RunCode FcCommandWaitFailed)
      | SeAgent source \<Rightarrow> agent_failure_detail PhaseExecution source
      | SeTaskUnavailable \<Rightarrow> failure_detail_code PhaseExecution (RunCode FcExecutionTaskUnavailable))"

definition capture_code :: "capture_failure_kind \<Rightarrow> failure_code" where
  "capture_code kind =
     (case kind of
        CkAbsolutePath \<Rightarrow> OutputCode FcOutputPathAbsolute
      | CkLexicalEscape \<Rightarrow> OutputCode FcOutputPathEscape
      | CkEmptyPath \<Rightarrow> OutputCode FcOutputPathEmpty
      | CkMissing \<Rightarrow> OutputCode FcOutputMissing
      | CkSymbolicLink \<Rightarrow> OutputCode FcOutputSymbolicLink
      | CkNotDirectory \<Rightarrow> OutputCode FcOutputParentNotDirectory
      | CkNotRegularFile \<Rightarrow> OutputCode FcOutputNotRegularFile
      | CkSourceUnavailable \<Rightarrow> OutputCode FcOutputSourceUnavailable
      | CkInvalidTextEncoding \<Rightarrow> OutputCode FcOutputInvalidUtf8
      | CkInvalidJson \<Rightarrow> OutputCode FcOutputInvalidJson
      | CkDuplicateJsonMember \<Rightarrow> OutputCode FcOutputDuplicateJsonMember
      | CkJsonSchemaMismatch \<Rightarrow> OutputCode FcOutputJsonSchemaMismatch
      | CkFileCountLimitExceeded \<Rightarrow> LimitCode FcCapturedFileCountLimit
      | CkFileSizeLimitExceeded \<Rightarrow> LimitCode FcCapturedFileSizeLimit
      | CkTotalSizeLimitExceeded \<Rightarrow> LimitCode FcCapturedTotalSizeLimit
      | CkGitCarrierCountLimitExceeded \<Rightarrow> LimitCode FcCapturedGitCarrierCountLimit
      | CkGitCarrierSizeLimitExceeded \<Rightarrow> LimitCode FcCapturedGitCarrierSizeLimit
      | CkTotalGitCarrierSizeLimitExceeded \<Rightarrow> LimitCode FcCapturedTotalGitCarrierSizeLimit
      | CkCarrierProducerUnavailable \<Rightarrow> GitCode FcGitBundleGenerationFailed
      | CkStagingUnavailable \<Rightarrow> GitCode FcOutputStagingUnavailable)"

definition git_capture_code :: "git_capture_failure \<Rightarrow> failure_code" where
  "git_capture_code failure =
     (case failure of
        GcCancelled \<Rightarrow> GitCode FcOutputStagingUnavailable
      | GcArtifact _ \<Rightarrow> GitCode FcOutputStagingUnavailable
      | GcStagingMismatch \<Rightarrow> GitCode FcOutputStagingUnavailable
      | GcExecutionRootRebound \<Rightarrow> GitCode FcGitExecutionRootRebound
      | GcHeadUnavailable \<Rightarrow> GitCode FcGitHeadUnavailable
      | GcBaselineNotAncestor \<Rightarrow> GitCode FcGitBaselineNotAncestor
      | GcCleanlinessUnavailable \<Rightarrow> GitCode FcGitCleanlinessUnavailable
      | GcWorkspaceDirty \<Rightarrow> GitCode FcGitWorkspaceDirty
      | GcTreeUnavailable \<Rightarrow> GitCode FcGitTreeUnavailable
      | GcRequiredObjectsUnavailable \<Rightarrow> GitCode FcGitRequiredObjectsUnavailable
      | GcSourceAuthorityChanged \<Rightarrow> GitCode FcGitSourceAuthorityChanged
      | GcGitStructureLimitExceeded \<Rightarrow> GitCode FcGitStructureLimitExceeded
      | GcCommandTimedOut _ \<Rightarrow> GitCode FcGitCommandTimedOut
      | GcBundleGenerationFailed \<Rightarrow> GitCode FcGitBundleGenerationFailed
      | GcBundleProfileInvalid \<Rightarrow> GitCode FcGitBundleProfileInvalid
      | GcBundleVerificationFailed \<Rightarrow> GitCode FcGitBundleVerificationFailed
      | GcWorkspaceChanged \<Rightarrow> GitCode FcGitWorkspaceChanged
      | GcTemporaryStorageUnavailable \<Rightarrow> GitCode FcGitTemporaryStorageUnavailable)"

definition output_capture_failure_detail :: "output_capture_failure \<Rightarrow> failure_detail" where
  "output_capture_failure_detail source =
     (let (code, out) =
        (case source of
           OcStepUnavailable \<Rightarrow> (StartCode FcStepUnavailable, None)
         | OcUnsupportedOutput \<Rightarrow> (OutputCode FcOutputUnsupported, None)
         | OcTaskUnavailable \<Rightarrow> (OutputCode FcCaptureTaskUnavailable, None)
         | OcCapture source \<Rightarrow>
             (capture_code (cap_kind source), Some (cap_output_identity source))
         | OcGit out failure \<Rightarrow> (git_capture_code failure, Some out))
      in (failure_detail_code PhaseOutputCapture code)\<lparr>fd_output := out\<rparr>)"

definition failure_detail ::
  "failure_phase \<Rightarrow> step_failure_cause \<Rightarrow> evidence_error + failure_detail" where
  "failure_detail phase source =
     (case (phase, source) of
        (PhaseStart, CauseStart source) \<Rightarrow>
          (case start_failure_detail source of
             Inl e \<Rightarrow> Inl e
           | Inr detail \<Rightarrow> map_sum id (\<lambda>_. detail) (failure_detail_validate detail))
      | (PhaseExecution, CauseExecution source) \<Rightarrow>
          (let detail = execution_failure_detail source
           in map_sum id (\<lambda>_. detail) (failure_detail_validate detail))
      | (PhaseOutputCapture, CauseOutputCapture source) \<Rightarrow>
          (let detail = output_capture_failure_detail source
           in map_sum id (\<lambda>_. detail) (failure_detail_validate detail))
      | _ \<Rightarrow> Inl ErrFailureCause)"

end
