(* ===== verification/Condition_Semantics.thy ===== *)
theory Condition_Semantics
  imports Evidence
begin

text \<open>
  What conditions mean: JSON Pointers parse back to the tokens they were written from and the two
  pointer validators of the code base agree, the evaluator computes the boolean denotation of a
  predicate whose inputs are available, and its trace is always accepted as evidence.
\<close>

section \<open>JSON Pointers\<close>

text \<open>The encoding of RFC 6901: a tilde becomes \<^verbatim>\<open>~0\<close>, a slash \<^verbatim>\<open>~1\<close>.\<close>

fun encode_pointer_token :: "string \<Rightarrow> string" where
  "encode_pointer_token [] = []"
| "encode_pointer_token (c # cs) =
     (if c = CHR ''~'' then ''~0'' @ encode_pointer_token cs
      else if c = CHR ''/'' then ''~1'' @ encode_pointer_token cs
      else c # encode_pointer_token cs)"

definition encode_pointer :: "string list \<Rightarrow> string" where
  "encode_pointer ts = concat (map (\<lambda>t. CHR ''/'' # encode_pointer_token t) ts)"

lemma encode_pointer_token_no_slash: "CHR ''/'' \<notin> set (encode_pointer_token t)"
  by (induction t) auto

lemma decode_encode_characters: "decode_pointer_characters (encode_pointer_token t) = Inr t"
  by (induction t) auto

lemma decode_no_tilde: "CHR ''~'' \<notin> set t \<Longrightarrow> decode_pointer_characters t = Inr t"
  by (induction t) auto

lemma decode_pointer_token_alt: "decode_pointer_token t = decode_pointer_characters t"
  by (simp add: decode_pointer_token_def decode_no_tilde)

lemma decode_pointer_tokens_encoded:
  "decode_pointer_tokens (map encode_pointer_token ts) = Inr ts"
  by (induction ts) (auto simp: decode_pointer_token_alt decode_encode_characters)

lemma split_encoded:
  "ts \<noteq> [] \<Longrightarrow>
   \<exists>rest. encode_pointer ts = CHR ''/'' # rest \<and>
     str_split (CHR ''/'') rest = map encode_pointer_token ts"
proof (induction ts rule: induct_list012)
  case (2 t)
  then show ?case
    by (simp add: encode_pointer_def str_split_no_sep encode_pointer_token_no_slash)
next
  case (3 t u ts)
  then obtain rest where "encode_pointer (u # ts) = CHR ''/'' # rest"
    "str_split (CHR ''/'') rest = map encode_pointer_token (u # ts)"
    by auto
  then show ?case
    by (simp add: encode_pointer_def str_split_append encode_pointer_token_no_slash)
qed simp

lemma json_pointer_parse_encoded:
  "json_pointer_parse (encode_pointer ts) = Inr \<lparr>authored = encode_pointer ts, tokens = ts\<rparr>"
proof (cases "ts = []")
  case True
  then show ?thesis
    by (simp add: encode_pointer_def json_pointer_parse_def)
next
  case False
  from split_encoded [OF this] show ?thesis
    by (auto simp: json_pointer_parse_def strip_prefix_char_def decode_pointer_tokens_encoded)
qed

lemma isl_decode_pointer_characters:
  "isl (decode_pointer_characters t) \<longleftrightarrow> \<not> valid_pointer_token t"
  by (induction t rule: valid_pointer_token.induct) (auto simp: isl_map_sum split: list.splits)

lemma isl_decode_pointer_tokens:
  "isl (decode_pointer_tokens ts) \<longleftrightarrow> \<not> list_all valid_pointer_token ts"
proof (induction ts)
  case (Cons t ts)
  then show ?case
    using isl_decode_pointer_characters [of t]
    by (cases "decode_pointer_characters t")
      (auto simp: decode_pointer_token_alt isl_map_sum)
qed simp

lemma isl_json_pointer_parse: "isl (json_pointer_parse s) \<longleftrightarrow> \<not> valid_json_pointer s"
  by (cases s) (auto simp: json_pointer_parse_def valid_json_pointer_def strip_prefix_char_def
      isl_map_sum isl_decode_pointer_tokens)

section \<open>Decimal strings\<close>

lemma digit_value_char [simp]: "d < 10 \<Longrightarrow> digit_value (digit_char d) = d"
  by (simp add: digit_value_def digit_char_def)

lemma ascii_digit_iff: "ascii_digit c \<longleftrightarrow> 48 \<le> (of_char c :: nat) \<and> (of_char c :: nat) \<le> 57"
  by (simp add: ascii_digit_def less_eq_char_def)

lemma ascii_digit_char [simp]: "d < 10 \<Longrightarrow> ascii_digit (digit_char d)"
  by (simp add: ascii_digit_iff digit_char_def)

lemma nat_to_string_digits: "c \<in> set (nat_to_string n) \<Longrightarrow> ascii_digit c"
  by (auto simp: nat_to_string_def dest: dec_digits_small)

lemma nat_to_string_no_escape:
  "CHR ''/'' \<notin> set (nat_to_string n)" "CHR ''~'' \<notin> set (nat_to_string n)"
  using nat_to_string_digits [of _ n] by (force simp: ascii_digit_iff)+

lemma nat_to_string_inj: "nat_to_string m = nat_to_string n \<Longrightarrow> m = n"
proof -
  assume eq: "nat_to_string m = nat_to_string n"
  have "map digit_value (nat_to_string k) = dec_digits k" for k
    by (simp add: nat_to_string_def map_idI dec_digits_small)
  then have "dec_digits m = dec_digits n"
    by (metis eq)
  then show ?thesis
    by (metis dec_value_digits)
qed

section \<open>The trace of an evaluation\<close>

text \<open>The number of predicates in a predicate, which bounds the length of its trace.\<close>

fun predicate_nodes :: "resolved_predicate \<Rightarrow> nat" where
  "predicate_nodes (All children) = Suc (sum_list (map predicate_nodes children))"
| "predicate_nodes (Any children) = Suc (sum_list (map predicate_nodes children))"
| "predicate_nodes (Not child) = Suc (predicate_nodes child)"
| "predicate_nodes (Equals _ _) = 1"
| "predicate_nodes (Exists _) = 1"
| "predicate_nodes (Disposition _ _) = 1"

text \<open>\<open>below p q\<close>: the path \<open>q\<close> is \<open>p\<close> or lies under it.\<close>

definition below :: "predicate_path \<Rightarrow> predicate_path \<Rightarrow> bool" where
  "below p q \<longleftrightarrow> q = p \<or> (\<exists>s. q = p @ CHR ''/'' # s)"

definition escape_free :: "predicate_path \<Rightarrow> bool" where
  "escape_free p \<longleftrightarrow> CHR ''~'' \<notin> set p \<and> (p = [] \<or> hd p = CHR ''/'')"

definition trace_ok :: "predicate_path \<Rightarrow> nat \<Rightarrow> evaluated_predicate list \<Rightarrow> bool" where
  "trace_ok path n ts \<longleftrightarrow>
     length ts \<le> n \<and> distinct (map ep_path ts) \<and>
     (\<forall>e\<in>set ts. below path (ep_path e) \<and> escape_free (ep_path e))"

lemma below_child_neq: "below (path_child p s) q \<Longrightarrow> q \<noteq> p"
  by (auto simp: below_def path_child_def)

lemma below_child: "below (path_child p s) q \<Longrightarrow> below p q"
  by (auto simp: below_def path_child_def)

lemma below_index_unique:
  assumes "below (path_child p (s @ nat_to_string i)) q"
    and "below (path_child p (s @ nat_to_string j)) q"
  shows "i = j"
proof -
  have cut: "takeWhile (\<lambda>c. c \<noteq> CHR ''/'') (nat_to_string k @ r) = nat_to_string k"
    if "r = [] \<or> hd r = CHR ''/''" for k r
  proof (subst takeWhile_append2)
    show "c \<noteq> CHR ''/''" if "c \<in> set (nat_to_string k)" for c
      using that nat_to_string_no_escape(1) [of k] by auto
    show "nat_to_string k @ takeWhile (\<lambda>c. c \<noteq> CHR ''/'') r = nat_to_string k"
      using that by (cases r) auto
  qed
  have ext: "\<exists>r. q = p @ CHR ''/'' # s @ nat_to_string k @ r \<and> (r = [] \<or> hd r = CHR ''/'')"
    if "below (path_child p (s @ nat_to_string k)) q" for k
    using that by (auto simp: below_def path_child_def)
  from ext [OF assms(1)] ext [OF assms(2)] obtain r r' where
    "nat_to_string i @ r = nat_to_string j @ r'" "r = [] \<or> hd r = CHR ''/''"
    "r' = [] \<or> hd r' = CHR ''/''"
    by auto
  then have "nat_to_string i = nat_to_string j"
    by (metis cut)
  then show ?thesis
    by (rule nat_to_string_inj)
qed

lemma escape_free_child:
  "escape_free p \<Longrightarrow> CHR ''~'' \<notin> set s \<Longrightarrow> escape_free (path_child p s)"
  by (auto simp: escape_free_def path_child_def hd_append)

lemma escape_free_valid: "escape_free p \<Longrightarrow> valid_json_pointer p"
proof -
  have token: "CHR ''~'' \<notin> set t \<Longrightarrow> valid_pointer_token t" for t
    by (induction t) auto
  have pieces: "t \<in> set (str_split c s) \<Longrightarrow> set t \<subseteq> set s" for t c s
    by (induction s arbitrary: t) (fastforce split: list.splits if_splits)+
  assume "escape_free p"
  then show ?thesis
    by (cases p) (auto simp: escape_free_def valid_json_pointer_def strip_prefix_char_def
        list_all_iff intro!: token dest: pieces)
qed

lemma evaluate_children_trace:
  assumes loop: "loop = evaluate_all \<or> loop = evaluate_any"
    and run: "loop body index children trace = Inr (result, trace')"
    and body: "\<And>i c t b t'. c \<in> set children \<Longrightarrow> body i c t = Inr (b, t') \<Longrightarrow>
      \<exists>ts. t' = t @ ts \<and> trace_ok (path_child p (s @ nat_to_string i)) (predicate_nodes c) ts"
  shows "\<exists>ts. trace' = trace @ ts \<and> length ts \<le> sum_list (map predicate_nodes children) \<and>
    distinct (map ep_path ts) \<and>
    (\<forall>e\<in>set ts. escape_free (ep_path e) \<and>
       (\<exists>i\<ge>index. below (path_child p (s @ nat_to_string i)) (ep_path e)))"
  using run body
proof (induction children arbitrary: index trace)
  case Nil
  then show ?case
    using loop by auto
next
  case (Cons c cs)
  obtain b t1 where first: "body index c trace = Inr (b, t1)"
    using Cons.prems(1) loop by (auto split: sum.splits)
  then obtain ts where ts: "t1 = trace @ ts"
    "trace_ok (path_child p (s @ nat_to_string index)) (predicate_nodes c) ts"
    using Cons.prems(2) [of c index trace b t1] by auto
  from ts(2) have here: "length ts \<le> predicate_nodes c" "distinct (map ep_path ts)"
    "\<forall>e\<in>set ts. escape_free (ep_path e) \<and> below (path_child p (s @ nat_to_string index)) (ep_path e)"
    by (auto simp: trace_ok_def)
  show ?case
  proof (cases "trace' = t1")
    case True
    with ts here show ?thesis
      by (auto intro!: exI [of _ ts])
  next
    case False
    then have "loop body (Suc index) cs t1 = Inr (result, trace')"
      using Cons.prems(1) first loop by (auto split: if_splits)
    from Cons.IH [OF this] Cons.prems(2) obtain us where us: "trace' = t1 @ us"
      "length us \<le> sum_list (map predicate_nodes cs)" "distinct (map ep_path us)"
      "\<forall>e\<in>set us. escape_free (ep_path e) \<and>
         (\<exists>i\<ge>Suc index. below (path_child p (s @ nat_to_string i)) (ep_path e))"
      by auto
    have "ep_path e \<noteq> ep_path e'" if "e \<in> set ts" "e' \<in> set us" for e e'
      using that here(3) us(4) below_index_unique by (metis Suc_n_not_le_n)
    then have "distinct (map ep_path (ts @ us))"
      using here(2) us(3) by auto
    moreover have "\<forall>e\<in>set us. escape_free (ep_path e) \<and>
         (\<exists>i\<ge>index. below (path_child p (s @ nat_to_string i)) (ep_path e))"
      using us(4) by (meson Suc_leD)
    ultimately show ?thesis
      using here us(1,2) ts(1) by (intro exI [of _ "ts @ us"]) auto
  qed
qed

lemma trace_ok_snoc:
  assumes "length ts < n" "distinct (map ep_path ts)" "escape_free p"
    and "\<forall>e\<in>set ts. escape_free (ep_path e) \<and> (\<exists>s. below (path_child p s) (ep_path e))"
  shows "trace_ok p n (ts @ [EvaluatedPredicate p b])"
  using assms by (auto simp: trace_ok_def below_def [of p p] dest: below_child below_child_neq)

lemma evaluate_children_traced:
  assumes loop: "loop = evaluate_all \<or> loop = evaluate_any" and free: "escape_free p"
    and run: "loop (\<lambda>i c. evaluate_predicate c (path_child p (s @ nat_to_string i)) values dispositions)
      0 children trace = Inr (b, t)"
    and children: "\<And>i c tr r t'. c \<in> set children \<Longrightarrow>
      evaluate_predicate c (path_child p (s @ nat_to_string i)) values dispositions tr = Inr (r, t') \<Longrightarrow>
      \<exists>ts. t' = tr @ ts \<and> trace_ok (path_child p (s @ nat_to_string i)) (predicate_nodes c) ts"
  shows "\<exists>ts. t = trace @ ts \<and>
    trace_ok p (Suc (sum_list (map predicate_nodes children))) (ts @ [EvaluatedPredicate p b])"
proof -
  have "\<exists>ts. t = trace @ ts \<and> length ts \<le> sum_list (map predicate_nodes children) \<and>
    distinct (map ep_path ts) \<and>
    (\<forall>e\<in>set ts. escape_free (ep_path e) \<and>
       (\<exists>i\<ge>0. below (path_child p (s @ nat_to_string i)) (ep_path e)))"
    by (rule evaluate_children_trace [OF loop run]) (rule children)
  then obtain ts where "t = trace @ ts" "length ts \<le> sum_list (map predicate_nodes children)"
    "distinct (map ep_path ts)" "\<forall>e\<in>set ts. escape_free (ep_path e) \<and>
       (\<exists>i\<ge>0. below (path_child p (s @ nat_to_string i)) (ep_path e))"
    by (elim exE conjE)
  then show ?thesis
    using free by (intro exI [of _ ts] conjI trace_ok_snoc) (auto simp: less_Suc_eq_le)
qed

lemma evaluate_predicate_trace:
  assumes "evaluate_predicate q p values dispositions trace = Inr (b, trace')" "escape_free p"
  shows "\<exists>ts. trace' = trace @ ts @ [EvaluatedPredicate p b] \<and>
    trace_ok p (predicate_nodes q) (ts @ [EvaluatedPredicate p b])"
  using assms
proof (induction q arbitrary: p trace b trace')
  case (All children)
  let ?path = "\<lambda>i. path_child p (''all/'' @ nat_to_string i)"
  obtain t where run: "evaluate_all (\<lambda>i c. evaluate_predicate c (?path i) values dispositions)
      0 children trace = Inr (b, t)" and out: "trace' = t @ [EvaluatedPredicate p b]"
    using All.prems(1) by (auto simp: traced_def split: sum.splits)
  have free: "escape_free (?path i)" for i
    using All.prems(2) by (intro escape_free_child) (simp_all add: nat_to_string_no_escape(2))
  have "\<exists>ts. t = trace @ ts \<and>
    trace_ok p (Suc (sum_list (map predicate_nodes children))) (ts @ [EvaluatedPredicate p b])"
    by (rule evaluate_children_traced [where loop = evaluate_all and s = "''all/''",
          OF _ All.prems(2) run])
      (simp, metis All.IH free append.assoc)
  with out show ?case
    by auto
next
  case (Any children)
  let ?path = "\<lambda>i. path_child p (''any/'' @ nat_to_string i)"
  obtain t where run: "evaluate_any (\<lambda>i c. evaluate_predicate c (?path i) values dispositions)
      0 children trace = Inr (b, t)" and out: "trace' = t @ [EvaluatedPredicate p b]"
    using Any.prems(1) by (auto simp: traced_def split: sum.splits)
  have free: "escape_free (?path i)" for i
    using Any.prems(2) by (intro escape_free_child) (simp_all add: nat_to_string_no_escape(2))
  have "\<exists>ts. t = trace @ ts \<and>
    trace_ok p (Suc (sum_list (map predicate_nodes children))) (ts @ [EvaluatedPredicate p b])"
    by (rule evaluate_children_traced [where loop = evaluate_any and s = "''any/''",
          OF _ Any.prems(2) run])
      (simp, metis Any.IH free append.assoc)
  with out show ?case
    by auto
next
  case (Not child)
  obtain r t where run: "evaluate_predicate child (path_child p ''not'') values dispositions trace = Inr (r, t)"
    and out: "trace' = t @ [EvaluatedPredicate p b]"
    using Not.prems(1) by (auto simp: traced_def split: sum.splits)
  from Not.IH [OF run] escape_free_child [OF Not.prems(2)] obtain ts where
    "t = trace @ ts" "trace_ok (path_child p ''not'') (predicate_nodes child) ts"
    by fastforce
  then show ?case
    using Not.prems(2) out
    by (intro exI [of _ ts] conjI trace_ok_snoc) (auto simp: trace_ok_def less_Suc_eq_le)
qed (auto simp: traced_def trace_ok_def below_def split: sum.splits option.splits)

text \<open>The evidence of a condition that evaluated to false is always accepted.\<close>

lemma evaluated_false_accepted:
  assumes "evaluate predicate values dispositions = EvaluatedFalse trace"
    and "predicate_nodes predicate \<le> 256"
  shows "condition_false_detail_new
      (map (\<lambda>e. EvaluatedPredicateEvidence (ep_path e) (ep_result e)) trace) =
    Inr (ConditionFalseDetail ConditionFalse
      (map (\<lambda>e. EvaluatedPredicateEvidence (ep_path e) (ep_result e)) trace))"
proof -
  have "evaluate_predicate predicate path_root values dispositions [] = Inr (False, trace)"
    using assms(1)
    by (auto simp: evaluate_def split: sum.splits prod.splits evaluation_failure.splits bool.splits)
  from evaluate_predicate_trace [OF this] obtain ts where
    trace: "trace = ts @ [EvaluatedPredicate [] False]"
    and ok: "trace_ok [] (predicate_nodes predicate) trace"
    by (auto simp: path_root_def escape_free_def)
  then show ?thesis
    using assms(2)
    by (auto simp: condition_false_detail_new_def trace_ok_def comp_def list_ex_iff
        dest!: escape_free_valid)
qed

section \<open>The boolean denotation\<close>

text \<open>
  The meaning of a predicate as a boolean, and the inputs its evaluation reads: a conjunction reads
  its children up to the first false one, a disjunction up to the first true one.
\<close>

fun predicate_holds ::
  "condition_values \<Rightarrow> condition_dispositions \<Rightarrow> resolved_predicate \<Rightarrow> bool" where
  "predicate_holds values dispositions (All children) =
     (\<forall>c\<in>set children. predicate_holds values dispositions c)"
| "predicate_holds values dispositions (Any children) =
     (\<exists>c\<in>set children. predicate_holds values dispositions c)"
| "predicate_holds values dispositions (Not child) = (\<not> predicate_holds values dispositions child)"
| "predicate_holds values dispositions (Equals first second) =
     (case (resolve_operand first values, resolve_operand second values) of
        (Inr left, Inr right) \<Rightarrow> operands_equal left right
      | _ \<Rightarrow> False)"
| "predicate_holds values dispositions (Exists selector) =
     (case resolve_json_reference (selector_ref selector) values of
        Inr value \<Rightarrow> json_pointer_select (selector_pointer selector) value \<noteq> Missing
      | _ \<Rightarrow> False)"
| "predicate_holds values dispositions (Disposition node is) =
     (map_of dispositions node = Some is)"

fun read_while :: "('a \<Rightarrow> bool) \<Rightarrow> ('a \<Rightarrow> bool) \<Rightarrow> 'a list \<Rightarrow> bool" where
  "read_while go ok [] = True"
| "read_while go ok (x # xs) = (ok x \<and> (go x \<longrightarrow> read_while go ok xs))"

lemma read_while_cong [fundef_cong]:
  assumes "xs = ys" and "\<And>x. x \<in> set ys \<Longrightarrow> go x = go' x" and "\<And>x. x \<in> set ys \<Longrightarrow> ok x = ok' x"
  shows "read_while go ok xs = read_while go' ok' ys"
  using assms by (induction ys arbitrary: xs) auto

fun predicate_available ::
  "condition_values \<Rightarrow> condition_dispositions \<Rightarrow> resolved_predicate \<Rightarrow> bool" where
  "predicate_available values dispositions (All children) =
     read_while (predicate_holds values dispositions)
       (\<lambda>c. predicate_available values dispositions c) children"
| "predicate_available values dispositions (Any children) =
     read_while (\<lambda>c. \<not> predicate_holds values dispositions c)
       (\<lambda>c. predicate_available values dispositions c) children"
| "predicate_available values dispositions (Not child) =
     predicate_available values dispositions child"
| "predicate_available values dispositions (Equals first second) =
     (\<not> isl (resolve_operand first values) \<and> \<not> isl (resolve_operand second values))"
| "predicate_available values dispositions (Exists selector) =
     (\<not> isl (resolve_json_reference (selector_ref selector) values))"
| "predicate_available values dispositions (Disposition node is) =
     (map_of dispositions node \<noteq> None)"

text \<open>What one traced evaluation does, apart from the trace itself.\<close>

definition decides :: "bool \<Rightarrow> bool \<Rightarrow> traced_result \<Rightarrow> bool" where
  "decides available value result =
     (if available then (\<exists>trace. result = Inr (value, trace)) else isl result)"

lemma decides_traced: "decides True value (traced path value trace)"
  by (simp add: decides_def traced_def)

lemma decides_sum:
  "decides available value result \<Longrightarrow>
   (\<And>trace. available \<Longrightarrow> decides available value' (f (value, trace))) \<Longrightarrow>
   decides available value' (case result of Inl e \<Rightarrow> Inl e | Inr p \<Rightarrow> f p)"
  by (auto simp: decides_def split: sum.splits if_splits)

lemma evaluate_all_decides:
  assumes "\<And>i c t. c \<in> set children \<Longrightarrow> decides (av c) (holds c) (body i c t)"
  shows "decides (read_while holds av children) (\<forall>c\<in>set children. holds c)
    (evaluate_all body index children trace)"
  using assms
proof (induction children arbitrary: index trace)
  case Nil
  then show ?case by (simp add: decides_def)
next
  case (Cons c cs)
  have "decides (av c) (holds c) (body index c trace)"
    using Cons.prems by simp
  moreover have "decides (read_while holds av cs) (\<forall>c\<in>set cs. holds c)
      (evaluate_all body (Suc index) cs t)" for t
    using Cons.IH Cons.prems by simp
  ultimately show ?case
    by (cases "av c"; cases "holds c") (auto simp: decides_def split: sum.splits)
qed

lemma evaluate_any_decides:
  assumes "\<And>i c t. c \<in> set children \<Longrightarrow> decides (av c) (holds c) (body i c t)"
  shows "decides (read_while (\<lambda>c. \<not> holds c) av children) (\<exists>c\<in>set children. holds c)
    (evaluate_any body index children trace)"
  using assms
proof (induction children arbitrary: index trace)
  case Nil
  then show ?case by (simp add: decides_def)
next
  case (Cons c cs)
  have "decides (av c) (holds c) (body index c trace)"
    using Cons.prems by simp
  moreover have "decides (read_while (\<lambda>c. \<not> holds c) av cs) (\<exists>c\<in>set cs. holds c)
      (evaluate_any body (Suc index) cs t)" for t
    using Cons.IH Cons.prems by simp
  ultimately show ?case
    by (cases "av c"; cases "holds c") (auto simp: decides_def split: sum.splits)
qed

lemma evaluate_predicate_decides:
  "decides (predicate_available values dispositions q) (predicate_holds values dispositions q)
     (evaluate_predicate q path values dispositions trace)"
proof (induction q arbitrary: path trace)
  case (All children)
  show ?case
    by (simp only: evaluate_predicate.simps predicate_available.simps predicate_holds.simps)
      (rule decides_sum [OF evaluate_all_decides], erule All.IH,
        simp add: decides_def traced_def)
next
  case (Any children)
  show ?case
    by (simp only: evaluate_predicate.simps predicate_available.simps predicate_holds.simps)
      (rule decides_sum [OF evaluate_any_decides], erule Any.IH,
        simp add: decides_def traced_def)
next
  case (Not child)
  show ?case
    by (simp only: evaluate_predicate.simps predicate_available.simps predicate_holds.simps)
      (rule decides_sum [OF Not.IH], simp add: decides_def traced_def)
qed (auto simp: decides_def traced_def split: sum.splits option.splits)

end
