(* ===== verification/Condition_Numbers.thy ===== *)
theory Condition_Numbers
  imports Complex_Main "HOL-Library.Finite_Map" Condition_Semantics
begin

text \<open>
  The exact comparison of JSON numbers in \<^verbatim>\<open>condition.rs\<close>: the digit arithmetic on signed decimals
  computes integer sums, the normal form of a number denotes the same rational as its text and is
  unique, so two number texts compare equal exactly when they denote the same rational.
\<close>

section \<open>Decimal magnitudes\<close>

abbreviation digits_ok :: "nat list \<Rightarrow> bool" where
  "digits_ok ds \<equiv> \<forall>d\<in>set ds. d < 10"

definition canonical_magnitude :: "nat list \<Rightarrow> bool" where
  "canonical_magnitude ds \<longleftrightarrow> ds \<noteq> [] \<and> digits_ok ds \<and> (ds = [0] \<or> hd ds \<noteq> 0)"

lemma dec_value_rev_Cons: "dec_value (rev (d # ds)) = d + 10 * dec_value (rev ds)"
  by simp

declare add_loop.simps(1) [simp del]

lemma add_loop_done [simp]: "add_loop [] [] 0 = []"
  by (simp add: add_loop.simps(1))

lemma add_loop_carry: "c \<noteq> 0 \<Longrightarrow> add_loop [] [] c = c mod 10 # add_loop [] [] (c div 10)"
  by (subst add_loop.simps(1)) simp

lemma add_loop_value:
  "dec_value (rev (add_loop ls rs c)) = dec_value (rev ls) + dec_value (rev rs) + c"
proof (induction ls rs c rule: add_loop.induct)
  case (1 c)
  then show ?case by (cases "c = 0") (simp_all add: add_loop_carry [of c])
qed auto

lemma add_loop_digits: "digits_ok (add_loop ls rs c)"
proof (induction ls rs c rule: add_loop.induct)
  case (1 c)
  then show ?case by (cases "c = 0") (simp_all add: add_loop_carry [of c])
qed auto

lemma add_loop_Nil: "digits_ok rs \<Longrightarrow> add_loop [] rs 0 = rs"
  by (induction rs) (simp_all add: div_less mod_less)

lemma add_loop_Nil2: "digits_ok rs \<Longrightarrow> add_loop rs [] 0 = rs"
  by (induction rs) (simp_all add: div_less mod_less)

lemma add_loop_empty: "add_loop ls rs c = [] \<longleftrightarrow> ls = [] \<and> rs = [] \<and> c = 0"
  by (cases ls; cases rs; cases "c = 0") (simp_all add: add_loop_carry)

lemma last_carry: "0 < l \<Longrightarrow> (l + c) div 10 = 0 \<Longrightarrow> 0 < (l + c) mod (10::nat)"
  by simp

lemma add_loop_last:
  "ls = [] \<or> last ls \<noteq> 0 \<Longrightarrow> rs = [] \<or> last rs \<noteq> 0 \<Longrightarrow> add_loop ls rs c \<noteq> [] \<Longrightarrow>
   last (add_loop ls rs c) \<noteq> 0"
proof (induction ls rs c rule: add_loop.induct)
  case (1 c)
  then show ?case
    by (cases "c = 0"; cases "c div 10 = 0") (simp_all add: add_loop_carry [of c] add_loop_empty)
next
  case (2 l ls c)
  then show ?case
    by (cases "ls = []"; cases "(l + c) div 10 = 0") (simp_all add: add_loop_empty)
next
  case (3 r rs c)
  then show ?case
    by (cases "rs = []"; cases "(r + c) div 10 = 0") (simp_all add: add_loop_empty)
next
  case (4 l ls r rs c)
  then show ?case
    by (cases "ls = []"; cases "rs = []"; cases "(l + r + c) div 10 = 0")
      (simp_all add: add_loop_empty)
qed

lemma dec_value_canonical_zero:
  "canonical_magnitude ds \<Longrightarrow> dec_value ds = 0 \<longleftrightarrow> ds = [0]"
proof
  assume "canonical_magnitude ds" "dec_value ds = 0"
  then show "ds = [0]"
    using dec_value_lower [of ds] by (auto simp: canonical_magnitude_def)
qed (simp add: dec_value_Cons)

lemma canonical_inj:
  "canonical_magnitude xs \<Longrightarrow> canonical_magnitude ys \<Longrightarrow> dec_value xs = dec_value ys \<Longrightarrow> xs = ys"
  using dec_value_canonical_zero [of xs] dec_value_canonical_zero [of ys]
  by (cases "dec_value xs = 0") (auto simp: canonical_magnitude_def intro: dec_value_inj)

lemma add_decimal_magnitudes:
  assumes "canonical_magnitude a" "canonical_magnitude b"
  shows "canonical_magnitude (add_decimal_magnitudes a b) \<or> (a = [0] \<and> b = [0])"
    and "dec_value (add_decimal_magnitudes a b) = dec_value a + dec_value b"
proof -
  show "dec_value (add_decimal_magnitudes a b) = dec_value a + dec_value b"
    by (simp add: add_decimal_magnitudes_def add_loop_value)
  have zero: "add_decimal_magnitudes [0] b = b" "add_decimal_magnitudes b [0] = b"
    if ne: "b \<noteq> []" and ok: "digits_ok b" for b
  proof -
    obtain d ds where "rev b = d # ds" "d < 10" "digits_ok ds"
    proof (cases "rev b")
      case (Cons d ds)
      then have "set b = insert d (set ds)"
        by (metis list.simps(15) set_rev)
      with Cons ok show ?thesis
        using that by auto
    qed (use ne in simp)
    then show "add_decimal_magnitudes [0] b = b" "add_decimal_magnitudes b [0] = b"
      using rev_rev_ident [of b]
      by (simp_all add: add_decimal_magnitudes_def add_loop_Nil add_loop_Nil2 del: rev_rev_ident)
  qed
  show "canonical_magnitude (add_decimal_magnitudes a b) \<or> (a = [0] \<and> b = [0])"
  proof (cases "a = [0] \<or> b = [0]")
    case True
    then show ?thesis
      using assms zero [of a] zero [of b] by (metis canonical_magnitude_def)
  next
    case False
    then have "last (rev a) \<noteq> 0" "last (rev b) \<noteq> 0" "rev a \<noteq> []"
      using assms by (auto simp: canonical_magnitude_def last_rev)
    moreover from this have "add_loop (rev a) (rev b) 0 \<noteq> []"
      by (cases "rev a"; cases "rev b") auto
    ultimately show ?thesis
      using add_loop_last [of "rev a" "rev b" 0] add_loop_digits [of "rev a" "rev b" 0]
      by (auto simp: canonical_magnitude_def add_decimal_magnitudes_def hd_rev)
  qed
qed

lemma subtract_loop_value:
  "digits_ok ls \<Longrightarrow> digits_ok ss \<Longrightarrow> b = 0 \<or> b = 1 \<Longrightarrow>
   int (dec_value (rev ss)) + b \<le> int (dec_value (rev ls)) \<Longrightarrow>
   int (dec_value (rev (subtract_loop ls ss b))) = int (dec_value (rev ls)) - int (dec_value (rev ss)) - b
   \<and> digits_ok (subtract_loop ls ss b) \<and> length (subtract_loop ls ss b) = length ls"
proof (induction ls ss b rule: subtract_loop.induct)
  case (1 ss b)
  then show ?case by auto
next
  case (2 l ls ss b)
  obtain s rest where s: "(case ss of [] \<Rightarrow> (0, []) | s # ss \<Rightarrow> (s, ss)) = (s, rest)"
    by (cases "case ss of [] \<Rightarrow> (0, []) | s # ss \<Rightarrow> (s, ss)")
  then have ss: "dec_value (rev ss) = s + 10 * dec_value (rev rest)" "s < 10" "digits_ok rest"
    using "2.prems"(2) by (auto split: list.splits)
  let ?digit = "int l - int s - b"
  have l: "l < 10" and ls: "digits_ok ls"
    using "2.prems"(1) by auto
  show ?case
  proof (cases "?digit < 0")
    case True
    then have "int (dec_value (rev rest)) + 1 \<le> int (dec_value (rev ls))"
      using "2.prems"(4) ss(1) by simp
    with "2.IH"(1) [OF s [symmetric] refl refl True] ls ss l "2.prems"(3) True show ?thesis
      by (auto simp: s Let_def)
  next
    case False
    then have "int (dec_value (rev rest)) + 0 \<le> int (dec_value (rev ls))"
      using "2.prems"(3,4) ss(1) l by auto
    with "2.IH"(2) [OF s [symmetric] refl refl False] ls ss l "2.prems"(3) False show ?thesis
      by (auto simp: s Let_def)
  qed
qed

lemma strip_leading_zeroes_value [simp]: "dec_value (strip_leading_zeroes ds) = dec_value ds"
  by (induction ds rule: strip_leading_zeroes.induct) (auto simp: dec_value_Cons)

lemma strip_leading_zeroes_canonical:
  "ds \<noteq> [] \<Longrightarrow> digits_ok ds \<Longrightarrow> canonical_magnitude (strip_leading_zeroes ds)"
  by (induction ds rule: strip_leading_zeroes.induct) (auto simp: canonical_magnitude_def)

lemma subtract_decimal_magnitudes:
  assumes "canonical_magnitude a" "canonical_magnitude b" "dec_value b \<le> dec_value a"
  shows "canonical_magnitude (subtract_decimal_magnitudes a b)"
    and "dec_value (subtract_decimal_magnitudes a b) = dec_value a - dec_value b"
proof -
  from assms have "digits_ok (rev a)" "digits_ok (rev b)"
    "int (dec_value (rev (rev b))) + 0 \<le> int (dec_value (rev (rev a)))" "a \<noteq> []"
    by (auto simp: canonical_magnitude_def)
  from subtract_loop_value [OF this(1,2) _ this(3)] this(4) assms(3)
  have "dec_value (rev (subtract_loop (rev a) (rev b) 0)) = dec_value a - dec_value b"
    "digits_ok (subtract_loop (rev a) (rev b) 0)" "subtract_loop (rev a) (rev b) 0 \<noteq> []"
    by (auto simp del: length_rev dest: arg_cong [of _ "[]" length])
  then show "canonical_magnitude (subtract_decimal_magnitudes a b)"
    "dec_value (subtract_decimal_magnitudes a b) = dec_value a - dec_value b"
    by (auto simp: subtract_decimal_magnitudes_def intro!: strip_leading_zeroes_canonical)
qed

lemma compare_digits_value:
  "length xs = length ys \<Longrightarrow> digits_ok xs \<Longrightarrow> digits_ok ys \<Longrightarrow>
   (compare_digits xs ys = Less \<longleftrightarrow> dec_value xs < dec_value ys) \<and>
   (compare_digits xs ys = Greater \<longleftrightarrow> dec_value ys < dec_value xs)"
proof (induction xs ys rule: compare_digits.induct)
  case (4 x xs y ys)
  have bound: "dec_value xs < 10 ^ length ys" "dec_value ys < 10 ^ length ys"
    using "4.prems" dec_value_bound [of xs] dec_value_bound [of ys] by auto
  have step: "a * 10 ^ n + v < b * 10 ^ n + w" if "a < b" "v < 10 ^ n" for a b n v w :: nat
  proof -
    have "a * 10 ^ n + v < Suc a * 10 ^ n" using that(2) by simp
    also have "\<dots> \<le> b * 10 ^ n" using that(1) by (intro mult_right_mono) auto
    finally show ?thesis by simp
  qed
  consider "x < y" | "y < x" | "x = y" by linarith
  then show ?case
  proof cases
    case 1
    with step [of x y "dec_value xs" "length ys" "dec_value ys"] bound "4.prems"(1) show ?thesis
      by (simp add: dec_value_Cons)
  next
    case 2
    with step [of y x "dec_value ys" "length ys" "dec_value xs"] bound "4.prems"(1) show ?thesis
      by (simp add: dec_value_Cons)
  next
    case 3
    with 4 show ?thesis
      by (simp add: dec_value_Cons)
  qed
qed auto

lemma compare_decimal_magnitudes_value:
  assumes "canonical_magnitude a" "canonical_magnitude b"
  shows "compare_decimal_magnitudes a b =
    (if dec_value a < dec_value b then Less else if dec_value b < dec_value a then Greater
     else Equal)"
proof -
  have shorter: "dec_value x < dec_value y"
    if "canonical_magnitude x" "canonical_magnitude y" "length x < length y" for x y
  proof -
    have "dec_value x < 10 ^ length x"
      using that by (auto simp: canonical_magnitude_def intro: dec_value_bound)
    also have "\<dots> \<le> (10::nat) ^ (length y - 1)"
      using that(3) by (intro power_increasing) auto
    also have "\<dots> \<le> dec_value y"
      using that by (intro dec_value_lower) (auto simp: canonical_magnitude_def)
    finally show ?thesis .
  qed
  show ?thesis
  proof (cases "length a = length b")
    case True
    then show ?thesis
      using compare_digits_value [of a b] assms
      by (cases "compare_digits a b")
        (auto simp: compare_decimal_magnitudes_def canonical_magnitude_def)
  next
    case False
    then show ?thesis
      using shorter [of a b] shorter [of b a] assms
      by (auto simp: compare_decimal_magnitudes_def neq_iff)
  qed
qed

section \<open>Signed decimals\<close>

definition sd_value :: "signed_decimal \<Rightarrow> int" where
  "sd_value s = (if sd_negative s then - 1 else 1) * int (dec_value (magnitude s))"

definition sd_canonical :: "signed_decimal \<Rightarrow> bool" where
  "sd_canonical s \<longleftrightarrow>
     canonical_magnitude (magnitude s) \<and> (magnitude s = [0] \<longrightarrow> \<not> sd_negative s)"

lemma sd_zero [simp]: "sd_canonical signed_decimal_zero" "sd_value signed_decimal_zero = 0"
  by (simp_all add: sd_canonical_def sd_value_def signed_decimal_zero_def canonical_magnitude_def
      dec_value_Cons)

lemma sd_value_inj:
  assumes "sd_canonical a" "sd_canonical b" "sd_value a = sd_value b"
  shows "a = b"
proof -
  have "dec_value (magnitude a) = dec_value (magnitude b)"
    using assms(3) by (auto simp: sd_value_def split: if_splits)
  then have "magnitude a = magnitude b"
    using assms(1,2) by (auto simp: sd_canonical_def intro: canonical_inj)
  moreover from this have "sd_negative a = sd_negative b"
    using assms dec_value_canonical_zero [of "magnitude b"]
    by (auto simp: sd_value_def sd_canonical_def split: if_splits)
  ultimately show ?thesis
    by (cases a; cases b) simp
qed

lemma signed_decimal_add_correct:
  assumes "sd_canonical a" "sd_canonical b"
  shows "sd_canonical (signed_decimal_add a b) \<and>
    sd_value (signed_decimal_add a b) = sd_value a + sd_value b"
proof (cases "sd_negative a = sd_negative b")
  case True
  have canonical: "canonical_magnitude (magnitude a)" "canonical_magnitude (magnitude b)"
    using assms by (auto simp: sd_canonical_def)
  note sum = add_decimal_magnitudes [OF this]
  have "add_decimal_magnitudes [0] [0] = [0]"
    by (simp add: add_decimal_magnitudes_def)
  with sum True assms show ?thesis
    using dec_value_canonical_zero [OF canonical(1)] dec_value_canonical_zero [OF canonical(2)]
    by (auto simp: signed_decimal_add_def sd_canonical_def sd_value_def dec_value_Cons
        canonical_magnitude_def)
next
  case False
  have canonical: "canonical_magnitude (magnitude a)" "canonical_magnitude (magnitude b)"
    using assms by (auto simp: sd_canonical_def)
  consider "dec_value (magnitude a) < dec_value (magnitude b)"
    | "dec_value (magnitude b) < dec_value (magnitude a)"
    | "dec_value (magnitude a) = dec_value (magnitude b)"
    by linarith
  then show ?thesis
  proof cases
    case 1
    with False canonical subtract_decimal_magnitudes [OF canonical(2,1)] show ?thesis
      by (auto simp: signed_decimal_add_def compare_decimal_magnitudes_value sd_canonical_def
          sd_value_def dec_value_Cons dest: arg_cong [of _ "[0]" dec_value])
  next
    case 2
    with False canonical subtract_decimal_magnitudes [OF canonical] show ?thesis
      by (auto simp: signed_decimal_add_def compare_decimal_magnitudes_value sd_canonical_def
          sd_value_def dec_value_Cons dest: arg_cong [of _ "[0]" dec_value])
  next
    case 3
    with False canonical show ?thesis
      by (auto simp: signed_decimal_add_def compare_decimal_magnitudes_value)
        (auto simp: sd_value_def)
  qed
qed

section \<open>Digit strings\<close>

lemma digit_value_less: "ascii_digit c \<Longrightarrow> digit_value c < 10"
  unfolding ascii_digit_iff digit_value_def by linarith

lemma digit_value_inj: "ascii_digit c \<Longrightarrow> ascii_digit d \<Longrightarrow> digit_value c = digit_value d \<Longrightarrow> c = d"
  by (auto simp: ascii_digit_iff digit_value_def eq_diff_iff)

lemma digit_value_zero_iff: "ascii_digit c \<Longrightarrow> digit_value c = 0 \<longleftrightarrow> c = CHR ''0''"
  using digit_value_inj [of c "CHR ''0''"] by (auto simp: digit_value_def ascii_digit_def)

lemma map_digit_value_inj:
  "list_all ascii_digit xs \<Longrightarrow> list_all ascii_digit ys \<Longrightarrow>
   map digit_value xs = map digit_value ys \<Longrightarrow> xs = ys"
proof (induction xs arbitrary: ys)
  case (Cons x xs)
  obtain y zs where "ys = y # zs"
    using Cons.prems(3) by (cases ys) simp_all
  with Cons.prems Cons.IH [of zs] show ?case
    using digit_value_inj [of x y] by simp
qed simp

lemma digits_ok_map: "list_all ascii_digit xs \<Longrightarrow> digits_ok (map digit_value xs)"
  by (auto simp: list_all_iff digit_value_less)

lemma dec_value_dropWhile_zero:
  "dec_value (map digit_value (dropWhile (\<lambda>d. d = CHR ''0'') ds)) = dec_value (map digit_value ds)"
  by (induction ds) (simp_all add: dec_value_Cons digit_value_def)

lemma dec_value_all_zero:
  "\<forall>d\<in>set ds. d = CHR ''0'' \<Longrightarrow> dec_value (map digit_value ds) = 0"
  by (induction ds) (simp_all add: dec_value_Cons digit_value_def)

lemma signed_magnitude_canonical:
  assumes "list_all ascii_digit ds" "dropWhile (\<lambda>d. d = CHR ''0'') ds \<noteq> []"
  shows "canonical_magnitude (map digit_value (dropWhile (\<lambda>d. d = CHR ''0'') ds))"
    and "hd (map digit_value (dropWhile (\<lambda>d. d = CHR ''0'') ds)) \<noteq> 0"
proof -
  let ?s = "dropWhile (\<lambda>d. d = CHR ''0'') ds"
  have digits: "list_all ascii_digit ?s"
    using assms(1) by (auto simp: list_all_iff dest: set_dropWhileD)
  moreover have "hd ?s \<noteq> CHR ''0''"
    using hd_dropWhile [OF assms(2)] by simp
  ultimately show nz: "hd (map digit_value ?s) \<noteq> 0"
    using assms(2) digit_value_zero_iff [of "hd ?s"] by (cases ?s) auto
  show "canonical_magnitude (map digit_value ?s)"
    using digits_ok_map [OF digits] assms(2) nz unfolding canonical_magnitude_def by simp
qed

text \<open>The integer an exponent text denotes.\<close>

definition exponent_value :: "string \<Rightarrow> int" where
  "exponent_value text =
     (case strip_prefix_char (CHR ''-'') text of
        Some digits \<Rightarrow> - int (dec_value (map digit_value digits))
      | None \<Rightarrow>
          (case strip_prefix_char (CHR ''+'') text of
             Some digits \<Rightarrow> int (dec_value (map digit_value digits))
           | None \<Rightarrow> int (dec_value (map digit_value text))))"

lemma signed_decimal_parse_correct:
  assumes "signed_decimal_parse text = Some sd"
  shows "sd_canonical sd" and "sd_value sd = exponent_value text"
proof -
  obtain negative digits where split: "(negative, digits) =
      (case strip_prefix_char (CHR ''-'') text of
         Some digits \<Rightarrow> (True, digits)
       | None \<Rightarrow> (case strip_prefix_char (CHR ''+'') text of
           Some digits \<Rightarrow> (False, digits) | None \<Rightarrow> (False, text)))"
    by (metis surj_pair)
  have denotes: "exponent_value text = (if negative then - 1 else 1) * int (dec_value (map digit_value digits))"
    using split by (auto simp: exponent_value_def split: option.splits)
  let ?s = "dropWhile (\<lambda>d. d = CHR ''0'') digits"
  have digits: "list_all ascii_digit digits"
    and sd: "sd = (if ?s = [] then signed_decimal_zero
      else \<lparr>sd_negative = negative, magnitude = map digit_value ?s\<rparr>)"
    using assms split unfolding signed_decimal_parse_def
    by (auto simp: Let_def split: if_splits prod.splits)
  have "sd_canonical sd \<and> sd_value sd = exponent_value text"
  proof (cases "?s = []")
    case True
    then have "dec_value (map digit_value digits) = 0"
      by (intro dec_value_all_zero) (simp add: dropWhile_eq_Nil_conv)
    with True sd denotes show ?thesis
      by simp
  next
    case False
    with sd denotes signed_magnitude_canonical [OF digits False] show ?thesis
      using dec_value_dropWhile_zero [of digits]
      by (auto simp: sd_canonical_def sd_value_def dec_value_canonical_zero
          dest: arg_cong [of _ "[0]" hd])
  qed
  then show "sd_canonical sd" "sd_value sd = exponent_value text"
    by auto
qed

lemma dec_digits_canonical: "canonical_magnitude (dec_digits n)"
  using hd_dec_digits [of n] dec_digits_small [of _ n]
  by (cases "n = 0") (auto simp: canonical_magnitude_def dec_digits.simps [of 0])

lemma signed_decimal_add_unsigned_correct:
  assumes "sd_canonical sd"
  shows "sd_canonical (signed_decimal_add_unsigned sd n negative) \<and>
    sd_value (signed_decimal_add_unsigned sd n negative) =
      sd_value sd + (if negative then - int n else int n)"
proof (cases "n = 0")
  case True
  with assms show ?thesis
    by (simp add: signed_decimal_add_unsigned_def)
next
  case False
  let ?other = "\<lparr>sd_negative = negative, magnitude = dec_digits n\<rparr>"
  have "sd_canonical ?other" "sd_value ?other = (if negative then - int n else int n)"
    using False dec_digits_canonical [of n] dec_value_canonical_zero [of "dec_digits n"]
    by (auto simp: sd_canonical_def sd_value_def)
  with signed_decimal_add_correct [OF assms, of ?other] False show ?thesis
    by (simp add: signed_decimal_add_unsigned_def)
qed

section \<open>Number texts\<close>

text \<open>
  The rational of a number text when it is cut where the parser cuts it, without any normalisation: an
  intermediate reading, which the next section relates to the grammar of JSON numbers.
\<close>

definition sign_of :: "bool \<Rightarrow> rat" where
  "sign_of negative = (if negative then - 1 else 1)"

definition number_value :: "string \<Rightarrow> rat" where
  "number_value number =
     (let (negative, unsigned_text) =
            (case strip_prefix_char (CHR ''-'') number of
               Some rest \<Rightarrow> (True, rest) | None \<Rightarrow> (False, number));
          (mantissa, explicit_exponent) = split_exponent unsigned_text;
          (integer, fraction) = split_fraction mantissa;
          exponent = (case explicit_exponent of None \<Rightarrow> 0 | Some e \<Rightarrow> exponent_value e)
      in sign_of negative * of_nat (dec_value (map digit_value (integer @ fraction))) *
         10 powi (exponent - int (length fraction)))"

definition nn_value :: "normalized_number \<Rightarrow> rat" where
  "nn_value n =
     sign_of (nn_negative n) * of_nat (dec_value (map digit_value (significant_digits n))) *
     10 powi sd_value (decimal_exponent n)"

definition trimmed :: "string \<Rightarrow> bool" where
  "trimmed ds \<longleftrightarrow> ds \<noteq> [] \<and> list_all ascii_digit ds \<and> hd ds \<noteq> CHR ''0'' \<and> last ds \<noteq> CHR ''0''"

definition nn_zero :: normalized_number where
  "nn_zero = \<lparr>nn_negative = False, significant_digits = ''0'', decimal_exponent = signed_decimal_zero\<rparr>"

definition nn_canonical :: "normalized_number \<Rightarrow> bool" where
  "nn_canonical n \<longleftrightarrow>
     n = nn_zero \<or> trimmed (significant_digits n) \<and> sd_canonical (decimal_exponent n)"

lemma trim_zeroes:
  assumes "list_all ascii_digit ds" "length (takeWhile (\<lambda>d. d = CHR ''0'') ds) \<noteq> length ds"
  obtains a sig b where "ds = a @ sig @ b" "trimmed sig"
    and "a = takeWhile (\<lambda>d. d = CHR ''0'') ds" "\<forall>d\<in>set a. d = CHR ''0''"
    and "rev b = takeWhile (\<lambda>d. d = CHR ''0'') (rev ds)" "\<forall>d\<in>set b. d = CHR ''0''"
proof -
  let ?Z = "\<lambda>d. d = CHR ''0''"
  define a where "a = takeWhile ?Z ds"
  define rest where "rest = dropWhile ?Z ds"
  have ds: "ds = a @ rest"
    by (simp add: a_def rest_def)
  have rest: "rest \<noteq> []"
    using assms(2) ds a_def by (metis append_Nil2)
  then have hd: "hd rest \<noteq> CHR ''0''"
    using hd_dropWhile [of ?Z ds] by (simp add: rest_def)
  define b where "b = rev (takeWhile ?Z (rev rest))"
  define sig where "sig = rev (dropWhile ?Z (rev rest))"
  have sig: "rest = sig @ b"
    unfolding sig_def b_def by (simp flip: rev_append)
  have ne: "dropWhile ?Z (rev rest) \<noteq> []"
    using rest hd by (simp add: dropWhile_eq_Nil_conv) (metis hd_in_set)
  have trimmed: "trimmed sig"
  proof -
    have "last sig \<noteq> CHR ''0''"
      using hd_dropWhile [OF ne] by (simp add: sig_def last_rev)
    moreover have nonempty: "sig \<noteq> []"
      using ne by (simp add: sig_def)
    moreover have "hd sig \<noteq> CHR ''0''"
      using hd nonempty by (simp add: sig)
    moreover have "list_all ascii_digit sig"
      using assms(1) ds sig by auto
    ultimately show ?thesis
      by (simp add: trimmed_def)
  qed
  have trailing: "rev b = takeWhile ?Z (rev ds)"
    using ne by (simp add: ds b_def dropWhile_eq_Nil_conv takeWhile_append) blast
  have zeroes: "\<forall>d\<in>set a. ?Z d" "\<forall>d\<in>set b. ?Z d"
    unfolding a_def b_def by (auto dest: set_takeWhileD)
  show ?thesis
    by (rule that [OF _ trimmed a_def zeroes(1) trailing zeroes(2)]) (simp add: ds sig)
qed

lemma dec_value_trim:
  assumes "\<forall>d\<in>set a. d = CHR ''0''" "\<forall>d\<in>set b. d = CHR ''0''"
  shows "dec_value (map digit_value (a @ sig @ b)) =
    dec_value (map digit_value sig) * 10 ^ length b"
  using dec_value_all_zero [OF assms(1)] dec_value_all_zero [OF assms(2)]
  by (simp add: dec_value_append)

lemma power_shift: "(10::rat) ^ k * 10 powi e = 10 powi (e + int k)"
  by (simp add: power_int_add mult.commute)

lemma normalized_number_parse_correct:
  assumes "normalized_number_parse number = Some n"
  shows "nn_canonical n \<and> nn_value n = number_value number"
proof -
  obtain negative u where sign: "(case strip_prefix_char (CHR ''-'') number of
      Some rest \<Rightarrow> (True, rest) | None \<Rightarrow> (False, number)) = (negative, u)"
    by (metis surj_pair)
  obtain mantissa e where exponent: "split_exponent u = (mantissa, e)"
    by (metis surj_pair)
  obtain integer fraction where point: "split_fraction mantissa = (integer, fraction)"
    by (metis surj_pair)
  define digits where "digits = integer @ fraction"
  note parse = assms [unfolded normalized_number_parse_def sign exponent point Let_def split,
      folded digits_def]
  have digits: "list_all ascii_digit digits"
    using parse by (auto simp: digits_def split: if_splits)
  have denotes: "number_value number = sign_of negative * of_nat (dec_value (map digit_value digits)) *
      10 powi ((case e of None \<Rightarrow> 0 | Some t \<Rightarrow> exponent_value t) - int (length fraction))"
    by (simp add: number_value_def sign exponent point digits_def)
  show ?thesis
  proof (cases "length (takeWhile (\<lambda>d. d = CHR ''0'') digits) = length digits")
    case True
    then have "n = nn_zero"
      using parse by (auto simp: nn_zero_def split: if_splits)
    moreover have "dec_value (map digit_value digits) = 0"
      using True takeWhile_eq_take [of "\<lambda>d. d = CHR ''0''" digits]
      by (intro dec_value_all_zero) (simp add: takeWhile_eq_all_conv)
    ultimately show ?thesis
      by (simp add: denotes nn_canonical_def nn_value_def nn_zero_def dec_value_Cons digit_value_def)
  next
    case False
    obtain a sig b where trim: "digits = a @ sig @ b" "trimmed sig"
      "a = takeWhile (\<lambda>d. d = CHR ''0'') digits" "\<forall>d\<in>set a. d = CHR ''0''"
      "rev b = takeWhile (\<lambda>d. d = CHR ''0'') (rev digits)" "\<forall>d\<in>set b. d = CHR ''0''"
      by (rule trim_zeroes [OF digits False])
    have sig: "drop (length a) (take (length digits - length b) digits) = sig"
      unfolding trim(1) by simp
    obtain sd where sd: "(case e of Some t \<Rightarrow> signed_decimal_parse t | None \<Rightarrow> Some signed_decimal_zero) = Some sd"
      and n: "n = \<lparr>nn_negative = negative, significant_digits = sig,
        decimal_exponent = signed_decimal_add_unsigned
          (signed_decimal_add_unsigned sd (length b) False) (length fraction) True\<rparr>"
      using parse False
      by (auto simp: trim(3) [symmetric] trim(5) [symmetric] sig split: if_splits option.splits)
    have canonical: "sd_canonical sd"
      and "sd_value sd = (case e of None \<Rightarrow> 0 | Some t \<Rightarrow> exponent_value t)"
      using sd signed_decimal_parse_correct by (auto split: option.splits)
    then have "nn_value n = sign_of negative * of_nat (dec_value (map digit_value sig)) *
        10 powi ((case e of None \<Rightarrow> 0 | Some t \<Rightarrow> exponent_value t) + int (length b) - int (length fraction))"
      using signed_decimal_add_unsigned_correct [OF canonical]
        signed_decimal_add_unsigned_correct
      by (simp add: n nn_value_def)
    then have "nn_value n = number_value number"
      using power_shift [of "length b" "(case e of None \<Rightarrow> 0 | Some t \<Rightarrow> exponent_value t) - int (length fraction)"]
      unfolding denotes trim(1) dec_value_trim [OF trim(4,6)] of_nat_mult of_nat_power
      by (simp add: algebra_simps)
    with canonical show ?thesis
      using signed_decimal_add_unsigned_correct trim(2)
      by (simp add: n nn_canonical_def)
  qed
qed

lemma trimmed_not_dvd: "trimmed ds \<Longrightarrow> \<not> 10 dvd dec_value (map digit_value ds)"
proof -
  assume ds: "trimmed ds"
  then obtain xs d where "ds = xs @ [d]"
    by (metis rev_exhaust trimmed_def)
  with ds have "0 < digit_value d" "digit_value d < 10"
    "dec_value (map digit_value ds) = 10 * dec_value (map digit_value xs) + digit_value d"
    using digit_value_zero_iff [of d] by (auto simp: trimmed_def digit_value_less)
  then show ?thesis
    by presburger
qed

lemma power_unique:
  assumes "of_nat a * (10::rat) powi e = of_nat b * 10 powi f" "\<not> 10 dvd a" "\<not> 10 dvd b"
  shows "a = b \<and> e = f"
proof -
  have le: "x = y \<and> i = j"
    if eq: "of_nat x * (10::rat) powi i = of_nat y * 10 powi j" and x: "\<not> 10 dvd x" and ij: "i \<le> j" for x y i j
  proof -
    obtain k where k: "j = i + int k"
      using ij by (metis zle_iff_zadd)
    have "of_nat x * (10::rat) powi i = of_nat (y * 10 ^ k) * 10 powi i"
      using eq by (simp add: k power_int_add)
    then have "(of_nat x :: rat) = of_nat (y * 10 ^ k)"
      by simp
    then have "x = y * 10 ^ k"
      by (rule of_nat_eq_iff [THEN iffD1])
    with x have "k = 0"
      by (cases k) auto
    with \<open>x = y * 10 ^ k\<close> k show ?thesis
      by simp
  qed
  show ?thesis
    using le [of a e b f] le [of b f a e] assms by (cases "e \<le> f") auto
qed

lemma nn_value_inj:
  assumes "nn_canonical m" "nn_canonical n" "nn_value m = nn_value n"
  shows "m = n"
proof -
  have zero: "nn_value x = 0 \<longleftrightarrow> x = nn_zero" if "nn_canonical x" for x
    using that trimmed_not_dvd [of "significant_digits x"]
    by (auto simp: nn_canonical_def nn_value_def nn_zero_def sign_of_def dec_value_Cons digit_value_def
        intro: ccontr split: if_splits)
  show ?thesis
  proof (cases "m = nn_zero \<or> n = nn_zero")
    case True
    then show ?thesis
      using zero assms by metis
  next
    case False
    let ?v = "\<lambda>x. dec_value (map digit_value (significant_digits x))"
    have trimmed: "trimmed (significant_digits m)" "trimmed (significant_digits n)"
      and canonical: "sd_canonical (decimal_exponent m)" "sd_canonical (decimal_exponent n)"
      using False assms(1,2) by (auto simp: nn_canonical_def)
    have positive: "0 < of_nat (?v m) * (10::rat) powi sd_value (decimal_exponent m)"
      "0 < of_nat (?v n) * (10::rat) powi sd_value (decimal_exponent n)"
      using trimmed_not_dvd [OF trimmed(1)] trimmed_not_dvd [OF trimmed(2)]
      by (auto intro!: mult_pos_pos gr0I)
    then have sign: "nn_negative m = nn_negative n"
      using assms(3) by (auto simp: nn_value_def sign_of_def mult.assoc split: if_splits)
    then have "of_nat (?v m) * (10::rat) powi sd_value (decimal_exponent m) =
      of_nat (?v n) * 10 powi sd_value (decimal_exponent n)"
      using assms(3) by (auto simp: nn_value_def sign_of_def mult.assoc split: if_splits)
    from power_unique [OF this trimmed_not_dvd [OF trimmed(1)] trimmed_not_dvd [OF trimmed(2)]]
    have digits: "?v m = ?v n" and "decimal_exponent m = decimal_exponent n"
      using canonical by (auto intro: sd_value_inj)
    moreover have "map digit_value (significant_digits m) = map digit_value (significant_digits n)"
      using trimmed digits
      by (intro dec_value_inj)
        (auto simp: trimmed_def hd_map digit_value_zero_iff list_all_iff digit_value_less)
    then have "significant_digits m = significant_digits n"
      using trimmed map_digit_value_inj by (auto simp: trimmed_def)
    ultimately show ?thesis
      using sign by (cases m; cases n) simp
  qed
qed

lemma numbers_semantically_equal_value:
  assumes "normalized_number_parse left \<noteq> None" "normalized_number_parse right \<noteq> None"
  shows "numbers_semantically_equal left right \<longleftrightarrow> number_value left = number_value right"
proof -
  obtain l r where "normalized_number_parse left = Some l" "normalized_number_parse right = Some r"
    using assms by auto
  then show ?thesis
    using normalized_number_parse_correct [of left l] normalized_number_parse_correct [of right r]
      nn_value_inj [of l r]
    by (auto simp: numbers_semantically_equal_def)
qed

section \<open>The grammar of JSON numbers\<close>

text \<open>
  The numbers of RFC 8259 and the rationals they denote, one rule for each production.  Nothing here
  refers to the parser: digits are positions in an alphabet, and a number is the concatenation of its
  parts.
\<close>

definition spell :: "nat list \<Rightarrow> string" where
  "spell ds = map (\<lambda>d. ''0123456789'' ! d) ds"

primrec positional :: "nat list \<Rightarrow> nat" where
  "positional [] = 0"
| "positional (d # ds) = d * 10 ^ length ds + positional ds"

definition digit_list :: "nat list \<Rightarrow> bool" where
  "digit_list ds \<longleftrightarrow> ds \<noteq> [] \<and> list_all (\<lambda>d. d < 10) ds"

inductive fraction_denotes :: "string \<Rightarrow> rat \<Rightarrow> bool" where
  none: "fraction_denotes [] 0"
| digits: "digit_list ds \<Longrightarrow>
    fraction_denotes (CHR ''.'' # spell ds) (of_nat (positional ds) / 10 ^ length ds)"

inductive exponent_denotes :: "string \<Rightarrow> int \<Rightarrow> bool" where
  none: "exponent_denotes [] 0"
| positive: "e \<in> {CHR ''e'', CHR ''E''} \<Longrightarrow> sign \<in> {[], ''+''} \<Longrightarrow> digit_list ds \<Longrightarrow>
    exponent_denotes (e # sign @ spell ds) (int (positional ds))"
| negative: "e \<in> {CHR ''e'', CHR ''E''} \<Longrightarrow> digit_list ds \<Longrightarrow>
    exponent_denotes (e # CHR ''-'' # spell ds) (- int (positional ds))"

inductive number_denotes :: "string \<Rightarrow> rat \<Rightarrow> bool" where
  positive: "digit_list ds \<Longrightarrow> hd ds = 0 \<longrightarrow> ds = [0] \<Longrightarrow> fraction_denotes f q \<Longrightarrow> exponent_denotes e k \<Longrightarrow>
    number_denotes (spell ds @ f @ e) ((of_nat (positional ds) + q) * 10 powi k)"
| negative: "digit_list ds \<Longrightarrow> hd ds = 0 \<longrightarrow> ds = [0] \<Longrightarrow> fraction_denotes f q \<Longrightarrow> exponent_denotes e k \<Longrightarrow>
    number_denotes (CHR ''-'' # spell ds @ f @ e) (- ((of_nat (positional ds) + q) * 10 powi k))"

lemma less_ten: "d < 10 \<longleftrightarrow> d \<in> {0, 1, 2, 3, 4, 5, 6, 7, 8, 9::nat}"
  by auto

lemma spelled_digit:
  assumes "d < 10"
  shows "ascii_digit (''0123456789'' ! d)" and "digit_value (''0123456789'' ! d) = d"
    and "''0123456789'' ! d \<notin> {CHR ''.'', CHR ''e'', CHR ''E'', CHR ''+'', CHR ''-''}"
  using assms unfolding less_ten by (auto simp: ascii_digit_def digit_value_def less_eq_char_def)

lemma spell_digits:
  assumes "digit_list ds"
  shows "spell ds \<noteq> []" and "list_all ascii_digit (spell ds)" and "map digit_value (spell ds) = ds"
    and "c \<in> {CHR ''.'', CHR ''e'', CHR ''E'', CHR ''+'', CHR ''-''} \<Longrightarrow> c \<notin> set (spell ds)"
  using assms spelled_digit
  by (auto simp: digit_list_def spell_def list_all_iff intro!: map_idI)

lemma length_spell [simp]: "length (spell ds) = length ds"
  by (simp add: spell_def)

lemma positional_dec_value: "positional ds = dec_value ds"
  by (induction ds) (simp_all add: dec_value_Cons)

lemma strip_spelled:
  assumes "digit_list ds" and "c \<in> {CHR ''+'', CHR ''-''}"
  shows "strip_prefix_char c (spell ds @ rest) = None"
proof (cases "spell ds")
  case (Cons d tail)
  then show ?thesis
    using spell_digits(4) [OF assms(1), of c] assms(2) by (auto simp: strip_prefix_char_def)
qed (use spell_digits(1) [OF assms(1)] in simp)

text \<open>What the parser's own cuts give on a number of the grammar.\<close>

lemma exponent_read:
  assumes "exponent_denotes e k"
  obtains "e = []" and "k = 0"
  | c t where "e = c # t" and "c \<in> {CHR ''e'', CHR ''E''}" and "signed_decimal_parse t \<noteq> None" and "exponent_value t = k"
proof -
  have minus: "strip_prefix_char (CHR ''-'') (CHR ''-'' # t) = Some t"
    and plus: "strip_prefix_char (CHR ''+'') (CHR ''+'' # t) = Some t"
      "strip_prefix_char (CHR ''-'') (CHR ''+'' # t) = None" for t
    by (simp_all add: strip_prefix_char_def)
  note bare = strip_spelled [where rest = "[]", simplified]
  show thesis
    using assms that
  proof (cases rule: exponent_denotes.cases)
    case (positive c sign ds)
    then consider "sign = []" | "sign = ''+''"
      by blast
    then have "signed_decimal_parse (sign @ spell ds) \<noteq> None \<and> exponent_value (sign @ spell ds) = k"
    proof cases
      case 1
      then show ?thesis
        using positive(2) spell_digits(1-3) [OF positive(5)] bare [OF positive(5)]
        by (simp add: signed_decimal_parse_def exponent_value_def Let_def positional_dec_value)
    next
      case 2
      then show ?thesis
        using positive(2) spell_digits(1-3) [OF positive(5)]
        by (simp add: signed_decimal_parse_def exponent_value_def Let_def plus positional_dec_value)
    qed
    then show thesis
      using positive(1,3) that(2) by blast
  next
    case (negative c ds)
    have "signed_decimal_parse (CHR ''-'' # spell ds) \<noteq> None \<and> exponent_value (CHR ''-'' # spell ds) = k"
      using negative(2) spell_digits(1-3) [OF negative(4)]
      by (simp add: signed_decimal_parse_def exponent_value_def Let_def minus positional_dec_value)
    then show thesis
      using negative(1,3) that(2) by blast
  qed blast
qed

lemma fraction_read:
  assumes "fraction_denotes f q" and "digit_list ds"
  obtains fraction where "split_fraction (spell ds @ f) = (spell ds, fraction)" and "list_all ascii_digit fraction"
    and "q = of_nat (dec_value (map digit_value fraction)) / 10 ^ length fraction"
    and "\<forall>c\<in>set f. c \<noteq> CHR ''e'' \<and> c \<noteq> CHR ''E''"
proof -
  have integer: "takeWhile (\<lambda>c. c \<noteq> CHR ''.'') (spell ds @ xs) = spell ds @ takeWhile (\<lambda>c. c \<noteq> CHR ''.'') xs" for xs
    using spell_digits(4) [OF assms(2)] by (auto intro!: takeWhile_append2)
  have whole: "split_fraction (spell ds) = (spell ds, [])"
    using integer [of "[]"] by (simp only: split_fraction_def Let_def append_Nil2 takeWhile.simps) simp
  have cut: "split_fraction (spell ds @ CHR ''.'' # t) = (spell ds, t)" for t
    by (simp add: split_fraction_def Let_def integer)
  show thesis
    using assms(1)
  proof (cases rule: fraction_denotes.cases)
    case none
    then show thesis
      using that [of "[]"] whole by simp
  next
    case (digits es)
    have "\<forall>c\<in>set f. c \<noteq> CHR ''e'' \<and> c \<noteq> CHR ''E''"
      using digits(1) spell_digits(4) [OF digits(3)] by auto
    then show thesis
      using that [of "spell es"] cut digits(1,2) spell_digits(2,3) [OF digits(3)]
      by (simp add: positional_dec_value)
  qed
qed

lemma exponent_split:
  assumes "\<forall>c\<in>set mantissa. c \<noteq> CHR ''e'' \<and> c \<noteq> CHR ''E''"
  shows "split_exponent mantissa = (mantissa, None)"
    and "c \<in> {CHR ''e'', CHR ''E''} \<Longrightarrow> split_exponent (mantissa @ c # t) = (mantissa, Some t)"
proof -
  have "takeWhile (\<lambda>c. c \<noteq> CHR ''e'' \<and> c \<noteq> CHR ''E'') (mantissa @ xs) =
      mantissa @ takeWhile (\<lambda>c. c \<noteq> CHR ''e'' \<and> c \<noteq> CHR ''E'') xs" for xs
    using assms by (intro takeWhile_append2) auto
  note cut = this
  show "split_exponent mantissa = (mantissa, None)"
    using cut [of "[]"] by (simp only: split_exponent_def Let_def append_Nil2 takeWhile.simps) simp
  show "split_exponent (mantissa @ c # t) = (mantissa, Some t)" if "c \<in> {CHR ''e'', CHR ''E''}"
    using that by (simp only: split_exponent_def Let_def cut) auto
qed

text \<open>A number of the grammar without its sign.\<close>

lemma unsigned_read:
  assumes "digit_list ds" and "fraction_denotes f q" and "exponent_denotes e k"
  obtains mantissa explicit fraction where "split_exponent (spell ds @ f @ e) = (mantissa, explicit)"
    and "split_fraction mantissa = (spell ds, fraction)" and "list_all ascii_digit fraction"
    and "\<And>t. explicit = Some t \<Longrightarrow> signed_decimal_parse t \<noteq> None"
    and "of_nat (dec_value (map digit_value (spell ds @ fraction))) *
      10 powi ((case explicit of None \<Rightarrow> 0 | Some t \<Rightarrow> exponent_value t) - int (length fraction)) =
      (of_nat (positional ds) + q) * (10::rat) powi k"
proof -
  obtain fraction where fraction: "split_fraction (spell ds @ f) = (spell ds, fraction)" "list_all ascii_digit fraction"
    "q = of_nat (dec_value (map digit_value fraction)) / 10 ^ length fraction"
    and plain: "\<forall>c\<in>set f. c \<noteq> CHR ''e'' \<and> c \<noteq> CHR ''E''"
    by (rule fraction_read [OF assms(2,1)])
  have mantissa: "\<forall>c\<in>set (spell ds @ f). c \<noteq> CHR ''e'' \<and> c \<noteq> CHR ''E''"
    using plain spell_digits(4) [OF assms(1)] by auto
  have scale: "of_nat (dec_value (map digit_value (spell ds @ fraction))) * 10 powi (k - int (length fraction)) =
      (of_nat (positional ds) + q) * (10::rat) powi k"
    using spell_digits(3) [OF assms(1)] fraction(3)
    by (simp add: dec_value_append positional_dec_value power_int_diff field_simps)
  from assms(3) show thesis
  proof (cases rule: exponent_read)
    case 1
    then show thesis
      using that [of "spell ds @ f" None] fraction exponent_split(1) [OF mantissa] scale by simp
  next
    case (2 c t)
    then show thesis
      using that [of "spell ds @ f" "Some t"] fraction exponent_split(2) [OF mantissa 2(2), of t] scale by simp
  qed
qed

lemma signed_read:
  assumes parts: "digit_list ds" "fraction_denotes f q" "exponent_denotes e k"
    and sign: "(case strip_prefix_char (CHR ''-'') number of
      Some rest \<Rightarrow> (True, rest) | None \<Rightarrow> (False, number)) = (negative, spell ds @ f @ e)"
  shows "normalized_number_parse number \<noteq> None"
    and "number_value number = sign_of negative * ((of_nat (positional ds) + q) * 10 powi k)"
proof -
  obtain mantissa explicit fraction where exponent: "split_exponent (spell ds @ f @ e) = (mantissa, explicit)"
    and point: "split_fraction mantissa = (spell ds, fraction)" and digits: "list_all ascii_digit fraction"
    and explicit: "\<And>t. explicit = Some t \<Longrightarrow> signed_decimal_parse t \<noteq> None"
    and scaled: "of_nat (dec_value (map digit_value (spell ds @ fraction))) *
      10 powi ((case explicit of None \<Rightarrow> 0 | Some t \<Rightarrow> exponent_value t) - int (length fraction)) =
      (of_nat (positional ds) + q) * (10::rat) powi k"
    by (rule unsigned_read [OF parts]) blast
  show "number_value number = sign_of negative * ((of_nat (positional ds) + q) * 10 powi k)"
    unfolding number_value_def sign exponent point Let_def split using scaled by (simp add: mult.assoc)
  show "normalized_number_parse number \<noteq> None"
    unfolding normalized_number_parse_def sign exponent point Let_def split
    using digits explicit spell_digits(1,2) [OF parts(1)] by (cases explicit) auto
qed

lemma number_denotes_read:
  assumes "number_denotes number x"
  shows "normalized_number_parse number \<noteq> None \<and> number_value number = x"
  using assms
proof (cases rule: number_denotes.cases)
  case (positive ds f q e k)
  have "strip_prefix_char (CHR ''-'') number = None"
    using strip_spelled [OF positive(3)] positive(1) by simp
  then show ?thesis
    using signed_read [OF positive(3,5,6), of number False] positive(1,2) by (simp add: sign_of_def)
next
  case (negative ds f q e k)
  have "strip_prefix_char (CHR ''-'') number = Some (spell ds @ f @ e)"
    using negative(1) by (simp add: strip_prefix_char_def)
  then show ?thesis
    using signed_read [OF negative(3,5,6), of number True] negative(2) by (simp add: sign_of_def)
qed

lemma numbers_equal_denoted:
  assumes "number_denotes left x" and "number_denotes right y"
  shows "numbers_semantically_equal left right \<longleftrightarrow> x = y"
  using assms [THEN number_denotes_read] numbers_semantically_equal_value by auto

section \<open>JSON values\<close>

text \<open>
  What a JSON value means: numbers are rationals, objects are finite maps.  A value denotes something
  when its numbers are of the grammar and its objects have distinct member names.
\<close>

datatype json_value =
    VNull | VBool bool | VNumber rat | VString string
  | VArray "json_value list" | VObject "(string, json_value) fmap"

inductive json_denotes :: "json \<Rightarrow> json_value \<Rightarrow> bool" where
  "json_denotes JNull VNull"
| "json_denotes (JBool b) (VBool b)"
| "number_denotes n x \<Longrightarrow> json_denotes (JNumber n) (VNumber x)"
| "json_denotes (JString s) (VString s)"
| "list_all2 json_denotes js vs \<Longrightarrow> json_denotes (JArray js) (VArray vs)"
| "distinct (map fst ms) \<Longrightarrow> list_all2 json_denotes (map snd ms) vs \<Longrightarrow>
   json_denotes (JObject ms) (VObject (fmap_of_list (zip (map fst ms) vs)))"

text \<open>The same as a function, with the intermediate reading of numbers.\<close>

fun json_denote :: "json \<Rightarrow> json_value" where
  "json_denote JNull = VNull"
| "json_denote (JBool b) = VBool b"
| "json_denote (JNumber n) = VNumber (number_value n)"
| "json_denote (JString s) = VString s"
| "json_denote (JArray js) = VArray (map json_denote js)"
| "json_denote (JObject ms) = VObject (fmap_of_list (map (\<lambda>(k, v). (k, json_denote v)) ms))"

fun json_wf :: "json \<Rightarrow> bool" where
  "json_wf (JNumber n) = (normalized_number_parse n \<noteq> None)"
| "json_wf (JArray js) = list_all json_wf js"
| "json_wf (JObject ms) = (distinct (map fst ms) \<and> list_all (\<lambda>(k, v). json_wf v) ms)"
| "json_wf _ = True"

lemma denote_members:
  "json_denote (JObject ls) = json_denote (JObject rs) \<longleftrightarrow>
   (\<forall>k. map_option json_denote (map_of ls k) = map_option json_denote (map_of rs k))"
proof -
  have lookup: "map_of (map (\<lambda>(k, v). (k, json_denote v)) xs) k = map_option json_denote (map_of xs k)"
    for xs k
    by (simp add: map_of_map)
  have "fmap_of_list x = fmap_of_list y \<longleftrightarrow> (\<forall>k. map_of x k = map_of y k)"
    for x y :: "(string \<times> json_value) list"
    by (metis fmap_ext fmlookup_of_list)
  then show ?thesis
    by (simp only: json_denote.simps json_value.inject lookup)
qed

lemma same_length_same_keys:
  assumes "distinct (map fst ls)" "distinct (map fst rs)" "length ls = length rs"
    and "fst ` set ls \<subseteq> fst ` set rs"
  shows "fst ` set ls = fst ` set rs"
proof (rule card_subset_eq)
  show "card (fst ` set ls) = card (fst ` set rs)"
    using assms(1-3) by (metis distinct_card length_map set_map)
qed (use assms(4) in simp_all)

lemma object_equal_iff:
  assumes "distinct (map fst ls)" "distinct (map fst rs)"
    and same: "\<And>k l r. (k, l) \<in> set ls \<Longrightarrow> (k, r) \<in> set rs \<Longrightarrow>
      json_semantically_equal l r \<longleftrightarrow> json_denote l = json_denote r"
  shows "json_semantically_equal (JObject ls) (JObject rs) \<longleftrightarrow>
    json_denote (JObject ls) = json_denote (JObject rs)"
proof
  assume eq: "json_semantically_equal (JObject ls) (JObject rs)"
  have match: "\<exists>r. map_of rs k = Some r \<and> json_denote l = json_denote r"
    if "(k, l) \<in> set ls" for k l
    using that eq same map_of_SomeD [of rs k]
    by (auto simp: list_all_iff split: option.splits)
  have "fst ` set ls \<subseteq> fst ` set rs"
  proof
    fix k
    assume "k \<in> fst ` set ls"
    then obtain l where "(k, l) \<in> set ls"
      by auto
    from match [OF this] show "k \<in> fst ` set rs"
      by (metis image_eqI fst_conv map_of_SomeD)
  qed
  then have keys: "fst ` set ls = fst ` set rs"
    using same_length_same_keys [OF assms(1,2)] eq by simp
  have "map_option json_denote (map_of ls k) = map_option json_denote (map_of rs k)" for k
  proof (cases "map_of ls k")
    case None
    with keys show ?thesis
      by (metis map_of_eq_None_iff)
  next
    case (Some l)
    with match [OF map_of_SomeD [OF Some]] show ?thesis
      by auto
  qed
  then show "json_denote (JObject ls) = json_denote (JObject rs)"
    unfolding denote_members by (rule allI)
next
  assume "json_denote (JObject ls) = json_denote (JObject rs)"
  then have all: "map_option json_denote (map_of ls k) = map_option json_denote (map_of rs k)" for k
    unfolding denote_members by (rule spec)
  then have "map_of ls k = None \<longleftrightarrow> map_of rs k = None" for k
    by (metis option.map_disc_iff)
  then have "fst ` set ls = fst ` set rs"
    by (auto simp: map_of_eq_None_iff)
  then have "length ls = length rs"
    using assms(1,2) by (metis distinct_card length_map set_map)
  moreover have "\<exists>r. map_of rs k = Some r \<and> json_semantically_equal l r" if "(k, l) \<in> set ls" for k l
  proof -
    have "map_of ls k = Some l"
      using that assms(1) by simp
    with all [of k] obtain r where "map_of rs k = Some r" "json_denote l = json_denote r"
      by (cases "map_of rs k") auto
    then show ?thesis
      using same [OF that] map_of_SomeD by fastforce
  qed
  ultimately show "json_semantically_equal (JObject ls) (JObject rs)"
    by (fastforce simp: list_all_iff split: option.splits)
qed

lemma array_equal_iff:
  assumes "\<And>l r. l \<in> set ls \<Longrightarrow> r \<in> set rs \<Longrightarrow>
      json_semantically_equal l r \<longleftrightarrow> json_denote l = json_denote r"
  shows "json_semantically_equal (JArray ls) (JArray rs) \<longleftrightarrow>
    json_denote (JArray ls) = json_denote (JArray rs)"
proof -
  have "json_semantically_equal (JArray ls) (JArray rs) \<longleftrightarrow>
      list_all2 (\<lambda>l r. json_denote l = json_denote r) ls rs"
    using assms by (fastforce simp: list_all2_iff list_all_iff dest: set_zip_leftD set_zip_rightD)
  also have "\<dots> \<longleftrightarrow> map json_denote ls = map json_denote rs"
    by (simp add: list_all2_eq list.rel_map)
  finally show ?thesis
    by simp
qed

lemma json_semantically_equal_denote:
  "json_wf a \<Longrightarrow> json_wf b \<Longrightarrow> json_semantically_equal a b \<longleftrightarrow> json_denote a = json_denote b"
proof (induction a arbitrary: b)
  case (JNumber n)
  then show ?case
    by (cases b) (auto simp: numbers_semantically_equal_value)
next
  case (JArray ls)
  show ?case
  proof (cases b)
    case (JArray rs)
    then show ?thesis
      using JArray.IH JArray.prems unfolding \<open>b = JArray rs\<close>
      by (intro array_equal_iff) (auto simp: list_all_iff)
  qed simp_all
next
  case (JObject ls)
  show ?case
  proof (cases b)
    case (JObject rs)
    have "json_semantically_equal l r \<longleftrightarrow> json_denote l = json_denote r"
      if "(k, l) \<in> set ls" "(k, r) \<in> set rs" for k l r
      using JObject.IH [OF that(1), of l r] JObject.prems that JObject
      by (auto simp: list_all_iff)
    then show ?thesis
      using JObject.prems unfolding JObject by (intro object_equal_iff) auto
  qed simp_all
qed (auto split: json.splits)

lemma json_denotes_read: "json_denotes j v \<Longrightarrow> json_wf j \<and> json_denote j = v"
proof (induction rule: json_denotes.induct)
  case (3 n x)
  then show ?case
    using number_denotes_read by simp
next
  case (5 js vs)
  then have "list_all json_wf js \<and> map json_denote js = vs"
    by (induction rule: list_all2_induct) auto
  then show ?case
    by simp
next
  case (6 ms vs)
  have "list_all json_wf (map snd ms) \<and> map json_denote (map snd ms) = vs"
    using 6(2) by (induction rule: list_all2_induct) auto
  then have "list_all (\<lambda>(k, v). json_wf v) ms" and vs: "vs = map (json_denote \<circ> snd) ms"
    by (auto simp: list_all_iff)
  moreover have "zip (map fst ms) vs = map (\<lambda>(k, v). (k, json_denote v)) ms"
    unfolding vs by (induction ms) auto
  ultimately show ?case
    using 6(1) by simp
qed simp_all

lemma json_equal_denoted:
  assumes "json_denotes left v" and "json_denotes right w"
  shows "json_semantically_equal left right \<longleftrightarrow> v = w"
  using assms [THEN json_denotes_read] json_semantically_equal_denote by auto

end
