(* ===== verification/Evidence_Checks.thy ===== *)
theory Evidence_Checks
  imports Condition_Semantics
begin

text \<open>
  Properties of node evidence: blocked details are canonical and survive a round trip through their
  wire form, validated failure details outside the condition phase do so too while condition
  failures never do, and every failure cause of the step runtime has a valid detail in its phase.
\<close>

section \<open>Blocked details\<close>

lemma sorted_dedup: "sorted xs \<Longrightarrow> sorted_wrt (<) (dedup xs)"
  by (induction xs rule: dedup.induct) (auto simp: order_less_le)

lemma dedup_strict: "sorted_wrt (<) (xs :: 'a::linorder list) \<Longrightarrow> dedup xs = xs"
  by (induction xs rule: dedup.induct) auto

lemma strict_sorted_canonical: "sorted_wrt (<) (xs :: 'a::linorder list) \<Longrightarrow> dedup (sort xs) = xs"
  by (simp add: dedup_strict strict_sorted_imp_sorted sorted_sort_id)

lemma sort_eq_Nil: "sort xs = [] \<longleftrightarrow> xs = []"
  by (metis set_sort set_empty)

lemma blocked_detail_new_cases:
  assumes "blocked_detail_new items = Inr detail"
  shows "bd_prerequisites detail = dedup (sort items)" and "items \<noteq> []"
    and "length (bd_prerequisites detail) \<le> maximum_prerequisites"
  using assms by (auto simp: blocked_detail_new_def Let_def split: if_splits)

lemma blocked_detail_new_canonical:
  assumes "blocked_detail_new items = Inr detail"
  shows "sorted_wrt (<) (bd_prerequisites detail)" and "set (bd_prerequisites detail) = set items"
  using blocked_detail_new_cases(1) [OF assms] by (simp_all add: sorted_dedup)

lemma blocked_detail_new_idem:
  assumes "blocked_detail_new items = Inr detail"
  shows "blocked_detail_new (bd_prerequisites detail) = Inr detail"
proof -
  have "dedup (sort (bd_prerequisites detail)) = dedup (sort items)"
    using blocked_detail_new_cases(1) [OF assms] blocked_detail_new_canonical(1) [OF assms]
    by (simp add: strict_sorted_canonical)
  then show ?thesis
    using assms unfolding blocked_detail_new_def by simp
qed

section \<open>Failure details\<close>

lemma failure_detail_validate_ref_free:
  assumes "failure_detail_validate d = Inr ()" "fd_phase d \<noteq> PhaseCondition"
  shows "fd_ref d = None" "fd_pointer d = None"
  using assms by (auto simp: failure_detail_validate_def Let_def split: if_splits)

lemma failure_detail_ref_free:
  "fd_ref d = None \<Longrightarrow> fd_pointer d = None \<Longrightarrow> d\<lparr>fd_ref := None, fd_pointer := None\<rparr> = d"
  by simp

lemma failure_detail_new_eq:
  assumes "fd_ref d = None" "fd_pointer d = None"
  shows "failure_detail_new (fd_phase d) (fd_code d) (fd_input d) (fd_collection_index d)
      (fd_output d) (fd_exit_code d) = map_sum id (\<lambda>_. d) (failure_detail_validate d)"
proof -
  have "\<lparr>fd_phase = fd_phase d, fd_code = fd_code d, fd_input = fd_input d,
      fd_collection_index = fd_collection_index d, fd_output = fd_output d,
      fd_exit_code = fd_exit_code d, fd_ref = None, fd_pointer = None\<rparr> = d"
    using assms by simp
  then show ?thesis
    unfolding failure_detail_new_def Let_def by (simp only:)
qed

lemma failure_detail_deserialize_condition:
  "fd_phase d = PhaseCondition \<Longrightarrow> isl (failure_detail_deserialize d)"
  by (auto simp: failure_detail_deserialize_def failure_detail_new_def failure_detail_validate_def
      Let_def)

section \<open>Failure causes\<close>

text \<open>The phase in which the step runtime reports a cause.\<close>

fun cause_phase :: "step_failure_cause \<Rightarrow> failure_phase option" where
  "cause_phase (CauseStart _) = Some PhaseStart"
| "cause_phase (CauseExecution _) = Some PhaseExecution"
| "cause_phase (CauseOutputCapture _) = Some PhaseOutputCapture"
| "cause_phase (CauseRecoveryHandler _) = None"

text \<open>
  What the producers of a cause guarantee: names of inputs and outputs are identifiers of the
  workflow language, an invalid input name is reported as it was given, collection items carry no
  invalid name, and an unsuccessful exit has a non-zero status.
\<close>

fun cause_well_formed :: "step_failure_cause \<Rightarrow> bool" where
  "cause_well_formed (CauseStart (SsInputPreparation f)) =
     (if ip_kind f = IpInvalidInputName
      then ip_collection_index f = None \<and>
        (\<exists>name. ip_input_identity f = Some name \<and> name \<noteq> [] \<and> length name \<le> 4096)
      else case ip_input_identity f of
        None \<Rightarrow> True | Some name \<Rightarrow> is_workflow_value_identifier name)"
| "cause_well_formed (CauseExecution (SeCommand (UnsuccessfulExit status))) = (status \<noteq> Some 0)"
| "cause_well_formed (CauseOutputCapture (OcCapture f)) =
     is_workflow_value_identifier (cap_output_identity f)"
| "cause_well_formed (CauseOutputCapture (OcGit out _)) = is_workflow_value_identifier out"
| "cause_well_formed _ = True"

lemmas code_lists = harness_codes_def output_capture_codes_def input_preparation_codes_def

lemma validate_plain_code:
  "failure_phase_valid phase code \<Longrightarrow> code \<noteq> InputCode FcInputInvalidName \<Longrightarrow>
   phase = PhaseStart \<or> phase = PhaseExecution \<Longrightarrow>
   failure_detail_validate (failure_detail_code phase code) = Inr ()"
  by (auto simp: failure_detail_validate_def failure_detail_code_def Let_def)

lemma working_directory_detail_valid:
  "failure_detail_validate (working_directory_detail f) = Inr ()"
  by (cases f) (simp_all add: working_directory_detail_def validate_plain_code
      failure_phase_valid_def code_lists)

lemma agent_input_failure_detail_valid:
  "failure_detail_validate (agent_input_failure_detail f) = Inr ()"
  by (cases f) (simp_all add: agent_input_failure_detail_def working_directory_detail_valid
      validate_plain_code failure_phase_valid_def code_lists)

lemma agent_failure_detail_valid:
  "phase = PhaseStart \<or> phase = PhaseExecution \<Longrightarrow>
   failure_detail_validate (agent_failure_detail phase f) = Inr ()"
  by (cases "af_cause f") (simp_all add: agent_failure_detail_def validate_plain_code
      failure_phase_valid_def code_lists)

lemma input_preparation_detail_valid:
  assumes "cause_well_formed (CauseStart (SsInputPreparation f))"
  shows "failure_detail_validate ((failure_detail_code PhaseStart (input_preparation_code (ip_kind f)))
    \<lparr>fd_input := ip_input_identity f, fd_collection_index := ip_collection_index f\<rparr>) = Inr ()"
  using assms
  by (cases "ip_kind f")
    (auto simp: input_preparation_code_def failure_detail_validate_def failure_detail_code_def
      failure_phase_valid_def code_lists Let_def split: option.splits)

lemma start_failure_detail_total:
  assumes "cause_well_formed (CauseStart f)"
  shows "\<exists>d. start_failure_detail f = Inr d \<and> failure_detail_validate d = Inr ()"
proof (cases f)
  case (SsInputPreparation p)
  then show ?thesis
    using assms input_preparation_detail_valid [of p] by (simp add: start_failure_detail_def Let_def)
next
  case (SsCommandPreparation p)
  then show ?thesis
    by (cases p) (simp_all add: start_failure_detail_def Let_def validate_plain_code
        failure_phase_valid_def code_lists)
next
  case (SsCommandLaunch p)
  then show ?thesis
    by (cases p) (simp_all add: start_failure_detail_def Let_def validate_plain_code
        failure_phase_valid_def code_lists)
qed (simp_all add: start_failure_detail_def Let_def agent_input_failure_detail_valid
    agent_failure_detail_valid working_directory_detail_valid validate_plain_code
    failure_phase_valid_def code_lists)

lemma execution_failure_detail_valid:
  assumes "cause_well_formed (CauseExecution f)"
  shows "failure_detail_validate (execution_failure_detail f) = Inr ()"
proof (cases f)
  case (SeCommand c)
  then show ?thesis
    using assms
    by (cases c) (auto simp: execution_failure_detail_def failure_detail_validate_def
        failure_detail_code_def failure_phase_valid_def code_lists Let_def)
qed (simp_all add: execution_failure_detail_def agent_failure_detail_valid validate_plain_code
    failure_phase_valid_def code_lists)

lemma validate_capture_code:
  "code \<in> set output_capture_codes \<Longrightarrow>
   code \<notin> {OutputCode FcOutputUnsupported, OutputCode FcCaptureTaskUnavailable} \<Longrightarrow>
   is_workflow_value_identifier out \<Longrightarrow>
   failure_detail_validate ((failure_detail_code PhaseOutputCapture code)\<lparr>fd_output := Some out\<rparr>) = Inr ()"
  by (auto simp: failure_detail_validate_def failure_detail_code_def failure_phase_valid_def
      code_lists Let_def)

lemma output_capture_failure_detail_valid:
  assumes "cause_well_formed (CauseOutputCapture f)"
  shows "failure_detail_validate (output_capture_failure_detail f) = Inr ()"
proof (cases f)
  case (OcCapture c)
  then show ?thesis
    using assms
    by (cases "cap_kind c") (simp_all add: output_capture_failure_detail_def capture_code_def
        validate_capture_code output_capture_codes_def)
next
  case (OcGit out g)
  then show ?thesis
    using assms
    by (cases g) (simp_all add: output_capture_failure_detail_def git_capture_code_def
        validate_capture_code output_capture_codes_def)
qed (simp_all add: output_capture_failure_detail_def failure_detail_validate_def
    failure_detail_code_def failure_phase_valid_def code_lists Let_def)

end
