(* ===== verification/Language_Properties.thy ===== *)
theory Language_Properties
  imports Condition_Numbers Evidence_Checks
begin

text \<open>
  The properties of the condition language and of node evidence: JSON pointers, the evaluation of
  predicates, semantic equality of JSON values, and the details the engine records for blocked,
  skipped and failed nodes.
\<close>

section \<open>JSON pointers\<close>

text \<open>
  C31: Parsing a pointer undoes the escaping of RFC 6901 for every list of tokens, keeping the
  authored text.
\<close>

theorem pointer_round_trip:
  "json_pointer_parse (encode_pointer ts) = Inr \<lparr>authored = encode_pointer ts, tokens = ts\<rparr>"
  by (rule json_pointer_parse_encoded)

text \<open>
  C32: The parser of condition pointers and the validator of recorded pointers accept the same
  strings, so the pointer of every parsed condition can be recorded as evidence.
\<close>

theorem pointer_validators_agree: "valid_json_pointer s \<longleftrightarrow> (\<exists>p. json_pointer_parse s = Inr p)"
  using isl_json_pointer_parse [of s] by (cases "json_pointer_parse s") auto

section \<open>Evaluation\<close>

text \<open>
  C27: Evaluation agrees with the boolean reading of the predicate: a condition passes exactly when
  all the inputs that left-to-right short-circuit evaluation reads are available and the predicate
  holds, and it is false exactly when they are available and it does not hold.
\<close>

theorem evaluate_denotes:
  "(evaluate q vs ds = Passed \<longleftrightarrow>
      predicate_available vs ds q \<and> predicate_holds vs ds q) \<and>
   ((\<exists>trace. evaluate q vs ds = EvaluatedFalse trace) \<longleftrightarrow>
      predicate_available vs ds q \<and> \<not> predicate_holds vs ds q)"
  using evaluate_predicate_decides [of vs ds q path_root "[]"]
  by (auto simp: evaluate_def decides_def
      split: sum.splits prod.splits evaluation_failure.splits bool.splits if_splits)

text \<open>
  C30: The trace of a false condition of at most 256 predicates (the limit of the workflow language)
  is accepted as the evidence of a skipped node, and survives being written and read back.
\<close>

theorem false_evidence_round_trip:
  assumes "evaluate q vs ds = EvaluatedFalse trace"
    and "predicate_nodes q \<le> 256"
  defines "entries \<equiv> map (\<lambda>e. EvaluatedPredicateEvidence (ep_path e) (ep_result e)) trace"
  shows "\<exists>detail. condition_false_detail_new entries = Inr detail \<and>
    cf_evaluated_predicates detail = entries \<and>
    condition_false_detail_deserialize detail = Inr detail"
  using evaluated_false_accepted [OF assms(1,2)]
  by (simp add: entries_def condition_false_detail_deserialize_def)

definition sample_predicate :: resolved_predicate where
  "sample_predicate =
     All [Equals (text_literal ''a'') (text_literal ''a''),
          Not (Equals (text_literal ''b'') (text_literal ''b''))]"

definition sample_trace :: "evaluated_predicate list" where
  "sample_trace =
     [EvaluatedPredicate ''/all/0'' True, EvaluatedPredicate ''/all/1/not'' True,
      EvaluatedPredicate ''/all/1'' False, EvaluatedPredicate [] False]"

lemma sample_evaluates: "evaluate sample_predicate [] [] = EvaluatedFalse sample_trace"
  by code_simp

theorem false_evidence_round_trip_witness:
  "\<exists>detail. condition_false_detail_new
      (map (\<lambda>e. EvaluatedPredicateEvidence (ep_path e) (ep_result e)) sample_trace) = Inr detail \<and>
    cf_evaluated_predicates detail =
      map (\<lambda>e. EvaluatedPredicateEvidence (ep_path e) (ep_result e)) sample_trace \<and>
    condition_false_detail_deserialize detail = Inr detail"
  by (rule false_evidence_round_trip [OF sample_evaluates]) (simp add: sample_predicate_def)

section \<open>Semantic equality\<close>

text \<open>
  C29: Two numbers of the JSON grammar are semantically equal exactly when they denote the same rational,
  whatever their spelling, exponent or trailing zeroes.
\<close>

theorem number_equality:
  assumes "number_denotes left x" and "number_denotes right y"
  shows "numbers_semantically_equal left right \<longleftrightarrow> x = y"
  using assms by (rule numbers_equal_denoted)

lemma sample_numbers:
  "number_denotes ''12.50E-1'' (5 / 4)" "number_denotes ''1.25'' (5 / 4)" "number_denotes ''-0'' 0"
proof -
  have fractions: "fraction_denotes ''.50'' (1 / 2)" "fraction_denotes ''.25'' (1 / 4)"
    using fraction_denotes.digits [of "[5, 0]"] fraction_denotes.digits [of "[2, 5]"]
    by (simp_all add: digit_list_def spell_def)
  have exponents: "exponent_denotes ''E-1'' (- 1)"
    using exponent_denotes.negative [of "CHR ''E''" "[1]"] by (simp add: digit_list_def spell_def)
  show "number_denotes ''12.50E-1'' (5 / 4)"
    using number_denotes.positive [OF _ _ fractions(1) exponents, of "[1, 2]"]
    by (simp add: digit_list_def spell_def)
  show "number_denotes ''1.25'' (5 / 4)"
    using number_denotes.positive [OF _ _ fractions(2) exponent_denotes.none, of "[1]"]
    by (simp add: digit_list_def spell_def)
  show "number_denotes ''-0'' 0"
    using number_denotes.negative [OF _ _ fraction_denotes.none exponent_denotes.none, of "[0]"]
    by (simp add: digit_list_def spell_def)
qed

theorem number_equality_witness:
  "numbers_semantically_equal ''12.50E-1'' ''1.25'' \<and> \<not> numbers_semantically_equal ''1.25'' ''-0''"
  using number_equality [OF sample_numbers(1,2)] number_equality [OF sample_numbers(2,3)] by simp

text \<open>
  C28: Semantic equality of JSON values whose numbers are of the grammar and whose objects have distinct
  member names is equality of what they denote: numbers as rationals, objects as finite maps without an
  order of members.  It is therefore an equivalence.
\<close>

theorem json_equality:
  assumes "json_denotes left v" and "json_denotes right w"
  shows "json_semantically_equal left right \<longleftrightarrow> v = w"
  using assms by (rule json_equal_denoted)

definition sample_json :: "json \<times> json" where
  "sample_json =
     (JObject [(''a'', JNumber ''12.50E-1''), (''b'', JArray [JNull])],
      JObject [(''b'', JArray [JNull]), (''a'', JNumber ''1.25'')])"

lemma sample_json_denotes:
  "json_denotes (fst sample_json) (VObject (fmap_of_list [(''a'', VNumber (5 / 4)), (''b'', VArray [VNull])]))"
  "json_denotes (snd sample_json) (VObject (fmap_of_list [(''b'', VArray [VNull]), (''a'', VNumber (5 / 4))]))"
  using json_denotes.intros(6) [of "[(''a'', JNumber ''12.50E-1''), (''b'', JArray [JNull])]"
      "[VNumber (5 / 4), VArray [VNull]]"]
    json_denotes.intros(6) [of "[(''b'', JArray [JNull]), (''a'', JNumber ''1.25'')]"
      "[VArray [VNull], VNumber (5 / 4)]"]
    sample_numbers json_denotes.intros(1,3) json_denotes.intros(5) [of "[JNull]" "[VNull]"]
  by (simp_all add: sample_json_def)

theorem json_equality_witness: "json_semantically_equal (fst sample_json) (snd sample_json)"
proof -
  have "fmap_of_list [(''a'', VNumber (5 / 4)), (''b'', VArray [VNull])] =
      fmap_of_list [(''b'', VArray [VNull]), (''a'', VNumber (5 / 4))]"
    by (rule fmap_ext) (auto simp: fmlookup_of_list)
  then show ?thesis
    using json_equality [OF sample_json_denotes] by simp
qed

section \<open>Node evidence\<close>

text \<open>
  C33: An accepted blocked detail lists exactly the given prerequisites in strictly ascending order
  without duplicates, at most 1024 of them, and survives being written and read back.
\<close>

theorem blocked_detail_canonical:
  assumes "blocked_detail_new items = Inr detail"
  shows "sorted_wrt (<) (bd_prerequisites detail) \<and> set (bd_prerequisites detail) = set items \<and>
    bd_prerequisites detail \<noteq> [] \<and> length (bd_prerequisites detail) \<le> 1024 \<and>
    blocked_detail_deserialize detail = Inr detail"
  using blocked_detail_new_canonical [OF assms] blocked_detail_new_cases [OF assms]
    blocked_detail_new_idem [OF assms]
  by (simp add: blocked_detail_deserialize_def maximum_prerequisites_def sort_eq_Nil)

definition sample_prerequisites :: "prerequisite list" where
  "sample_prerequisites = [PBody ''outputs.b.x'', PControl ''a'', PBody ''outputs.b.x'']"

lemma sample_blocked:
  "blocked_detail_new sample_prerequisites =
     Inr (BlockedDetail PrerequisitesUnsatisfied [PControl ''a'', PBody ''outputs.b.x''])"
  by code_simp

theorem blocked_detail_canonical_witness:
  "set [PControl ''a'', PBody ''outputs.b.x''] = set sample_prerequisites"
  using blocked_detail_canonical [OF sample_blocked] by simp

text \<open>
  C34: A valid failure detail outside the condition phase survives being written and read back.
\<close>

theorem failure_detail_round_trip:
  assumes "failure_detail_validate d = Inr ()" "fd_phase d \<noteq> PhaseCondition"
  shows "failure_detail_deserialize d = Inr d"
  using failure_detail_validate_ref_free [OF assms] assms(1)
  by (simp add: failure_detail_deserialize_def failure_detail_new_eq failure_detail_ref_free)

definition sample_failure :: failure_detail where
  "sample_failure = failure_detail_code PhaseExecution (RunCode FcCommandExit)"

lemma sample_failure_valid:
  "failure_detail_validate sample_failure = Inr () \<and> fd_phase sample_failure \<noteq> PhaseCondition"
  by code_simp

theorem failure_detail_round_trip_witness:
  "failure_detail_deserialize sample_failure = Inr sample_failure"
  by (rule failure_detail_round_trip) (simp_all add: sample_failure_valid)

text \<open>
  C35: No detail of a failed condition can be read back: the reader validates the detail before it
  sets the reference and the pointer that the condition phase requires.
\<close>

theorem condition_failure_unreadable:
  assumes "json_pointer_missing reference pointer = Inr d"
  shows "isl (failure_detail_deserialize d)"
proof (rule failure_detail_deserialize_condition)
  show "fd_phase d = PhaseCondition"
    using assms
    by (cases "failure_detail_validate ((failure_detail_code PhaseCondition
          (RunCode FcJsonPointerMissing))\<lparr>fd_ref := Some reference, fd_pointer := Some pointer\<rparr>)")
      (auto simp: json_pointer_missing_def failure_detail_code_def Let_def)
qed

definition sample_missing :: failure_detail where
  "sample_missing = projr (json_pointer_missing ''outputs.build.report'' ''/status'')"

lemma sample_missing_recorded:
  "json_pointer_missing ''outputs.build.report'' ''/status'' = Inr sample_missing"
  by code_simp

theorem condition_failure_unreadable_witness: "isl (failure_detail_deserialize sample_missing)"
  by (rule condition_failure_unreadable [OF sample_missing_recorded])

text \<open>
  C36: Every well-formed failure cause of the step runtime has a valid detail in the phase that
  reports it, and is refused in every other phase; a recovery-handler cause is never a node failure.
\<close>

theorem failure_detail_total:
  assumes "cause_well_formed source"
  shows "(\<exists>d. failure_detail phase source = Inr d) \<longleftrightarrow> cause_phase source = Some phase"
proof (cases source)
  case (CauseStart f)
  then show ?thesis
    using start_failure_detail_total [of f] assms
    by (cases phase) (auto simp: failure_detail_def)
next
  case (CauseExecution f)
  then show ?thesis
    using execution_failure_detail_valid [of f] assms
    by (cases phase) (auto simp: failure_detail_def Let_def)
next
  case (CauseOutputCapture f)
  then show ?thesis
    using output_capture_failure_detail_valid [of f] assms
    by (cases phase) (auto simp: failure_detail_def Let_def)
qed (cases phase; simp add: failure_detail_def)

theorem failure_detail_total_witness:
  "\<exists>d. failure_detail PhaseExecution (CauseExecution (SeCommand (UnsuccessfulExit (Some 3)))) = Inr d"
  using failure_detail_total [of "CauseExecution (SeCommand (UnsuccessfulExit (Some 3)))"
      PhaseExecution]
  by simp

end
