(* ===== verification/Harness_Config.thy ===== *)
theory Harness_Config
  imports Condition
begin

text \<open>
  The configurations of the agent harnesses (\<^verbatim>\<open>pi.rs\<close>, \<^verbatim>\<open>claude_code.rs\<close>, \<^verbatim>\<open>codex.rs\<close>) as they are decoded
  from the JSON of a workflow document.
\<close>

section \<open>Decoding closed structures\<close>

text \<open>
  The derived decoder of a structure with two fields and no unknown ones reads an object with exactly
  these members, or an array with the values in declaration order.  The derived decoder of an
  enumeration reads the name of a variant, or an object from that name to null.
\<close>

definition decode_pair ::
  "string \<Rightarrow> string \<Rightarrow> (json \<Rightarrow> 'a option) \<Rightarrow> (json \<Rightarrow> 'b option) \<Rightarrow> json \<Rightarrow> ('a \<times> 'b) option" where
  "decode_pair first second decode_first decode_second value =
     (let both = (\<lambda>x y.
            case (decode_first x, decode_second y) of
              (Some a, Some b) \<Rightarrow> Some (a, b) | _ \<Rightarrow> None)
      in case value of
           JObject members \<Rightarrow>
             if list_all (\<lambda>(name, _). name = first \<or> name = second) members
             then (case (map_of members first, map_of members second) of
                     (Some x, Some y) \<Rightarrow> both x y | _ \<Rightarrow> None)
             else None
         | JArray [x, y] \<Rightarrow> both x y
         | _ \<Rightarrow> None)"

definition decode_string :: "json \<Rightarrow> string option" where
  "decode_string value = (case value of JString text \<Rightarrow> Some text | _ \<Rightarrow> None)"

definition decode_variant :: "(string \<times> 'a) list \<Rightarrow> json \<Rightarrow> 'a option" where
  "decode_variant variants value =
     (case value of
        JString name \<Rightarrow> map_of variants name
      | JObject [(name, JNull)] \<Rightarrow> map_of variants name
      | _ \<Rightarrow> None)"

section \<open>Pi\<close>

datatype thinking = ThinkOff | ThinkMinimal | ThinkLow | ThinkMedium | ThinkHigh | ThinkXHigh | ThinkMax

definition thinking_as_str :: "thinking \<Rightarrow> string" where
  "thinking_as_str self =
     (case self of
        ThinkOff \<Rightarrow> ''off'' | ThinkMinimal \<Rightarrow> ''minimal'' | ThinkLow \<Rightarrow> ''low''
      | ThinkMedium \<Rightarrow> ''medium'' | ThinkHigh \<Rightarrow> ''high'' | ThinkXHigh \<Rightarrow> ''xhigh'' | ThinkMax \<Rightarrow> ''max'')"

record pi_config =
  pi_model :: string
  pi_thinking :: thinking

definition thinking_dto :: "(string \<times> thinking) list" where
  "thinking_dto =
     [(''off'', ThinkOff), (''minimal'', ThinkMinimal), (''low'', ThinkLow), (''medium'', ThinkMedium),
      (''high'', ThinkHigh), (''xhigh'', ThinkXHigh), (''max'', ThinkMax)]"

definition pi_resolve_config :: "json \<Rightarrow> pi_config option" where
  "pi_resolve_config value =
     (case decode_pair ''model'' ''thinking'' decode_string (decode_variant thinking_dto) value of
        None \<Rightarrow> None
      | Some (model, level) \<Rightarrow>
          if model = [] then None else Some \<lparr>pi_model = model, pi_thinking = level\<rparr>)"

section \<open>Claude Code\<close>

datatype claude_code_effort = EffortLow | EffortMedium | EffortHigh | EffortXHigh | EffortMax

definition effort_as_str :: "claude_code_effort \<Rightarrow> string" where
  "effort_as_str self =
     (case self of
        EffortLow \<Rightarrow> ''low'' | EffortMedium \<Rightarrow> ''medium'' | EffortHigh \<Rightarrow> ''high''
      | EffortXHigh \<Rightarrow> ''xhigh'' | EffortMax \<Rightarrow> ''max'')"

record claude_code_config =
  cc_model :: string
  cc_effort :: claude_code_effort

definition effort_variants :: "(string \<times> claude_code_effort) list" where
  "effort_variants =
     [(''low'', EffortLow), (''medium'', EffortMedium), (''high'', EffortHigh),
      (''xhigh'', EffortXHigh), (''max'', EffortMax)]"

definition claude_code_resolve_config :: "json \<Rightarrow> claude_code_config option" where
  "claude_code_resolve_config value =
     (case decode_pair ''model'' ''effort'' decode_string (decode_variant effort_variants) value of
        None \<Rightarrow> None
      | Some (model, level) \<Rightarrow>
          if model = [] then None else Some \<lparr>cc_model = model, cc_effort = level\<rparr>)"

section \<open>Codex\<close>

record codex_config =
  cx_model :: string
  cx_effort :: string

definition codex_resolve_config :: "json \<Rightarrow> codex_config option" where
  "codex_resolve_config value =
     (case decode_pair ''model'' ''effort'' decode_string decode_string value of
        None \<Rightarrow> None
      | Some (model, level) \<Rightarrow>
          if model \<noteq> [] \<and> level \<noteq> [] then Some \<lparr>cx_model = model, cx_effort = level\<rparr> else None)"

end
