(* ===== verification/Workflow_Types.thy ===== *)
theory Workflow_Types
  imports Evidence Harness_Config
begin

text \<open>
  The workflow document as parsed (\<^verbatim>\<open>document.rs\<close>), the validated workflow (\<^verbatim>\<open>validated.rs\<close>) and
  the serialized finalization context (\<^verbatim>\<open>finalization_context.rs\<close>).
\<close>

section \<open>The workflow document\<close>

datatype failure_policy = Required | Advisory

datatype finalization_trigger = FtSucceeded | FtFailed | FtCancelled

definition finalization_trigger_all :: "finalization_trigger list" where
  "finalization_trigger_all = [FtSucceeded, FtFailed, FtCancelled]"

definition trigger_as_str :: "finalization_trigger \<Rightarrow> string" where
  "trigger_as_str self =
     (case self of
        FtSucceeded \<Rightarrow> ''succeeded'' | FtFailed \<Rightarrow> ''failed'' | FtCancelled \<Rightarrow> ''cancelled'')"

datatype input_declaration =
    InText | InJson "string option" | InFile "string option" | InAttachments

record output_ref =
  or_node :: string
  or_output :: string

datatype value_reference =
    InputReference string
  | OutputReference output_ref
  | FinalizationContextReference

datatype condition_operand =
    CondReference value_reference "string option"
  | CondLiteral json

datatype condition_selector =
  ConditionSelector (cs_reference: value_reference) (cs_pointer: string)

datatype condition_predicate =
    CAll "condition_predicate list"
  | CAny "condition_predicate list"
  | CNot condition_predicate
  | CEquals condition_operand condition_operand
  | CExists condition_selector
  | CDisposition string terminal_disposition

datatype output_definition =
    TextPath string
  | TextAgentResponse
  | JsonPath string string
  | JsonAgentResult string
  | FilePath string string
  | GitBranchWorkspace

datatype message_source = MsgFile string | MsgReference value_reference

record agent_message =
  am_text :: "message_source list"
  am_attachments :: "message_source list"

record agent_definition =
  ad_profile :: string
  ad_system_prompt :: string
  ad_message :: agent_message

record common_node =
  cn_failure_policy :: failure_policy
  cn_condition :: "condition_predicate option"
  cn_cwd :: "string option"
  cn_outputs :: "(string, output_definition) btree_map"

record command_node =
  cmd_common :: common_node
  cmd_inputs :: "(string, value_reference) btree_map"
  cmd_argv :: "string list"

record agent_node =
  agn_common :: common_node
  agn_agent :: agent_definition

datatype node_body = CommandBody command_node | AgentBody agent_node

datatype recovery_handler =
    CommandHandler "string list" "string option"
  | AgentHandler string string "string option"

record step_recovery =
  sr_retries :: u8
  sr_handler :: "recovery_handler option"

record step_definition =
  sdef_body :: node_body
  sdef_control_dependencies :: "string list"
  sdef_recovery :: "step_recovery option"

record finalizer_definition =
  fdef_body :: node_body
  fdef_after :: "string list"
  fdef_when :: "finalization_trigger list"

datatype harness_definition = HarnessPi json | HarnessClaudeCode json | HarnessCodex json

datatype agent_profile = AgentProfile (ap_harness: harness_definition)

record workflow_document =
  doc_schema_version :: u8
  doc_description :: "string option"
  doc_inputs :: "(string, input_declaration) btree_map"
  doc_agent_profiles :: "(string, agent_profile) btree_map"
  doc_steps :: "(string, step_definition) btree_map"
  doc_step_order :: "string list"
  doc_finalizers :: "(string, finalizer_definition) btree_map"
  doc_finalizer_order :: "string list"
  doc_exports :: "(string, output_ref) btree_map"

section \<open>The validated workflow\<close>

datatype validated_harness =
    ValidatedPi pi_config | ValidatedClaudeCode claude_code_config | ValidatedCodex codex_config

datatype resolved_value_source =
    SourceInput string
  | SourceOutput resolved_output_source
  | SourceFinalizationContext

record resolved_value_reference =
  rvr_source :: resolved_value_source
  rvr_value_type :: workflow_value_type

record resolved_direct_prerequisite =
  producer :: string
  control :: bool
  disposition_control :: bool
  data :: bool
  condition_data :: bool

record validated_output =
  vo_definition :: output_definition
  vo_value_type :: workflow_value_type

record validated_common_step =
  vc_failure_policy :: failure_policy
  vc_condition :: "resolved_predicate option"
  vc_condition_values :: "(string, resolved_value_source) btree_map"
  vc_prerequisites :: "resolved_direct_prerequisite list"
  vc_evidence_prerequisites :: "prerequisite list"
  vc_cwd :: "string option"
  vc_outputs :: "(string, validated_output) btree_map"

datatype validated_message_source =
    VmFile string
  | VmReference resolved_value_source workflow_value_type

record validated_agent_message =
  vam_text :: "validated_message_source list"
  vam_attachments :: "validated_message_source list"

record validated_agent =
  va_profile :: string
  va_system_prompt :: string
  va_message :: validated_agent_message
  va_harness :: validated_harness

record validated_command_step =
  vcs_common :: validated_common_step
  vcs_inputs :: "(string, resolved_value_reference) btree_map"
  vcs_argv :: "string list"

record validated_agent_step =
  vas_common :: validated_common_step
  vas_agent :: validated_agent

datatype validated_step =
    VCommand validated_command_step
  | VAgent validated_agent_step

datatype validated_recovery_handler =
    VCommandHandler "string list" "string option"
  | VAgentHandler string string "string option" validated_harness

record validated_step_recovery =
  vr_retries :: u8
  vr_handler :: "validated_recovery_handler option"

record validated_finalizer =
  vf_body :: validated_step
  vf_when :: "finalization_trigger list"

record validated_workflow =
  vw_schema_version :: u8
  vw_description :: "string option"
  vw_steps :: "(string, validated_step) btree_map"
  vw_recoveries :: "(string, validated_step_recovery option) btree_map"
  vw_source_order :: "string list"
  vw_presentation_order :: "string list"
  vw_finalizers :: "(string, validated_finalizer) btree_map"
  vw_finalizer_source_order :: "string list"
  vw_finalizer_presentation_order :: "string list"
  vw_exports :: "(string, resolved_output_source) btree_map"
  vw_required_inputs :: "(string, workflow_value_type) btree_map"
  vw_input_json_schema_paths :: "(string, string) btree_map"
  vw_input_file_media_types :: "(string, string) btree_map"

definition common_step :: "validated_step \<Rightarrow> validated_common_step" where
  "common_step step =
     (case step of VCommand command \<Rightarrow> vcs_common command | VAgent agent \<Rightarrow> vas_common agent)"

section \<open>The finalization context\<close>

datatype ordinary_issue_disposition = OidFailed | OidBlocked

definition issue_disposition_as_str :: "ordinary_issue_disposition \<Rightarrow> string" where
  "issue_disposition_as_str self = (case self of OidFailed \<Rightarrow> ''failed'' | OidBlocked \<Rightarrow> ''blocked'')"

record ordinary_issue =
  oi_step_id :: string
  oi_failure_policy :: failure_policy
  oi_disposition :: ordinary_issue_disposition

record finalization_context =
  fctx_trigger :: finalization_trigger
  fctx_primary_issue_step_id :: "string option"
  fctx_cancellation_reason :: "cancellation_reason option"
  fctx_ordinary_issues :: "ordinary_issue list"

definition reason_as_str :: "cancellation_reason \<Rightarrow> string" where
  "reason_as_str self =
     (case self of
        UserRequest \<Rightarrow> ''user_request''
      | TerminationRequest \<Rightarrow> ''termination_request''
      | CallerOutputFailure \<Rightarrow> ''caller_output_failure''
      | RunnerShutdown \<Rightarrow> ''runner_shutdown''
      | ExecutionLeaseExpired \<Rightarrow> ''execution_lease_expired''
      | ForceAbort \<Rightarrow> ''force_abort'')"

definition policy_as_str :: "failure_policy \<Rightarrow> string" where
  "policy_as_str policy = (case policy of Required \<Rightarrow> ''required'' | Advisory \<Rightarrow> ''advisory'')"

definition json_option_string :: "string option \<Rightarrow> json" where
  "json_option_string value = (case value of None \<Rightarrow> JNull | Some text \<Rightarrow> JString text)"

text \<open>
  The object the dedicated serializer writes, members in declaration order.  \<^verbatim>\<open>to_vec\<close> is the
  \<^verbatim>\<open>serde_json\<close> writer, an argument of the model.
\<close>

definition serialized_context :: "finalization_context \<Rightarrow> json" where
  "serialized_context context =
     JObject
       [(''schemaVersion'', JNumber ''1''),
        (''trigger'', JString (trigger_as_str (fctx_trigger context))),
        (''primaryIssueStepId'', json_option_string (fctx_primary_issue_step_id context)),
        (''cancellationReason'',
           json_option_string (map_option reason_as_str (fctx_cancellation_reason context))),
        (''ordinaryIssues'',
           JArray (map (\<lambda>issue. JObject
               [(''stepId'', JString (oi_step_id issue)),
                (''failurePolicy'', JString (policy_as_str (oi_failure_policy issue))),
                (''disposition'', JString (issue_disposition_as_str (oi_disposition issue)))])
             (sort_key oi_step_id (fctx_ordinary_issues context))))]"

definition serialize_context :: "(json \<Rightarrow> string) \<Rightarrow> finalization_context \<Rightarrow> string" where
  "serialize_context to_vec context = to_vec (serialized_context context)"

end
