(* ===== verification/Runtime_Types.thy ===== *)
theory Runtime_Types
  imports Workflow_Types
begin

text \<open>
  The state of the workflow reducer, \<^verbatim>\<open>crates/execution/src/workflow/runtime.rs\<close>: identities,
  node and workflow states, recovery records, the immutable runtime definition compiled from a
  validated workflow, occurrences, actions and transition events.

  The source is generic in four types: \<open>'p\<close> provisional step resources, \<open>'c\<close> failure causes,
  \<open>'o\<close> captured outputs and \<open>'d\<close> deadlines.  The trait methods the reducer calls on them, and the
  \<^verbatim>\<open>serde_json\<close> writer and reader of the finalization context, are the fields of \<open>runtime_ports\<close>,
  an argument of the operations that use them.
\<close>

unbundle bit_operations_syntax

section \<open>Trait methods and libraries\<close>

record ('p, 'c, 'o) runtime_ports =
  requires_release :: "'p \<Rightarrow> bool"
  node_failure_detail :: "'c \<Rightarrow> failure_phase \<Rightarrow> evidence_error + failure_detail"
  condition_text :: "'o \<Rightarrow> string option"
  condition_json :: "'o \<Rightarrow> json option"
  json_to_vec :: "json \<Rightarrow> string"
  json_from_slice :: "string \<Rightarrow> json option"

text \<open>\<^verbatim>\<open>CapturedValue\<close> and its implementation of \<^verbatim>\<open>ConditionOutput\<close>; handles are opaque.\<close>

typedecl captured_file
typedecl captured_git_branch

datatype captured_value =
    CvText string | CvJson json | CvFile captured_file | CvGitBranch captured_git_branch

definition captured_condition_text :: "captured_value \<Rightarrow> string option" where
  "captured_condition_text self =
     (case self of
        CvText value \<Rightarrow> Some value
      | CvJson _ \<Rightarrow> None | CvFile _ \<Rightarrow> None | CvGitBranch _ \<Rightarrow> None)"

definition captured_condition_json :: "captured_value \<Rightarrow> json option" where
  "captured_condition_json self =
     (case self of
        CvJson value \<Rightarrow> Some value
      | CvText _ \<Rightarrow> None | CvFile _ \<Rightarrow> None | CvGitBranch _ \<Rightarrow> None)"

section \<open>Identities\<close>

type_synonym transition_sequence = u64

definition sequence_next :: "transition_sequence \<Rightarrow> transition_sequence" where
  "sequence_next self = saturating_add self 1"

type_synonym cancellation_operation_id = u64

datatype action_id = ActionId (transition_sequence: u64)

definition for_transition :: "transition_sequence \<Rightarrow> action_id" where
  "for_transition sequence = ActionId sequence"

text \<open>A \<^verbatim>\<open>usize\<close> has 64 bits, so its conversion to \<^verbatim>\<open>u64\<close> never saturates.\<close>

definition for_force_abort :: "cancellation_operation_id \<Rightarrow> nat \<Rightarrow> action_id" where
  "for_force_abort operation index =
     (let operation = operation AND 0x7fffffff;
          index = of_nat index AND 0xffffffff
      in ActionId (push_bit 63 1 OR push_bit 32 operation OR index))"

definition is_force_abort :: "action_id \<Rightarrow> bool" where
  "is_force_abort self = (transition_sequence self AND push_bit 63 1 \<noteq> 0)"

datatype target_execution_number = TargetExecutionNumber (execution_get: u8)

definition first_execution :: target_execution_number where
  "first_execution = TargetExecutionNumber 1"

definition execution_next :: "target_execution_number \<Rightarrow> target_execution_number option" where
  "execution_next self = map_option TargetExecutionNumber (checked_add (execution_get self) 1)"

datatype recovery_round_number = RecoveryRoundNumber (round_get: u8)

section \<open>Recovery\<close>

datatype recovery_handler_kind = HandlerCommand | HandlerAgent

definition handler_kind_from_validated :: "validated_recovery_handler \<Rightarrow> recovery_handler_kind" where
  "handler_kind_from_validated handler =
     (case handler of
        VCommandHandler _ _ \<Rightarrow> HandlerCommand
      | VAgentHandler _ _ _ _ \<Rightarrow> HandlerAgent)"

datatype recovery_handler_activity = HandlerStarting | HandlerRunning

datatype active_step_invocation =
    ActiveTarget target_execution_number
  | ActiveRecoveryHandler recovery_round_number

record 'c provisional_target_failure =
  ptf_execution_number :: target_execution_number
  ptf_invocation :: action_id
  ptf_phase :: failure_phase
  ptf_detail :: failure_detail
  ptf_cause :: 'c

datatype recovery_decision_kind = Recheck | GaveUp

record recovery_decision =
  decision_kind :: recovery_decision_kind
  decision_summary :: string
  decision_reason :: string

datatype recovery_handler_failure_phase = HandlerPhaseStart | HandlerPhaseExecution

datatype 'c recovery_handler_outcome =
    HoStarting
  | HoRunning
  | HoRecheck string string
  | HoGaveUp string string
  | HoFailed recovery_handler_failure_phase 'c
  | HoCancelled

record 'c recovery_handler_record =
  rh_kind :: recovery_handler_kind
  rh_invocation :: action_id
  rh_outcome :: "'c recovery_handler_outcome"

record 'c recovery_round_record =
  rr_number :: recovery_round_number
  rr_failed_execution :: "'c provisional_target_failure"
  rr_handler :: "'c recovery_handler_record option"

datatype recovery_terminal_disposition =
    RtRecovered target_execution_number
  | RtExhausted target_execution_number
  | RtGaveUp recovery_round_number
  | RtHandlerFailed recovery_round_number recovery_handler_failure_phase
  | RtCancelled recovery_round_number active_step_invocation

record 'c step_recovery_state =
  rec_configured_rounds :: u8
  rec_handler_kind :: "recovery_handler_kind option"
  rec_rounds :: "'c recovery_round_record list"
  rec_terminal_disposition :: "recovery_terminal_disposition option"

section \<open>Workflow and node states\<close>

datatype scheduling_gate =
    GateOpen
  | GateFailureStopped primary_issue
  | GateCancelling cancellation_reason "primary_issue option"

datatype 'd finalization_gate =
    FgOpen
  | FgCancelling cancellation_reason "'d option" bool

datatype 'd workflow_state =
    Executing scheduling_gate
  | Finalizing finalization_trigger "'d finalization_gate" "primary_issue option"
  | WfSucceeded
  | WfFailed primary_issue "cancellation_reason option"
  | WfCancelled cancellation_reason

definition map_deadline :: "('d \<Rightarrow> 'm) \<Rightarrow> 'd workflow_state \<Rightarrow> 'm workflow_state" where
  "map_deadline f self =
     (case self of
        Executing gate \<Rightarrow> Executing gate
      | Finalizing trigger gate primary_issue \<Rightarrow>
          Finalizing trigger
            (case gate of
               FgOpen \<Rightarrow> FgOpen
             | FgCancelling reason deadline force_abort \<Rightarrow>
                 FgCancelling reason (map_option f deadline) force_abort)
            primary_issue
      | WfSucceeded \<Rightarrow> WfSucceeded
      | WfFailed primary_issue later_cancellation \<Rightarrow> WfFailed primary_issue later_cancellation
      | WfCancelled reason \<Rightarrow> WfCancelled reason)"

datatype inherited_disposition = InhSucceeded | InhSkipped

record output_producer =
  op_attempt_id :: string
  op_attempt_number :: u64
  op_node :: string
  op_output :: string

type_synonym 'o output_set = "(string, 'o) btree_map"

record 'o inherited_step_seed =
  seed_detail :: inherited_detail
  seed_disposition :: inherited_disposition
  seed_outputs :: "'o output_set"
  seed_producers :: "(string, output_producer) btree_map"

datatype 'o execution_seed = ExecutionSeed (seed_steps: "(string, 'o inherited_step_seed) btree_map")

datatype execution_seed_error =
    SeedUnknownStep | SeedFinalizer | SeedInvalidDetail | SeedInvalidOutputs | SeedInvalidProducer

definition execution_seed_empty :: "'o execution_seed" where
  "execution_seed_empty = ExecutionSeed []"

text \<open>One iteration of the validation loop over the seeded steps: the error it returns, if any.\<close>

definition seed_step_error ::
  "validated_workflow \<Rightarrow> string \<Rightarrow> 'o inherited_step_seed \<Rightarrow> execution_seed_error option" where
  "seed_step_error workflow sid seed =
     (let disposition =
        (case prior_state (seed_detail seed) of
           PriorSucceeded \<Rightarrow> InhSucceeded
         | PriorSkipped \<Rightarrow> InhSkipped
         | PriorInherited \<Rightarrow> seed_disposition seed)
      in if disposition \<noteq> seed_disposition seed then Some SeedInvalidDetail
         else if \<not> bt_contains_key (vw_steps workflow) sid
         then Some (if bt_contains_key (vw_finalizers workflow) sid then SeedFinalizer
                    else SeedUnknownStep)
         else if prior_attempt_id (seed_detail seed) = [] \<or>
           prior_attempt_number (seed_detail seed) = 0
         then Some SeedInvalidDetail
         else if (disposition = InhSkipped \<and> seed_outputs seed \<noteq> []) \<or>
           bt_keys (seed_producers seed) \<noteq> bt_keys (seed_outputs seed)
         then Some SeedInvalidOutputs
         else if list_ex (\<lambda>(out, producer).
             op_attempt_id producer = [] \<or> op_attempt_number producer = 0 \<or>
             op_attempt_number producer > prior_attempt_number (seed_detail seed) \<or>
             op_node producer \<noteq> sid \<or> op_output producer \<noteq> out) (seed_producers seed)
         then Some SeedInvalidProducer
         else None)"

definition execution_seed_new ::
  "validated_workflow \<Rightarrow> (string, 'o inherited_step_seed) btree_map \<Rightarrow>
   execution_seed_error + 'o execution_seed" where
  "execution_seed_new workflow steps =
     (case find_map (\<lambda>(sid, seed). seed_step_error workflow sid seed) steps of
        Some error \<Rightarrow> Inl error
      | None \<Rightarrow> Inr (ExecutionSeed steps))"

datatype 'o step_state =
    Pending
  | Starting
  | Running
  | CapturingOutputs
  | Recovering recovery_round_number recovery_handler_activity
  | Cancelling cancellation_detail
  | Succeeded "'o output_set"
  | Inherited inherited_detail inherited_disposition "'o output_set"
  | Failed failure_detail
  | Blocked blocked_detail
  | Skipped condition_false_detail
  | NotRun non_execution_detail
  | Cancelled cancellation_detail

datatype step_state_kind =
    KPending | KStarting | KRunning | KCapturingOutputs | KRecovering | KCancelling | KSucceeded
  | KInherited | KFailed | KBlocked | KSkipped | KNotRun | KCancelled

primrec kind :: "'o step_state \<Rightarrow> step_state_kind" where
  "kind Pending = KPending"
| "kind Starting = KStarting"
| "kind Running = KRunning"
| "kind CapturingOutputs = KCapturingOutputs"
| "kind (Recovering _ _) = KRecovering"
| "kind (Cancelling _) = KCancelling"
| "kind (Succeeded _) = KSucceeded"
| "kind (Inherited _ _ _) = KInherited"
| "kind (Failed _) = KFailed"
| "kind (Blocked _) = KBlocked"
| "kind (Skipped _) = KSkipped"
| "kind (NotRun _) = KNotRun"
| "kind (Cancelled _) = KCancelled"

primrec is_active :: "'o step_state \<Rightarrow> bool" where
  "is_active Pending = False"
| "is_active Starting = True"
| "is_active Running = True"
| "is_active CapturingOutputs = True"
| "is_active (Recovering _ _) = True"
| "is_active (Cancelling _) = True"
| "is_active (Succeeded _) = False"
| "is_active (Inherited _ _ _) = False"
| "is_active (Failed _) = False"
| "is_active (Blocked _) = False"
| "is_active (Skipped _) = False"
| "is_active (NotRun _) = False"
| "is_active (Cancelled _) = False"

primrec is_terminal :: "'o step_state \<Rightarrow> bool" where
  "is_terminal Pending = False"
| "is_terminal Starting = False"
| "is_terminal Running = False"
| "is_terminal CapturingOutputs = False"
| "is_terminal (Recovering _ _) = False"
| "is_terminal (Cancelling _) = False"
| "is_terminal (Succeeded _) = True"
| "is_terminal (Inherited _ _ _) = True"
| "is_terminal (Failed _) = True"
| "is_terminal (Blocked _) = True"
| "is_terminal (Skipped _) = True"
| "is_terminal (NotRun _) = True"
| "is_terminal (Cancelled _) = True"

record ('c, 'o) step_runtime_state =
  srs_state :: "'o step_state"
  current_action :: "action_id option"
  target_execution :: "target_execution_number option"
  target_invocation :: "action_id option"
  active_invocation :: "active_step_invocation option"
  recovery :: "'c step_recovery_state option"
  condition_passed :: bool

section \<open>The runtime definition\<close>

record runtime_recovery =
  retries :: u8
  handler_kind :: "recovery_handler_kind option"

record runtime_step =
  role :: workflow_node_role
  is_agent :: bool
  failure_policy :: failure_policy
  condition :: "resolved_predicate option"
  condition_values :: "(string, resolved_value_source) btree_map"
  prerequisites :: "resolved_direct_prerequisite list"
  evidence_prerequisites :: "prerequisite list"
  inputs :: "(string, resolved_value_source) btree_map"
  declared_outputs :: "string list"
  step_recovery_policy :: "runtime_recovery option"
  when_triggers :: "finalization_trigger list"

record runtime_export =
  re_step :: string
  re_output :: string

record runtime_definition =
  def_steps :: "(string, runtime_step) btree_map"
  ordinary_ids :: "string list"
  finalizer_ids :: "string list"
  finalizer_presentation_order :: "string list"
  def_exports :: "(string, runtime_export) btree_map"
  maximum_parallel_steps :: nat
  maximum_transitions :: u64
  text_inputs :: "(string, string) btree_map"
  json_inputs :: "(string, json) btree_map"

definition agent_message_inputs ::
  "validated_message_source list \<Rightarrow> (string \<times> resolved_value_source) list" where
  "agent_message_inputs sources =
     List.map_filter (\<lambda>source.
       case source of
         VmReference (SourceOutput out) _ \<Rightarrow> Some (output_reference out, SourceOutput out)
       | VmReference SourceFinalizationContext _ \<Rightarrow>
           Some (''finalization.context'', SourceFinalizationContext)
       | VmReference (SourceInput _) _ \<Rightarrow> None
       | VmFile _ \<Rightarrow> None) sources"

definition runtime_step ::
  "workflow_node_role \<Rightarrow> validated_step \<Rightarrow> validated_step_recovery option \<Rightarrow>
   finalization_trigger list \<Rightarrow> runtime_step" where
  "runtime_step step_role step policy triggers =
     (let common = common_step step
      in \<lparr>role = step_role,
          is_agent = (case step of VAgent _ \<Rightarrow> True | VCommand _ \<Rightarrow> False),
          failure_policy = vc_failure_policy common,
          condition = vc_condition common,
          condition_values = vc_condition_values common,
          prerequisites = vc_prerequisites common,
          evidence_prerequisites = vc_evidence_prerequisites common,
          inputs =
            (case step of
               VCommand command \<Rightarrow>
                 bt_collect (map (\<lambda>(name, reference). (name, rvr_source reference))
                   (vcs_inputs command))
             | VAgent agent \<Rightarrow>
                 bt_collect (agent_message_inputs
                   (vam_text (va_message (vas_agent agent)) @
                    vam_attachments (va_message (vas_agent agent))))),
          declared_outputs = bt_keys (vc_outputs common),
          step_recovery_policy =
            map_option (\<lambda>configured.
              \<lparr>retries = vr_retries configured,
               handler_kind = map_option handler_kind_from_validated (vr_handler configured)\<rparr>)
              policy,
          when_triggers = triggers\<rparr>)"

definition runtime_finalizer :: "validated_finalizer \<Rightarrow> runtime_step" where
  "runtime_finalizer finalizer =
     runtime_step RoleFinalizer (vf_body finalizer) None (vf_when finalizer)"

definition from_workflow :: "validated_workflow \<Rightarrow> nat \<Rightarrow> u64 \<Rightarrow> runtime_definition" where
  "from_workflow workflow parallel transitions =
     \<lparr>def_steps =
        bt_collect
          (map (\<lambda>(sid, step). (sid, runtime_step RoleStep step
               (case map_of (vw_recoveries workflow) sid of None \<Rightarrow> None | Some r \<Rightarrow> r) []))
             (vw_steps workflow) @
           map (\<lambda>(sid, finalizer). (sid, runtime_finalizer finalizer)) (vw_finalizers workflow)),
      ordinary_ids = bt_keys (vw_steps workflow),
      finalizer_ids = bt_keys (vw_finalizers workflow),
      finalizer_presentation_order = vw_finalizer_presentation_order workflow,
      def_exports =
        map (\<lambda>(name, source).
          (name, \<lparr>re_step = node_id (ros_node source), re_output = ros_output source\<rparr>))
          (vw_exports workflow),
      maximum_parallel_steps = parallel,
      maximum_transitions = transitions,
      text_inputs = [],
      json_inputs = []\<rparr>"

text \<open>
  \<^verbatim>\<open>from_admitted\<close> adds the resolved text and JSON inputs; files and attachments are not condition
  values.
\<close>

typedecl resolved_file
typedecl resolved_attachment

datatype resolved_input =
    RiText string | RiJson json | RiFile resolved_file | RiAttachments "resolved_attachment list"

definition from_admitted ::
  "validated_workflow \<Rightarrow> nat \<Rightarrow> u64 \<Rightarrow> (string, resolved_input) btree_map \<Rightarrow> runtime_definition" where
  "from_admitted workflow parallel transitions values =
     (from_workflow workflow parallel transitions)
       \<lparr>text_inputs := List.map_filter (\<lambda>(name, input).
          case input of RiText value \<Rightarrow> Some (name, value) | _ \<Rightarrow> None) values,
        json_inputs := List.map_filter (\<lambda>(name, input).
          case input of RiJson value \<Rightarrow> Some (name, value) | _ \<Rightarrow> None) values\<rparr>"

section \<open>The runtime state\<close>

datatype export_unavailable_reason =
    EuFailed | EuBlocked | EuSkipped | EuNotRun | EuTriggerNotSelected | EuCancelled

datatype 'o export_value = ExportAvailable 'o | ExportUnavailable export_unavailable_reason

type_synonym 'o export_set = "(string, 'o export_value) btree_map"

datatype ordinary_outcome =
    OoSucceeded
  | OoFailed primary_issue "cancellation_reason option"
  | OoCancelled cancellation_reason

datatype run_cancellation_phase = CancelOrdinary | CancelFinalization

record force_abort_evidence =
  fae_reason :: cancellation_reason
  fae_phase :: run_cancellation_phase

record 'd finalization_cancellation =
  fc_reason :: cancellation_reason
  fc_deadline :: "'d option"

record finalizer_result =
  fr_finalizer :: string
  fr_failure_policy :: failure_policy
  fr_disposition :: "unit step_state"

record 'd finalization_summary =
  fs_trigger :: finalization_trigger
  fs_finalizers :: "finalizer_result list"
  fs_cancellation :: "'d finalization_cancellation option"
  fs_force_abort :: bool

record 'd finalization_runtime =
  fin_trigger :: finalization_trigger
  fin_context :: string
  fin_ordinary_outcome :: ordinary_outcome
  fin_cancellation :: "'d finalization_cancellation option"
  fin_force_abort :: bool

record ('c, 'o, 'd) runtime_state =
  definition_of :: runtime_definition
  workflow :: "'d workflow_state"
  steps :: "(string, ('c, 'o) step_runtime_state) btree_map"
  output_producers :: "(string \<times> string, output_producer) btree_map"
  exports :: "'o export_set option"
  finalization_summary :: "'d finalization_summary option"
  finalization :: "'d finalization_runtime option"
  force_abort :: "force_abort_evidence option"
  last_cancellation_operation :: "cancellation_operation_id option"
  last_transition_sequence :: transition_sequence
  transition_capacity_exceeded :: bool

definition invocation_is_agent :: "('c, 'o, 'd) runtime_state \<Rightarrow> string \<Rightarrow> bool \<Rightarrow> bool" where
  "invocation_is_agent self sid handler =
     (case map_of (def_steps (definition_of self)) sid of
        None \<Rightarrow> False
      | Some step \<Rightarrow>
          if handler
          then (case step_recovery_policy step of
                  None \<Rightarrow> False
                | Some policy \<Rightarrow> handler_kind policy = Some HandlerAgent)
          else is_agent step)"

section \<open>Occurrences, actions and events\<close>

datatype ('p, 'c, 'o, 'd) occurrence =
    StepStarted string action_id
  | StepStartFailed string action_id 'c
  | StepExecutionCompleted string action_id 'p
  | StepExecutionFailed string action_id 'c
  | OutputsCaptured string action_id "'o output_set"
  | OutputCaptureFailed string action_id 'c
  | RecoveryHandlerStarted string recovery_round_number action_id
  | RecoveryHandlerStartFailed string recovery_round_number action_id 'c
  | RecoveryHandlerCompleted string recovery_round_number action_id recovery_decision
  | RecoveryHandlerExecutionFailed string recovery_round_number action_id 'c
  | CancellationOperationRequested cancellation_operation_id cancellation_reason 'd
  | OrdinaryCancellationOperationRequested cancellation_operation_id cancellation_reason 'd
  | ForceAbortRequested cancellation_operation_id 'd
  | StepQuiesced string action_id

datatype run_outcome =
    RoSucceeded
  | RoFailed primary_issue "cancellation_reason option"
  | RoCancelled cancellation_reason

datatype 'o action_input =
    AiWorkflowInput | AiOutput 'o | AiFinalizationContext string | AiUnavailable

datatype ('p, 'c, 'o, 'd) action =
    StartStep string target_execution_number "(string, 'o action_input) btree_map"
  | StartRecoveryHandler string recovery_round_number recovery_handler_kind
      "'c recovery_round_record list"
  | CaptureOutputs string 'p
  | ReleaseStepResources 'p
  | CancelStep string active_step_invocation cancellation_reason 'd
  | ForceAbortStep string active_step_invocation cancellation_reason 'd
  | FinishRun run_outcome "'o export_set"

record ('p, 'c, 'o, 'd) requested_action =
  ra_id :: action_id
  ra_action :: "('p, 'c, 'o, 'd) action"

datatype 'd transition_event =
    EvStep (ev_sequence: transition_sequence) (ev_step: string) (ev_role: workflow_node_role)
      (ev_failure_policy: failure_policy) (ev_from: step_state_kind) (ev_to: step_state_kind)
  | EvWorkflow (ev_sequence: transition_sequence) (ev_workflow_from: "'d workflow_state")
      (ev_workflow_to: "'d workflow_state")
  | EvCancellationAccepted (ev_sequence: transition_sequence) cancellation_reason 'd
  | EvFinalizationCancellationAccepted (ev_sequence: transition_sequence) cancellation_reason 'd
  | EvForceAbortAccepted (ev_sequence: transition_sequence) cancellation_reason
      run_cancellation_phase

record ('p, 'c, 'o, 'd) reduction =
  state :: "('c, 'o, 'd) runtime_state"
  events :: "'d transition_event list"
  actions :: "('p, 'c, 'o, 'd) requested_action list"
  occurrence_accepted :: bool

end
