(* ===== verification/Runtime_Ops.thy ===== *)
theory Runtime_Ops
  imports Runtime_Types
begin

text \<open>
  The primitive state changes of the reducer (\<^verbatim>\<open>runtime.rs\<close>): sequence allocation, node
  transitions, recovery bookkeeping and the queries on prerequisites, conditions and inputs.
  A function that takes \<^verbatim>\<open>&mut Reduction\<close> returns the changed reduction; one that also returns a
  value returns the pair.  A write through \<^verbatim>\<open>steps.get_mut(step)\<close> is \<open>modify_step\<close>.
\<close>

section \<open>Sequences and node transitions\<close>

definition modify_step ::
  "string \<Rightarrow> (('c, 'o) step_runtime_state \<Rightarrow> ('c, 'o) step_runtime_state) \<Rightarrow>
   ('c, 'o, 'd) runtime_state \<Rightarrow> ('c, 'o, 'd) runtime_state" where
  "modify_step step f st = st\<lparr>steps := bt_modify step f (steps st)\<rparr>"

definition next_sequence ::
  "('c, 'o, 'd) runtime_state \<Rightarrow> transition_sequence \<times> ('c, 'o, 'd) runtime_state" where
  "next_sequence st =
     (let sequence = sequence_next (last_transition_sequence st)
      in if sequence > maximum_transitions (definition_of st)
         then (last_transition_sequence st, st\<lparr>transition_capacity_exceeded := True\<rparr>)
         else (sequence, st\<lparr>last_transition_sequence := sequence\<rparr>))"

definition transition_step ::
  "string \<Rightarrow> 'o step_state \<Rightarrow> action_id option \<Rightarrow> ('p, 'c, 'o, 'd) reduction \<Rightarrow>
   transition_sequence \<times> ('p, 'c, 'o, 'd) reduction" where
  "transition_step step to action r =
     (let (sequence, st) = next_sequence (state r);
          def = map_of (def_steps (definition_of st)) step;
          policy = (case def of None \<Rightarrow> Required | Some d \<Rightarrow> failure_policy d);
          the_role = (case def of None \<Rightarrow> RoleStep | Some d \<Rightarrow> role d)
      in case map_of (steps st) step of
           None \<Rightarrow> (sequence, r\<lparr>state := st\<rparr>)
         | Some runtime \<Rightarrow>
             (sequence,
              r\<lparr>state := modify_step step
                   (\<lambda>n. n\<lparr>srs_state := to, current_action := action\<rparr>) st,
                events := events r @ [EvStep sequence step the_role policy
                   (kind (srs_state runtime)) (kind to)]\<rparr>))"

definition set_current_action ::
  "string \<Rightarrow> action_id \<Rightarrow> ('c, 'o, 'd) runtime_state \<Rightarrow> ('c, 'o, 'd) runtime_state" where
  "set_current_action step action = modify_step step (\<lambda>n. n\<lparr>current_action := Some action\<rparr>)"

definition clear_active_invocation ::
  "string \<Rightarrow> ('c, 'o, 'd) runtime_state \<Rightarrow> ('c, 'o, 'd) runtime_state" where
  "clear_active_invocation step = modify_step step (\<lambda>n. n\<lparr>active_invocation := None\<rparr>)"

definition push_action ::
  "action_id \<Rightarrow> ('p, 'c, 'o, 'd) action \<Rightarrow> ('p, 'c, 'o, 'd) reduction \<Rightarrow> ('p, 'c, 'o, 'd) reduction" where
  "push_action i a r = r\<lparr>actions := actions r @ [\<lparr>ra_id = i, ra_action = a\<rparr>]\<rparr>"

definition step_accepts ::
  "('c, 'o, 'd) runtime_state \<Rightarrow> string \<Rightarrow> step_state_kind \<Rightarrow> action_id \<Rightarrow> bool" where
  "step_accepts st step expected action =
     (case map_of (steps st) step of
        None \<Rightarrow> False
      | Some runtime \<Rightarrow>
          kind (srs_state runtime) = expected \<and> current_action runtime = Some action)"

definition step_declares_outputs :: "('c, 'o, 'd) runtime_state \<Rightarrow> string \<Rightarrow> bool" where
  "step_declares_outputs st step =
     (case map_of (def_steps (definition_of st)) step of
        None \<Rightarrow> False | Some def \<Rightarrow> declared_outputs def \<noteq> [])"

definition outputs_match_declaration ::
  "('c, 'o, 'd) runtime_state \<Rightarrow> string \<Rightarrow> 'o output_set \<Rightarrow> bool" where
  "outputs_match_declaration st step outputs =
     (case map_of (def_steps (definition_of st)) step of
        None \<Rightarrow> False | Some def \<Rightarrow> bt_keys outputs = declared_outputs def)"

section \<open>Recovery bookkeeping\<close>

definition map_last :: "('a \<Rightarrow> 'a) \<Rightarrow> 'a list \<Rightarrow> 'a list" where
  "map_last f xs = (if xs = [] then [] else butlast xs @ [f (last xs)])"

definition modify_recovery ::
  "string \<Rightarrow> ('c step_recovery_state \<Rightarrow> 'c step_recovery_state) \<Rightarrow>
   ('c, 'o, 'd) runtime_state \<Rightarrow> ('c, 'o, 'd) runtime_state" where
  "modify_recovery step f = modify_step step (\<lambda>n. n\<lparr>recovery := map_option f (recovery n)\<rparr>)"

definition latest_target_failure ::
  "('c, 'o, 'd) runtime_state \<Rightarrow> string \<Rightarrow> 'c provisional_target_failure option" where
  "latest_target_failure st step =
     (case map_of (steps st) step of
        None \<Rightarrow> None
      | Some runtime \<Rightarrow>
          (case recovery runtime of
             None \<Rightarrow> None
           | Some rec \<Rightarrow>
               if rec_rounds rec = [] then None
               else Some (rr_failed_execution (last (rec_rounds rec)))))"

definition handler_accepts ::
  "('c, 'o, 'd) runtime_state \<Rightarrow> string \<Rightarrow> recovery_round_number \<Rightarrow> recovery_handler_activity \<Rightarrow>
   action_id \<Rightarrow> bool" where
  "handler_accepts st step round expected action =
     (case map_of (steps st) step of
        None \<Rightarrow> False
      | Some runtime \<Rightarrow>
          current_action runtime = Some action \<and>
          active_invocation runtime = Some (ActiveRecoveryHandler round) \<and>
          srs_state runtime = Recovering round expected)"

definition set_handler_outcome ::
  "string \<Rightarrow> recovery_round_number \<Rightarrow> 'c recovery_handler_outcome \<Rightarrow>
   ('c, 'o, 'd) runtime_state \<Rightarrow> ('c, 'o, 'd) runtime_state" where
  "set_handler_outcome step round outcome =
     modify_recovery step (\<lambda>rec. rec\<lparr>rec_rounds :=
       map_last (\<lambda>record. if rr_number record = round
           then record\<lparr>rr_handler := map_option (\<lambda>h. h\<lparr>rh_outcome := outcome\<rparr>) (rr_handler record)\<rparr>
           else record) (rec_rounds rec)\<rparr>)"

definition set_recovery_disposition ::
  "string \<Rightarrow> recovery_terminal_disposition \<Rightarrow>
   ('c, 'o, 'd) runtime_state \<Rightarrow> ('c, 'o, 'd) runtime_state" where
  "set_recovery_disposition step disposition =
     modify_recovery step (\<lambda>rec. rec\<lparr>rec_terminal_disposition := Some disposition\<rparr>)"

definition activated_recovery_execution ::
  "('c, 'o, 'd) runtime_state \<Rightarrow> string \<Rightarrow> target_execution_number option" where
  "activated_recovery_execution st step =
     (case map_of (steps st) step of
        None \<Rightarrow> None
      | Some runtime \<Rightarrow>
          (case recovery runtime of
             None \<Rightarrow> None
           | Some rec \<Rightarrow> if rec_rounds rec \<noteq> [] then target_execution runtime else None))"

definition mark_recovery_exhausted ::
  "string \<Rightarrow> ('c, 'o, 'd) runtime_state \<Rightarrow> ('c, 'o, 'd) runtime_state" where
  "mark_recovery_exhausted step st =
     (case activated_recovery_execution st step of
        None \<Rightarrow> st
      | Some number \<Rightarrow> set_recovery_disposition step (RtExhausted number) st)"

definition mark_recovered ::
  "string \<Rightarrow> ('p, 'c, 'o, 'd) reduction \<Rightarrow> ('p, 'c, 'o, 'd) reduction" where
  "mark_recovered step r =
     (case activated_recovery_execution (state r) step of
        None \<Rightarrow> r
      | Some number \<Rightarrow> r\<lparr>state := set_recovery_disposition step (RtRecovered number) (state r)\<rparr>)"

definition mark_handler_cancelled ::
  "string \<Rightarrow> active_step_invocation \<Rightarrow> ('c, 'o, 'd) runtime_state \<Rightarrow> ('c, 'o, 'd) runtime_state" where
  "mark_handler_cancelled step active st =
     (case active of
        ActiveRecoveryHandler round \<Rightarrow> set_handler_outcome step round HoCancelled st
      | ActiveTarget _ \<Rightarrow> st)"

definition mark_recovery_cancelled ::
  "string \<Rightarrow> active_step_invocation \<Rightarrow> ('c, 'o, 'd) runtime_state \<Rightarrow> ('c, 'o, 'd) runtime_state" where
  "mark_recovery_cancelled step active st =
     (case map_of (steps st) step of
        None \<Rightarrow> st
      | Some runtime \<Rightarrow>
          (case recovery runtime of
             None \<Rightarrow> st
           | Some rec \<Rightarrow>
               if rec_rounds rec = [] then st
               else set_recovery_disposition step
                 (RtCancelled (rr_number (last (rec_rounds rec))) active) st))"

section \<open>Node states\<close>

definition step_data_available :: "'o step_state \<Rightarrow> bool" where
  "step_data_available s =
     (case s of
        Succeeded _ \<Rightarrow> True
      | Inherited _ disposition _ \<Rightarrow> disposition = InhSucceeded
      | _ \<Rightarrow> False)"

definition step_outputs :: "'o step_state \<Rightarrow> 'o output_set option" where
  "step_outputs s =
     (case s of
        Succeeded outputs \<Rightarrow> Some outputs
      | Inherited _ InhSucceeded outputs \<Rightarrow> Some outputs
      | _ \<Rightarrow> None)"

definition terminal_disposition :: "'o step_state \<Rightarrow> terminal_disposition option" where
  "terminal_disposition s =
     (case s of
        Succeeded _ \<Rightarrow> Some TdSucceeded
      | Inherited _ _ _ \<Rightarrow> Some TdInherited
      | Failed _ \<Rightarrow> Some TdFailed
      | Skipped _ \<Rightarrow> Some TdSkipped
      | Blocked _ \<Rightarrow> Some TdBlocked
      | NotRun _ \<Rightarrow> Some TdNotRun
      | Cancelled _ \<Rightarrow> Some TdCancelled
      | _ \<Rightarrow> None)"

definition state_in ::
  "('c, 'o, 'd) runtime_state \<Rightarrow> string \<Rightarrow> ('o step_state \<Rightarrow> bool) \<Rightarrow> bool" where
  "state_in st step P =
     (case map_of (steps st) step of None \<Rightarrow> False | Some runtime \<Rightarrow> P (srs_state runtime))"

abbreviation is_pending :: "'o step_state \<Rightarrow> bool" where
  "is_pending s \<equiv> s = Pending"

section \<open>Prerequisites\<close>

definition output_reference_producer :: "string \<Rightarrow> string option" where
  "output_reference_producer reference =
     (case str_split (CHR ''.'') reference of
        [prefix, source, out] \<Rightarrow> if prefix = ''outputs'' then Some source else None
      | _ \<Rightarrow> None)"

definition ordinary_control_satisfied ::
  "('c, 'o, 'd) runtime_state \<Rightarrow> resolved_direct_prerequisite \<Rightarrow> bool" where
  "ordinary_control_satisfied st prerequisite =
     state_in st (producer prerequisite) (\<lambda>s.
       (case s of Succeeded _ \<Rightarrow> True | Skipped _ \<Rightarrow> True | Inherited _ _ _ \<Rightarrow> True | _ \<Rightarrow> False) \<or>
       ((case map_of (def_steps (definition_of st)) (producer prerequisite) of
           None \<Rightarrow> False | Some def \<Rightarrow> failure_policy def = Advisory) \<and>
        (case s of Failed _ \<Rightarrow> True | Blocked _ \<Rightarrow> True | _ \<Rightarrow> False)))"

definition ordinary_prerequisite_satisfied ::
  "('c, 'o, 'd) runtime_state \<Rightarrow> resolved_direct_prerequisite \<Rightarrow> bool" where
  "ordinary_prerequisite_satisfied st prerequisite =
     state_in st (producer prerequisite) (\<lambda>s.
       (control prerequisite \<longrightarrow> ordinary_control_satisfied st prerequisite) \<and>
       (data prerequisite \<longrightarrow> step_data_available s) \<and>
       (disposition_control prerequisite \<longrightarrow> is_terminal s))"

definition control_blocker ::
  "('c, 'o, 'd) runtime_state \<Rightarrow> resolved_direct_prerequisite \<Rightarrow> prerequisite list" where
  "control_blocker st prerequisite =
     (if control prerequisite \<and> \<not> ordinary_control_satisfied st prerequisite
      then (case prerequisite_control (producer prerequisite) of
              Inr blocker \<Rightarrow> [blocker] | Inl _ \<Rightarrow> [])
      else [])"

definition condition_prerequisite_blockers ::
  "('c, 'o, 'd) runtime_state \<Rightarrow> runtime_step \<Rightarrow> resolved_direct_prerequisite \<Rightarrow>
   prerequisite list" where
  "condition_prerequisite_blockers st def prerequisite =
     (case map_of (steps st) (producer prerequisite) of
        None \<Rightarrow> []
      | Some p \<Rightarrow>
          if \<not> is_terminal (srs_state p) then []
          else (if role def = RoleStep then control_blocker st prerequisite else []) @
            (if condition_data prerequisite \<and> \<not> step_data_available (srs_state p)
             then filter (\<lambda>descriptor. case descriptor of
                      PCondition r \<Rightarrow>
                        output_reference_producer r = Some (producer prerequisite)
                    | _ \<Rightarrow> False) (evidence_prerequisites def)
             else []))"

definition condition_value_blockers ::
  "('c, 'o, 'd) runtime_state \<Rightarrow> resolved_value_source \<Rightarrow> prerequisite list" where
  "condition_value_blockers st source =
     (case source of
        SourceOutput source \<Rightarrow>
          if state_in st (node_id (ros_node source))
               (\<lambda>s. is_terminal s \<and> \<not> step_data_available s)
          then (case prerequisite_condition (output_reference source) of
                  Inr blocker \<Rightarrow> [blocker] | Inl _ \<Rightarrow> [])
          else []
      | _ \<Rightarrow> [])"

definition condition_blockers ::
  "('c, 'o, 'd) runtime_state \<Rightarrow> runtime_step \<Rightarrow> prerequisite list" where
  "condition_blockers st def =
     dedup (sort
       (concat (map (condition_prerequisite_blockers st def) (prerequisites def)) @
        concat (map (condition_value_blockers st) (bt_values (condition_values def)))))"

definition body_prerequisite_blockers ::
  "('c, 'o, 'd) runtime_state \<Rightarrow> runtime_step \<Rightarrow> resolved_direct_prerequisite \<Rightarrow>
   prerequisite list" where
  "body_prerequisite_blockers st def prerequisite =
     (case map_of (steps st) (producer prerequisite) of
        None \<Rightarrow> []
      | Some p \<Rightarrow>
          if \<not> is_terminal (srs_state p) then []
          else control_blocker st prerequisite @
            (if data prerequisite \<and> \<not> step_data_available (srs_state p)
             then filter (\<lambda>descriptor. case descriptor of
                      PBody r \<Rightarrow> output_reference_producer r = Some (producer prerequisite)
                    | _ \<Rightarrow> False) (evidence_prerequisites def)
             else []))"

definition ordinary_unsatisfied_prerequisites ::
  "('c, 'o, 'd) runtime_state \<Rightarrow> string \<Rightarrow> runtime_step \<Rightarrow> prerequisite list" where
  "ordinary_unsatisfied_prerequisites st step def =
     (let condition_pending = (condition def \<noteq> None \<and>
            (case map_of (steps st) step of
               None \<Rightarrow> False | Some runtime \<Rightarrow> \<not> condition_passed runtime))
      in if condition_pending then condition_blockers st def
         else concat (map (body_prerequisite_blockers st def) (prerequisites def)))"

definition ordinary_ready ::
  "('c, 'o, 'd) runtime_state \<Rightarrow> string \<Rightarrow> runtime_step \<Rightarrow> bool" where
  "ordinary_ready st step def =
     (state_in st step is_pending \<and>
      list_all (ordinary_prerequisite_satisfied st) (prerequisites def))"

definition finalizer_ready ::
  "('c, 'o, 'd) runtime_state \<Rightarrow> string \<Rightarrow> runtime_step \<Rightarrow> bool" where
  "finalizer_ready st step def =
     (case finalization st of
        None \<Rightarrow> False
      | Some fin \<Rightarrow>
          state_in st step is_pending \<and>
          bs_contains (when_triggers def) (fin_trigger fin) \<and>
          list_all (\<lambda>prerequisite. state_in st (producer prerequisite) is_terminal)
            (prerequisites def))"

definition unavailable_references ::
  "('c, 'o, 'd) runtime_state \<Rightarrow> runtime_step \<Rightarrow> string list" where
  "unavailable_references st def =
     List.map_filter (\<lambda>descriptor.
       case descriptor of
         PBody r \<Rightarrow>
           (case output_reference_producer r of
              None \<Rightarrow> None
            | Some p \<Rightarrow> if \<not> state_in st p step_data_available then Some r else None)
       | _ \<Rightarrow> None) (evidence_prerequisites def)"

definition resolved_action_inputs ::
  "('c, 'o, 'd) runtime_state \<Rightarrow> runtime_step \<Rightarrow> (string, 'o action_input) btree_map" where
  "resolved_action_inputs st def =
     map (\<lambda>(input, source). (input,
       case source of
         SourceInput _ \<Rightarrow> AiWorkflowInput
       | SourceFinalizationContext \<Rightarrow>
           (case finalization st of
              None \<Rightarrow> AiUnavailable
            | Some fin \<Rightarrow> AiFinalizationContext (fin_context fin))
       | SourceOutput source \<Rightarrow>
           (case map_of (steps st) (node_id (ros_node source)) of
              None \<Rightarrow> AiUnavailable
            | Some runtime \<Rightarrow>
                (case step_outputs (srs_state runtime) of
                   None \<Rightarrow> AiUnavailable
                 | Some outputs \<Rightarrow>
                     (case map_of outputs (ros_output source) of
                        None \<Rightarrow> AiUnavailable
                      | Some out \<Rightarrow> AiOutput out))))) (inputs def)"

section \<open>Conditions\<close>

definition condition_ids ::
  "('c, 'o, 'd) runtime_state \<Rightarrow> workflow_node_role \<Rightarrow> string list" where
  "condition_ids st the_role =
     (case the_role of
        RoleStep \<Rightarrow> ordinary_ids (definition_of st)
      | RoleFinalizer \<Rightarrow> finalizer_ids (definition_of st))"

definition condition_phase_gate_open ::
  "('c, 'o, 'd) runtime_state \<Rightarrow> runtime_step \<Rightarrow> bool" where
  "condition_phase_gate_open st def =
     (case (workflow st, role def) of
        (Executing GateOpen, RoleStep) \<Rightarrow> True
      | (Finalizing trigger FgOpen _, RoleFinalizer) \<Rightarrow> bs_contains (when_triggers def) trigger
      | _ \<Rightarrow> False)"

definition condition_sources_available ::
  "('c, 'o, 'd) runtime_state \<Rightarrow> runtime_step \<Rightarrow> bool" where
  "condition_sources_available st def =
     list_all (\<lambda>source.
       case source of
         SourceInput name \<Rightarrow>
           bt_contains_key (text_inputs (definition_of st)) name \<or>
           bt_contains_key (json_inputs (definition_of st)) name
       | SourceFinalizationContext \<Rightarrow> finalization st \<noteq> None
       | SourceOutput source \<Rightarrow> state_in st (node_id (ros_node source)) step_data_available)
       (bt_values (condition_values def))"

definition condition_prerequisite_ready ::
  "('c, 'o, 'd) runtime_state \<Rightarrow> workflow_node_role \<Rightarrow> resolved_direct_prerequisite \<Rightarrow> bool" where
  "condition_prerequisite_ready st the_role prerequisite =
     state_in st (producer prerequisite) (\<lambda>s.
       case the_role of
         RoleStep \<Rightarrow>
           (control prerequisite \<longrightarrow> ordinary_control_satisfied st prerequisite) \<and>
           (disposition_control prerequisite \<longrightarrow> is_terminal s) \<and>
           (condition_data prerequisite \<longrightarrow> step_data_available s)
       | RoleFinalizer \<Rightarrow>
           (control prerequisite \<or> disposition_control prerequisite \<longrightarrow> is_terminal s) \<and>
           (condition_data prerequisite \<longrightarrow> step_data_available s))"

definition condition_gate_ready :: "('c, 'o, 'd) runtime_state \<Rightarrow> string \<Rightarrow> bool" where
  "condition_gate_ready st step =
     (case map_of (def_steps (definition_of st)) step of
        None \<Rightarrow> False
      | Some def \<Rightarrow>
          (case map_of (steps st) step of
             None \<Rightarrow> False
           | Some runtime \<Rightarrow>
               if condition def = None \<or> condition_passed runtime \<or>
                 srs_state runtime \<noteq> Pending \<or> \<not> condition_phase_gate_open st def \<or>
                 condition_blockers st def \<noteq> []
               then False
               else list_all (condition_prerequisite_ready st (role def)) (prerequisites def) \<and>
                 condition_sources_available st def))"

text \<open>The loop that collects the values a condition reads.\<close>

definition collect_condition_value ::
  "('p, 'c, 'o) runtime_ports \<Rightarrow> ('c, 'o, 'd) runtime_state \<Rightarrow> json option \<Rightarrow>
   string \<times> resolved_value_source \<Rightarrow> condition_values \<Rightarrow> condition_values" where
  "collect_condition_value ports st context entry values =
     (case entry of (canonical, source) \<Rightarrow>
        (case source of
           SourceInput name \<Rightarrow>
             (case map_of (text_inputs (definition_of st)) name of
                Some text \<Rightarrow> insert_text_value canonical text values
              | None \<Rightarrow>
                  (case map_of (json_inputs (definition_of st)) name of
                     Some json \<Rightarrow> insert_json_value canonical json values
                   | None \<Rightarrow> values))
         | SourceFinalizationContext \<Rightarrow>
             (case context of
                Some json \<Rightarrow> insert_json_value canonical json values
              | None \<Rightarrow> values)
         | SourceOutput source \<Rightarrow>
             (case (case map_of (steps st) (node_id (ros_node source)) of
                      None \<Rightarrow> None
                    | Some runtime \<Rightarrow>
                        (case step_outputs (srs_state runtime) of
                           None \<Rightarrow> None
                         | Some outputs \<Rightarrow> map_of outputs (ros_output source))) of
                None \<Rightarrow> values
              | Some out \<Rightarrow>
                  (case condition_text ports out of
                     Some text \<Rightarrow> insert_text_value canonical text values
                   | None \<Rightarrow>
                       (case condition_json ports out of
                          Some json \<Rightarrow> insert_json_value canonical json values
                        | None \<Rightarrow> values)))))"

definition collect_dispositions :: "('c, 'o, 'd) runtime_state \<Rightarrow> condition_dispositions" where
  "collect_dispositions st =
     rev (List.map_filter (\<lambda>(step, runtime).
       case terminal_disposition (srs_state runtime) of
         None \<Rightarrow> None
       | Some disposition \<Rightarrow>
           Some (WorkflowNode step
             (case map_of (def_steps (definition_of st)) step of
                None \<Rightarrow> RoleStep | Some def \<Rightarrow> role def), disposition)) (steps st))"

definition evaluate_condition ::
  "('p, 'c, 'o) runtime_ports \<Rightarrow> ('c, 'o, 'd) runtime_state \<Rightarrow> runtime_step \<Rightarrow>
   resolved_predicate \<Rightarrow> condition_evaluation" where
  "evaluate_condition ports st def predicate =
     (let context = (case finalization st of
            None \<Rightarrow> None | Some fin \<Rightarrow> json_from_slice ports (fin_context fin));
          values = fold (collect_condition_value ports st context) (condition_values def) []
      in evaluate predicate values (collect_dispositions st))"

end
