(* ===== verification/Runtime_Reduce.thy ===== *)
theory Runtime_Reduce
  imports Runtime_Ops
begin

text \<open>
  The reducer of \<^verbatim>\<open>runtime.rs\<close>: failure settlement, recovery, cancellation and force abort, the
  disposition and condition loops, node selection, finalization entry and the end of a run, the
  stabilizing loop, and the two entry points \<open>initialize_seeded_definition\<close> and \<open>reduce\<close>.

  The loops over pending dispositions and over ready conditions are total functions.  The loop over
  finalizers with unavailable inputs repeats without a change when no blocked detail can be built,
  so it and everything that calls it return an option, \<open>None\<close> for a call that does not return.
\<close>

section \<open>Issues and failure settlement\<close>

definition push_workflow_event ::
  "transition_sequence \<Rightarrow> 'd workflow_state \<Rightarrow> 'd workflow_state \<Rightarrow>
   ('p, 'c, 'o, 'd) reduction \<Rightarrow> ('p, 'c, 'o, 'd) reduction" where
  "push_workflow_event sequence from to r = r\<lparr>events := events r @ [EvWorkflow sequence from to]\<rparr>"

definition close_ordinary_gate_for_failure ::
  "primary_issue \<Rightarrow> ('p, 'c, 'o, 'd) reduction \<Rightarrow> ('p, 'c, 'o, 'd) reduction" where
  "close_ordinary_gate_for_failure issue r =
     (case workflow (state r) of
        Executing GateOpen \<Rightarrow>
          (let from = workflow (state r);
               to = Executing (GateFailureStopped issue);
               (sequence, st) = next_sequence (state r)
           in push_workflow_event sequence from to (r\<lparr>state := st\<lparr>workflow := to\<rparr>\<rparr>))
      | _ \<Rightarrow> r)"

definition select_finalizer_primary_issue ::
  "primary_issue \<Rightarrow> ('p, 'c, 'o, 'd) reduction \<Rightarrow> ('p, 'c, 'o, 'd) reduction" where
  "select_finalizer_primary_issue issue r =
     (case workflow (state r) of
        Finalizing trigger FgOpen None \<Rightarrow>
          if trigger \<noteq> FtSucceeded then r
          else (let from = workflow (state r);
                    to = Finalizing trigger FgOpen (Some issue);
                    (sequence, st) = next_sequence (state r)
                in push_workflow_event sequence from to (r\<lparr>state := st\<lparr>workflow := to\<rparr>\<rparr>))
      | _ \<Rightarrow> r)"

definition commit_required_issue ::
  "runtime_step \<Rightarrow> primary_issue \<Rightarrow> ('p, 'c, 'o, 'd) reduction \<Rightarrow> ('p, 'c, 'o, 'd) reduction" where
  "commit_required_issue def issue r =
     (if failure_policy def = Required
      then (case role def of
              RoleStep \<Rightarrow> close_ordinary_gate_for_failure issue r
            | RoleFinalizer \<Rightarrow> select_finalizer_primary_issue issue r)
      else r)"

definition settle_target_failure ::
  "string \<Rightarrow> runtime_step \<Rightarrow> failure_detail \<Rightarrow>
   ('p, 'c, 'o, 'd) reduction \<Rightarrow> ('p, 'c, 'o, 'd) reduction" where
  "settle_target_failure step def detail r =
     (let issue = primary_issue_failed (WorkflowNode step (role def)) detail;
          r = snd (transition_step step (Failed detail) None r);
          r = r\<lparr>state := clear_active_invocation step (state r)\<rparr>
      in commit_required_issue def issue r)"

definition settle_latest_target_failure ::
  "string \<Rightarrow> ('p, 'c, 'o, 'd) reduction \<Rightarrow> ('p, 'c, 'o, 'd) reduction" where
  "settle_latest_target_failure step r =
     (case latest_target_failure (state r) step of
        None \<Rightarrow> r
      | Some failure \<Rightarrow>
          (case map_of (def_steps (definition_of (state r))) step of
             None \<Rightarrow> r
           | Some def \<Rightarrow> settle_target_failure step def (ptf_detail failure) r))"

definition settle_blocked ::
  "string \<Rightarrow> blocked_detail \<Rightarrow> ('p, 'c, 'o, 'd) reduction \<Rightarrow> ('p, 'c, 'o, 'd) reduction" where
  "settle_blocked step detail r =
     (case map_of (def_steps (definition_of (state r))) step of
        None \<Rightarrow> r
      | Some def \<Rightarrow>
          (let issue = primary_issue_blocked (WorkflowNode step (role def)) detail;
               r = snd (transition_step step (Blocked detail) None r)
           in commit_required_issue def issue r))"

definition settle_condition_failure ::
  "string \<Rightarrow> runtime_step \<Rightarrow> failure_detail \<Rightarrow>
   ('p, 'c, 'o, 'd) reduction \<Rightarrow> ('p, 'c, 'o, 'd) reduction" where
  "settle_condition_failure step def detail r = settle_target_failure step def detail r"

section \<open>Starting targets and recovery\<close>

definition authorize_target ::
  "string \<Rightarrow> target_execution_number \<Rightarrow> (string, 'o action_input) btree_map \<Rightarrow>
   ('p, 'c, 'o, 'd) reduction \<Rightarrow> ('p, 'c, 'o, 'd) reduction" where
  "authorize_target step number ins r =
     (let r = r\<lparr>state := modify_step step (\<lambda>n. n\<lparr>target_execution := Some number\<rparr>) (state r)\<rparr>;
          (sequence, r) = transition_step step Starting None r;
          action_id = for_transition sequence;
          r = r\<lparr>state := modify_step step
                (\<lambda>n. n\<lparr>target_invocation := Some action_id,
                  active_invocation := Some (ActiveTarget number)\<rparr>) (state r)\<rparr>;
          r = r\<lparr>state := set_current_action step action_id (state r)\<rparr>
      in push_action action_id (StartStep step number ins) r)"

definition next_round_number :: "'a list \<Rightarrow> u8 option" where
  "next_round_number rounds =
     (if length rounds < 256 then checked_add (of_nat (length rounds)) 1 else None)"

definition start_recovery_handler ::
  "string \<Rightarrow> recovery_round_number \<Rightarrow> recovery_handler_kind \<Rightarrow>
   ('p, 'c, 'o, 'd) reduction \<Rightarrow> bool \<times> ('p, 'c, 'o, 'd) reduction" where
  "start_recovery_handler step round hk r =
     (let r = r\<lparr>state := modify_step step
                (\<lambda>n. n\<lparr>active_invocation := Some (ActiveRecoveryHandler round)\<rparr>) (state r)\<rparr>;
          (sequence, r) = transition_step step (Recovering round HandlerStarting) None r;
          action = for_transition sequence
      in if latest_target_failure (state r) step = None then (False, r)
         else
           (let r = r\<lparr>state := modify_recovery step
                  (\<lambda>rec. rec\<lparr>rec_rounds := map_last (\<lambda>record. record\<lparr>rr_handler :=
                     Some \<lparr>rh_kind = hk, rh_invocation = action, rh_outcome = HoStarting\<rparr>\<rparr>)
                     (rec_rounds rec)\<rparr>) (state r)\<rparr>;
                r = r\<lparr>state := set_current_action step action (state r)\<rparr>;
                history =
                  (case map_of (steps (state r)) step of
                     None \<Rightarrow> []
                   | Some runtime \<Rightarrow>
                       (case recovery runtime of None \<Rightarrow> [] | Some rec \<Rightarrow> rec_rounds rec))
            in (True, push_action action (StartRecoveryHandler step round hk history) r)))"

definition activate_recovery_round ::
  "string \<Rightarrow> failure_phase \<Rightarrow> failure_detail \<Rightarrow> 'c \<Rightarrow>
   ('p, 'c, 'o, 'd) reduction \<Rightarrow> bool \<times> ('p, 'c, 'o, 'd) reduction" where
  "activate_recovery_round step phase detail cause r =
     (case map_of (steps (state r)) step of
        None \<Rightarrow> (False, r)
      | Some runtime \<Rightarrow>
        (case (target_execution runtime, target_invocation runtime, recovery runtime) of
           (Some execution, Some invocation, Some rec) \<Rightarrow>
             if length (rec_rounds rec) \<ge> unat (rec_configured_rounds rec) then (False, r)
             else
               (case next_round_number (rec_rounds rec) of
                  None \<Rightarrow> (False, r)
                | Some round_value \<Rightarrow>
                    if round_value \<noteq> execution_get execution then (False, r)
                    else
                      (let round = RecoveryRoundNumber round_value;
                           failed = \<lparr>ptf_execution_number = execution,
                             ptf_invocation = invocation, ptf_phase = phase,
                             ptf_detail = detail, ptf_cause = cause\<rparr>;
                           r = r\<lparr>state := modify_recovery step
                             (\<lambda>rec. rec\<lparr>rec_rounds := rec_rounds rec @
                                [\<lparr>rr_number = round, rr_failed_execution = failed,
                                  rr_handler = None\<rparr>]\<rparr>) (state r)\<rparr>
                       in case rec_handler_kind rec of
                            Some hk \<Rightarrow> start_recovery_handler step round hk r
                          | None \<Rightarrow>
                              (case execution_next execution of
                                 None \<Rightarrow> (False, r)
                               | Some next_execution \<Rightarrow>
                                   (case map_of (def_steps (definition_of (state r))) step of
                                      None \<Rightarrow> (False, r)
                                    | Some def \<Rightarrow>
                                        (True, authorize_target step next_execution
                                           (resolved_action_inputs (state r) def) r)))))
         | _ \<Rightarrow> (False, r)))"

definition apply_step_failure ::
  "('p, 'c, 'o) runtime_ports \<Rightarrow> string \<Rightarrow> action_id \<Rightarrow> step_state_kind \<Rightarrow> failure_phase \<Rightarrow> 'c \<Rightarrow>
   ('p, 'c, 'o, 'd) reduction \<Rightarrow> bool \<times> ('p, 'c, 'o, 'd) reduction" where
  "apply_step_failure ports step action expected phase cause r =
     (if \<not> step_accepts (state r) step expected action then (False, r)
      else case map_of (def_steps (definition_of (state r))) step of
        None \<Rightarrow> (False, r)
      | Some def \<Rightarrow>
          (case node_failure_detail ports cause phase of
             Inl _ \<Rightarrow> (False, r)
           | Inr detail \<Rightarrow>
               (let (activated, r) =
                  (if role def = RoleStep
                   then activate_recovery_round step phase detail cause r else (False, r))
                in if activated then (True, r)
                   else
                     (let r = (if step_recovery_policy def \<noteq> None
                          then r\<lparr>state := mark_recovery_exhausted step (state r)\<rparr> else r)
                      in (True, settle_target_failure step def detail r)))))"

definition apply_handler_decision ::
  "string \<Rightarrow> recovery_round_number \<Rightarrow> action_id \<Rightarrow> recovery_decision \<Rightarrow>
   ('p, 'c, 'o, 'd) reduction \<Rightarrow> bool \<times> ('p, 'c, 'o, 'd) reduction" where
  "apply_handler_decision step round action decision r =
     (if \<not> handler_accepts (state r) step round HandlerRunning action then (False, r)
      else
        (let outcome =
               (case decision_kind decision of
                  Recheck \<Rightarrow> HoRecheck (decision_summary decision) (decision_reason decision)
                | GaveUp \<Rightarrow> HoGaveUp (decision_summary decision) (decision_reason decision));
             r = r\<lparr>state := set_handler_outcome step round outcome (state r)\<rparr>
         in case decision_kind decision of
              Recheck \<Rightarrow>
                (case (case latest_target_failure (state r) step of
                         None \<Rightarrow> None
                       | Some failure \<Rightarrow> execution_next (ptf_execution_number failure)) of
                   None \<Rightarrow> (False, r)
                 | Some number \<Rightarrow>
                     (case map_of (def_steps (definition_of (state r))) step of
                        None \<Rightarrow> (False, r)
                      | Some def \<Rightarrow>
                          (True, authorize_target step number
                             (resolved_action_inputs (state r) def) r)))
            | GaveUp \<Rightarrow>
                (let r = r\<lparr>state := set_recovery_disposition step (RtGaveUp round) (state r)\<rparr>
                 in (True, settle_latest_target_failure step r))))"

definition apply_handler_failure ::
  "string \<Rightarrow> recovery_round_number \<Rightarrow> action_id \<Rightarrow> recovery_handler_activity \<Rightarrow>
   recovery_handler_failure_phase \<Rightarrow> 'c \<Rightarrow>
   ('p, 'c, 'o, 'd) reduction \<Rightarrow> bool \<times> ('p, 'c, 'o, 'd) reduction" where
  "apply_handler_failure step round action expected phase cause r =
     (if \<not> handler_accepts (state r) step round expected action then (False, r)
      else
        (let r = r\<lparr>state := set_handler_outcome step round (HoFailed phase cause) (state r)\<rparr>;
             r = r\<lparr>state := set_recovery_disposition step (RtHandlerFailed round phase) (state r)\<rparr>
         in (True, settle_latest_target_failure step r)))"

section \<open>Cancellation and force abort\<close>

definition stale_operation :: "('c, 'o, 'd) runtime_state \<Rightarrow> cancellation_operation_id \<Rightarrow> bool" where
  "stale_operation st operation =
     (case last_cancellation_operation st of None \<Rightarrow> False | Some latest \<Rightarrow> operation \<le> latest)"

definition cancelling_step ::
  "('c, 'o, 'd) runtime_state \<Rightarrow> string \<Rightarrow> action_id \<Rightarrow>
   (cancellation_reason \<times> active_step_invocation) option" where
  "cancelling_step st step action =
     (case map_of (steps st) step of
        None \<Rightarrow> None
      | Some runtime \<Rightarrow>
          (case srs_state runtime of
             Cancelling detail \<Rightarrow>
               if current_action runtime = Some action
               then map_option (\<lambda>active. (cd_code detail, active)) (active_invocation runtime)
               else None
           | _ \<Rightarrow> None))"

definition nodes_with_role ::
  "('c, 'o, 'd) runtime_state \<Rightarrow> workflow_node_role \<Rightarrow> string list" where
  "nodes_with_role st the_role =
     map fst (filter (\<lambda>(_, def). role def = the_role) (def_steps (definition_of st)))"

definition cancel_pending_nodes ::
  "workflow_node_role \<Rightarrow> cancellation_reason \<Rightarrow>
   ('p, 'c, 'o, 'd) reduction \<Rightarrow> ('p, 'c, 'o, 'd) reduction" where
  "cancel_pending_nodes the_role reason r =
     fold (\<lambda>step r. snd (transition_step step (Cancelled (CancellationDetail reason)) None r))
       (filter (\<lambda>step. state_in (state r) step is_pending) (nodes_with_role (state r) the_role)) r"

text \<open>
  One iteration of the loop of \<^verbatim>\<open>cancel_nodes\<close> over the nodes and the state kinds they had when the
  loop began; \<open>force\<close> holds the operation and deadline of a force abort, \<open>graceful\<close> the deadline of
  a graceful cancellation.
\<close>

definition cancel_node ::
  "cancellation_reason \<Rightarrow> (cancellation_operation_id \<times> 'd) option \<Rightarrow> 'd option \<Rightarrow>
   string \<times> step_state_kind \<Rightarrow> nat \<times> ('p, 'c, 'o, 'd) reduction \<Rightarrow>
   nat \<times> ('p, 'c, 'o, 'd) reduction" where
  "cancel_node reason force graceful node acc =
     (case (node, acc) of ((step, from), (index, r)) \<Rightarrow>
        let active = (case map_of (steps (state r)) step of
              None \<Rightarrow> None | Some runtime \<Rightarrow> active_invocation runtime)
        in case from of
          KPending \<Rightarrow>
            (index, snd (transition_step step (Cancelled (CancellationDetail reason)) None r))
        | KCancelling \<Rightarrow>
            (case force of
               None \<Rightarrow> (index, r)
             | Some (operation, deadline) \<Rightarrow>
                 (let action = for_force_abort operation index;
                      r = r\<lparr>state := set_current_action step action (state r)\<rparr>
                  in case active of
                       None \<Rightarrow> (Suc index, r)
                     | Some active \<Rightarrow>
                         (Suc index,
                          push_action action (ForceAbortStep step active reason deadline) r)))
        | _ \<Rightarrow>
            if from \<notin> {KStarting, KRunning, KCapturingOutputs, KRecovering} then (index, r)
            else
              (case active of
                 None \<Rightarrow> (index, r)
               | Some active \<Rightarrow>
                   (let r = r\<lparr>state := mark_handler_cancelled step active (state r)\<rparr>;
                        (sequence, r) =
                          transition_step step (Cancelling (CancellationDetail reason)) None r;
                        action = (case force of
                           None \<Rightarrow> for_transition sequence
                         | Some (operation, _) \<Rightarrow> for_force_abort operation index);
                        r = r\<lparr>state := set_current_action step action (state r)\<rparr>
                    in case force of
                         Some (_, deadline) \<Rightarrow>
                           (Suc index,
                            push_action action (ForceAbortStep step active reason deadline) r)
                       | None \<Rightarrow>
                           (case graceful of
                              None \<Rightarrow> (Suc index, r)
                            | Some deadline \<Rightarrow>
                                (Suc index,
                                 push_action action (CancelStep step active reason deadline) r)))))"

definition cancel_nodes ::
  "workflow_node_role \<Rightarrow> cancellation_reason \<Rightarrow> 'd option \<Rightarrow> bool \<Rightarrow>
   cancellation_operation_id option \<Rightarrow>
   ('p, 'c, 'o, 'd) reduction \<Rightarrow> ('p, 'c, 'o, 'd) reduction" where
  "cancel_nodes the_role reason deadline is_force operation r =
     (let nodes = List.map_filter (\<lambda>step.
            map_option (\<lambda>runtime. (step, kind (srs_state runtime))) (map_of (steps (state r)) step))
            (nodes_with_role (state r) the_role)
      in if is_force
         then (case (operation, deadline) of
                 (Some operation, Some deadline) \<Rightarrow>
                   snd (fold (cancel_node reason (Some (operation, deadline)) None) nodes (1, r))
               | _ \<Rightarrow> r)
         else snd (fold (cancel_node reason None deadline) nodes (1, r)))"

definition set_cancellation_operation ::
  "cancellation_operation_id option \<Rightarrow> ('c, 'o, 'd) runtime_state \<Rightarrow> ('c, 'o, 'd) runtime_state" where
  "set_cancellation_operation operation st =
     (case operation of
        None \<Rightarrow> st | Some op \<Rightarrow> st\<lparr>last_cancellation_operation := Some op\<rparr>)"

record 'd cancellation_request =
  cr_reason :: cancellation_reason
  cr_deadline :: 'd

definition apply_ordinary_cancellation ::
  "'d cancellation_request \<Rightarrow> cancellation_operation_id option \<Rightarrow>
   ('p, 'c, 'o, 'd) reduction \<Rightarrow> bool \<times> ('p, 'c, 'o, 'd) reduction" where
  "apply_ordinary_cancellation request operation r =
     (let cancel = (\<lambda>prior_issue.
        let st = set_cancellation_operation operation (state r);
            st = st\<lparr>workflow := Executing (GateCancelling (cr_reason request) prior_issue)\<rparr>;
            (sequence, st) = next_sequence st;
            r = r\<lparr>state := st,
              events := events r @
                [EvCancellationAccepted sequence (cr_reason request) (cr_deadline request)]\<rparr>
        in (True, cancel_nodes RoleStep (cr_reason request) (Some (cr_deadline request)) False
              operation r))
      in case workflow (state r) of
           Executing GateOpen \<Rightarrow> cancel None
         | Executing (GateFailureStopped issue) \<Rightarrow> cancel (Some issue)
         | _ \<Rightarrow> (False, r))"

definition apply_finalization_cancellation ::
  "'d cancellation_request \<Rightarrow> cancellation_operation_id option \<Rightarrow>
   ('p, 'c, 'o, 'd) reduction \<Rightarrow> bool \<times> ('p, 'c, 'o, 'd) reduction" where
  "apply_finalization_cancellation request operation r =
     (let st = set_cancellation_operation operation (state r)
      in case workflow st of
           Finalizing trigger _ issue \<Rightarrow>
             (let st = st\<lparr>workflow := Finalizing trigger
                    (FgCancelling (cr_reason request) (Some (cr_deadline request)) False) issue,
                    finalization := map_option (\<lambda>fin. fin\<lparr>fin_cancellation :=
                      Some \<lparr>fc_reason = cr_reason request,
                        fc_deadline = Some (cr_deadline request)\<rparr>\<rparr>) (finalization st)\<rparr>;
                  (sequence, st) = next_sequence st;
                  r = r\<lparr>state := st,
                    events := events r @ [EvFinalizationCancellationAccepted sequence
                      (cr_reason request) (cr_deadline request)]\<rparr>
              in (True, cancel_nodes RoleFinalizer (cr_reason request)
                    (Some (cr_deadline request)) False operation r))
         | _ \<Rightarrow> (False, r\<lparr>state := st\<rparr>))"

definition apply_cancellation ::
  "'d cancellation_request \<Rightarrow> cancellation_operation_id option \<Rightarrow>
   ('p, 'c, 'o, 'd) reduction \<Rightarrow> bool \<times> ('p, 'c, 'o, 'd) reduction" where
  "apply_cancellation request operation r =
     (case workflow (state r) of
        Executing _ \<Rightarrow> apply_ordinary_cancellation request operation r
      | Finalizing _ FgOpen _ \<Rightarrow> apply_finalization_cancellation request operation r
      | _ \<Rightarrow> (False, r))"

definition apply_ordinary_only_cancellation ::
  "'d cancellation_request \<Rightarrow> cancellation_operation_id \<Rightarrow>
   ('p, 'c, 'o, 'd) reduction \<Rightarrow> bool \<times> ('p, 'c, 'o, 'd) reduction" where
  "apply_ordinary_only_cancellation request operation r =
     (if cr_reason request = ForceAbort \<or> stale_operation (state r) operation then (False, r)
      else case workflow (state r) of
        Executing _ \<Rightarrow> apply_ordinary_cancellation request (Some operation) r
      | Finalizing _ _ _ \<Rightarrow>
          (True, r\<lparr>state := (state r)\<lparr>last_cancellation_operation := Some operation\<rparr>\<rparr>)
      | _ \<Rightarrow> (False, r\<lparr>state := (state r)\<lparr>last_cancellation_operation := Some operation\<rparr>\<rparr>))"

text \<open>The gate a force abort leaves, in either phase.\<close>

definition force_abort_gate :: "scheduling_gate \<Rightarrow> scheduling_gate" where
  "force_abort_gate gate =
     (case gate of
        GateFailureStopped issue \<Rightarrow> GateCancelling ForceAbort (Some issue)
      | GateCancelling reason prior_issue \<Rightarrow> GateCancelling reason prior_issue
      | GateOpen \<Rightarrow> GateCancelling ForceAbort None)"

definition force_abort_finalization_gate :: "'d finalization_gate \<Rightarrow> 'd finalization_gate" where
  "force_abort_finalization_gate gate =
     (case gate of
        FgOpen \<Rightarrow> FgCancelling ForceAbort None True
      | FgCancelling reason deadline _ \<Rightarrow> FgCancelling reason deadline True)"

definition force_abort_finalization :: "'d finalization_runtime \<Rightarrow> 'd finalization_runtime" where
  "force_abort_finalization fin =
     fin\<lparr>fin_force_abort := True,
        fin_cancellation :=
          (case fin_cancellation fin of
             None \<Rightarrow> Some \<lparr>fc_reason = ForceAbort, fc_deadline = None\<rparr>
           | Some cancellation \<Rightarrow> Some cancellation)\<rparr>"

definition accept_force_abort ::
  "cancellation_operation_id \<Rightarrow> 'd \<Rightarrow> run_cancellation_phase \<Rightarrow> workflow_node_role \<Rightarrow>
   ('c, 'o, 'd) runtime_state \<Rightarrow> ('p, 'c, 'o, 'd) reduction \<Rightarrow> ('p, 'c, 'o, 'd) reduction" where
  "accept_force_abort operation deadline phase the_role st r =
     (let (sequence, st) = next_sequence st;
          r = r\<lparr>state := st, events := events r @ [EvForceAbortAccepted sequence ForceAbort phase]\<rparr>
      in cancel_nodes the_role ForceAbort (Some deadline) True (Some operation) r)"

definition apply_force_abort ::
  "cancellation_operation_id \<Rightarrow> 'd \<Rightarrow>
   ('p, 'c, 'o, 'd) reduction \<Rightarrow> bool \<times> ('p, 'c, 'o, 'd) reduction" where
  "apply_force_abort operation deadline r =
     (if force_abort (state r) \<noteq> None then (False, r)
      else case workflow (state r) of
        Executing gate \<Rightarrow>
          (True, accept_force_abort operation deadline CancelOrdinary RoleStep
             ((state r)\<lparr>force_abort := Some \<lparr>fae_reason = ForceAbort, fae_phase = CancelOrdinary\<rparr>,
                last_cancellation_operation := Some operation,
                workflow := Executing (force_abort_gate gate)\<rparr>) r)
      | Finalizing trigger gate issue \<Rightarrow>
          (True, accept_force_abort operation deadline CancelFinalization RoleFinalizer
             ((state r)\<lparr>force_abort :=
                  Some \<lparr>fae_reason = ForceAbort, fae_phase = CancelFinalization\<rparr>,
                last_cancellation_operation := Some operation,
                workflow := Finalizing trigger (force_abort_finalization_gate gate) issue,
                finalization := map_option force_abort_finalization (finalization (state r))\<rparr>) r)
      | _ \<Rightarrow> (False, r))"

section \<open>Pending dispositions\<close>

datatype pending_disposition = PdBlocked blocked_detail | PdNotRun

text \<open>The closure of the search: the disposition one pending step is due, if any.\<close>

definition ordinary_pending_disposition ::
  "('c, 'o, 'd) runtime_state \<Rightarrow> string \<Rightarrow> (string \<times> pending_disposition) option" where
  "ordinary_pending_disposition st step =
     (case map_of (def_steps (definition_of st)) step of
        None \<Rightarrow> None
      | Some def \<Rightarrow>
          if \<not> state_in st step is_pending then None
          else
            (let failure_stopped =
                   (case workflow st of Executing (GateFailureStopped _) \<Rightarrow> True | _ \<Rightarrow> False);
                 blockers = ordinary_unsatisfied_prerequisites st step def
             in if blockers \<noteq> []
                then (case blocked_detail_new blockers of
                        Inl _ \<Rightarrow> None | Inr detail \<Rightarrow> Some (step, PdBlocked detail))
                else if failure_stopped \<and>
                  list_all (ordinary_prerequisite_satisfied st) (prerequisites def)
                then Some (step, PdNotRun) else None))"

definition next_ordinary_pending_disposition ::
  "('c, 'o, 'd) runtime_state \<Rightarrow> (string \<times> pending_disposition) option" where
  "next_ordinary_pending_disposition st =
     find_map (ordinary_pending_disposition st) (ordinary_ids (definition_of st))"

definition settle_pending_disposition ::
  "string \<times> pending_disposition \<Rightarrow> ('p, 'c, 'o, 'd) reduction \<Rightarrow> ('p, 'c, 'o, 'd) reduction" where
  "settle_pending_disposition found r =
     (case found of
        (step, PdBlocked detail) \<Rightarrow> settle_blocked step detail r
      | (step, PdNotRun) \<Rightarrow> snd (transition_step step (NotRun failure_stop) None r))"

text \<open>The number of pending nodes bounds the loops below.\<close>

definition pending_count :: "('c, 'o, 'd) runtime_state \<Rightarrow> nat" where
  "pending_count st = length (filter (\<lambda>(_, n). srs_state n = Pending) (steps st))"

lemma length_filter_bt_modify:
  assumes "map_of m k = Some v" and "P v" and "\<not> P (f v)"
  shows "length (filter (\<lambda>(_, n). P n) (bt_modify k f m)) < length (filter (\<lambda>(_, n). P n) m)"
  using assms by (induction m) (auto split: if_splits)

lemma steps_next_sequence [simp, reducer_frame]: "steps (snd (next_sequence st)) = steps st"
  by (simp add: next_sequence_def Let_def)

lemma definition_next_sequence [simp, reducer_frame]:
  "definition_of (snd (next_sequence st)) = definition_of st"
  by (simp add: next_sequence_def Let_def)

lemma steps_modify_step [simp, reducer_frame]:
  "steps (modify_step step f st) = bt_modify step f (steps st)"
  by (simp add: modify_step_def)

lemma definition_modify_step [simp, reducer_frame]:
  "definition_of (modify_step step f st) = definition_of st"
  by (simp add: modify_step_def)

lemma steps_transition_step [simp, reducer_frame]:
  "steps (state (snd (transition_step step to a r))) =
     bt_modify step (\<lambda>n. n\<lparr>srs_state := to, current_action := a\<rparr>) (steps (state r))"
  by (auto simp: transition_step_def Let_def split_beta bt_modify_absent split: option.splits)

lemma definition_transition_step [simp, reducer_frame]:
  "definition_of (state (snd (transition_step step to a r))) = definition_of (state r)"
  by (auto simp: transition_step_def Let_def split_beta split: option.splits)

lemma steps_close_gate [simp, reducer_frame]:
  "steps (state (close_ordinary_gate_for_failure issue r)) = steps (state r)"
  by (auto simp: close_ordinary_gate_for_failure_def push_workflow_event_def Let_def split_beta
      split: workflow_state.splits scheduling_gate.splits)

lemma steps_select_issue [simp, reducer_frame]:
  "steps (state (select_finalizer_primary_issue issue r)) = steps (state r)"
  by (auto simp: select_finalizer_primary_issue_def push_workflow_event_def Let_def split_beta
      split: workflow_state.splits finalization_gate.splits option.splits)

lemma steps_commit_required_issue [simp, reducer_frame]:
  "steps (state (commit_required_issue def issue r)) = steps (state r)"
  by (auto simp: commit_required_issue_def split: workflow_node_role.splits)

lemma state_inE:
  assumes "state_in st step P"
  obtains runtime where "map_of (steps st) step = Some runtime" and "P (srs_state runtime)"
  using assms by (auto simp: state_in_def split: option.splits)

lemma next_ordinary_pending_dispositionD:
  assumes "next_ordinary_pending_disposition st = Some (step, d)"
  obtains def runtime where "step \<in> set (ordinary_ids (definition_of st))"
    and "map_of (def_steps (definition_of st)) step = Some def"
    and "map_of (steps st) step = Some runtime" and "srs_state runtime = Pending"
    and "ordinary_pending_disposition st step = Some (step, d)"
proof -
  from find_map_SomeD [OF assms [unfolded next_ordinary_pending_disposition_def]]
  obtain s where s: "s \<in> set (ordinary_ids (definition_of st))"
    and found: "ordinary_pending_disposition st s = Some (step, d)"
    by blast
  from found obtain def where def: "map_of (def_steps (definition_of st)) s = Some def"
    and pending: "state_in st s is_pending" and "s = step"
    by (auto simp: ordinary_pending_disposition_def Let_def split: option.splits if_splits sum.splits)
  with s found that show ?thesis
    by (auto elim!: state_inE)
qed

lemma settle_pending_disposition_decreases:
  assumes "next_ordinary_pending_disposition (state r) = Some found"
  shows "pending_count (state (settle_pending_disposition found r)) < pending_count (state r)"
proof -
  obtain step d where found: "found = (step, d)"
    by (cases found)
  obtain def runtime where "map_of (def_steps (definition_of (state r))) step = Some def"
    and "map_of (steps (state r)) step = Some runtime" and "srs_state runtime = Pending"
    using assms found by (auto elim: next_ordinary_pending_dispositionD)
  then show ?thesis
    unfolding found settle_pending_disposition_def pending_count_def
    by (cases d) (auto simp: settle_blocked_def Let_def intro!: length_filter_bt_modify)
qed

function propagate_ordinary_pending_dispositions ::
  "('p, 'c, 'o, 'd) reduction \<Rightarrow> ('p, 'c, 'o, 'd) reduction" where
  "propagate_ordinary_pending_dispositions r =
     (case next_ordinary_pending_disposition (state r) of
        None \<Rightarrow> r
      | Some found \<Rightarrow>
          propagate_ordinary_pending_dispositions (settle_pending_disposition found r))"
  by pat_completeness auto
termination
  by (relation "measure (\<lambda>r. pending_count (state r))")
    (auto simp: settle_pending_disposition_decreases)

declare propagate_ordinary_pending_dispositions.simps [simp del]

section \<open>Ready conditions\<close>

text \<open>One iteration of \<^verbatim>\<open>evaluate_ready_conditions\<close>; \<open>None\<close> is \<^verbatim>\<open>break\<close>.\<close>

definition evaluate_next_condition ::
  "('p, 'c, 'o) runtime_ports \<Rightarrow> workflow_node_role \<Rightarrow>
   ('p, 'c, 'o, 'd) reduction \<Rightarrow> ('p, 'c, 'o, 'd) reduction option" where
  "evaluate_next_condition ports the_role r =
     (case find (condition_gate_ready (state r)) (condition_ids (state r) the_role) of
        None \<Rightarrow> None
      | Some step \<Rightarrow>
        (case map_of (def_steps (definition_of (state r))) step of
           None \<Rightarrow> None
         | Some def \<Rightarrow>
           (case condition def of
              None \<Rightarrow> None
            | Some predicate \<Rightarrow>
              (case evaluate_condition ports (state r) def predicate of
                 Passed \<Rightarrow>
                   Some (r\<lparr>state :=
                     modify_step step (\<lambda>n. n\<lparr>condition_passed := True\<rparr>) (state r)\<rparr>)
               | EvaluatedFalse evaluated \<Rightarrow>
                   (case condition_false_detail_new
                       (map (\<lambda>entry. EvaluatedPredicateEvidence (ep_path entry) (ep_result entry))
                         evaluated) of
                      Inl _ \<Rightarrow> None
                    | Inr detail \<Rightarrow> Some (snd (transition_step step (Skipped detail) None r)))
               | EvaluationFailed canonical_ref pointer \<Rightarrow>
                   (case json_pointer_missing canonical_ref pointer of
                      Inl _ \<Rightarrow> None
                    | Inr detail \<Rightarrow> Some (settle_condition_failure step def detail r))
               | EvaluationUnavailable _ \<Rightarrow> None))))"

definition unevaluated_count :: "('c, 'o, 'd) runtime_state \<Rightarrow> nat" where
  "unevaluated_count st =
     length (filter (\<lambda>(_, n). srs_state n = Pending \<and> \<not> condition_passed n) (steps st))"

lemma condition_gate_readyD:
  assumes "condition_gate_ready st step"
  obtains def runtime where "map_of (def_steps (definition_of st)) step = Some def"
    and "map_of (steps st) step = Some runtime" and "srs_state runtime = Pending"
    and "\<not> condition_passed runtime" and "condition def \<noteq> None"
  using assms by (auto simp: condition_gate_ready_def split: option.splits if_splits)

lemma steps_settle_target_failure [simp, reducer_frame]:
  "steps (state (settle_target_failure step def detail r)) =
     bt_modify step (\<lambda>n. n\<lparr>srs_state := Failed detail, current_action := None,
       active_invocation := None\<rparr>) (steps (state r))"
  by (simp add: settle_target_failure_def Let_def clear_active_invocation_def bt_modify_modify
      comp_def)

lemma evaluate_next_condition_decreases:
  assumes "evaluate_next_condition ports the_role r = Some r'"
  shows "unevaluated_count (state r') < unevaluated_count (state r)"
proof -
  obtain step where "find (condition_gate_ready (state r)) (condition_ids (state r) the_role) = Some step"
    using assms by (auto simp: evaluate_next_condition_def split: option.splits)
  moreover from this have "condition_gate_ready (state r) step"
    by (simp add: find_SomeD)
  then obtain def runtime where "map_of (def_steps (definition_of (state r))) step = Some def"
    and runtime: "map_of (steps (state r)) step = Some runtime" "srs_state runtime = Pending"
    "\<not> condition_passed runtime"
    by (rule condition_gate_readyD)
  ultimately show ?thesis
    using assms unfolding unevaluated_count_def
    by (auto simp: evaluate_next_condition_def settle_condition_failure_def
        split: option.splits condition_evaluation.splits sum.splits
        intro!: length_filter_bt_modify [where P = "\<lambda>n. srs_state n = Pending \<and> \<not> condition_passed n"])
qed

function evaluate_ready_conditions ::
  "('p, 'c, 'o) runtime_ports \<Rightarrow> workflow_node_role \<Rightarrow>
   ('p, 'c, 'o, 'd) reduction \<Rightarrow> ('p, 'c, 'o, 'd) reduction" where
  "evaluate_ready_conditions ports the_role r =
     (case evaluate_next_condition ports the_role r of
        None \<Rightarrow> r
      | Some r' \<Rightarrow> evaluate_ready_conditions ports the_role r')"
  by pat_completeness auto
termination
  by (relation "measure (\<lambda>(_, _, r). unevaluated_count (state r))")
    (auto simp: evaluate_next_condition_decreases)

declare evaluate_ready_conditions.simps [simp del]

section \<open>Finalizer dispositions\<close>

definition propagate_finalizer_trigger_dispositions ::
  "('p, 'c, 'o, 'd) reduction \<Rightarrow> ('p, 'c, 'o, 'd) reduction" where
  "propagate_finalizer_trigger_dispositions r =
     (case finalization (state r) of
        None \<Rightarrow> r
      | Some fin \<Rightarrow>
          (let not_selected = filter (\<lambda>step.
                 state_in (state r) step is_pending \<and>
                 (case map_of (def_steps (definition_of (state r))) step of
                    None \<Rightarrow> False
                  | Some def \<Rightarrow> \<not> bs_contains (when_triggers def) (fin_trigger fin)))
               (finalizer_ids (definition_of (state r)))
           in fold (\<lambda>step r.
                snd (transition_step step (NotRun finalizer_trigger_not_selected) None r))
                not_selected r))"

definition finalizer_condition_block ::
  "('c, 'o, 'd) runtime_state \<Rightarrow> string \<Rightarrow> (string \<times> blocked_detail) option" where
  "finalizer_condition_block st step =
     (case map_of (def_steps (definition_of st)) step of
        None \<Rightarrow> None
      | Some def \<Rightarrow>
          (case map_of (steps st) step of
             None \<Rightarrow> None
           | Some runtime \<Rightarrow>
               if condition def = None \<or> condition_passed runtime \<or>
                 srs_state runtime \<noteq> Pending \<or> \<not> condition_phase_gate_open st def
               then None
               else
                 (case blocked_detail_new (condition_blockers st def) of
                    Inl _ \<Rightarrow> None | Inr detail \<Rightarrow> Some (step, detail))))"

definition next_finalizer_condition_block ::
  "('c, 'o, 'd) runtime_state \<Rightarrow> (string \<times> blocked_detail) option" where
  "next_finalizer_condition_block st =
     find_map (finalizer_condition_block st) (finalizer_ids (definition_of st))"

definition finalizer_input_unavailable ::
  "('c, 'o, 'd) runtime_state \<Rightarrow> string \<Rightarrow> (string \<times> string list) option" where
  "finalizer_input_unavailable st step =
     (case map_of (def_steps (definition_of st)) step of
        None \<Rightarrow> None
      | Some def \<Rightarrow>
          (case map_of (steps st) step of
             None \<Rightarrow> None
           | Some runtime \<Rightarrow>
               if \<not> finalizer_ready st step def \<or>
                 condition def \<noteq> None \<and> \<not> condition_passed runtime
               then None
               else
                 (let references = unavailable_references st def
                  in if references \<noteq> [] then Some (step, references) else None)))"

definition next_input_unavailable ::
  "('c, 'o, 'd) runtime_state \<Rightarrow> (string \<times> string list) option" where
  "next_input_unavailable st =
     find_map (finalizer_input_unavailable st) (finalizer_ids (definition_of st))"

definition body_prerequisites :: "string list \<Rightarrow> prerequisite list" where
  "body_prerequisites references =
     List.map_filter (\<lambda>reference.
       case prerequisite_body reference of Inl _ \<Rightarrow> None | Inr p \<Rightarrow> Some p) references"

lemma next_finalizer_condition_blockD:
  assumes "next_finalizer_condition_block st = Some (step, detail)"
  obtains def runtime where "step \<in> set (finalizer_ids (definition_of st))"
    and "map_of (def_steps (definition_of st)) step = Some def"
    and "map_of (steps st) step = Some runtime" and "srs_state runtime = Pending"
    and "finalizer_condition_block st step = Some (step, detail)"
proof -
  from find_map_SomeD [OF assms [unfolded next_finalizer_condition_block_def]]
  obtain s where "s \<in> set (finalizer_ids (definition_of st))"
    and "finalizer_condition_block st s = Some (step, detail)"
    by blast
  moreover from this obtain def runtime where "map_of (def_steps (definition_of st)) s = Some def"
    "map_of (steps st) s = Some runtime" "srs_state runtime = Pending" "s = step"
    by (auto simp: finalizer_condition_block_def split: option.splits if_splits sum.splits)
  ultimately show ?thesis
    using that by auto
qed

lemma settle_blocked_decreases:
  assumes "map_of (def_steps (definition_of (state r))) step = Some def"
    and "map_of (steps (state r)) step = Some runtime" and "srs_state runtime = Pending"
  shows "pending_count (state (settle_blocked step detail r)) < pending_count (state r)"
  using assms unfolding pending_count_def settle_blocked_def
  by (auto simp: Let_def intro!: length_filter_bt_modify)

function block_finalizer_conditions ::
  "('p, 'c, 'o, 'd) reduction \<Rightarrow> ('p, 'c, 'o, 'd) reduction" where
  "block_finalizer_conditions r =
     (case next_finalizer_condition_block (state r) of
        None \<Rightarrow> r
      | Some (step, detail) \<Rightarrow> block_finalizer_conditions (settle_blocked step detail r))"
  by pat_completeness auto
termination
  by (relation "measure (\<lambda>r. pending_count (state r))")
    (auto elim!: next_finalizer_condition_blockD simp: settle_blocked_decreases)

declare block_finalizer_conditions.simps [simp del]

partial_function (option) block_finalizer_inputs ::
  "('p, 'c, 'o, 'd) reduction \<Rightarrow> ('p, 'c, 'o, 'd) reduction option" where
  "block_finalizer_inputs r =
     (case next_input_unavailable (state r) of
        None \<Rightarrow> Some r
      | Some found \<Rightarrow>
          (case blocked_detail_new (body_prerequisites (snd found)) of
             Inl _ \<Rightarrow> block_finalizer_inputs r
           | Inr detail \<Rightarrow> block_finalizer_inputs (settle_blocked (fst found) detail r)))"

declare block_finalizer_inputs.simps [code]

definition propagate_finalizer_dispositions ::
  "('p, 'c, 'o, 'd) reduction \<Rightarrow> ('p, 'c, 'o, 'd) reduction option" where
  "propagate_finalizer_dispositions r =
     block_finalizer_inputs
       (block_finalizer_conditions (propagate_finalizer_trigger_dispositions r))"

end
