(* ===== verification/Runtime_Machine.thy ===== *)
theory Runtime_Machine
  imports Runtime_Reduce
begin

text \<open>
  The upper half of the reducer (\<^verbatim>\<open>runtime.rs\<close>): selection of ready nodes, entry into finalization,
  the end of a run with its exports and finalization summary, the stabilizing loop, the dispatch of
  an occurrence, and the entry points \<open>initialize_seeded_definition\<close> and \<open>reduce\<close>.
\<close>

section \<open>Selecting ready nodes\<close>

definition selection_gate_open ::
  "('c, 'o, 'd) runtime_state \<Rightarrow> workflow_node_role \<Rightarrow> bool" where
  "selection_gate_open st the_role =
     (case (workflow st, the_role) of
        (Executing GateOpen, RoleStep) \<Rightarrow> True
      | (Finalizing _ FgOpen _, RoleFinalizer) \<Rightarrow> True
      | _ \<Rightarrow> False)"

definition active_count :: "('c, 'o, 'd) runtime_state \<Rightarrow> nat" where
  "active_count st = length (filter (\<lambda>n. is_active (srs_state n)) (bt_values (steps st)))"

definition ready_node ::
  "('c, 'o, 'd) runtime_state \<Rightarrow> workflow_node_role \<Rightarrow> string \<Rightarrow>
   (string \<times> (string, 'o action_input) btree_map) option" where
  "ready_node st the_role step =
     (case map_of (def_steps (definition_of st)) step of
        None \<Rightarrow> None
      | Some def \<Rightarrow>
          if (case the_role of
                RoleStep \<Rightarrow> ordinary_ready st step def
              | RoleFinalizer \<Rightarrow>
                  finalizer_ready st step def \<and> unavailable_references st def = [])
          then Some (step, resolved_action_inputs st def) else None)"

definition select_ready_nodes ::
  "workflow_node_role \<Rightarrow> ('p, 'c, 'o, 'd) reduction \<Rightarrow> ('p, 'c, 'o, 'd) reduction" where
  "select_ready_nodes the_role r =
     (if \<not> selection_gate_open (state r) the_role then r
      else
        (let available_slots =
               maximum_parallel_steps (definition_of (state r)) - active_count (state r);
             selected = take available_slots
               (List.map_filter (ready_node (state r) the_role) (condition_ids (state r) the_role))
         in fold (\<lambda>(step, ins). authorize_target step first_execution ins) selected r))"

section \<open>Outcomes, summaries and exports\<close>

definition ordinary_outcome :: "('c, 'o, 'd) runtime_state \<Rightarrow> ordinary_outcome option" where
  "ordinary_outcome st =
     (case workflow st of
        Executing GateOpen \<Rightarrow> Some OoSucceeded
      | Executing (GateFailureStopped issue) \<Rightarrow> Some (OoFailed issue None)
      | Executing (GateCancelling reason (Some issue)) \<Rightarrow> Some (OoFailed issue (Some reason))
      | Executing (GateCancelling reason None) \<Rightarrow> Some (OoCancelled reason)
      | _ \<Rightarrow> None)"

definition ordinary_issues :: "('c, 'o, 'd) runtime_state \<Rightarrow> ordinary_issue list" where
  "ordinary_issues st =
     List.map_filter (\<lambda>step.
       case map_of (steps st) step of
         None \<Rightarrow> None
       | Some runtime \<Rightarrow>
           (case (case srs_state runtime of
                    Failed _ \<Rightarrow> Some OidFailed | Blocked _ \<Rightarrow> Some OidBlocked | _ \<Rightarrow> None) of
              None \<Rightarrow> None
            | Some disposition \<Rightarrow>
                map_option (\<lambda>def. \<lparr>oi_step_id = step, oi_failure_policy = failure_policy def,
                    oi_disposition = disposition\<rparr>)
                  (map_of (def_steps (definition_of st)) step)))
       (ordinary_ids (definition_of st))"

definition erase_outputs :: "'o step_state \<Rightarrow> unit step_state option" where
  "erase_outputs s =
     (case s of
        Succeeded _ \<Rightarrow> Some (Succeeded [])
      | Failed detail \<Rightarrow> Some (Failed detail)
      | Blocked detail \<Rightarrow> Some (Blocked detail)
      | Skipped detail \<Rightarrow> Some (Skipped detail)
      | NotRun detail \<Rightarrow> Some (NotRun detail)
      | Cancelled detail \<Rightarrow> Some (Cancelled detail)
      | _ \<Rightarrow> None)"

definition summarize_finalization ::
  "('c, 'o, 'd) runtime_state \<Rightarrow> 'd finalization_runtime \<Rightarrow> 'd finalization_summary" where
  "summarize_finalization st fin =
     \<lparr>fs_trigger = fin_trigger fin,
      fs_finalizers = List.map_filter (\<lambda>step.
        case map_of (steps st) step of
          None \<Rightarrow> None
        | Some runtime \<Rightarrow>
            (case erase_outputs (srs_state runtime) of
               None \<Rightarrow> None
             | Some disposition \<Rightarrow>
                 map_option (\<lambda>def. \<lparr>fr_finalizer = step, fr_failure_policy = failure_policy def,
                     fr_disposition = disposition\<rparr>)
                   (map_of (def_steps (definition_of st)) step)))
        (finalizer_presentation_order (definition_of st)),
      fs_cancellation = fin_cancellation fin,
      fs_force_abort = fin_force_abort fin\<rparr>"

definition compose_final_outcome ::
  "('c, 'o, 'd) runtime_state \<Rightarrow> 'd finalization_runtime \<Rightarrow> ordinary_outcome" where
  "compose_final_outcome st fin =
     (case fin_ordinary_outcome fin of
        OoFailed issue later \<Rightarrow>
          OoFailed issue
            (case later of
               Some reason \<Rightarrow> Some reason
             | None \<Rightarrow> map_option fc_reason (fin_cancellation fin))
      | OoCancelled reason \<Rightarrow> OoCancelled reason
      | OoSucceeded \<Rightarrow>
          (case workflow st of
             Finalizing _ gate (Some issue) \<Rightarrow>
               OoFailed issue (map_option fc_reason (fin_cancellation fin))
           | Finalizing _ (FgCancelling reason _ _) None \<Rightarrow> OoCancelled reason
           | _ \<Rightarrow> OoSucceeded))"

definition export_value ::
  "('c, 'o, 'd) runtime_state \<Rightarrow> runtime_export \<Rightarrow> 'o export_value option" where
  "export_value st source =
     (case map_of (steps st) (re_step source) of
        None \<Rightarrow> None
      | Some runtime \<Rightarrow>
          (case srs_state runtime of
             Succeeded outputs \<Rightarrow> map_option ExportAvailable (map_of outputs (re_output source))
           | Inherited _ disposition outputs \<Rightarrow>
               (case disposition of
                  InhSucceeded \<Rightarrow> map_option ExportAvailable (map_of outputs (re_output source))
                | InhSkipped \<Rightarrow> Some (ExportUnavailable EuSkipped))
           | Failed _ \<Rightarrow> Some (ExportUnavailable EuFailed)
           | Blocked _ \<Rightarrow> Some (ExportUnavailable EuBlocked)
           | Skipped _ \<Rightarrow> Some (ExportUnavailable EuSkipped)
           | NotRun detail \<Rightarrow>
               Some (ExportUnavailable
                 (if ne_code detail = FinalizerTriggerNotSelected then EuTriggerNotSelected
                  else EuNotRun))
           | Cancelled _ \<Rightarrow> Some (ExportUnavailable EuCancelled)
           | _ \<Rightarrow> None))"

text \<open>\<^verbatim>\<open>collect::<Option<_>>\<close>: one missing value makes the whole set missing.\<close>

fun collect_exports ::
  "('c, 'o, 'd) runtime_state \<Rightarrow> (string \<times> runtime_export) list \<Rightarrow> 'o export_set option" where
  "collect_exports st [] = Some []"
| "collect_exports st ((name, source) # rest) =
     (case export_value st source of
        None \<Rightarrow> None
      | Some value \<Rightarrow> map_option (Cons (name, value)) (collect_exports st rest))"

definition derive_exports :: "('c, 'o, 'd) runtime_state \<Rightarrow> 'o export_set option" where
  "derive_exports st = collect_exports st (def_exports (definition_of st))"

fun outcome_states :: "ordinary_outcome \<Rightarrow> 'd workflow_state \<times> run_outcome" where
  "outcome_states OoSucceeded = (WfSucceeded, RoSucceeded)"
| "outcome_states (OoFailed issue later) = (WfFailed issue later, RoFailed issue later)"
| "outcome_states (OoCancelled reason) = (WfCancelled reason, RoCancelled reason)"

definition finish_run ::
  "ordinary_outcome \<Rightarrow> 'd finalization_summary option \<Rightarrow>
   ('p, 'c, 'o, 'd) reduction \<Rightarrow> ('p, 'c, 'o, 'd) reduction" where
  "finish_run result summary r =
     (case derive_exports (state r) of
        None \<Rightarrow> r
      | Some derived \<Rightarrow>
          (let (to, outcome) = outcome_states result;
               from = workflow (state r);
               (sequence, st) = next_sequence (state r);
               r = r\<lparr>state := st\<lparr>workflow := to, exports := Some derived,
                       finalization_summary := summary\<rparr>\<rparr>;
               r = push_workflow_event sequence from to r
           in push_action (for_transition sequence) (FinishRun outcome derived) r))"

section \<open>Phase changes\<close>

definition all_terminal :: "('c, 'o, 'd) runtime_state \<Rightarrow> string list \<Rightarrow> bool" where
  "all_terminal st ids = list_all (\<lambda>step. state_in st step is_terminal) ids"

definition outcome_trigger :: "ordinary_outcome \<Rightarrow> finalization_trigger" where
  "outcome_trigger outcome =
     (case outcome of
        OoSucceeded \<Rightarrow> FtSucceeded | OoFailed _ _ \<Rightarrow> FtFailed | OoCancelled _ \<Rightarrow> FtCancelled)"

definition outcome_issue :: "ordinary_outcome \<Rightarrow> primary_issue option" where
  "outcome_issue outcome = (case outcome of OoFailed issue _ \<Rightarrow> Some issue | _ \<Rightarrow> None)"

definition outcome_cancellation :: "ordinary_outcome \<Rightarrow> cancellation_reason option" where
  "outcome_cancellation outcome =
     (case outcome of
        OoFailed _ later \<Rightarrow> later | OoCancelled reason \<Rightarrow> Some reason | OoSucceeded \<Rightarrow> None)"

definition ordinary_force_abort :: "('c, 'o, 'd) runtime_state \<Rightarrow> bool" where
  "ordinary_force_abort st =
     (case force_abort st of None \<Rightarrow> False | Some evidence \<Rightarrow> fae_phase evidence = CancelOrdinary)"

definition enter_finalization ::
  "('p, 'c, 'o) runtime_ports \<Rightarrow> ordinary_outcome \<Rightarrow>
   ('p, 'c, 'o, 'd) reduction \<Rightarrow> ('p, 'c, 'o, 'd) reduction" where
  "enter_finalization ports outcome r =
     (let trigger = outcome_trigger outcome;
          context = serialize_context (json_to_vec ports)
            \<lparr>fctx_trigger = trigger,
             fctx_primary_issue_step_id =
               map_option (\<lambda>issue. node_id (pi_node issue)) (outcome_issue outcome),
             fctx_cancellation_reason = outcome_cancellation outcome,
             fctx_ordinary_issues = ordinary_issues (state r)\<rparr>;
          aborted = ordinary_force_abort (state r);
          (gate, cancellation) =
            (if aborted
             then (FgCancelling ForceAbort None True,
                   Some \<lparr>fc_reason = ForceAbort, fc_deadline = None\<rparr>)
             else (FgOpen, None));
          from = workflow (state r);
          to = Finalizing trigger gate (outcome_issue outcome);
          (sequence, st) = next_sequence (state r);
          r = r\<lparr>state := st\<lparr>workflow := to,
                finalization := Some \<lparr>fin_trigger = trigger, fin_context = context,
                  fin_ordinary_outcome = outcome, fin_cancellation = cancellation,
                  fin_force_abort = aborted\<rparr>\<rparr>\<rparr>
      in push_workflow_event sequence from to r)"

definition enter_finalization_or_finish ::
  "('p, 'c, 'o) runtime_ports \<Rightarrow>
   ('p, 'c, 'o, 'd) reduction \<Rightarrow> ('p, 'c, 'o, 'd) reduction" where
  "enter_finalization_or_finish ports r =
     (if \<not> (case workflow (state r) of Executing _ \<Rightarrow> True | _ \<Rightarrow> False) \<or>
        \<not> all_terminal (state r) (ordinary_ids (definition_of (state r))) then r
      else case ordinary_outcome (state r) of
        None \<Rightarrow> r
      | Some outcome \<Rightarrow>
          if finalizer_ids (definition_of (state r)) = [] then finish_run outcome None r
          else enter_finalization ports outcome r)"

definition finish_finalization_if_terminal ::
  "('p, 'c, 'o, 'd) reduction \<Rightarrow> ('p, 'c, 'o, 'd) reduction" where
  "finish_finalization_if_terminal r =
     (case workflow (state r) of
        Finalizing _ _ _ \<Rightarrow>
          if \<not> all_terminal (state r) (finalizer_ids (definition_of (state r))) then r
          else
            (case finalization (state r) of
               None \<Rightarrow> r
             | Some fin \<Rightarrow>
                 finish_run (compose_final_outcome (state r) fin)
                   (Some (summarize_finalization (state r) fin)) r)
      | _ \<Rightarrow> r)"

section \<open>The stabilizing loop\<close>

definition stabilize_ordinary ::
  "('p, 'c, 'o) runtime_ports \<Rightarrow>
   ('p, 'c, 'o, 'd) reduction \<Rightarrow> ('p, 'c, 'o, 'd) reduction" where
  "stabilize_ordinary ports r =
     enter_finalization_or_finish ports
       (select_ready_nodes RoleStep
         (propagate_ordinary_pending_dispositions
           (evaluate_ready_conditions ports RoleStep
             (propagate_ordinary_pending_dispositions r))))"

definition stabilize_finalizers ::
  "('p, 'c, 'o) runtime_ports \<Rightarrow>
   ('p, 'c, 'o, 'd) reduction \<Rightarrow> ('p, 'c, 'o, 'd) reduction option" where
  "stabilize_finalizers ports r =
     (if ordinary_force_abort (state r)
      then
        (let r = propagate_finalizer_trigger_dispositions r;
             r = cancel_pending_nodes RoleFinalizer ForceAbort r;
             r = evaluate_ready_conditions ports RoleFinalizer r
         in Some (finish_finalization_if_terminal (select_ready_nodes RoleFinalizer r)))
      else
        (case propagate_finalizer_dispositions r of
           None \<Rightarrow> None
         | Some r \<Rightarrow>
             (case propagate_finalizer_dispositions
                 (evaluate_ready_conditions ports RoleFinalizer r) of
                None \<Rightarrow> None
              | Some r \<Rightarrow>
                  Some (finish_finalization_if_terminal (select_ready_nodes RoleFinalizer r)))))"

definition stabilize_pass ::
  "('p, 'c, 'o) runtime_ports \<Rightarrow>
   ('p, 'c, 'o, 'd) reduction \<Rightarrow> ('p, 'c, 'o, 'd) reduction option" where
  "stabilize_pass ports r =
     (case workflow (state r) of
        Executing _ \<Rightarrow> Some (stabilize_ordinary ports r)
      | Finalizing _ _ _ \<Rightarrow> stabilize_finalizers ports r
      | _ \<Rightarrow> Some r)"

partial_function (option) stabilize ::
  "('p, 'c, 'o) runtime_ports \<Rightarrow>
   ('p, 'c, 'o, 'd) reduction \<Rightarrow> ('p, 'c, 'o, 'd) reduction option" where
  "stabilize ports r =
     (case stabilize_pass ports r of
        None \<Rightarrow> None
      | Some r' \<Rightarrow>
          if last_transition_sequence (state r') = last_transition_sequence (state r)
          then Some r' else stabilize ports r')"

declare stabilize.simps [code]

section \<open>Occurrences\<close>

definition occurrence_resource_release ::
  "('p, 'c, 'o) runtime_ports \<Rightarrow> ('p, 'c, 'o, 'd) occurrence \<Rightarrow>
   ('p, 'c, 'o, 'd) requested_action option" where
  "occurrence_resource_release ports occurrence =
     (case occurrence of
        StepExecutionCompleted _ action provisional \<Rightarrow>
          if requires_release ports provisional
          then Some \<lparr>ra_id = action, ra_action = ReleaseStepResources provisional\<rparr> else None
      | _ \<Rightarrow> None)"

definition discard_occurrence ::
  "('p, 'c, 'o) runtime_ports \<Rightarrow> ('c, 'o, 'd) runtime_state \<Rightarrow> ('p, 'c, 'o, 'd) occurrence \<Rightarrow>
   ('p, 'c, 'o, 'd) reduction" where
  "discard_occurrence ports current occurrence =
     \<lparr>state = current, events = [],
      actions =
        (case occurrence_resource_release ports occurrence of None \<Rightarrow> [] | Some a \<Rightarrow> [a]),
      occurrence_accepted = False\<rparr>"

definition complete_execution ::
  "('p, 'c, 'o) runtime_ports \<Rightarrow> string \<Rightarrow> action_id \<Rightarrow> 'p \<Rightarrow>
   ('p, 'c, 'o, 'd) reduction \<Rightarrow> bool \<times> ('p, 'c, 'o, 'd) reduction" where
  "complete_execution ports step action provisional r =
     (if \<not> step_accepts (state r) step KRunning action
      then (False,
            if requires_release ports provisional
            then push_action action (ReleaseStepResources provisional) r else r)
      else
        (let (sequence, r) = transition_step step CapturingOutputs None r
         in if step_declares_outputs (state r) step
            then
              (let capture_action = for_transition sequence;
                   r = r\<lparr>state := set_current_action step capture_action (state r)\<rparr>
               in (True, push_action capture_action (CaptureOutputs step provisional) r))
            else
              (let r = mark_recovered step r;
                   r = snd (transition_step step (Succeeded []) None r);
                   r = r\<lparr>state := clear_active_invocation step (state r)\<rparr>
               in (True,
                   if requires_release ports provisional
                   then push_action (for_transition sequence)
                     (ReleaseStepResources provisional) r
                   else r))))"

definition capture_outputs ::
  "string \<Rightarrow> action_id \<Rightarrow> 'o output_set \<Rightarrow>
   ('p, 'c, 'o, 'd) reduction \<Rightarrow> bool \<times> ('p, 'c, 'o, 'd) reduction" where
  "capture_outputs step action outputs r =
     (if \<not> step_accepts (state r) step KCapturingOutputs action \<or>
        \<not> outputs_match_declaration (state r) step outputs
      then (False, r)
      else
        (let r = mark_recovered step r;
             r = snd (transition_step step (Succeeded outputs) None r)
         in (True, r\<lparr>state := clear_active_invocation step (state r)\<rparr>)))"

definition start_handler ::
  "string \<Rightarrow> recovery_round_number \<Rightarrow> action_id \<Rightarrow>
   ('p, 'c, 'o, 'd) reduction \<Rightarrow> bool \<times> ('p, 'c, 'o, 'd) reduction" where
  "start_handler step round action r =
     (if \<not> handler_accepts (state r) step round HandlerStarting action then (False, r)
      else
        (let r = r\<lparr>state := set_handler_outcome step round HoRunning (state r)\<rparr>
         in (True, snd (transition_step step (Recovering round HandlerRunning) (Some action) r))))"

definition quiesce_step ::
  "string \<Rightarrow> action_id \<Rightarrow>
   ('p, 'c, 'o, 'd) reduction \<Rightarrow> bool \<times> ('p, 'c, 'o, 'd) reduction" where
  "quiesce_step step action r =
     (case cancelling_step (state r) step action of
        None \<Rightarrow> (False, r)
      | Some (cancelling_reason, active) \<Rightarrow>
          (let terminal_reason = (if is_force_abort action then ForceAbort else cancelling_reason);
               r = r\<lparr>state := mark_recovery_cancelled step active (state r)\<rparr>;
               r = snd (transition_step step
                     (Cancelled (CancellationDetail terminal_reason)) None r)
           in (True, r\<lparr>state := clear_active_invocation step (state r)\<rparr>)))"

fun apply_occurrence ::
  "('p, 'c, 'o) runtime_ports \<Rightarrow> ('p, 'c, 'o, 'd) occurrence \<Rightarrow>
   ('p, 'c, 'o, 'd) reduction \<Rightarrow> bool \<times> ('p, 'c, 'o, 'd) reduction" where
  "apply_occurrence ports (StepStarted step action) r =
     (if \<not> step_accepts (state r) step KStarting action then (False, r)
      else (True, snd (transition_step step Running (Some action) r)))"
| "apply_occurrence ports (StepStartFailed step action cause) r =
     apply_step_failure ports step action KStarting PhaseStart cause r"
| "apply_occurrence ports (StepExecutionCompleted step action provisional) r =
     complete_execution ports step action provisional r"
| "apply_occurrence ports (StepExecutionFailed step action cause) r =
     apply_step_failure ports step action KRunning PhaseExecution cause r"
| "apply_occurrence ports (OutputsCaptured step action outputs) r =
     capture_outputs step action outputs r"
| "apply_occurrence ports (OutputCaptureFailed step action cause) r =
     apply_step_failure ports step action KCapturingOutputs PhaseOutputCapture cause r"
| "apply_occurrence ports (RecoveryHandlerStarted step round action) r =
     start_handler step round action r"
| "apply_occurrence ports (RecoveryHandlerStartFailed step round action cause) r =
     apply_handler_failure step round action HandlerStarting HandlerPhaseStart cause r"
| "apply_occurrence ports (RecoveryHandlerCompleted step round action decision) r =
     apply_handler_decision step round action decision r"
| "apply_occurrence ports (RecoveryHandlerExecutionFailed step round action cause) r =
     apply_handler_failure step round action HandlerRunning HandlerPhaseExecution cause r"
| "apply_occurrence ports (CancellationOperationRequested operation reason deadline) r =
     (if reason = ForceAbort \<or> stale_operation (state r) operation then (False, r)
      else apply_cancellation \<lparr>cr_reason = reason, cr_deadline = deadline\<rparr> (Some operation) r)"
| "apply_occurrence ports (OrdinaryCancellationOperationRequested operation reason deadline) r =
     apply_ordinary_only_cancellation \<lparr>cr_reason = reason, cr_deadline = deadline\<rparr> operation r"
| "apply_occurrence ports (ForceAbortRequested operation deadline) r =
     (if stale_operation (state r) operation then (False, r)
      else apply_force_abort operation deadline r)"
| "apply_occurrence ports (StepQuiesced step action) r = quiesce_step step action r"

section \<open>Entry points\<close>

definition workflow_terminal :: "'d workflow_state \<Rightarrow> bool" where
  "workflow_terminal w =
     (case w of
        WfSucceeded \<Rightarrow> True | WfFailed _ _ \<Rightarrow> True | WfCancelled _ \<Rightarrow> True | _ \<Rightarrow> False)"

definition reduce ::
  "('p, 'c, 'o) runtime_ports \<Rightarrow> ('c, 'o, 'd) runtime_state \<Rightarrow> ('p, 'c, 'o, 'd) occurrence \<Rightarrow>
   ('p, 'c, 'o, 'd) reduction option" where
  "reduce ports current occurrence =
     (if workflow_terminal (workflow current)
      then Some (discard_occurrence ports current occurrence)
      else
        (let r = \<lparr>state = current, events = [], actions = [], occurrence_accepted = False\<rparr>;
             (accepted, r) = apply_occurrence ports occurrence r
         in if \<not> accepted then Some r
            else stabilize ports (r\<lparr>occurrence_accepted := True\<rparr>)))"

datatype 'd initial_cancellation =
    InitialGraceful "'d cancellation_request" "cancellation_operation_id option"
  | InitialForceAbort cancellation_operation_id 'd

definition initial_step_state ::
  "'o execution_seed \<Rightarrow> string \<Rightarrow> runtime_step \<Rightarrow> ('c, 'o) step_runtime_state" where
  "initial_step_state seed step def =
     (let inherited = map_of (seed_steps seed) step
      in \<lparr>srs_state =
            (case inherited of
               None \<Rightarrow> Pending
             | Some s \<Rightarrow> Inherited (seed_detail s) (seed_disposition s) (seed_outputs s)),
          current_action = None,
          target_execution = None,
          target_invocation = None,
          active_invocation = None,
          recovery =
            (if inherited = None
             then map_option (\<lambda>policy.
                 \<lparr>rec_configured_rounds = retries policy, rec_handler_kind = handler_kind policy,
                  rec_rounds = [], rec_terminal_disposition = None\<rparr>) (step_recovery_policy def)
             else None),
          condition_passed = False\<rparr>)"

definition initial_output_producers ::
  "'o execution_seed \<Rightarrow> (string \<times> string, output_producer) btree_map" where
  "initial_output_producers seed =
     bt_collect (concat (map (\<lambda>(step, s).
       map (\<lambda>(out, p). ((step, out), p)) (seed_producers s)) (seed_steps seed)))"

definition initial_state ::
  "runtime_definition \<Rightarrow> 'o execution_seed \<Rightarrow> ('c, 'o, 'd) runtime_state" where
  "initial_state def seed =
     \<lparr>definition_of = def,
      workflow = Executing GateOpen,
      steps = map (\<lambda>(step, d). (step, initial_step_state seed step d)) (def_steps def),
      output_producers = initial_output_producers seed,
      exports = None,
      finalization_summary = None,
      finalization = None,
      force_abort = None,
      last_cancellation_operation = None,
      last_transition_sequence = 0,
      transition_capacity_exceeded = False\<rparr>"

definition initialize_seeded_definition ::
  "('p, 'c, 'o) runtime_ports \<Rightarrow> runtime_definition \<Rightarrow> 'd initial_cancellation option \<Rightarrow>
   'o execution_seed \<Rightarrow> ('p, 'c, 'o, 'd) reduction option" where
  "initialize_seeded_definition ports def cancellation seed =
     (let r = \<lparr>state = initial_state def seed, events = [], actions = [],
            occurrence_accepted = True\<rparr>
      in stabilize ports
        (case cancellation of
           None \<Rightarrow> r
         | Some (InitialGraceful request operation) \<Rightarrow> snd (apply_cancellation request operation r)
         | Some (InitialForceAbort operation deadline) \<Rightarrow>
             snd (apply_force_abort operation deadline r)))"

definition initialize_seeded_with_operation ::
  "('p, 'c, 'o) runtime_ports \<Rightarrow> validated_workflow \<Rightarrow> nat \<Rightarrow> u64 \<Rightarrow>
   (string, resolved_input) btree_map \<Rightarrow> 'o execution_seed \<Rightarrow> 'd initial_cancellation option \<Rightarrow>
   ('p, 'c, 'o, 'd) reduction option" where
  "initialize_seeded_with_operation ports vw parallel transitions values seed cancellation =
     initialize_seeded_definition ports (from_admitted vw parallel transitions values)
       cancellation seed"

end
