(* ===== verification/Runtime_Steps.thy ===== *)
theory Runtime_Steps
  imports Runtime_Machine
begin

text \<open>
  The specification of the reducer as a transition system: \<open>node_step\<close> lists the transitions of one
  node, \<open>workflow_step\<close> those of the workflow, and \<open>micro\<close> the single steps of a reduction, each with
  its guard, its event and its actions.  The theories that follow show that every operation of the
  reducer is a sequence of such steps.
\<close>

section \<open>Committed node transitions\<close>

definition role_of :: "('c, 'o, 'd) runtime_state \<Rightarrow> string \<Rightarrow> workflow_node_role" where
  "role_of st step =
     (case map_of (def_steps (definition_of st)) step of None \<Rightarrow> RoleStep | Some d \<Rightarrow> role d)"

definition policy_of :: "('c, 'o, 'd) runtime_state \<Rightarrow> string \<Rightarrow> failure_policy" where
  "policy_of st step =
     (case map_of (def_steps (definition_of st)) step of
        None \<Rightarrow> Required | Some d \<Rightarrow> failure_policy d)"

abbreviation allocated :: "('p, 'c, 'o, 'd) reduction \<Rightarrow> transition_sequence" where
  "allocated r \<equiv> fst (next_sequence (state r))"

text \<open>
  One transition of one node: a sequence is allocated, the node is replaced, and the event and the
  actions of the transition are appended.
\<close>

definition commit_node ::
  "string \<Rightarrow> ('c, 'o) step_runtime_state \<Rightarrow> ('c, 'o) step_runtime_state \<Rightarrow>
   ('p, 'c, 'o, 'd) requested_action list \<Rightarrow>
   ('p, 'c, 'o, 'd) reduction \<Rightarrow> ('p, 'c, 'o, 'd) reduction" where
  "commit_node step n n' acts r =
     r\<lparr>state := modify_step step (\<lambda>_. n') (snd (next_sequence (state r))),
       events := events r @ [EvStep (allocated r) step (role_of (state r) step)
         (policy_of (state r) step) (kind (srs_state n)) (kind (srs_state n'))],
       actions := actions r @ acts\<rparr>"

text \<open>A change of one node without a transition.\<close>

definition touch_node ::
  "string \<Rightarrow> ('c, 'o) step_runtime_state \<Rightarrow> ('p, 'c, 'o, 'd) requested_action list \<Rightarrow>
   ('p, 'c, 'o, 'd) reduction \<Rightarrow> ('p, 'c, 'o, 'd) reduction" where
  "touch_node step n' acts r =
     r\<lparr>state := modify_step step (\<lambda>_. n') (state r), actions := actions r @ acts\<rparr>"

lemma next_sequence_steps:
  "next_sequence (st\<lparr>steps := m\<rparr>) =
     (fst (next_sequence st), (snd (next_sequence st))\<lparr>steps := m\<rparr>)"
  by (simp add: next_sequence_def Let_def)

lemma next_sequence_modify_step [simp]:
  "next_sequence (modify_step step f st) =
     (fst (next_sequence st), modify_step step f (snd (next_sequence st)))"
  by (simp add: modify_step_def next_sequence_steps)

lemma modify_step_modify_step [simp]:
  "modify_step step f (modify_step step g st) = modify_step step (\<lambda>n. f (g n)) st"
  by (simp add: modify_step_def bt_modify_modify comp_def)

lemma modify_step_const:
  "map_of (steps st) step = Some n \<Longrightarrow> modify_step step f st = modify_step step (\<lambda>_. f n) st"
  using bt_modify_cong [of "steps st" step f "\<lambda>_. f n"] by (simp add: modify_step_def)

lemma modify_step_other_fields [simp]:
  "workflow (modify_step step f st) = workflow st"
  "finalization (modify_step step f st) = finalization st"
  "force_abort (modify_step step f st) = force_abort st"
  "exports (modify_step step f st) = exports st"
  "last_transition_sequence (modify_step step f st) = last_transition_sequence st"
  "transition_capacity_exceeded (modify_step step f st) = transition_capacity_exceeded st"
  "last_cancellation_operation (modify_step step f st) = last_cancellation_operation st"
  by (simp_all add: modify_step_def)

lemma next_sequence_other_fields [simp]:
  "workflow (snd (next_sequence st)) = workflow st"
  "finalization (snd (next_sequence st)) = finalization st"
  "force_abort (snd (next_sequence st)) = force_abort st"
  "exports (snd (next_sequence st)) = exports st"
  "last_cancellation_operation (snd (next_sequence st)) = last_cancellation_operation st"
  by (simp_all add: next_sequence_def Let_def)

lemma role_policy_modify [simp]:
  "role_of (modify_step step f st) s = role_of st s"
  "policy_of (modify_step step f st) s = policy_of st s"
  by (simp_all add: role_of_def policy_of_def)

lemma commit_node_fields [simp]:
  "steps (state (commit_node step n n' acts r)) = bt_modify step (\<lambda>_. n') (steps (state r))"
  "definition_of (state (commit_node step n n' acts r)) = definition_of (state r)"
  "workflow (state (commit_node step n n' acts r)) = workflow (state r)"
  "finalization (state (commit_node step n n' acts r)) = finalization (state r)"
  "force_abort (state (commit_node step n n' acts r)) = force_abort (state r)"
  "exports (state (commit_node step n n' acts r)) = exports (state r)"
  "last_cancellation_operation (state (commit_node step n n' acts r)) =
     last_cancellation_operation (state r)"
  "occurrence_accepted (commit_node step n n' acts r) = occurrence_accepted r"
  "actions (commit_node step n n' acts r) = actions r @ acts"
  by (simp_all add: commit_node_def)

lemma touch_node_fields [simp]:
  "steps (state (touch_node step n' acts r)) = bt_modify step (\<lambda>_. n') (steps (state r))"
  "definition_of (state (touch_node step n' acts r)) = definition_of (state r)"
  "workflow (state (touch_node step n' acts r)) = workflow (state r)"
  "finalization (state (touch_node step n' acts r)) = finalization (state r)"
  "force_abort (state (touch_node step n' acts r)) = force_abort (state r)"
  "exports (state (touch_node step n' acts r)) = exports (state r)"
  "events (touch_node step n' acts r) = events r"
  "actions (touch_node step n' acts r) = actions r @ acts"
  by (simp_all add: touch_node_def)

text \<open>The reducer's primitive writes around a transition all fold into one commit.\<close>

lemma transition_step_commit:
  assumes "map_of (steps (state r)) step = Some n"
  shows "transition_step step to a r =
    (allocated r, commit_node step n (n\<lparr>srs_state := to, current_action := a\<rparr>) [] r)"
  using assms modify_step_const [of "snd (next_sequence (state r))" step n
      "\<lambda>m. m\<lparr>srs_state := to, current_action := a\<rparr>"]
  by (simp add: transition_step_def commit_node_def Let_def split_beta role_of_def policy_of_def)

lemma transition_step_modified:
  assumes "map_of (steps (state r)) step = Some n" and "srs_state (f n) = srs_state n"
  shows "transition_step step to a (r\<lparr>state := modify_step step f (state r)\<rparr>) =
    (allocated r, commit_node step n ((f n)\<lparr>srs_state := to, current_action := a\<rparr>) [] r)"
  using assms transition_step_commit [of "r\<lparr>state := modify_step step f (state r)\<rparr>" step "f n"]
  by (simp add: commit_node_def)

lemma modify_commit:
  assumes "map_of (steps (state r)) step = Some n" and "srs_state (f n') = srs_state n'"
  shows "(commit_node step n n' acts r)\<lparr>state := modify_step step f (state (commit_node step n n' acts r))\<rparr> =
    commit_node step n (f n') acts r"
  using assms by (simp add: commit_node_def)

lemma push_commit:
  "push_action i a (commit_node step n n' acts r) =
     commit_node step n n' (acts @ [\<lparr>ra_id = i, ra_action = a\<rparr>]) r"
  by (simp add: push_action_def commit_node_def)

section \<open>Node transitions\<close>

text \<open>
  What a transition keeps of a node's recovery: the configured rounds, the handler kind, and the
  number and failed execution of every round.
\<close>

definition recovery_shape ::
  "('c, 'o) step_runtime_state \<Rightarrow>
   (u8 \<times> recovery_handler_kind option \<times> (recovery_round_number \<times> target_execution_number) list) option"
  where
  "recovery_shape n =
     map_option (\<lambda>rec. (rec_configured_rounds rec, rec_handler_kind rec,
       map (\<lambda>record. (rr_number record, ptf_execution_number (rr_failed_execution record)))
         (rec_rounds rec))) (recovery n)"

definition same_target :: "('c, 'o) step_runtime_state \<Rightarrow> ('c, 'o) step_runtime_state \<Rightarrow> bool" where
  "same_target n n' \<longleftrightarrow>
     target_execution n' = target_execution n \<and> target_invocation n' = target_invocation n \<and>
     condition_passed n' = condition_passed n \<and> recovery_shape n' = recovery_shape n"

fun target_active :: "'o step_state \<Rightarrow> bool" where
  "target_active Starting = True"
| "target_active Running = True"
| "target_active CapturingOutputs = True"
| "target_active _ = False"

fun invocation_active :: "'o step_state \<Rightarrow> bool" where
  "invocation_active (Recovering _ _) = True"
| "invocation_active s = target_active s"

fun undispatched :: "'o step_state \<Rightarrow> bool" where
  "undispatched (Blocked _) = True"
| "undispatched (Skipped _) = True"
| "undispatched (NotRun _) = True"
| "undispatched (Cancelled _) = True"
| "undispatched _ = False"

text \<open>The node an authorized target leaves.\<close>

definition started_target ::
  "transition_sequence \<Rightarrow> target_execution_number \<Rightarrow> ('c, 'o) step_runtime_state \<Rightarrow>
   ('c, 'o) step_runtime_state" where
  "started_target sequence number n =
     n\<lparr>target_execution := Some number, srs_state := Starting,
       target_invocation := Some (for_transition sequence),
       active_invocation := Some (ActiveTarget number),
       current_action := Some (for_transition sequence)\<rparr>"

lemma started_target_fields [simp]:
  "srs_state (started_target sequence number n) = Starting"
  "condition_passed (started_target sequence number n) = condition_passed n"
  "recovery (started_target sequence number n) = recovery n"
  "current_action (started_target sequence number n) = Some (for_transition sequence)"
  "target_execution (started_target sequence number n) = Some number"
  "active_invocation (started_target sequence number n) = Some (ActiveTarget number)"
  "target_invocation (started_target sequence number n) = Some (for_transition sequence)"
  by (simp_all add: started_target_def)

text \<open>
  A round may be added while rounds are left; it takes the number of the failed execution, which is
  one more than the rounds so far.
\<close>

definition add_round ::
  "'c recovery_round_record \<Rightarrow> ('c, 'o) step_runtime_state \<Rightarrow> ('c, 'o) step_runtime_state" where
  "add_round record n =
     n\<lparr>recovery := map_option (\<lambda>rec. rec\<lparr>rec_rounds := rec_rounds rec @ [record]\<rparr>) (recovery n)\<rparr>"

definition round_due ::
  "('c, 'o) step_runtime_state \<Rightarrow> 'c recovery_round_record \<Rightarrow> target_execution_number \<Rightarrow> bool" where
  "round_due n record number \<longleftrightarrow>
     target_active (srs_state n) \<and> target_execution n = Some number \<and>
     rr_number record = RecoveryRoundNumber (execution_get number) \<and>
     ptf_execution_number (rr_failed_execution record) = number \<and>
     (case recovery n of
        None \<Rightarrow> False
      | Some rec \<Rightarrow>
          length (rec_rounds rec) < unat (rec_configured_rounds rec) \<and>
          unat (execution_get number) = Suc (length (rec_rounds rec)))"

inductive node_step ::
  "string \<Rightarrow> transition_sequence \<Rightarrow> ('c, 'o) step_runtime_state \<Rightarrow> ('c, 'o) step_runtime_state \<Rightarrow>
   ('p, 'c, 'o, 'd) requested_action list \<Rightarrow> bool"
  for step :: string and sequence :: transition_sequence where
  start: "srs_state n = Pending \<Longrightarrow>
    node_step step sequence n (started_target sequence first_execution n)
      [\<lparr>ra_id = for_transition sequence, ra_action = StartStep step first_execution ins\<rparr>]"
| run: "srs_state n = Starting \<Longrightarrow> srs_state n' = Running \<Longrightarrow>
    current_action n' = current_action n \<Longrightarrow> active_invocation n' = active_invocation n \<Longrightarrow>
    same_target n n' \<Longrightarrow> node_step step sequence n n' []"
| capture: "srs_state n = Running \<Longrightarrow> srs_state n' = CapturingOutputs \<Longrightarrow>
    current_action n' = Some (for_transition sequence) \<Longrightarrow>
    active_invocation n' = active_invocation n \<Longrightarrow> same_target n n' \<Longrightarrow>
    node_step step sequence n n'
      [\<lparr>ra_id = for_transition sequence, ra_action = CaptureOutputs step resources\<rparr>]"
| succeed: "srs_state n = CapturingOutputs \<Longrightarrow> srs_state n' = Succeeded outputs \<Longrightarrow>
    current_action n' = None \<Longrightarrow> active_invocation n' = None \<Longrightarrow> same_target n n' \<Longrightarrow>
    node_step step sequence n n' []"
| fail: "srs_state n = Pending \<or> invocation_active (srs_state n) \<Longrightarrow> srs_state n' = Failed detail \<Longrightarrow>
    current_action n' = None \<Longrightarrow> active_invocation n' = None \<Longrightarrow> same_target n n' \<Longrightarrow>
    node_step step sequence n n' []"
| fail_last: "round_due n record number \<Longrightarrow> execution_next number = None \<Longrightarrow>
    srs_state n' = Failed detail \<Longrightarrow> current_action n' = None \<Longrightarrow> active_invocation n' = None \<Longrightarrow>
    same_target (add_round record n) n' \<Longrightarrow> node_step step sequence n n' []"
| retry: "round_due n record number \<Longrightarrow> execution_next number = Some number' \<Longrightarrow>
    node_step step sequence n (started_target sequence number' (add_round record n))
      [\<lparr>ra_id = for_transition sequence, ra_action = StartStep step number' ins\<rparr>]"
| recover: "round_due n record number \<Longrightarrow> rr_number record = round \<Longrightarrow>
    srs_state n' = Recovering round HandlerStarting \<Longrightarrow>
    current_action n' = Some (for_transition sequence) \<Longrightarrow>
    active_invocation n' = Some (ActiveRecoveryHandler round) \<Longrightarrow>
    same_target (add_round record n) n' \<Longrightarrow>
    node_step step sequence n n'
      [\<lparr>ra_id = for_transition sequence, ra_action = StartRecoveryHandler step round hk history\<rparr>]"
| handle: "srs_state n = Recovering round HandlerStarting \<Longrightarrow>
    srs_state n' = Recovering round HandlerRunning \<Longrightarrow> current_action n' = current_action n \<Longrightarrow>
    active_invocation n' = active_invocation n \<Longrightarrow> same_target n n' \<Longrightarrow>
    node_step step sequence n n' []"
| recheck: "srs_state n = Recovering round HandlerRunning \<Longrightarrow> recovery n = Some rec \<Longrightarrow>
    rec_rounds rec \<noteq> [] \<Longrightarrow>
    execution_next (ptf_execution_number (rr_failed_execution (last (rec_rounds rec)))) = Some number \<Longrightarrow>
    same_target n m \<Longrightarrow>
    node_step step sequence n (started_target sequence number m)
      [\<lparr>ra_id = for_transition sequence, ra_action = StartStep step number ins\<rparr>]"
| dispose: "srs_state n = Pending \<Longrightarrow> undispatched (srs_state n') \<Longrightarrow> current_action n' = None \<Longrightarrow>
    active_invocation n' = active_invocation n \<Longrightarrow> same_target n n' \<Longrightarrow>
    node_step step sequence n n' []"
| cancel: "invocation_active (srs_state n) \<Longrightarrow> active_invocation n = Some active \<Longrightarrow>
    srs_state n' = Cancelling detail \<Longrightarrow> current_action n' = Some i \<Longrightarrow>
    i = for_transition sequence \<or> is_force_abort i \<Longrightarrow>
    active_invocation n' = active_invocation n \<Longrightarrow> same_target n n' \<Longrightarrow>
    a = CancelStep step active reason deadline \<or> a = ForceAbortStep step active reason deadline \<Longrightarrow>
    node_step step sequence n n' [\<lparr>ra_id = i, ra_action = a\<rparr>]"
| quiesce: "srs_state n = Cancelling d \<Longrightarrow> srs_state n' = Cancelled d' \<Longrightarrow> current_action n' = None \<Longrightarrow>
    active_invocation n' = None \<Longrightarrow> same_target n n' \<Longrightarrow> node_step step sequence n n' []"

text \<open>Writes that change only what a node records of its recovery.\<close>

definition bookkept :: "('c, 'o) step_runtime_state \<Rightarrow> ('c, 'o) step_runtime_state \<Rightarrow> bool" where
  "bookkept n n' \<longleftrightarrow>
     srs_state n' = srs_state n \<and> current_action n' = current_action n \<and>
     active_invocation n' = active_invocation n \<and> same_target n n'"

inductive node_touch ::
  "string \<Rightarrow> ('c, 'o) step_runtime_state \<Rightarrow> ('c, 'o) step_runtime_state \<Rightarrow>
   ('p, 'c, 'o, 'd) requested_action list \<Rightarrow> bool"
  for step :: string where
  pass: "srs_state n = Pending \<Longrightarrow> node_touch step n (n\<lparr>condition_passed := True\<rparr>) []"
| note_recovery: "bookkept n n' \<Longrightarrow> node_touch step n n' []"
| abort: "srs_state n = Cancelling d \<Longrightarrow> is_force_abort i \<Longrightarrow>
    acts = (case active_invocation n of
       None \<Rightarrow> []
     | Some active \<Rightarrow> [\<lparr>ra_id = i, ra_action = ForceAbortStep step active reason deadline\<rparr>]) \<Longrightarrow>
    node_touch step n (n\<lparr>current_action := Some i\<rparr>) acts"

section \<open>Workflow transitions\<close>

text \<open>An issue is the detail of a node that has failed or is blocked.\<close>

definition issue_recorded :: "primary_issue \<Rightarrow> ('c, 'o, 'd) runtime_state \<Rightarrow> bool" where
  "issue_recorded issue st \<longleftrightarrow>
     (\<exists>node. state_in st (node_id node) (\<lambda>s.
        (\<exists>detail. s = Failed detail \<and> issue = primary_issue_failed node detail) \<or>
        (\<exists>detail. s = Blocked detail \<and> issue = primary_issue_blocked node detail)))"

inductive workflow_step ::
  "('c, 'o, 'd) runtime_state \<Rightarrow> transition_sequence \<Rightarrow> ('c, 'o, 'd) runtime_state \<Rightarrow>
   'd transition_event \<Rightarrow> ('p, 'c, 'o, 'd) requested_action list \<Rightarrow> bool"
  for st :: "('c, 'o, 'd) runtime_state" and sequence :: transition_sequence where
  failure_stop: "workflow st = Executing GateOpen \<Longrightarrow> w = Executing (GateFailureStopped issue) \<Longrightarrow>
    issue_recorded issue st \<Longrightarrow>
    workflow_step st sequence (st\<lparr>workflow := w\<rparr>) (EvWorkflow sequence (workflow st) w) []"
| finalizer_issue: "workflow st = Finalizing FtSucceeded FgOpen None \<Longrightarrow>
    w = Finalizing FtSucceeded FgOpen (Some issue) \<Longrightarrow> issue_recorded issue st \<Longrightarrow>
    workflow_step st sequence (st\<lparr>workflow := w\<rparr>) (EvWorkflow sequence (workflow st) w) []"
| cancel_ordinary: "workflow st = Executing gate \<Longrightarrow>
    gate = GateOpen \<and> prior = None \<or> (\<exists>issue. gate = GateFailureStopped issue \<and> prior = Some issue) \<Longrightarrow>
    workflow_step st sequence
      (st\<lparr>last_cancellation_operation := op, workflow := Executing (GateCancelling reason prior)\<rparr>)
      (EvCancellationAccepted sequence reason deadline) []"
| cancel_finalization: "workflow st = Finalizing trigger FgOpen issue \<Longrightarrow>
    map_option fin_trigger fin = map_option fin_trigger (finalization st) \<Longrightarrow>
    workflow_step st sequence
      (st\<lparr>last_cancellation_operation := op,
        workflow := Finalizing trigger (FgCancelling reason (Some deadline) False) issue,
        finalization := fin\<rparr>)
      (EvFinalizationCancellationAccepted sequence reason deadline) []"
| abort_ordinary: "force_abort st = None \<Longrightarrow> workflow st = Executing gate \<Longrightarrow>
    workflow_step st sequence
      (st\<lparr>force_abort := Some \<lparr>fae_reason = ForceAbort, fae_phase = CancelOrdinary\<rparr>,
        last_cancellation_operation := op, workflow := Executing (force_abort_gate gate)\<rparr>)
      (EvForceAbortAccepted sequence ForceAbort CancelOrdinary) []"
| abort_finalization: "force_abort st = None \<Longrightarrow> workflow st = Finalizing trigger gate issue \<Longrightarrow>
    workflow_step st sequence
      (st\<lparr>force_abort := Some \<lparr>fae_reason = ForceAbort, fae_phase = CancelFinalization\<rparr>,
        last_cancellation_operation := op,
        workflow := Finalizing trigger (force_abort_finalization_gate gate) issue,
        finalization := map_option force_abort_finalization (finalization st)\<rparr>)
      (EvForceAbortAccepted sequence ForceAbort CancelFinalization) []"
| finalize: "workflow st = Executing gate \<Longrightarrow>
    all_terminal st (ordinary_ids (definition_of st)) \<Longrightarrow> finalizer_ids (definition_of st) \<noteq> [] \<Longrightarrow>
    w = Finalizing trigger fgate issue \<Longrightarrow> fin_trigger fin = trigger \<Longrightarrow>
    (fgate = FgOpen \<longleftrightarrow> \<not> ordinary_force_abort st) \<Longrightarrow>
    workflow_step st sequence (st\<lparr>workflow := w, finalization := Some fin\<rparr>)
      (EvWorkflow sequence (workflow st) w) []"
| finish: "(\<exists>gate. workflow st = Executing gate) \<and> finalizer_ids (definition_of st) = [] \<and>
      all_terminal st (ordinary_ids (definition_of st)) \<or>
    (\<exists>trigger gate issue. workflow st = Finalizing trigger gate issue) \<and>
      all_terminal st (finalizer_ids (definition_of st)) \<Longrightarrow>
    derive_exports st = Some derived \<Longrightarrow> outcome_states result = (w, outcome) \<Longrightarrow>
    workflow_step st sequence
      (st\<lparr>workflow := w, exports := Some derived, finalization_summary := summary\<rparr>)
      (EvWorkflow sequence (workflow st) w)
      [\<lparr>ra_id = for_transition sequence, ra_action = FinishRun outcome derived\<rparr>]"

section \<open>Steps of a reduction\<close>

text \<open>
  An execution without declared outputs passes through the capturing state to success in one step
  with two transitions.
\<close>

text \<open>When the selection of ready nodes may start a node for the first time.\<close>

definition start_allowed :: "('c, 'o, 'd) runtime_state \<Rightarrow> string \<Rightarrow> bool" where
  "start_allowed st step \<longleftrightarrow>
     active_count st < maximum_parallel_steps (definition_of st) \<and>
     (\<exists>the_role. selection_gate_open st the_role \<and> step \<in> set (condition_ids st the_role) \<and>
        ready_node st the_role step \<noteq> None)"

text \<open>A node succeeds with exactly the outputs it declares.\<close>

definition outputs_declared :: "('c, 'o, 'd) runtime_state \<Rightarrow> string \<Rightarrow> 'o step_state \<Rightarrow> bool" where
  "outputs_declared st step s \<longleftrightarrow>
     (case s of
        Succeeded outputs \<Rightarrow>
          (case map_of (def_steps (definition_of st)) step of
             None \<Rightarrow> outputs = [] | Some def \<Rightarrow> bt_keys outputs = declared_outputs def)
      | _ \<Rightarrow> True)"

lemma outputs_declared_other [simp]:
  "outputs_declared st step Starting" "outputs_declared st step Running"
  "outputs_declared st step CapturingOutputs" "outputs_declared st step (Recovering round activity)"
  "outputs_declared st step (Cancelling c)" "outputs_declared st step (Failed failure)"
  "outputs_declared st step (Cancelled c)"
  "undispatched s \<Longrightarrow> outputs_declared st step s"
  by (cases s; simp add: outputs_declared_def)+

inductive micro ::
  "('p, 'c, 'o, 'd) reduction \<Rightarrow> ('p, 'c, 'o, 'd) reduction \<Rightarrow> bool" where
  node: "map_of (steps (state r)) step = Some n \<Longrightarrow>
    node_step step (allocated r) n n' acts \<Longrightarrow>
    (srs_state n = Pending \<and> srs_state n' = Starting \<longrightarrow> start_allowed (state r) step) \<and>
    outputs_declared (state r) step (srs_state n') \<Longrightarrow>
    micro r (commit_node step n n' acts r)"
| complete: "map_of (steps (state r)) step = Some n \<Longrightarrow> srs_state n = Running \<Longrightarrow>
    srs_state m = CapturingOutputs \<Longrightarrow> same_target n m \<Longrightarrow> srs_state n' = Succeeded outputs \<Longrightarrow>
    current_action n' = None \<Longrightarrow> active_invocation n' = None \<Longrightarrow>
    same_target m n' \<and> outputs_declared (state r) step (srs_state n') \<Longrightarrow>
    micro r (commit_node step m n' [] (commit_node step n m [] r))"
| touch: "map_of (steps (state r)) step = Some n \<Longrightarrow> node_touch step n n' acts \<Longrightarrow>
    micro r (touch_node step n' acts r)"
| workflow: "next_sequence (state r) = (sequence, st) \<Longrightarrow>
    workflow_step st sequence st' ev acts \<Longrightarrow>
    micro r (r\<lparr>state := st', events := events r @ [ev], actions := actions r @ acts\<rparr>)"
| operation: "\<not> workflow_terminal (workflow (state r)) \<Longrightarrow>
    micro r (r\<lparr>state := (state r)\<lparr>last_cancellation_operation := op\<rparr>\<rparr>)"
| release: "micro r (r\<lparr>actions := actions r @
      [\<lparr>ra_id = i, ra_action = ReleaseStepResources resources\<rparr>]\<rparr>)"
| accept: "micro r (r\<lparr>occurrence_accepted := accepted\<rparr>)"

abbreviation micros :: "('p, 'c, 'o, 'd) reduction \<Rightarrow> ('p, 'c, 'o, 'd) reduction \<Rightarrow> bool" where
  "micros \<equiv> micro\<^sup>*\<^sup>*"

end
