(* ===== verification/Runtime_Commits.thy ===== *)
theory Runtime_Commits
  imports Runtime_Steps
begin

text \<open>
  Well-formed definitions and states, the bookkeeping writes of the reducer, and the refinement of
  failure settlement and recovery: each is a sequence of steps of the transition system of
  \<open>Runtime_Steps\<close>.
\<close>

section \<open>Well-formed definitions and states\<close>

definition definition_wf :: "runtime_definition \<Rightarrow> bool" where
  "definition_wf d \<longleftrightarrow>
     distinct (map fst (def_steps d)) \<and> distinct (ordinary_ids d) \<and> distinct (finalizer_ids d) \<and>
     set (ordinary_ids d) = {s. \<exists>x. map_of (def_steps d) s = Some x \<and> role x = RoleStep} \<and>
     set (finalizer_ids d) = {s. \<exists>x. map_of (def_steps d) s = Some x \<and> role x = RoleFinalizer}"

definition state_wf :: "('c, 'o, 'd) runtime_state \<Rightarrow> bool" where
  "state_wf st \<longleftrightarrow>
     definition_wf (definition_of st) \<and> map fst (steps st) = map fst (def_steps (definition_of st))"

lemma map_of_keys: "map fst xs = map fst ys \<Longrightarrow> map_of xs k = None \<longleftrightarrow> map_of ys k = None"
  by (metis map_of_eq_None_iff set_map)

lemma state_wf_lookup:
  assumes "state_wf st"
  shows "map_of (def_steps (definition_of st)) s = None \<longleftrightarrow> map_of (steps st) s = None"
  using assms map_of_keys unfolding state_wf_def by metis

lemma workflow_step_frame:
  "workflow_step st sequence st' ev acts \<Longrightarrow> definition_of st' = definition_of st \<and> steps st' = steps st"
  by (induction rule: workflow_step.induct) auto

lemma next_sequence_frame:
  "next_sequence st = (sequence, st') \<Longrightarrow> definition_of st' = definition_of st \<and> steps st' = steps st"
  by (metis definition_next_sequence steps_next_sequence snd_conv)

lemma micro_frame:
  "micro r r' \<Longrightarrow> definition_of (state r') = definition_of (state r) \<and>
     map fst (steps (state r')) = map fst (steps (state r))"
  by (induction rule: micro.induct) (auto dest!: workflow_step_frame next_sequence_frame)

lemma micros_frame:
  "micros r r' \<Longrightarrow> definition_of (state r') = definition_of (state r) \<and>
     map fst (steps (state r')) = map fst (steps (state r))"
  by (induction rule: rtranclp_induct) (auto dest: micro_frame)

lemma micros_definition: "micros r r' \<Longrightarrow> definition_of (state r') = definition_of (state r)"
  by (simp add: micros_frame)

lemma micros_wf: "micros r r' \<Longrightarrow> state_wf (state r) \<Longrightarrow> state_wf (state r')"
  by (simp add: state_wf_def micros_frame)

section \<open>Bookkeeping\<close>

lemma bookkept_refl [simp]: "bookkept n n"
  by (simp add: bookkept_def same_target_def)

lemma bookkept_trans: "bookkept n m \<Longrightarrow> bookkept m k \<Longrightarrow> bookkept n k"
  by (simp add: bookkept_def same_target_def)

lemma bookkept_state: "bookkept n n' \<Longrightarrow> srs_state n' = srs_state n"
  by (simp add: bookkept_def)

definition books :: "string \<Rightarrow> ('c, 'o, 'd) runtime_state \<Rightarrow> ('c, 'o, 'd) runtime_state \<Rightarrow> bool" where
  "books step st st' \<longleftrightarrow> (\<exists>f. st' = modify_step step f st \<and> (\<forall>n. bookkept n (f n)))"

lemma modify_step_ident: "modify_step step (\<lambda>n. n) st = st"
  by (simp add: modify_step_def bt_modify_ident)

lemma books_refl [simp]: "books step st st"
  unfolding books_def using modify_step_ident [of step st] by (intro exI [of _ "\<lambda>n. n"]) simp

lemma books_trans: "books step st st' \<Longrightarrow> books step st' st'' \<Longrightarrow> books step st st''"
  unfolding books_def
proof (elim exE conjE)
  fix f g
  assume "st' = modify_step step f st" "\<forall>n. bookkept n (f n)"
    and "st'' = modify_step step g st'" "\<forall>n. bookkept n (g n)"
  then show "\<exists>h. st'' = modify_step step h st \<and> (\<forall>n. bookkept n (h n))"
    by (intro exI [of _ "\<lambda>n. g (f n)"]) (auto intro: bookkept_trans)
qed

lemma books_modify_recovery:
  assumes "\<And>rec. rec_configured_rounds (f rec) = rec_configured_rounds rec"
    and "\<And>rec. rec_handler_kind (f rec) = rec_handler_kind rec"
    and "\<And>rec. map (\<lambda>record. (rr_number record, ptf_execution_number (rr_failed_execution record)))
        (rec_rounds (f rec)) =
      map (\<lambda>record. (rr_number record, ptf_execution_number (rr_failed_execution record)))
        (rec_rounds rec)"
  shows "books step st (modify_recovery step f st)"
  unfolding books_def modify_recovery_def
  using assms
  by (intro exI [of _ "\<lambda>n. n\<lparr>recovery := map_option f (recovery n)\<rparr>"])
    (auto simp: bookkept_def same_target_def recovery_shape_def option.map_comp comp_def)

lemma map_map_last:
  "(\<And>x. g (f x) = g x) \<Longrightarrow> map g (map_last f xs) = map g xs"
  by (cases xs rule: rev_cases) (simp_all add: map_last_def)

lemma books_set_handler_outcome: "books step st (set_handler_outcome step round outcome st)"
  unfolding set_handler_outcome_def by (rule books_modify_recovery) (auto intro!: map_map_last)

lemma books_set_recovery_disposition: "books step st (set_recovery_disposition step d st)"
  unfolding set_recovery_disposition_def by (rule books_modify_recovery) auto

lemmas books_writes = books_set_handler_outcome books_set_recovery_disposition

lemma books_marks:
  "books step st (mark_recovery_exhausted step st)"
  "books step st (mark_handler_cancelled step active st)"
  "books step st (mark_recovery_cancelled step active st)"
  by (auto simp: mark_recovery_exhausted_def mark_handler_cancelled_def mark_recovery_cancelled_def
      books_writes split: option.splits active_step_invocation.splits)

lemma mark_recovered_books:
  "\<exists>st'. mark_recovered step r = r\<lparr>state := st'\<rparr> \<and> books step (state r) st'"
  by (cases "activated_recovery_execution (state r) step")
    (auto simp: mark_recovered_def books_writes intro: exI [of _ "state r"])

text \<open>A transition after bookkeeping is one commit of the node with its new books.\<close>

lemma transition_step_books:
  assumes "books step (modify_step step f (state r)) st'"
    and "map_of (steps (state r)) step = Some n" and "srs_state (f n) = srs_state n"
  obtains m where "bookkept (f n) m" and "map_of (steps st') step = Some m"
    and "\<And>to a. transition_step step to a (r\<lparr>state := st'\<rparr>) =
      (allocated r, commit_node step n (m\<lparr>srs_state := to, current_action := a\<rparr>) [] r)"
proof -
  obtain g where g: "st' = modify_step step (\<lambda>n. g (f n)) (state r)" "\<forall>n. bookkept n (g n)"
    using assms(1) by (auto simp: books_def)
  show ?thesis
  proof (rule that [of "g (f n)"])
    show "transition_step step to a (r\<lparr>state := st'\<rparr>) =
      (allocated r, commit_node step n ((g (f n))\<lparr>srs_state := to, current_action := a\<rparr>) [] r)" for to a
      unfolding g(1)
      by (rule transition_step_modified) (use assms(2,3) g(2) in \<open>auto simp: bookkept_def\<close>)
  qed (use assms g in auto)
qed

section \<open>Issues\<close>

lemma micros_workflow:
  assumes "next_sequence (state r) = (sequence, st)" and "workflow_step st sequence st' ev acts"
    and "r' = r\<lparr>state := st', events := events r @ [ev], actions := actions r @ acts\<rparr>"
  shows "micros r r'"
  using assms micro.workflow by blast

lemma issue_recorded_steps:
  "steps st' = steps st \<Longrightarrow> issue_recorded issue st' = issue_recorded issue st"
  by (simp add: issue_recorded_def state_in_def)

lemma issue_recorded_failed:
  "map_of (steps (state r)) (node_id node) = Some n \<Longrightarrow> srs_state n' = Failed detail \<Longrightarrow>
   issue_recorded (primary_issue_failed node detail) (state (commit_node (node_id node) n n' acts r))"
  by (auto simp: issue_recorded_def state_in_def intro!: exI [of _ node])

lemma issue_recorded_blocked:
  "map_of (steps (state r)) (node_id node) = Some n \<Longrightarrow> srs_state n' = Blocked detail \<Longrightarrow>
   issue_recorded (primary_issue_blocked node detail) (state (commit_node (node_id node) n n' acts r))"
  by (auto simp: issue_recorded_def state_in_def intro!: exI [of _ node])

lemma close_gate_micros:
  assumes "issue_recorded issue (state r)"
  shows "micros r (close_ordinary_gate_for_failure issue r)"
proof (cases "workflow (state r) = Executing GateOpen")
  case True
  obtain sequence st where alloc: "next_sequence (state r) = (sequence, st)"
    by (cases "next_sequence (state r)")
  then have "workflow st = Executing GateOpen"
    using True next_sequence_other_fields(1) [of "state r"] by simp
  then have "workflow_step st sequence (st\<lparr>workflow := Executing (GateFailureStopped issue)\<rparr>)
      (EvWorkflow sequence (workflow st) (Executing (GateFailureStopped issue))) []"
    using assms issue_recorded_steps [of st "state r"] next_sequence_frame [OF alloc]
    by (intro workflow_step.failure_stop) simp_all
  from micros_workflow [OF alloc this refl] show ?thesis
    using True alloc \<open>workflow st = _\<close>
    by (simp add: close_ordinary_gate_for_failure_def push_workflow_event_def Let_def)
qed (auto simp: close_ordinary_gate_for_failure_def
    split: workflow_state.splits scheduling_gate.splits)

lemma select_issue_micros:
  assumes "issue_recorded issue (state r)"
  shows "micros r (select_finalizer_primary_issue issue r)"
proof (cases "workflow (state r) = Finalizing FtSucceeded FgOpen None")
  case True
  obtain sequence st where alloc: "next_sequence (state r) = (sequence, st)"
    by (cases "next_sequence (state r)")
  then have w: "workflow st = Finalizing FtSucceeded FgOpen None"
    using True next_sequence_other_fields(1) [of "state r"] by simp
  then have "workflow_step st sequence (st\<lparr>workflow := Finalizing FtSucceeded FgOpen (Some issue)\<rparr>)
      (EvWorkflow sequence (workflow st) (Finalizing FtSucceeded FgOpen (Some issue))) []"
    using assms issue_recorded_steps [of st "state r"] next_sequence_frame [OF alloc]
    by (intro workflow_step.finalizer_issue) simp_all
  from micros_workflow [OF alloc this refl] show ?thesis
    using True alloc w by (simp add: select_finalizer_primary_issue_def push_workflow_event_def Let_def)
qed (auto simp: select_finalizer_primary_issue_def
    split: workflow_state.splits finalization_gate.splits option.splits)

lemma commit_required_issue_micros:
  "issue_recorded issue (state r) \<Longrightarrow> micros r (commit_required_issue def issue r)"
  by (auto simp: commit_required_issue_def close_gate_micros select_issue_micros
      split: workflow_node_role.splits)

lemma micros_then_issue:
  "micros r r' \<Longrightarrow> issue_recorded issue (state r') \<Longrightarrow> micros r (commit_required_issue def issue r')"
  by (erule rtranclp_trans) (rule commit_required_issue_micros)

lemma micros_node:
  assumes "map_of (steps (state r)) step = Some n"
    and "node_step step (allocated r) n n' acts"
    and "srs_state n \<noteq> Pending \<or> srs_state n' \<noteq> Starting"
    and "outputs_declared (state r) step (srs_state n')"
  shows "micros r (commit_node step n n' acts r)"
  using micro.node [OF assms(1,2)] assms(3,4) by auto

section \<open>Settlement\<close>

lemma settle_target_failure_commit:
  assumes "books step (modify_step step f (state r)) st'"
    and "map_of (steps (state r)) step = Some n" and "srs_state (f n) = srs_state n"
  obtains m where "same_target (f n) m" and "srs_state m = Failed detail" and "current_action m = None"
    and "active_invocation m = None"
    and "settle_target_failure step def detail (r\<lparr>state := st'\<rparr>) =
       commit_required_issue def (primary_issue_failed (WorkflowNode step (role def)) detail)
         (commit_node step n m [] r)"
proof (rule transition_step_books [OF assms])
  fix m
  assume m: "bookkept (f n) m" "\<And>to a. transition_step step to a (r\<lparr>state := st'\<rparr>) =
      (allocated r, commit_node step n (m\<lparr>srs_state := to, current_action := a\<rparr>) [] r)"
  show thesis
  proof (rule that [of "m\<lparr>srs_state := Failed detail, current_action := None, active_invocation := None\<rparr>"])
    show "same_target (f n) (m\<lparr>srs_state := Failed detail, current_action := None, active_invocation := None\<rparr>)"
      using m(1) by (simp add: bookkept_def same_target_def recovery_shape_def)
  qed (simp_all add: settle_target_failure_def Let_def m(2) clear_active_invocation_def
      modify_commit [OF assms(2)])
qed

lemma settle_target_failure_micros:
  assumes "books step (state r) st'" and n: "map_of (steps (state r)) step = Some n"
    and "srs_state n = Pending \<or> invocation_active (srs_state n)"
  shows "micros r (settle_target_failure step def detail (r\<lparr>state := st'\<rparr>))"
proof -
  have "books step (modify_step step (\<lambda>n. n) (state r)) st'"
    using assms(1) by (simp add: modify_step_ident)
  from settle_target_failure_commit [OF this n refl] obtain m where m: "same_target n m"
    "srs_state m = Failed detail" "current_action m = None" "active_invocation m = None"
    and eq: "settle_target_failure step def detail (r\<lparr>state := st'\<rparr>) =
       commit_required_issue def (primary_issue_failed (WorkflowNode step (role def)) detail)
         (commit_node step n m [] r)"
    by metis
  have "micros r (commit_node step n m [] r)"
    using node_step.fail [OF assms(3) m(2,3,4,1)] by (intro micros_node [OF n]) (auto simp: m)
  then show ?thesis
    unfolding eq using issue_recorded_failed [of r "WorkflowNode step (role def)" n m] n m(2)
    by (auto intro: micros_then_issue)
qed

lemma settle_failure_micros:
  assumes "map_of (steps (state r)) step = Some n"
    and "srs_state n = Pending \<or> invocation_active (srs_state n)"
  shows "micros r (settle_target_failure step def detail r)"
  using settle_target_failure_micros [OF books_refl assms] by simp

text \<open>The failure that follows the last execution number.\<close>

lemma settle_last_failure_micros:
  assumes "books step (modify_step step (add_round record) (state r)) st'"
    and n: "map_of (steps (state r)) step = Some n"
    and due: "round_due n record number" "execution_next number = None"
  shows "micros r (settle_target_failure step def detail (r\<lparr>state := st'\<rparr>))"
proof -
  have keep: "srs_state (add_round record n) = srs_state n"
    by (simp add: add_round_def)
  from settle_target_failure_commit [OF assms(1) n keep] obtain m where m:
    "same_target (add_round record n) m"
    "srs_state m = Failed detail" "current_action m = None" "active_invocation m = None"
    and eq: "settle_target_failure step def detail (r\<lparr>state := st'\<rparr>) =
       commit_required_issue def (primary_issue_failed (WorkflowNode step (role def)) detail)
         (commit_node step n m [] r)"
    by metis
  have "micros r (commit_node step n m [] r)"
    using node_step.fail_last [OF due m(2,3,4,1)] by (intro micros_node [OF n]) (auto simp: m)
  then show ?thesis
    unfolding eq using issue_recorded_failed [of r "WorkflowNode step (role def)" n m] n m(2)
    by (auto intro: micros_then_issue)
qed

text \<open>A pending node is settled without having been dispatched.\<close>

lemma dispose_micros:
  assumes "map_of (steps (state r)) step = Some n" and "srs_state n = Pending" and "undispatched to"
  shows "micros r (snd (transition_step step to None r))"
proof -
  have "node_step step (allocated r) n (n\<lparr>srs_state := to, current_action := None\<rparr>) []"
    using assms by (intro node_step.dispose) (simp_all add: same_target_def recovery_shape_def)
  then show ?thesis
    using assms by (auto simp: transition_step_commit intro!: micros_node)
qed

lemma settle_blocked_micros:
  assumes "map_of (steps (state r)) step = Some n" and "srs_state n = Pending"
  shows "micros r (settle_blocked step detail r)"
  using dispose_micros [OF assms, of "Blocked detail"] assms(1)
    issue_recorded_blocked [of r "WorkflowNode step _" n]
  by (auto simp: settle_blocked_def Let_def transition_step_commit split: option.splits
      intro: micros_then_issue)

section \<open>Recovery\<close>

lemma authorize_target_commit:
  assumes "map_of (steps (state r)) step = Some n" and "srs_state (f n) = srs_state n"
  shows "authorize_target step number ins (r\<lparr>state := modify_step step f (state r)\<rparr>) =
    commit_node step n (started_target (allocated r) number (f n))
      [\<lparr>ra_id = for_transition (allocated r), ra_action = StartStep step number ins\<rparr>] r"
proof -
  have "transition_step step Starting None
      (r\<lparr>state := modify_step step (\<lambda>n. (f n)\<lparr>target_execution := Some number\<rparr>) (state r)\<rparr>) =
    (allocated r, commit_node step n ((f n)\<lparr>target_execution := Some number, srs_state := Starting,
        current_action := None\<rparr>) [] r)"
    using assms by (subst transition_step_modified) auto
  then show ?thesis
    using assms(1)
    by (simp add: authorize_target_def Let_def set_current_action_def modify_commit [OF assms(1)]
        push_commit started_target_def)
qed

lemma add_round_modify:
  "modify_recovery step (\<lambda>rec. rec\<lparr>rec_rounds := rec_rounds rec @ [record]\<rparr>) =
   modify_step step (add_round record)"
  by (simp add: modify_recovery_def add_round_def [abs_def])

lemma add_round_fields [simp]:
  "srs_state (add_round record n) = srs_state n"
  "current_action (add_round record n) = current_action n"
  "active_invocation (add_round record n) = active_invocation n"
  "target_execution (add_round record n) = target_execution n"
  "target_invocation (add_round record n) = target_invocation n"
  "condition_passed (add_round record n) = condition_passed n"
  by (simp_all add: add_round_def)

lemma next_round_number_Some:
  "next_round_number rounds = Some v \<Longrightarrow> unat v = Suc (length rounds)"
  by (auto simp: next_round_number_def unat_of_nat dest!: checked_add_SomeD split: if_splits)

text \<open>
  Activating a recovery round either does not happen, or adds the due round: then the handler or the
  next execution starts, or no further execution number is left.
\<close>

lemma start_recovery_handler_micros:
  fixes r :: "('p, 'c, 'o, 'd) reduction"
  assumes n: "map_of (steps (state r)) step = Some n"
    and due: "round_due n record number" and "rr_number record = round"
  shows "\<exists>r'. start_recovery_handler step round hk
      (r\<lparr>state := modify_step step (add_round record) (state r)\<rparr>) = (True, r') \<and> micros r r'"
proof -
  obtain rec where rec: "recovery n = Some rec"
    using due by (auto simp: round_due_def split: option.splits)
  define handler where "handler = \<lparr>rh_kind = hk, rh_invocation = for_transition (allocated r),
    rh_outcome = (HoStarting :: 'c recovery_handler_outcome)\<rparr>"
  define put where "put = (\<lambda>m :: ('c, 'o) step_runtime_state. m\<lparr>recovery :=
    map_option (\<lambda>rec. rec\<lparr>rec_rounds := map_last (\<lambda>record. record\<lparr>rr_handler := Some handler\<rparr>)
      (rec_rounds rec)\<rparr>) (recovery m)\<rparr>)"
  define m where "m = (add_round record n)\<lparr>active_invocation := Some (ActiveRecoveryHandler round),
    srs_state := Recovering round HandlerStarting, current_action := None\<rparr>"
  have trans: "transition_step step (Recovering round HandlerStarting) None
      (r\<lparr>state := modify_step step (\<lambda>n. (add_round record n)
        \<lparr>active_invocation := Some (ActiveRecoveryHandler round)\<rparr>) (state r)\<rparr>) =
    (allocated r, commit_node step n m [] r)"
    using n by (subst transition_step_modified) (auto simp: m_def)
  have rm: "recovery m = Some (rec\<lparr>rec_rounds := rec_rounds rec @ [record]\<rparr>)"
    using rec by (simp add: m_def add_round_def)
  have latest: "latest_target_failure (state (commit_node step n m [] r)) step \<noteq> None"
    using n rec by (simp add: latest_target_failure_def m_def add_round_def)
  have *: "start_recovery_handler step round hk
      (r\<lparr>state := modify_step step (add_round record) (state r)\<rparr>) =
    (True, commit_node step n ((put m)\<lparr>current_action := Some (for_transition (allocated r))\<rparr>)
      [\<lparr>ra_id = for_transition (allocated r), ra_action = StartRecoveryHandler step round hk
        (rec_rounds (the (recovery (put m))))\<rparr>] r)"
    using n latest rm
    by (simp add: start_recovery_handler_def Let_def trans set_current_action_def
        modify_recovery_def modify_commit [OF n] push_commit put_def handler_def)
  have "same_target (add_round record n)
      ((put m)\<lparr>current_action := Some (for_transition (allocated r))\<rparr>)"
    by (simp add: same_target_def recovery_shape_def put_def m_def option.map_comp comp_def
        map_map_last)
  then have "node_step step (allocated r) n
      ((put m)\<lparr>current_action := Some (for_transition (allocated r))\<rparr>)
      [\<lparr>ra_id = for_transition (allocated r), ra_action = StartRecoveryHandler step round hk
        (rec_rounds (the (recovery (put m))))\<rparr>]"
    by (intro node_step.recover [OF due assms(3)]) (simp_all add: put_def m_def)
  then show ?thesis
    unfolding * using due
    by (auto intro!: micros_node [OF n] simp: round_due_def put_def m_def)
qed

lemma activate_recovery_round_cases:
  assumes n: "map_of (steps (state r)) step = Some n" and "target_active (srs_state n)"
    and def: "map_of (def_steps (definition_of (state r))) step = Some def"
    and act: "activate_recovery_round step phase detail cause r = (activated, r')"
  obtains (activated) "activated" "micros r r'"
    | (unchanged) "\<not> activated" "r' = r"
    | (last) entry number where "\<not> activated" "round_due n entry number"
      "execution_next number = None"
      "r' = r\<lparr>state := modify_step step (add_round entry) (state r)\<rparr>"
proof (cases "activated \<or> r' \<noteq> r")
  case True
  then obtain execution invocation rec v where node: "target_execution n = Some execution"
    "target_invocation n = Some invocation" "recovery n = Some rec"
    and rounds: "length (rec_rounds rec) < unat (rec_configured_rounds rec)"
    and v: "next_round_number (rec_rounds rec) = Some v" "v = execution_get execution"
    using act n
    by (auto simp: activate_recovery_round_def split: option.splits if_splits)
  define entry where "entry = \<lparr>rr_number = RecoveryRoundNumber v,
    rr_failed_execution = \<lparr>ptf_execution_number = execution, ptf_invocation = invocation,
      ptf_phase = phase, ptf_detail = detail, ptf_cause = cause\<rparr>, rr_handler = None\<rparr>"
  have due: "round_due n entry execution"
    using assms(2) node rounds next_round_number_Some [OF v(1)] v(2)
    by (simp add: round_due_def entry_def)
  define r1 where "r1 = r\<lparr>state := modify_step step (add_round entry) (state r)\<rparr>"
  have act': "(case rec_handler_kind rec of
       Some hk \<Rightarrow> start_recovery_handler step (RecoveryRoundNumber v) hk r1
     | None \<Rightarrow>
         (case execution_next execution of
            None \<Rightarrow> (False, r1)
          | Some number \<Rightarrow>
              (True, authorize_target step number (resolved_action_inputs (state r1) def) r1))) =
    (activated, r')"
    using act n node rounds v def unfolding r1_def entry_def
    by (cases "rec_handler_kind rec"; cases "execution_next execution")
      (simp_all add: activate_recovery_round_def Let_def add_round_modify not_le)
  show ?thesis
  proof (cases "rec_handler_kind rec")
    case (Some hk)
    then have "start_recovery_handler step (RecoveryRoundNumber v) hk r1 = (activated, r')"
      using act' by simp
    moreover have "\<exists>r'. start_recovery_handler step (RecoveryRoundNumber v) hk r1 = (True, r') \<and>
        micros r r'"
      unfolding r1_def by (rule start_recovery_handler_micros [OF n due]) (simp add: entry_def)
    ultimately show ?thesis
      using activated by auto
  next
    case None
    show ?thesis
    proof (cases "execution_next execution")
      case None
      then show ?thesis
        using act' \<open>rec_handler_kind rec = None\<close> by (intro last [OF _ due None]) (auto simp: r1_def)
    next
      case (Some number)
      have "r' = commit_node step n (started_target (allocated r) number (add_round entry n))
          [\<lparr>ra_id = for_transition (allocated r),
            ra_action = StartStep step number (resolved_action_inputs (state r1) def)\<rparr>] r"
        using act' \<open>rec_handler_kind rec = None\<close> Some authorize_target_commit [OF n, of "add_round entry"]
        by (simp add: r1_def)
      moreover have "micros r \<dots>"
        using due by (intro micros_node [OF n] node_step.retry [OF due Some]) (auto simp: round_due_def)
      ultimately show ?thesis
        using activated act' \<open>rec_handler_kind rec = None\<close> Some by simp
    qed
  qed
qed (use unchanged in auto)

lemma kind_eq_iff [simp]:
  "kind s = KPending \<longleftrightarrow> s = Pending"
  "kind s = KStarting \<longleftrightarrow> s = Starting"
  "kind s = KRunning \<longleftrightarrow> s = Running"
  "kind s = KCapturingOutputs \<longleftrightarrow> s = CapturingOutputs"
  "kind s = KRecovering \<longleftrightarrow> (\<exists>round h. s = Recovering round h)"
  "kind s = KCancelling \<longleftrightarrow> (\<exists>d. s = Cancelling d)"
  by (cases s; simp)+

lemma step_acceptsD:
  assumes "step_accepts st step k a"
  obtains n where "map_of (steps st) step = Some n" and "kind (srs_state n) = k"
    and "current_action n = Some a"
  using assms by (auto simp: step_accepts_def split: option.splits)

lemma target_active_kind:
  "kind s = k \<Longrightarrow> k = KStarting \<or> k = KRunning \<or> k = KCapturingOutputs \<Longrightarrow> target_active s"
  by auto

lemma target_active_invocation: "target_active s \<Longrightarrow> invocation_active s"
  by (cases s) auto

lemma apply_step_failure_refines:
  assumes "apply_step_failure ports step action k phase cause r = (accepted, r')"
    and "k = KStarting \<or> k = KRunning \<or> k = KCapturingOutputs"
  shows "micros r r' \<and> (\<not> accepted \<longrightarrow> r' = r)"
proof (cases "step_accepts (state r) step k action")
  case True
  then obtain n where n: "map_of (steps (state r)) step = Some n" "kind (srs_state n) = k"
    by (rule step_acceptsD)
  then have active: "target_active (srs_state n)"
    using assms(2) by (intro target_active_kind)
  show ?thesis
  proof (cases "map_of (def_steps (definition_of (state r))) step")
    case None
    then show ?thesis
      using assms(1) True by (simp add: apply_step_failure_def)
  next
    case (Some def)
    show ?thesis
    proof (cases "node_failure_detail ports cause phase")
      case (Inl e)
      then show ?thesis
        using assms(1) True Some by (simp add: apply_step_failure_def)
    next
      case (Inr detail)
      define attempt where "attempt =
        (if role def = RoleStep then activate_recovery_round step phase detail cause r else (False, r))"
      obtain activated r1 where attempt: "attempt = (activated, r1)"
        by (cases attempt)
      define r2 where "r2 = (if step_recovery_policy def \<noteq> None
        then r1\<lparr>state := mark_recovery_exhausted step (state r1)\<rparr> else r1)"
      have result: "(accepted, r') =
        (True, if activated then r1 else settle_target_failure step def detail r2)"
        using assms(1) True Some Inr attempt
        by (simp add: apply_step_failure_def Let_def attempt_def r2_def split: if_splits)
      have books: "\<exists>st'. r2 = r1\<lparr>state := st'\<rparr> \<and> books step (state r1) st'"
        using books_marks(1) [of step "state r1"] by (auto simp: r2_def intro: exI [of _ "state r1"])
      consider "activated" "micros r r1" | "\<not> activated" "r1 = r"
        | entry number where "\<not> activated" "round_due n entry number" "execution_next number = None"
          "r1 = r\<lparr>state := modify_step step (add_round entry) (state r)\<rparr>"
      proof (cases "role def = RoleStep")
        case True
        then have "activate_recovery_round step phase detail cause r = (activated, r1)"
          using attempt by (simp add: attempt_def)
        then show ?thesis
          using activate_recovery_round_cases [OF n(1) active Some] that by metis
      qed (use attempt that in \<open>auto simp: attempt_def\<close>)
      then show ?thesis
      proof cases
        case 1
        then show ?thesis using result by simp
      next
        case 2
        then show ?thesis
          using result books settle_target_failure_micros [OF _ n(1)]
            target_active_invocation [OF active] by auto
      next
        case 3
        then show ?thesis
          using result books settle_last_failure_micros [OF _ n(1)] by auto
      qed
    qed
  qed
qed (use assms in \<open>simp add: apply_step_failure_def\<close>)

end
