(* ===== verification/Runtime_Refinement.thy ===== *)
theory Runtime_Refinement
  imports Runtime_Commits
begin

text \<open>
  The refinement of recovery handlers, node occurrences, cancellation and force abort, and with them
  of the dispatch of an occurrence: each is a sequence of steps of the transition system of
  \<open>Runtime_Steps\<close>.
\<close>

section \<open>Recovery handlers\<close>

lemma books_touch:
  assumes "books step (state r) st'" and n: "map_of (steps (state r)) step = Some n"
  shows "micros r (r\<lparr>state := st'\<rparr>)"
proof -
  obtain f where f: "st' = modify_step step f (state r)" "\<forall>n. bookkept n (f n)"
    using assms(1) by (auto simp: books_def)
  have "node_touch step n (f n) []"
    using f(2) by (intro node_touch.note_recovery) simp
  then have "micro r (touch_node step (f n) [] r)"
    by (rule micro.touch [OF n])
  then show ?thesis
    using modify_step_const [OF n, of f] f(1) by (simp add: touch_node_def)
qed

lemma settle_latest_micros:
  assumes "books step (state r) st'" and n: "map_of (steps (state r)) step = Some n"
    and "invocation_active (srs_state n)"
  shows "micros r (settle_latest_target_failure step (r\<lparr>state := st'\<rparr>))"
  using books_touch [OF assms(1,2)] settle_target_failure_micros [OF assms(1,2)] assms(3)
  by (auto simp: settle_latest_target_failure_def split: option.splits)

lemma latest_failure_books:
  assumes "books step (state r) st'" and n: "map_of (steps (state r)) step = Some n"
    and "latest_target_failure st' step = Some failure"
  obtains rec where "recovery n = Some rec" and "rec_rounds rec \<noteq> []"
    and "ptf_execution_number failure =
      ptf_execution_number (rr_failed_execution (last (rec_rounds rec)))"
proof -
  obtain f where f: "st' = modify_step step f (state r)" "\<forall>n. bookkept n (f n)"
    using assms(1) by (auto simp: books_def)
  obtain rec' where rec': "recovery (f n) = Some rec'" "rec_rounds rec' \<noteq> []"
    "failure = rr_failed_execution (last (rec_rounds rec'))"
    using assms(3) n f(1)
    by (auto simp: latest_target_failure_def split: option.splits if_splits)
  have "recovery_shape (f n) = recovery_shape n"
    using f(2) by (simp add: bookkept_def same_target_def)
  then obtain rec where rec: "recovery n = Some rec"
    and rounds: "map (\<lambda>record. (rr_number record, ptf_execution_number (rr_failed_execution record)))
        (rec_rounds rec') =
      map (\<lambda>record. (rr_number record, ptf_execution_number (rr_failed_execution record)))
        (rec_rounds rec)"
    using rec'(1) by (cases "recovery n") (auto simp: recovery_shape_def)
  have "rec_rounds rec \<noteq> []"
    using rounds rec'(2) by auto
  moreover from this rounds rec'(2) have
    "ptf_execution_number (rr_failed_execution (last (rec_rounds rec'))) =
     ptf_execution_number (rr_failed_execution (last (rec_rounds rec)))"
    by (metis (no_types, lifting) last_map snd_conv)
  ultimately show ?thesis
    using that rec rec'(3) by simp
qed

lemma handler_acceptsD:
  assumes "handler_accepts st step round h a"
  obtains n where "map_of (steps st) step = Some n" and "srs_state n = Recovering round h"
    and "current_action n = Some a" and "active_invocation n = Some (ActiveRecoveryHandler round)"
  using assms by (auto simp: handler_accepts_def split: option.splits)

lemma recheck_micros:
  assumes "books step (state r) st'" and n: "map_of (steps (state r)) step = Some n"
    and "srs_state n = Recovering round HandlerRunning"
    and "latest_target_failure st' step = Some failure"
    and "execution_next (ptf_execution_number failure) = Some number"
  shows "micros r (authorize_target step number ins (r\<lparr>state := st'\<rparr>))"
proof (rule latest_failure_books [OF assms(1) n assms(4)])
  fix rec
  assume rec: "recovery n = Some rec" "rec_rounds rec \<noteq> []"
    "ptf_execution_number failure =
      ptf_execution_number (rr_failed_execution (last (rec_rounds rec)))"
  obtain f where f: "st' = modify_step step f (state r)" "\<forall>n. bookkept n (f n)"
    using assms(1) by (auto simp: books_def)
  have "same_target n (f n)" and "srs_state (f n) = srs_state n"
    using f(2) by (simp_all add: bookkept_def)
  then show ?thesis
    unfolding f(1) authorize_target_commit [where f = f, OF n \<open>srs_state (f n) = srs_state n\<close>]
    by (intro micros_node [OF n] node_step.recheck [OF assms(3) rec(1,2)])
      (use assms(3,5) rec(3) in auto)
qed

lemma apply_handler_decision_micros:
  assumes "apply_handler_decision step round action decision r = (accepted, r')"
  shows "micros r r'"
proof (cases "handler_accepts (state r) step round HandlerRunning action")
  case True
  then obtain n where n: "map_of (steps (state r)) step = Some n"
    and rec: "srs_state n = Recovering round HandlerRunning"
    by (rule handler_acceptsD)
  define outcome :: "'b recovery_handler_outcome" where "outcome = (case decision_kind decision of
      Recheck \<Rightarrow> HoRecheck (decision_summary decision) (decision_reason decision)
    | GaveUp \<Rightarrow> HoGaveUp (decision_summary decision) (decision_reason decision))"
  define st1 where "st1 = set_handler_outcome step round outcome (state r)"
  have b1: "books step (state r) st1"
    by (simp add: st1_def books_writes)
  have b2: "books step (state r) (set_recovery_disposition step (RtGaveUp round) st1)"
    using b1 books_writes(2) by (rule books_trans)
  show ?thesis
  proof (cases "decision_kind decision")
    case GaveUp
    then show ?thesis
      using assms True settle_latest_micros [OF b2 n] rec
      by (auto simp: apply_handler_decision_def Let_def st1_def outcome_def)
  next
    case Recheck
    then show ?thesis
      using assms True books_touch [OF b1 n] recheck_micros [OF b1 n rec]
      by (auto simp: apply_handler_decision_def Let_def st1_def outcome_def split: option.splits)
  qed
qed (use assms in \<open>simp add: apply_handler_decision_def\<close>)

lemma apply_handler_failure_refines:
  assumes "apply_handler_failure step round action h phase cause r = (accepted, r')"
  shows "micros r r' \<and> (\<not> accepted \<longrightarrow> r' = r)"
proof (cases "handler_accepts (state r) step round h action")
  case True
  then obtain n where n: "map_of (steps (state r)) step = Some n"
    and rec: "srs_state n = Recovering round h"
    by (rule handler_acceptsD)
  have "books step (state r) (set_recovery_disposition step (RtHandlerFailed round phase)
      (set_handler_outcome step round (HoFailed phase cause) (state r)))"
    by (rule books_trans) (rule books_writes)+
  from settle_latest_micros [OF this n] show ?thesis
    using assms True rec by (auto simp: apply_handler_failure_def Let_def)
qed (use assms in \<open>simp add: apply_handler_failure_def\<close>)

section \<open>Node occurrences\<close>

lemma micros_push_release:
  "micros r (if b then push_action i (ReleaseStepResources resources) r else r)"
  using micro.release [of r i resources] by (auto simp: push_action_def)

lemma books_id: "books step (state r) st' \<Longrightarrow> books step (modify_step step (\<lambda>n. n) (state r)) st'"
  by (simp add: modify_step_ident)

text \<open>The common end of a successful execution.\<close>

lemma succeed_commit:
  assumes n: "map_of (steps (state r)) step = Some n"
    and "r1 = snd (transition_step step (Succeeded outputs) None (mark_recovered step r))"
  obtains n' where "srs_state n' = Succeeded outputs" and "current_action n' = None"
    and "active_invocation n' = None" and "same_target n n'"
    and "r1\<lparr>state := clear_active_invocation step (state r1)\<rparr> = commit_node step n n' [] r"
proof -
  obtain st' where st': "mark_recovered step r = r\<lparr>state := st'\<rparr>" and "books step (state r) st'"
    using mark_recovered_books [of step r] by blast
  from this(2) have books: "books step (modify_step step (\<lambda>n. n) (state r)) st'"
    by (rule books_id)
  show ?thesis
  proof (rule transition_step_books [OF books n refl])
    fix m
    assume m: "bookkept n m" "\<And>to a. transition_step step to a (r\<lparr>state := st'\<rparr>) =
      (allocated r, commit_node step n (m\<lparr>srs_state := to, current_action := a\<rparr>) [] r)"
    show ?thesis
    proof (rule that [of "m\<lparr>srs_state := Succeeded outputs, current_action := None,
        active_invocation := None\<rparr>"])
      show "same_target n (m\<lparr>srs_state := Succeeded outputs, current_action := None,
          active_invocation := None\<rparr>)"
        using m(1) by (simp add: bookkept_def same_target_def recovery_shape_def)
    qed (use assms(2) in \<open>simp_all add: st' m(2) clear_active_invocation_def modify_commit [OF n]\<close>)
  qed
qed

lemma succeed_micros:
  assumes n: "map_of (steps (state r)) step = Some n" and "srs_state n = CapturingOutputs"
    and "r1 = snd (transition_step step (Succeeded outputs) None (mark_recovered step r))"
    and "outputs_match_declaration (state r) step outputs"
  shows "micros r (r1\<lparr>state := clear_active_invocation step (state r1)\<rparr>)"
proof (rule succeed_commit [OF n assms(3)])
  fix n'
  assume n': "srs_state n' = Succeeded outputs" "current_action n' = None"
    "active_invocation n' = None" "same_target n n'"
    and eq: "r1\<lparr>state := clear_active_invocation step (state r1)\<rparr> = commit_node step n n' [] r"
  show ?thesis
    unfolding eq using node_step.succeed [OF assms(2) n'] assms(2,4) n'(1)
    by (intro micros_node [OF n])
      (auto simp: outputs_declared_def outputs_match_declaration_def split: option.splits)
qed

lemma complete_execution_refines:
  assumes "complete_execution ports step action resources r = (accepted, r')"
  shows "micros r r' \<and> (\<not> accepted \<longrightarrow> state r' = state r \<and> events r' = events r)"
proof (cases "step_accepts (state r) step KRunning action")
  case True
  then obtain n where n: "map_of (steps (state r)) step = Some n" and run: "srs_state n = Running"
    by (rule step_acceptsD) simp
  define m where "m = n\<lparr>srs_state := CapturingOutputs, current_action := None\<rparr>"
  define r1 where "r1 = commit_node step n m [] r"
  have t1: "transition_step step CapturingOutputs None r = (allocated r, r1)"
    using n by (simp add: transition_step_commit r1_def m_def)
  show ?thesis
  proof (cases "step_declares_outputs (state r1) step")
    case outs: True
    have "r' = commit_node step n (m\<lparr>current_action := Some (for_transition (allocated r))\<rparr>)
        [\<lparr>ra_id = for_transition (allocated r), ra_action = CaptureOutputs step resources\<rparr>] r"
      using assms True outs
      by (simp add: complete_execution_def t1 set_current_action_def Let_def r1_def
          modify_commit [OF n] push_commit split: if_splits)
    moreover have "node_step step (allocated r) n
        (m\<lparr>current_action := Some (for_transition (allocated r))\<rparr>)
        [\<lparr>ra_id = for_transition (allocated r), ra_action = CaptureOutputs step resources\<rparr>]"
      using run by (intro node_step.capture) (auto simp: m_def same_target_def recovery_shape_def)
    ultimately show ?thesis
      using micros_node [OF n, of "m\<lparr>current_action := Some (for_transition (allocated r))\<rparr>"]
        run assms True outs
      by (auto simp: complete_execution_def t1 Let_def m_def)
  next
    case False
    have m: "map_of (steps (state r1)) step = Some m"
      using n by (simp add: r1_def)
    define r2 where "r2 = snd (transition_step step (Succeeded []) None (mark_recovered step r1))"
    have "micros r (r2\<lparr>state := clear_active_invocation step (state r2)\<rparr>)"
    proof (rule succeed_commit [OF m r2_def])
      fix n'
      assume n': "srs_state n' = Succeeded []" "current_action n' = None"
        "active_invocation n' = None" "same_target m n'"
        and eq: "r2\<lparr>state := clear_active_invocation step (state r2)\<rparr> = commit_node step m n' [] r1"
      have "same_target n m" "srs_state m = CapturingOutputs"
        by (simp_all add: m_def same_target_def recovery_shape_def)
      then show ?thesis
        unfolding eq r1_def
        using micro.complete [OF n run _ _ n'(1,2,3)] n'(1,4) False
        by (auto simp: outputs_declared_def step_declares_outputs_def r1_def bt_keys_def
            split: option.splits)
    qed
    moreover have "(accepted, r') = (True, if requires_release ports resources
        then push_action (for_transition (allocated r)) (ReleaseStepResources resources)
          (r2\<lparr>state := clear_active_invocation step (state r2)\<rparr>)
        else r2\<lparr>state := clear_active_invocation step (state r2)\<rparr>)"
      using assms True False
      by (auto simp: complete_execution_def t1 Let_def r2_def split: if_splits)
    ultimately show ?thesis
      using micros_push_release rtranclp_trans by (metis prod.inject)
  qed
qed (use assms micro.release [of r action resources] in
  \<open>auto simp: complete_execution_def push_action_def\<close>)

lemma capture_outputs_refines:
  assumes "capture_outputs step action outputs r = (accepted, r')"
  shows "micros r r' \<and> (\<not> accepted \<longrightarrow> r' = r)"
proof (cases "step_accepts (state r) step KCapturingOutputs action")
  case True
  then obtain n where n: "map_of (steps (state r)) step = Some n" "srs_state n = CapturingOutputs"
    by (rule step_acceptsD) simp
  show ?thesis
    using assms True succeed_micros [OF n refl]
    by (auto simp: capture_outputs_def Let_def split: if_splits)
qed (use assms in \<open>simp add: capture_outputs_def\<close>)

lemma start_handler_refines:
  assumes "start_handler step round action r = (accepted, r')"
  shows "micros r r' \<and> (\<not> accepted \<longrightarrow> r' = r)"
proof (cases "handler_accepts (state r) step round HandlerStarting action")
  case True
  then obtain n where n: "map_of (steps (state r)) step = Some n"
    and rec: "srs_state n = Recovering round HandlerStarting" "current_action n = Some action"
    by (rule handler_acceptsD)
  have books: "books step (modify_step step (\<lambda>n. n) (state r))
      (set_handler_outcome step round HoRunning (state r))"
    by (intro books_id books_writes)
  show ?thesis
  proof (rule transition_step_books [OF books n refl])
    fix m
    assume m: "bookkept n m" "\<And>to a. transition_step step to a
        (r\<lparr>state := set_handler_outcome step round HoRunning (state r)\<rparr>) =
      (allocated r, commit_node step n (m\<lparr>srs_state := to, current_action := a\<rparr>) [] r)"
    have "node_step step (allocated r) n (m\<lparr>srs_state := Recovering round HandlerRunning,
        current_action := Some action\<rparr>) []"
      using m(1) rec
      by (intro node_step.handle) (auto simp: bookkept_def same_target_def recovery_shape_def)
    from micros_node [OF n this] show ?thesis
      using assms True rec(1) by (auto simp: start_handler_def Let_def m(2))
  qed
qed (use assms in \<open>simp add: start_handler_def\<close>)

lemma cancelling_stepD:
  assumes "cancelling_step st step action = Some (reason, active)"
  obtains n detail where "map_of (steps st) step = Some n" and "srs_state n = Cancelling detail"
    and "current_action n = Some action" and "active_invocation n = Some active"
    and "reason = cd_code detail"
  using assms by (auto simp: cancelling_step_def split: option.splits step_state.splits if_splits)

lemma quiesce_step_refines:
  assumes "quiesce_step step action r = (accepted, r')"
  shows "micros r r' \<and> (\<not> accepted \<longrightarrow> r' = r)"
proof (cases "cancelling_step (state r) step action")
  case (Some found)
  obtain reason active where found: "found = (reason, active)"
    by (cases found)
  obtain n detail where n: "map_of (steps (state r)) step = Some n"
    and rec: "srs_state n = Cancelling detail"
    using Some found by (auto elim: cancelling_stepD)
  have books: "books step (modify_step step (\<lambda>n. n) (state r))
      (mark_recovery_cancelled step active (state r))"
    by (intro books_id books_marks)
  show ?thesis
  proof (rule transition_step_books [OF books n refl])
    fix m
    define to :: "'c step_state" where "to = Cancelled (CancellationDetail
      (if is_force_abort action then ForceAbort else reason))"
    assume m: "bookkept n m" "\<And>to a. transition_step step to a
        (r\<lparr>state := mark_recovery_cancelled step active (state r)\<rparr>) =
      (allocated r, commit_node step n (m\<lparr>srs_state := to, current_action := a\<rparr>) [] r)"
    have "node_step step (allocated r) n
        (m\<lparr>srs_state := to, current_action := None, active_invocation := None\<rparr>) []"
      using m(1) rec
      by (intro node_step.quiesce) (auto simp: bookkept_def same_target_def recovery_shape_def to_def)
    from micros_node [OF n this] show ?thesis
      using assms Some found rec
      by (auto simp: quiesce_step_def Let_def m(2) clear_active_invocation_def
          modify_commit [OF n] to_def)
  qed
qed (use assms in \<open>simp add: quiesce_step_def\<close>)

lemma step_started_micros:
  assumes "step_accepts (state r) step KStarting action"
  shows "micros r (snd (transition_step step Running (Some action) r))"
proof -
  obtain n where n: "map_of (steps (state r)) step = Some n" and "srs_state n = Starting"
    "current_action n = Some action"
    using assms by (rule step_acceptsD) simp
  then have "node_step step (allocated r) n (n\<lparr>srs_state := Running, current_action := Some action\<rparr>) []"
    by (intro node_step.run) (auto simp: same_target_def recovery_shape_def)
  from micros_node [OF n this] show ?thesis
    using n by (simp add: transition_step_commit)
qed

section \<open>Cancellation\<close>

lemma is_force_abort_id [simp]: "is_force_abort (for_force_abort operation index)"
proof -
  have "(push_bit 63 1 OR y) AND push_bit 63 1 = (push_bit 63 1 :: u64)" for y
    by (simp add: and.commute bit.conj_disj_distrib)
  then show ?thesis
    by (simp add: is_force_abort_def for_force_abort_def Let_def)
qed

lemma cancel_node_refines:
  fixes r :: "('p, 'c, 'o, 'd) reduction"
  assumes n: "map_of (steps (state r)) step = Some n" and "kind (srs_state n) = k"
    and "graceful \<noteq> None \<or> force \<noteq> None"
    and result: "cancel_node reason force graceful (step, k) (index, r) = (index', r')"
  shows "micros r r' \<and> (\<forall>s. s \<noteq> step \<longrightarrow> map_of (steps (state r')) s = map_of (steps (state r)) s)"
proof (cases "k = KPending \<or> k = KCancelling")
  case True
  then show ?thesis
  proof
    assume "k = KPending"
    then have "r' = snd (transition_step step (Cancelled (CancellationDetail reason)) None r)"
      using result by (simp add: cancel_node_def Let_def)
    then show ?thesis
      using dispose_micros [OF n, of "Cancelled (CancellationDetail reason)"] assms(2) \<open>k = _\<close>
      by simp
  next
    assume k: "k = KCancelling"
    show ?thesis
    proof (cases force)
      case None
      then show ?thesis
        using result k by (simp add: cancel_node_def Let_def)
    next
      case (Some f)
      obtain operation deadline where f: "f = (operation, deadline)"
        by (cases f)
      define i where "i = for_force_abort operation index"
      define acts :: "('p, 'c, 'o, 'd) requested_action list" where "acts = (case active_invocation n of
          None \<Rightarrow> []
        | Some active \<Rightarrow> [\<lparr>ra_id = i, ra_action = ForceAbortStep step active reason deadline\<rparr>])"
      have "r' = touch_node step (n\<lparr>current_action := Some i\<rparr>) acts r"
        using result k Some f n modify_step_const [OF n, of "\<lambda>n. n\<lparr>current_action := Some i\<rparr>"]
        by (auto simp: cancel_node_def Let_def touch_node_def set_current_action_def acts_def
            push_action_def i_def split: option.splits)
      moreover have "node_touch step n (n\<lparr>current_action := Some i\<rparr>) acts"
      proof -
        obtain d where "srs_state n = Cancelling d"
          using assms(2) k by auto
        then show ?thesis
          by (rule node_touch.abort [OF _ _ acts_def]) (simp add: i_def)
      qed
      ultimately show ?thesis
        using micro.touch [OF n] by auto
    qed
  qed
next
  case False
  show ?thesis
  proof (cases "active_invocation n = None \<or> k \<notin> {KStarting, KRunning, KCapturingOutputs, KRecovering}")
    case True
    then have "r' = r"
      using result False n by (auto simp: cancel_node_def Let_def split: step_state_kind.splits)
    then show ?thesis by simp
  next
    case active: False
    then obtain active where act: "active_invocation n = Some active"
      by auto
    have inv: "invocation_active (srs_state n)"
      using active assms(2) by auto
    define i where "i = (case force of
        None \<Rightarrow> for_transition (allocated r)
      | Some (operation, _) \<Rightarrow> for_force_abort operation index)"
    have books: "books step (modify_step step (\<lambda>n. n) (state r))
        (mark_handler_cancelled step active (state r))"
      by (intro books_id books_marks)
    show ?thesis
    proof (rule transition_step_books [OF books n refl])
      fix m
      assume m: "bookkept n m" "\<And>to a. transition_step step to a
          (r\<lparr>state := mark_handler_cancelled step active (state r)\<rparr>) =
        (allocated r, commit_node step n (m\<lparr>srs_state := to, current_action := a\<rparr>) [] r)"
      define m' where "m' = m\<lparr>srs_state := Cancelling (CancellationDetail reason),
        current_action := Some i\<rparr>"
      define a :: "('p, 'c, 'o, 'd) action" where "a = (case force of
          None \<Rightarrow> CancelStep step active reason (the graceful)
        | Some (_, deadline) \<Rightarrow> ForceAbortStep step active reason deadline)"
      have r': "r' = commit_node step n m' [\<lparr>ra_id = i, ra_action = a\<rparr>] r"
        using result active act n assms(3)
        by (cases force; cases graceful)
          (auto simp: cancel_node_def Let_def m(2) set_current_action_def modify_commit [OF n]
            push_commit m'_def i_def a_def)
      obtain deadline where a: "a = CancelStep step active reason deadline \<or>
          a = ForceAbortStep step active reason deadline"
        by (cases force) (auto simp: a_def)
      have "node_step step (allocated r) n m' [\<lparr>ra_id = i, ra_action = a\<rparr>]"
        using m(1) by (intro node_step.cancel [OF inv act _ _ _ _ _ a])
          (auto simp: m'_def i_def bookkept_def same_target_def recovery_shape_def
            split: option.splits)
      then show ?thesis
        unfolding r' using inv by (auto simp: m'_def intro!: micros_node [OF n])
    qed
  qed
qed

lemma cancel_fold_micros:
  assumes "distinct (map fst nodes)" and "graceful \<noteq> None \<or> force \<noteq> None"
    and "\<And>s k. (s, k) \<in> set nodes \<Longrightarrow>
      \<exists>n. map_of (steps (state r)) s = Some n \<and> kind (srs_state n) = k"
  shows "micros r (snd (fold (cancel_node reason force graceful) nodes (index, r)))"
  using assms(1,3)
proof (induction nodes arbitrary: index r)
  case (Cons node nodes)
  obtain step k where node: "node = (step, k)"
    by (cases node)
  obtain n where n: "map_of (steps (state r)) step = Some n" "kind (srs_state n) = k"
    using Cons.prems(2) [of step k] node by auto
  obtain index' r' where r': "cancel_node reason force graceful (step, k) (index, r) = (index', r')"
    by (cases "cancel_node reason force graceful (step, k) (index, r)")
  from cancel_node_refines [OF n assms(2) r'] have first: "micros r r'"
    and others: "\<And>s. s \<noteq> step \<Longrightarrow> map_of (steps (state r')) s = map_of (steps (state r)) s"
    by blast+
  have "micros r' (snd (fold (cancel_node reason force graceful) nodes (index', r')))"
  proof (rule Cons.IH)
    show "distinct (map fst nodes)"
      using Cons.prems(1) by simp
    show "\<exists>n. map_of (steps (state r')) s = Some n \<and> kind (srs_state n) = k"
      if member: "(s, k) \<in> set nodes" for s k
    proof -
      have "s \<noteq> step"
        using Cons.prems(1) node member by (auto simp: rev_image_eqI)
      then show ?thesis
        using others Cons.prems(2) [of s k] member by simp
    qed
  qed
  then show ?case
    using first node r' by (simp add: rtranclp_trans)
qed simp

lemma map_fst_map_filter:
  "distinct xs \<Longrightarrow> distinct (map fst (List.map_filter (\<lambda>x. map_option (\<lambda>y. (x, g y)) (h x)) xs))"
  by (induction xs) (auto simp: List.map_filter_def split: option.splits)

lemma distinct_nodes_with_role: "definition_wf (definition_of st) \<Longrightarrow> distinct (nodes_with_role st the_role)"
  by (simp add: nodes_with_role_def definition_wf_def distinct_map_filter)

lemma cancel_nodes_micros:
  assumes "definition_wf (definition_of (state r))"
  shows "micros r (cancel_nodes the_role reason (Some deadline) is_force operation r)"
proof -
  define nodes where "nodes = List.map_filter (\<lambda>step.
      map_option (\<lambda>runtime. (step, kind (srs_state runtime))) (map_of (steps (state r)) step))
      (nodes_with_role (state r) the_role)"
  have distinct: "distinct (map fst nodes)"
    unfolding nodes_def by (intro map_fst_map_filter distinct_nodes_with_role assms)
  have member: "\<exists>n. map_of (steps (state r)) s = Some n \<and> kind (srs_state n) = k"
    if "(s, k) \<in> set nodes" for s k
    using that by (auto simp: nodes_def List.map_filter_def)
  show ?thesis
    using cancel_fold_micros [OF distinct _ member, of "Some deadline" None reason 1]
      cancel_fold_micros [OF distinct _ member, of None "Some (the operation, deadline)" reason 1]
    by (auto simp: cancel_nodes_def Let_def nodes_def split: option.splits)
qed

lemma dispose_fold_micros:
  assumes "distinct ids" and "undispatched to"
    and "\<And>s. s \<in> set ids \<Longrightarrow> state_in (state r) s is_pending"
  shows "micros r (fold (\<lambda>step r. snd (transition_step step to None r)) ids r)"
  using assms(1,3)
proof (induction ids arbitrary: r)
  case (Cons step ids)
  obtain n where n: "map_of (steps (state r)) step = Some n" "srs_state n = Pending"
    using Cons.prems(2) [of step] by (auto elim: state_inE)
  define r' where "r' = snd (transition_step step to None r)"
  have "micros r r'"
    unfolding r'_def by (rule dispose_micros [OF n assms(2)])
  moreover have "micros r' (fold (\<lambda>step r. snd (transition_step step to None r)) ids r')"
  proof (rule Cons.IH)
    show "state_in (state r') s is_pending" if "s \<in> set ids" for s
      using Cons.prems that by (auto simp: r'_def state_in_def map_of_bt_modify)
  qed (use Cons.prems in simp)
  ultimately show ?case
    by (simp add: r'_def)
qed simp

lemma cancel_pending_nodes_micros:
  assumes "definition_wf (definition_of (state r))"
  shows "micros r (cancel_pending_nodes the_role reason r)"
  unfolding cancel_pending_nodes_def
  by (rule dispose_fold_micros) (use assms in \<open>auto simp: distinct_nodes_with_role\<close>)

lemma next_sequence_commutes:
  "next_sequence (st\<lparr>workflow := w\<rparr>) =
     (fst (next_sequence st), (snd (next_sequence st))\<lparr>workflow := w\<rparr>)"
  "next_sequence (st\<lparr>finalization := fin\<rparr>) =
     (fst (next_sequence st), (snd (next_sequence st))\<lparr>finalization := fin\<rparr>)"
  "next_sequence (st\<lparr>force_abort := evidence\<rparr>) =
     (fst (next_sequence st), (snd (next_sequence st))\<lparr>force_abort := evidence\<rparr>)"
  "next_sequence (st\<lparr>last_cancellation_operation := op\<rparr>) =
     (fst (next_sequence st), (snd (next_sequence st))\<lparr>last_cancellation_operation := op\<rparr>)"
  by (simp_all add: next_sequence_def Let_def)

lemma set_cancellation_operation_alt:
  "set_cancellation_operation operation st =
     st\<lparr>last_cancellation_operation :=
       (case operation of None \<Rightarrow> last_cancellation_operation st | Some op \<Rightarrow> Some op)\<rparr>"
  by (simp add: set_cancellation_operation_def split: option.split)

lemma set_cancellation_operation_workflow [simp]:
  "workflow (set_cancellation_operation operation st) = workflow st"
  "finalization (set_cancellation_operation operation st) = finalization st"
  by (simp_all add: set_cancellation_operation_alt)

lemma micros_definition_wf:
  "micros r r' \<Longrightarrow> definition_wf (definition_of (state r)) \<Longrightarrow> definition_wf (definition_of (state r'))"
  by (simp add: micros_definition)

lemma apply_ordinary_cancellation_refines:
  assumes wf: "definition_wf (definition_of (state r))"
    and "apply_ordinary_cancellation request operation r = (accepted, r')"
  shows "micros r r' \<and> (\<not> accepted \<longrightarrow> r' = r)"
proof -
  obtain sequence st where alloc: "next_sequence (state r) = (sequence, st)"
    by (cases "next_sequence (state r)")
  define op where "op = (case operation of
    None \<Rightarrow> last_cancellation_operation (state r) | Some op \<Rightarrow> Some op)"
  define r1 where "r1 = (\<lambda>prior. r\<lparr>state := st\<lparr>last_cancellation_operation := op,
        workflow := Executing (GateCancelling (cr_reason request) prior)\<rparr>,
      events := events r @
        [EvCancellationAccepted sequence (cr_reason request) (cr_deadline request)],
      actions := actions r @ []\<rparr>)"
  have w: "workflow st = workflow (state r)"
    using next_sequence_other_fields(1) [of "state r"] alloc by simp
  have step: "micros r (r1 prior)"
    if "workflow (state r) = Executing gate"
      "gate = GateOpen \<and> prior = None \<or> (\<exists>issue. gate = GateFailureStopped issue \<and> prior = Some issue)"
    for gate prior
    using that w unfolding r1_def
    by (intro micros_workflow [OF alloc workflow_step.cancel_ordinary refl]) auto
  have cancel: "micros r (cancel_nodes RoleStep (cr_reason request) (Some (cr_deadline request)) False
      operation (r1 prior))"
    if "workflow (state r) = Executing gate"
      "gate = GateOpen \<and> prior = None \<or> (\<exists>issue. gate = GateFailureStopped issue \<and> prior = Some issue)"
    for gate prior
    using step [OF that] cancel_nodes_micros micros_definition_wf wf rtranclp_trans by metis
  have state: "next_sequence (set_cancellation_operation operation (state r)
      \<lparr>workflow := Executing (GateCancelling (cr_reason request) prior)\<rparr>) =
    (sequence, state (r1 prior))" for prior
    using alloc
    by (simp add: set_cancellation_operation_alt next_sequence_commutes r1_def op_def)
  show ?thesis
  proof (cases "workflow (state r)")
    case (Executing gate)
    then show ?thesis
      using assms(2) cancel [OF Executing]
      by (cases gate) (auto simp: apply_ordinary_cancellation_def Let_def state r1_def)
  qed (use assms(2) in \<open>auto simp: apply_ordinary_cancellation_def Let_def\<close>)
qed

lemma apply_finalization_cancellation_micros:
  assumes wf: "definition_wf (definition_of (state r))"
    and open_gate: "workflow (state r) = Finalizing trigger FgOpen issue"
    and "apply_finalization_cancellation request operation r = (accepted, r')"
  shows "micros r r' \<and> accepted"
proof -
  obtain sequence st where alloc: "next_sequence (state r) = (sequence, st)"
    by (cases "next_sequence (state r)")
  define op where "op = (case operation of
    None \<Rightarrow> last_cancellation_operation (state r) | Some op \<Rightarrow> Some op)"
  define fin where "fin = map_option (\<lambda>fin. fin\<lparr>fin_cancellation :=
    Some \<lparr>fc_reason = cr_reason request, fc_deadline = Some (cr_deadline request)\<rparr>\<rparr>)
    (finalization (state r))"
  define r1 where "r1 = r\<lparr>state := st\<lparr>last_cancellation_operation := op, workflow := Finalizing trigger
        (FgCancelling (cr_reason request) (Some (cr_deadline request)) False) issue,
        finalization := fin\<rparr>,
      events := events r @ [EvFinalizationCancellationAccepted sequence (cr_reason request)
        (cr_deadline request)],
      actions := actions r @ []\<rparr>"
  have "workflow st = Finalizing trigger FgOpen issue" "finalization st = finalization (state r)"
    using next_sequence_other_fields(1,2) [of "state r"] alloc open_gate by simp_all
  then have "micros r r1"
    unfolding r1_def
    by (intro micros_workflow [OF alloc workflow_step.cancel_finalization refl])
      (auto simp: fin_def option.map_comp comp_def)
  moreover have "micros r1 (cancel_nodes RoleFinalizer (cr_reason request)
      (Some (cr_deadline request)) False operation r1)"
    using calculation micros_definition_wf wf by (intro cancel_nodes_micros) blast
  moreover have "r' = cancel_nodes RoleFinalizer (cr_reason request)
      (Some (cr_deadline request)) False operation r1 \<and> accepted"
    using assms(3) open_gate alloc
    by (auto simp: apply_finalization_cancellation_def Let_def set_cancellation_operation_alt
        next_sequence_commutes r1_def fin_def op_def)
  ultimately show ?thesis
    by auto
qed

lemma apply_cancellation_refines:
  assumes "definition_wf (definition_of (state r))"
    and "apply_cancellation request operation r = (accepted, r')"
  shows "micros r r' \<and> (\<not> accepted \<longrightarrow> r' = r)"
proof (cases "workflow (state r)")
  case (Executing gate)
  then show ?thesis
    using apply_ordinary_cancellation_refines [OF assms(1)] assms(2)
    by (simp add: apply_cancellation_def)
next
  case (Finalizing trigger gate issue)
  show ?thesis
  proof (cases gate)
    case FgOpen
    then show ?thesis
      using Finalizing assms(2)
      by (auto simp: apply_cancellation_def
          dest!: apply_finalization_cancellation_micros [OF assms(1), rotated])
  qed (use Finalizing assms(2) in \<open>simp add: apply_cancellation_def\<close>)
qed (use assms(2) in \<open>simp_all add: apply_cancellation_def\<close>)

lemma apply_ordinary_only_cancellation_refines:
  assumes "definition_wf (definition_of (state r))"
    and "\<not> workflow_terminal (workflow (state r))"
    and "apply_ordinary_only_cancellation request operation r = (accepted, r')"
  shows "micros r r' \<and> (\<not> accepted \<longrightarrow> r' = r)"
  using assms apply_ordinary_cancellation_refines [OF assms(1)]
    r_into_rtranclp [of micro, OF micro.operation [OF assms(2), of "Some operation"]]
  by (auto simp: apply_ordinary_only_cancellation_def workflow_terminal_def
      split: if_splits workflow_state.splits)

lemma accept_force_abort_micros:
  fixes r :: "('p, 'c, 'o, 'd) reduction"
  assumes wf: "definition_wf (definition_of (state r))"
    and alloc: "next_sequence (state r) = (sequence, st)"
    and "workflow_step st sequence st' (EvForceAbortAccepted sequence ForceAbort phase)
      ([] :: ('p, 'c, 'o, 'd) requested_action list)"
    and "next_sequence st1 = (sequence, st')"
  shows "micros r (accept_force_abort operation deadline phase the_role st1 r)"
proof -
  define r1 where "r1 = r\<lparr>state := st', events := events r @
    [EvForceAbortAccepted sequence ForceAbort phase], actions := actions r @ []\<rparr>"
  have "micros r r1"
    by (rule micros_workflow [OF assms(2,3) r1_def])
  moreover from this have "micros r1 (cancel_nodes the_role ForceAbort (Some deadline) True
      (Some operation) r1)"
    using micros_definition_wf wf by (intro cancel_nodes_micros) blast
  ultimately show ?thesis
    using assms(4) by (simp add: accept_force_abort_def r1_def)
qed

lemma apply_force_abort_refines:
  fixes r :: "('p, 'c, 'o, 'd) reduction"
  assumes wf: "definition_wf (definition_of (state r))"
    and "apply_force_abort operation deadline r = (accepted, r')"
  shows "micros r r' \<and> (\<not> accepted \<longrightarrow> r' = r)"
proof (cases "force_abort (state r)")
  case None
  obtain sequence st where alloc: "next_sequence (state r) = (sequence, st)"
    by (cases "next_sequence (state r)")
  have st: "workflow st = workflow (state r)" "force_abort st = None"
    "finalization st = finalization (state r)"
    using next_sequence_other_fields(1,2,3) [of "state r"] alloc None by simp_all
  show ?thesis
  proof (cases "workflow (state r)")
    case (Executing gate)
    have "workflow_step st sequence
        (st\<lparr>force_abort := Some \<lparr>fae_reason = ForceAbort, fae_phase = CancelOrdinary\<rparr>,
          last_cancellation_operation := Some operation,
          workflow := Executing (force_abort_gate gate)\<rparr>)
        (EvForceAbortAccepted sequence ForceAbort CancelOrdinary)
        ([] :: ('p, 'c, 'o, 'd) requested_action list)"
      using st Executing by (intro workflow_step.abort_ordinary) simp_all
    from accept_force_abort_micros [OF wf alloc this] show ?thesis
      using assms(2) None Executing alloc
      by (auto simp: apply_force_abort_def next_sequence_commutes)
  next
    case (Finalizing trigger gate issue)
    have "workflow_step st sequence
        (st\<lparr>force_abort := Some \<lparr>fae_reason = ForceAbort, fae_phase = CancelFinalization\<rparr>,
          last_cancellation_operation := Some operation,
          workflow := Finalizing trigger (force_abort_finalization_gate gate) issue,
          finalization := map_option force_abort_finalization (finalization st)\<rparr>)
        (EvForceAbortAccepted sequence ForceAbort CancelFinalization)
        ([] :: ('p, 'c, 'o, 'd) requested_action list)"
      using st Finalizing by (intro workflow_step.abort_finalization) simp_all
    from accept_force_abort_micros [OF wf alloc this] show ?thesis
      using assms(2) None Finalizing alloc st
      by (auto simp: apply_force_abort_def next_sequence_commutes)
  qed (use assms(2) None in \<open>simp_all add: apply_force_abort_def\<close>)
qed (use assms in \<open>simp add: apply_force_abort_def\<close>)

section \<open>Occurrences\<close>

lemma apply_occurrence_micros:
  assumes wf: "definition_wf (definition_of (state r))"
    and "\<not> workflow_terminal (workflow (state r))"
    and "apply_occurrence ports occurrence r = (accepted, r')"
  shows "micros r r'"
proof (cases occurrence)
  case (StepStarted step action)
  then show ?thesis
    using assms(3) step_started_micros [of r step action] by (auto split: if_splits)
next
  case (StepStartFailed step action cause)
  then show ?thesis
    using assms(3) by (auto dest!: apply_step_failure_refines [where k = KStarting])
next
  case (StepExecutionCompleted step action resources)
  then show ?thesis
    using assms(3) by (auto dest!: complete_execution_refines)
next
  case (StepExecutionFailed step action cause)
  then show ?thesis
    using assms(3) by (auto dest!: apply_step_failure_refines [where k = KRunning])
next
  case (OutputsCaptured step action outputs)
  then show ?thesis
    using assms(3) by (auto dest!: capture_outputs_refines)
next
  case (OutputCaptureFailed step action cause)
  then show ?thesis
    using assms(3) by (auto dest!: apply_step_failure_refines [where k = KCapturingOutputs])
next
  case (RecoveryHandlerStarted step round action)
  then show ?thesis
    using assms(3) by (auto dest!: start_handler_refines)
next
  case (RecoveryHandlerStartFailed step round action cause)
  then show ?thesis
    using assms(3) by (auto dest!: apply_handler_failure_refines)
next
  case (RecoveryHandlerCompleted step round action decision)
  then show ?thesis
    using assms(3) by (auto dest!: apply_handler_decision_micros)
next
  case (RecoveryHandlerExecutionFailed step round action cause)
  then show ?thesis
    using assms(3) by (auto dest!: apply_handler_failure_refines)
next
  case (CancellationOperationRequested operation reason deadline)
  then show ?thesis
    using assms(3) by (auto dest!: apply_cancellation_refines [OF wf] split: if_splits)
next
  case (OrdinaryCancellationOperationRequested operation reason deadline)
  then show ?thesis
    using assms(3) by (auto dest!: apply_ordinary_only_cancellation_refines [OF assms(1,2)])
next
  case (ForceAbortRequested operation deadline)
  then show ?thesis
    using assms(3) by (auto dest!: apply_force_abort_refines [OF wf] split: if_splits)
next
  case (StepQuiesced step action)
  then show ?thesis
    using assms(3) by (auto dest!: quiesce_step_refines)
qed

end
