(* ===== verification/Runtime_Stabilize.thy ===== *)
theory Runtime_Stabilize
  imports Runtime_Refinement
begin

text \<open>
  The refinement of the stabilizing loop and of the entry points: \<open>reduce\<close> and
  \<open>initialize_seeded_definition\<close> are sequences of steps of the transition system of
  \<open>Runtime_Steps\<close>.
\<close>

section \<open>Disposition and condition loops\<close>

lemma settle_pending_disposition_micros:
  assumes "next_ordinary_pending_disposition (state r) = Some found"
  shows "micros r (settle_pending_disposition found r)"
proof -
  obtain step d where found: "found = (step, d)"
    by (cases found)
  obtain n where "map_of (steps (state r)) step = Some n" "srs_state n = Pending"
    using assms found by (auto elim: next_ordinary_pending_dispositionD)
  then show ?thesis
    by (cases d) (auto simp: found settle_pending_disposition_def
        intro: settle_blocked_micros dispose_micros)
qed

lemma propagate_ordinary_micros: "micros r (propagate_ordinary_pending_dispositions r)"
proof (induction r rule: propagate_ordinary_pending_dispositions.induct)
  case (1 r)
  then show ?case
    by (subst propagate_ordinary_pending_dispositions.simps)
      (auto split: option.splits dest: settle_pending_disposition_micros intro: rtranclp_trans)
qed

lemma evaluate_next_condition_micros:
  assumes "evaluate_next_condition ports the_role r = Some r'"
  shows "micros r r'"
proof -
  obtain step where step: "find (condition_gate_ready (state r)) (condition_ids (state r) the_role) = Some step"
    using assms by (auto simp: evaluate_next_condition_def split: option.splits)
  then have "condition_gate_ready (state r) step"
    by (simp add: find_SomeD)
  then obtain def n where def: "map_of (def_steps (definition_of (state r))) step = Some def"
    and n: "map_of (steps (state r)) step = Some n" "srs_state n = Pending"
    by (rule condition_gate_readyD)
  have pass: "micros r (r\<lparr>state := modify_step step (\<lambda>n. n\<lparr>condition_passed := True\<rparr>) (state r)\<rparr>)"
    using r_into_rtranclp [of micro, OF micro.touch [OF n(1) node_touch.pass [OF n(2)]]]
      modify_step_const [OF n(1), of "\<lambda>n. n\<lparr>condition_passed := True\<rparr>"]
    by (simp add: touch_node_def)
  show ?thesis
    using assms step def pass dispose_micros [OF n] settle_failure_micros [OF n(1)] n(2)
    by (auto simp: evaluate_next_condition_def settle_condition_failure_def
        split: option.splits condition_evaluation.splits sum.splits)
qed

lemma evaluate_ready_conditions_micros: "micros r (evaluate_ready_conditions ports the_role r)"
proof (induction ports the_role r rule: evaluate_ready_conditions.induct)
  case (1 ports the_role r)
  then show ?case
    by (subst evaluate_ready_conditions.simps)
      (auto split: option.splits dest: evaluate_next_condition_micros intro: rtranclp_trans)
qed

lemma propagate_triggers_micros:
  assumes "definition_wf (definition_of (state r))"
  shows "micros r (propagate_finalizer_trigger_dispositions r)"
proof (cases "finalization (state r)")
  case (Some fin)
  then show ?thesis
    unfolding propagate_finalizer_trigger_dispositions_def
    using assms by (auto simp: Let_def definition_wf_def intro!: dispose_fold_micros)
qed (simp add: propagate_finalizer_trigger_dispositions_def)

lemma block_finalizer_conditions_micros: "micros r (block_finalizer_conditions r)"
proof (induction r rule: block_finalizer_conditions.induct)
  case (1 r)
  show ?case
  proof (cases "next_finalizer_condition_block (state r)")
    case None
    then show ?thesis
      by (subst block_finalizer_conditions.simps) simp
  next
    case (Some found)
    obtain step detail where found: "found = (step, detail)"
      by (cases found)
    obtain n where "map_of (steps (state r)) step = Some n" "srs_state n = Pending"
      using Some found by (auto elim: next_finalizer_condition_blockD)
    then have "micros r (settle_blocked step detail r)"
      by (rule settle_blocked_micros)
    with 1 [OF Some [unfolded found] refl] show ?thesis
      using Some found by (subst block_finalizer_conditions.simps) (auto intro: rtranclp_trans)
  qed
qed

lemma next_input_unavailableD:
  assumes "next_input_unavailable st = Some found"
  obtains n where "map_of (steps st) (fst found) = Some n" and "srs_state n = Pending"
proof -
  from find_map_SomeD [OF assms [unfolded next_input_unavailable_def]]
  obtain s where "finalizer_input_unavailable st s = Some found"
    by blast
  then have "finalizer_ready st (fst found) (the (map_of (def_steps (definition_of st)) (fst found)))"
    by (auto simp: finalizer_input_unavailable_def Let_def split: option.splits if_splits)
  then show ?thesis
    using that by (auto simp: finalizer_ready_def elim!: state_inE split: option.splits)
qed

lemma block_finalizer_inputs_micros:
  assumes "block_finalizer_inputs r = Some r'"
  shows "micros r r'"
proof (rule block_finalizer_inputs.raw_induct [of micros, OF _ assms])
  fix f :: "('a, 'b, 'c, 'd) reduction \<Rightarrow> ('a, 'b, 'c, 'd) reduction option" and r r'
  assume IH: "\<And>r r'. f r = Some r' \<Longrightarrow> micros r r'"
    and body: "(case next_input_unavailable (state r) of
        None \<Rightarrow> Some r
      | Some found \<Rightarrow>
          (case blocked_detail_new (body_prerequisites (snd found)) of
             Inl _ \<Rightarrow> f r
           | Inr detail \<Rightarrow> f (settle_blocked (fst found) detail r))) = Some r'"
  show "micros r r'"
  proof (cases "next_input_unavailable (state r)")
    case (Some found)
    then obtain n where n: "map_of (steps (state r)) (fst found) = Some n" "srs_state n = Pending"
      by (rule next_input_unavailableD)
    show ?thesis
      using body Some IH settle_blocked_micros [OF n]
      by (auto split: sum.splits intro: rtranclp_trans)
  qed (use body in simp)
qed

lemma propagate_finalizer_micros:
  assumes "definition_wf (definition_of (state r))" and "propagate_finalizer_dispositions r = Some r'"
  shows "micros r r'"
  using assms(2) propagate_triggers_micros [OF assms(1)] block_finalizer_conditions_micros
    block_finalizer_inputs_micros rtranclp_trans
  unfolding propagate_finalizer_dispositions_def by metis

section \<open>Selection\<close>

text \<open>Starting a pending node changes no query that holds of another node's settled state.\<close>

lemma state_in_start:
  assumes "map_of (steps st) step = Some n" and "srs_state n = Pending" and "srs_state n' = Starting"
    and "steps st' = bt_modify step (\<lambda>_. n') (steps st)"
    and "state_in st s P" and "P Pending \<Longrightarrow> P Starting"
  shows "state_in st' s P"
  using assms by (cases "s = step") (auto simp: state_in_def split: option.splits)

lemma ready_node_start:
  assumes n: "map_of (steps st) step = Some n" "srs_state n = Pending" "srs_state n' = Starting"
    and st': "steps st' = bt_modify step (\<lambda>_. n') (steps st)"
    and fields: "definition_of st' = definition_of st" "finalization st' = finalization st"
    and "s \<noteq> step" and ready: "ready_node st the_role s \<noteq> None"
  shows "ready_node st' the_role s \<noteq> None"
proof -
  note keep = state_in_start [OF n st']
  obtain def where def: "map_of (def_steps (definition_of st)) s = Some def"
    using ready by (auto simp: ready_node_def split: option.splits)
  have pending: "state_in st s is_pending \<Longrightarrow> state_in st' s is_pending"
    using st' \<open>s \<noteq> step\<close> by (simp add: state_in_def)
  have control: "ordinary_control_satisfied st p \<Longrightarrow> ordinary_control_satisfied st' p" for p
    unfolding ordinary_control_satisfied_def fields by (erule keep) simp
  have prerequisite: "ordinary_prerequisite_satisfied st p \<Longrightarrow> ordinary_prerequisite_satisfied st' p" for p
    unfolding ordinary_prerequisite_satisfied_def
  proof (rule keep)
    assume *: "state_in st (producer p) (\<lambda>s. (control p \<longrightarrow> ordinary_control_satisfied st p) \<and>
      (data p \<longrightarrow> step_data_available s) \<and> (disposition_control p \<longrightarrow> is_terminal s))"
    then show "state_in st (producer p) (\<lambda>s. (control p \<longrightarrow> ordinary_control_satisfied st' p) \<and>
      (data p \<longrightarrow> step_data_available s) \<and> (disposition_control p \<longrightarrow> is_terminal s))"
      using control by (auto simp: state_in_def split: option.splits)
  qed (auto simp: step_data_available_def)
  have ordinary: "ordinary_ready st s def \<Longrightarrow> ordinary_ready st' s def"
    using pending prerequisite by (auto simp: ordinary_ready_def list_all_iff)
  have terminal: "state_in st p is_terminal \<Longrightarrow> state_in st' p is_terminal" for p
    by (erule keep) simp
  have finalizer: "finalizer_ready st s def \<Longrightarrow> finalizer_ready st' s def"
    using pending terminal fields by (auto simp: finalizer_ready_def list_all_iff split: option.splits)
  have available: "state_in st p step_data_available \<Longrightarrow> state_in st' p step_data_available" for p
    by (erule keep) (simp add: step_data_available_def)
  have inputs: "unavailable_references st def = [] \<Longrightarrow> unavailable_references st' def = []"
    using available
    by (auto simp: unavailable_references_def List.map_filter_def filter_empty_conv
        split: prerequisite.splits option.splits if_splits)
  show ?thesis
    using ready def ordinary finalizer inputs fields
    by (auto simp: ready_node_def split: workflow_node_role.splits if_splits)
qed

lemma active_count_modify:
  assumes "map_of (steps st) step = Some n" and "steps st' = bt_modify step (\<lambda>_. n') (steps st)"
  shows "active_count st' + (if is_active (srs_state n) then 1 else 0) =
    active_count st + (if is_active (srs_state n') then 1 else 0)"
proof -
  have "map_of m step = Some n \<Longrightarrow>
    length (filter (\<lambda>n. is_active (srs_state n)) (map snd (bt_modify step (\<lambda>_. n') m))) +
      (if is_active (srs_state n) then 1 else 0) =
    length (filter (\<lambda>n. is_active (srs_state n)) (map snd m)) +
      (if is_active (srs_state n') then 1 else 0)" for m :: "(string \<times> ('a, 'b) step_runtime_state) list"
    by (induction m) (auto split: if_splits)
  then show ?thesis
    using assms by (simp add: active_count_def bt_values_def)
qed

lemma ready_node_pending:
  assumes "ready_node st the_role step \<noteq> None"
  obtains n where "map_of (steps st) step = Some n" and "srs_state n = Pending"
  using assms
  by (auto simp: ready_node_def ordinary_ready_def finalizer_ready_def elim!: state_inE
      split: option.splits workflow_node_role.splits if_splits)

lemma authorize_first_commit:
  assumes "map_of (steps (state r)) step = Some n"
  shows "authorize_target step first_execution ins r =
    commit_node step n (started_target (allocated r) first_execution n)
      [\<lparr>ra_id = for_transition (allocated r), ra_action = StartStep step first_execution ins\<rparr>] r"
  using authorize_target_commit [where f = "\<lambda>n. n", OF assms] by (simp add: modify_step_ident)

lemma select_fold_micros:
  assumes "distinct (map fst selected)"
    and "selection_gate_open (state r) the_role"
    and "\<And>s. s \<in> fst ` set selected \<Longrightarrow>
      s \<in> set (condition_ids (state r) the_role) \<and> ready_node (state r) the_role s \<noteq> None"
    and "length selected \<le> maximum_parallel_steps (definition_of (state r)) - active_count (state r)"
  shows "micros r (fold (\<lambda>(step, ins). authorize_target step first_execution ins) selected r)"
  using assms
proof (induction selected arbitrary: r)
  case (Cons entry selected)
  obtain step ins where entry: "entry = (step, ins)"
    by (cases entry)
  have ready: "step \<in> set (condition_ids (state r) the_role)" "ready_node (state r) the_role step \<noteq> None"
    using Cons.prems(3) entry by auto
  obtain n where n: "map_of (steps (state r)) step = Some n" "srs_state n = Pending"
    using ready(2) by (rule ready_node_pending)
  define r' where "r' = commit_node step n (started_target (allocated r) first_execution n)
      [\<lparr>ra_id = for_transition (allocated r), ra_action = StartStep step first_execution ins\<rparr>] r"
  have "start_allowed (state r) step"
    using Cons.prems(2,4) ready by (auto simp: start_allowed_def)
  then have "micro r r'"
    unfolding r'_def using n by (intro micro.node [OF n(1) node_step.start]) auto
  moreover have "micros r' (fold (\<lambda>(step, ins). authorize_target step first_execution ins) selected r')"
  proof (rule Cons.IH)
    have count: "active_count (state r') = Suc (active_count (state r))"
      using active_count_modify [OF n(1), of "state r'"] n(2) by (simp add: r'_def)
    show "length selected \<le> maximum_parallel_steps (definition_of (state r')) - active_count (state r')"
      using Cons.prems(4) count by (simp add: r'_def)
    show "selection_gate_open (state r') the_role"
      using Cons.prems(2) by (simp add: selection_gate_open_def r'_def)
    show "s \<in> set (condition_ids (state r') the_role) \<and> ready_node (state r') the_role s \<noteq> None"
      if "s \<in> fst ` set selected" for s
    proof
      have "s \<noteq> step"
        using that Cons.prems(1) entry by auto
      moreover have "ready_node (state r) the_role s \<noteq> None"
        using Cons.prems(3) [of s] that by simp
      ultimately show "ready_node (state r') the_role s \<noteq> None"
        by (intro ready_node_start [OF n started_target_fields(1), where st' = "state r'"])
          (simp_all add: r'_def)
      show "s \<in> set (condition_ids (state r') the_role)"
        using Cons.prems(3) [of s] that
        by (simp add: condition_ids_def r'_def split: workflow_node_role.splits)
    qed
  qed (use Cons.prems(1) in simp)
  ultimately show ?case
    by (simp add: entry authorize_first_commit [OF n(1)] r'_def [symmetric]
        converse_rtranclp_into_rtranclp)
qed simp

lemma ready_node_fst: "ready_node st the_role s = Some found \<Longrightarrow> fst found = s"
  by (auto simp: ready_node_def split: option.splits if_splits)

lemma distinct_condition_ids: "definition_wf (definition_of st) \<Longrightarrow> distinct (condition_ids st the_role)"
  by (cases the_role) (simp_all add: condition_ids_def definition_wf_def)

lemma map_fst_ready:
  "map fst (List.map_filter (ready_node st the_role) ids) =
     filter (\<lambda>s. ready_node st the_role s \<noteq> None) ids"
  by (induction ids) (use ready_node_fst in \<open>fastforce simp: List.map_filter_def\<close>)+

lemma select_ready_nodes_micros:
  assumes "definition_wf (definition_of (state r))"
  shows "micros r (select_ready_nodes the_role r)"
proof (cases "selection_gate_open (state r) the_role")
  case True
  define slots where "slots = maximum_parallel_steps (definition_of (state r)) - active_count (state r)"
  define selected where "selected = take slots
    (List.map_filter (ready_node (state r) the_role) (condition_ids (state r) the_role))"
  have names: "map fst selected = take slots
      (filter (\<lambda>s. ready_node (state r) the_role s \<noteq> None) (condition_ids (state r) the_role))"
    by (simp add: selected_def take_map [symmetric] map_fst_ready)
  have "micros r (fold (\<lambda>(step, ins). authorize_target step first_execution ins) selected r)"
  proof (rule select_fold_micros)
    show "distinct (map fst selected)"
      unfolding names using distinct_condition_ids [OF assms] by simp
    show "s \<in> set (condition_ids (state r) the_role) \<and> ready_node (state r) the_role s \<noteq> None"
      if "s \<in> fst ` set selected" for s
    proof -
      have "s \<in> set (map fst selected)"
        using that by simp
      then show ?thesis
        unfolding names by (auto dest: in_set_takeD)
    qed
    show "length selected \<le> maximum_parallel_steps (definition_of (state r)) - active_count (state r)"
      by (simp add: selected_def slots_def)
  qed fact
  then show ?thesis
    using True by (simp add: select_ready_nodes_def Let_def selected_def slots_def)
qed (simp add: select_ready_nodes_def)

section \<open>Finalization and the end of a run\<close>

lemma export_value_steps: "steps st' = steps st \<Longrightarrow> export_value st' source = export_value st source"
  by (simp add: export_value_def)

lemma collect_exports_steps:
  assumes "steps st' = steps st"
  shows "collect_exports st' es = collect_exports st es"
proof (induction es)
  case (Cons e es)
  then show ?case
    by (cases e) (simp add: export_value_steps [OF assms] split: option.split)
qed simp

lemma derive_exports_next_sequence [simp]: "derive_exports (snd (next_sequence st)) = derive_exports st"
  using collect_exports_steps [of "snd (next_sequence st)" st] by (simp add: derive_exports_def)

lemma all_terminal_next_sequence [simp]:
  "all_terminal (snd (next_sequence st)) ids = all_terminal st ids"
  by (simp add: all_terminal_def state_in_def)

lemma ordinary_force_abort_next_sequence [simp]:
  "ordinary_force_abort (snd (next_sequence st)) = ordinary_force_abort st"
  by (simp add: ordinary_force_abort_def)

lemma finish_run_micros:
  fixes r :: "('p, 'c, 'o, 'd) reduction"
  assumes "(\<exists>gate. workflow (state r) = Executing gate) \<and> finalizer_ids (definition_of (state r)) = [] \<and>
      all_terminal (state r) (ordinary_ids (definition_of (state r))) \<or>
    (\<exists>trigger gate issue. workflow (state r) = Finalizing trigger gate issue) \<and>
      all_terminal (state r) (finalizer_ids (definition_of (state r)))"
  shows "micros r (finish_run result summary r)"
proof (cases "derive_exports (state r)")
  case (Some derived)
  obtain sequence st where alloc: "next_sequence (state r) = (sequence, st)"
    by (cases "next_sequence (state r)")
  then have st: "st = snd (next_sequence (state r))"
    by simp
  obtain w :: "'d workflow_state" and outcome where states: "outcome_states result = (w, outcome)"
    by (metis surj_pair)
  have "workflow_step st sequence
      (st\<lparr>workflow := w, exports := Some derived, finalization_summary := summary\<rparr>)
      (EvWorkflow sequence (workflow st) w)
      [\<lparr>ra_id = for_transition sequence, ra_action = FinishRun outcome derived\<rparr>]"
    by (rule workflow_step.finish [OF _ _ states]) (use assms Some in \<open>simp_all add: st\<close>)
  from micros_workflow [OF alloc this refl] show ?thesis
    using Some alloc states next_sequence_other_fields(1) [of "state r"]
    by (simp add: finish_run_def Let_def push_workflow_event_def push_action_def)
qed (simp add: finish_run_def)

lemma enter_finalization_micros:
  fixes r :: "('p, 'c, 'o, 'd) reduction"
  assumes "workflow (state r) = Executing gate"
    and "all_terminal (state r) (ordinary_ids (definition_of (state r)))"
    and "finalizer_ids (definition_of (state r)) \<noteq> []"
  shows "micros r (enter_finalization ports outcome r)"
proof -
  obtain sequence st where alloc: "next_sequence (state r) = (sequence, st)"
    by (cases "next_sequence (state r)")
  then have st: "st = snd (next_sequence (state r))"
    by simp
  define aborted where "aborted = ordinary_force_abort (state r)"
  define fgate :: "'d finalization_gate" where
    "fgate = (if aborted then FgCancelling ForceAbort None True else FgOpen)"
  define cancellation :: "'d finalization_cancellation option" where
    "cancellation = (if aborted then Some \<lparr>fc_reason = ForceAbort, fc_deadline = None\<rparr> else None)"
  define context_bytes where "context_bytes = serialize_context (json_to_vec ports)
    \<lparr>fctx_trigger = outcome_trigger outcome,
     fctx_primary_issue_step_id =
       map_option (\<lambda>issue. node_id (pi_node issue)) (outcome_issue outcome),
     fctx_cancellation_reason = outcome_cancellation outcome,
     fctx_ordinary_issues = ordinary_issues (state r)\<rparr>"
  define fin where "fin = \<lparr>fin_trigger = outcome_trigger outcome, fin_context = context_bytes,
    fin_ordinary_outcome = outcome, fin_cancellation = cancellation, fin_force_abort = aborted\<rparr>"
  define w where "w = Finalizing (outcome_trigger outcome) fgate (outcome_issue outcome)"
  have "workflow_step st sequence (st\<lparr>workflow := w, finalization := Some fin\<rparr>)
      (EvWorkflow sequence (workflow st) w) ([] :: ('p, 'c, 'o, 'd) requested_action list)"
    by (rule workflow_step.finalize [OF _ _ _ w_def])
      (use assms in \<open>simp_all add: st fin_def fgate_def aborted_def\<close>)
  from micros_workflow [OF alloc this refl] show ?thesis
    using alloc next_sequence_other_fields(1) [of "state r"]
    by (cases "ordinary_force_abort (state r)")
      (simp_all add: enter_finalization_def Let_def push_workflow_event_def w_def fin_def fgate_def
        cancellation_def context_bytes_def aborted_def)
qed

lemma enter_or_finish_micros: "micros r (enter_finalization_or_finish ports r)"
proof (cases "workflow (state r)")
  case (Executing gate)
  then show ?thesis
    using finish_run_micros [of r] enter_finalization_micros [OF Executing]
    by (auto simp: enter_finalization_or_finish_def split: option.splits)
qed (simp_all add: enter_finalization_or_finish_def)

lemma finish_finalization_micros: "micros r (finish_finalization_if_terminal r)"
  using finish_run_micros [of r]
  by (auto simp: finish_finalization_if_terminal_def split: workflow_state.splits option.splits)

section \<open>The stabilizing loop and the entry points\<close>

lemma stabilize_ordinary_micros:
  assumes "definition_wf (definition_of (state r))"
  shows "micros r (stabilize_ordinary ports r)"
proof -
  define r1 where "r1 = propagate_ordinary_pending_dispositions
    (evaluate_ready_conditions ports RoleStep (propagate_ordinary_pending_dispositions r))"
  have "micros r r1"
    unfolding r1_def
    using propagate_ordinary_micros evaluate_ready_conditions_micros rtranclp_trans by metis
  moreover from this have "micros r1 (select_ready_nodes RoleStep r1)"
    using assms by (intro select_ready_nodes_micros) (simp add: micros_definition)
  ultimately show ?thesis
    using enter_or_finish_micros rtranclp_trans
    unfolding stabilize_ordinary_def r1_def by metis
qed

lemma stabilize_finalizers_micros:
  assumes wf: "definition_wf (definition_of (state r))" and "stabilize_finalizers ports r = Some r'"
  shows "micros r r'"
proof -
  have tail: "micros r r1 \<Longrightarrow>
      micros r (finish_finalization_if_terminal (select_ready_nodes RoleFinalizer r1))" for r1
    using select_ready_nodes_micros micros_definition_wf wf finish_finalization_micros rtranclp_trans
    by metis
  show ?thesis
  proof (cases "ordinary_force_abort (state r)")
    case True
    have t: "micros r (propagate_finalizer_trigger_dispositions r)"
      using wf by (rule propagate_triggers_micros)
    then have "micros r (cancel_pending_nodes RoleFinalizer ForceAbort
        (propagate_finalizer_trigger_dispositions r))"
      using cancel_pending_nodes_micros micros_definition_wf wf rtranclp_trans by metis
    then have "micros r (evaluate_ready_conditions ports RoleFinalizer
        (cancel_pending_nodes RoleFinalizer ForceAbort (propagate_finalizer_trigger_dispositions r)))"
      using evaluate_ready_conditions_micros rtranclp_trans by metis
    from tail [OF this] show ?thesis
      using assms(2) True by (simp add: stabilize_finalizers_def Let_def)
  next
    case False
    then obtain r1 r2 where r1: "propagate_finalizer_dispositions r = Some r1"
      and r2: "propagate_finalizer_dispositions (evaluate_ready_conditions ports RoleFinalizer r1) = Some r2"
      and r': "r' = finish_finalization_if_terminal (select_ready_nodes RoleFinalizer r2)"
      using assms(2) by (auto simp: stabilize_finalizers_def split: option.splits)
    have "micros r (evaluate_ready_conditions ports RoleFinalizer r1)"
      using propagate_finalizer_micros [OF wf r1] evaluate_ready_conditions_micros rtranclp_trans
      by metis
    moreover from this have "micros (evaluate_ready_conditions ports RoleFinalizer r1) r2"
      using micros_definition_wf wf by (intro propagate_finalizer_micros [OF _ r2]) blast
    ultimately show ?thesis
      unfolding r' by (intro tail) (rule rtranclp_trans)
  qed
qed

lemma stabilize_pass_micros:
  assumes "definition_wf (definition_of (state r))" and "stabilize_pass ports r = Some r'"
  shows "micros r r'"
  using assms stabilize_ordinary_micros stabilize_finalizers_micros
  by (auto simp: stabilize_pass_def split: workflow_state.splits)

lemma stabilize_micros:
  fixes r :: "('p, 'c, 'o, 'd) reduction"
  assumes "definition_wf (definition_of (state r))" and "stabilize ports r = Some r'"
  shows "micros r r'"
proof -
  have "definition_wf (definition_of (state r)) \<longrightarrow> micros r r'"
  proof (rule stabilize.raw_induct [of "\<lambda>ports r r'.
      definition_wf (definition_of (state r)) \<longrightarrow> micros r r'", OF _ assms(2)])
    fix f and ports :: "('p, 'c, 'o) runtime_ports" and r r' :: "('p, 'c, 'o, 'd) reduction"
    assume IH: "\<And>(ports :: ('p, 'c, 'o) runtime_ports) r r'. f ports r = Some r' \<Longrightarrow>
        definition_wf (definition_of (state r)) \<longrightarrow> micros r r'"
      and body: "(case stabilize_pass ports r of
          None \<Rightarrow> None
        | Some r' \<Rightarrow>
            if last_transition_sequence (state r') = last_transition_sequence (state r)
            then Some r' else f ports r') = Some r'"
    show "definition_wf (definition_of (state r)) \<longrightarrow> micros r r'"
    proof
      assume wf: "definition_wf (definition_of (state r))"
      obtain r1 where r1: "stabilize_pass ports r = Some r1"
        using body by (cases "stabilize_pass ports r") auto
      have "micros r r1"
        by (rule stabilize_pass_micros [OF wf r1])
      then show "micros r r'"
        using body r1 IH micros_definition_wf [OF _ wf]
        by (auto split: if_splits intro: rtranclp_trans)
    qed
  qed
  then show ?thesis
    using assms(1) by blast
qed

definition fresh_reduction :: "bool \<Rightarrow> ('c, 'o, 'd) runtime_state \<Rightarrow> ('p, 'c, 'o, 'd) reduction" where
  "fresh_reduction accepted st =
     \<lparr>state = st, events = [], actions = [], occurrence_accepted = accepted\<rparr>"

lemma fresh_reduction_fields [simp]:
  "state (fresh_reduction accepted st) = st"
  "events (fresh_reduction accepted st) = []"
  "actions (fresh_reduction accepted st) = []"
  by (simp_all add: fresh_reduction_def)

lemma discard_micros: "micros (fresh_reduction False st) (discard_occurrence ports st occurrence)"
proof (cases "occurrence_resource_release ports occurrence")
  case None
  then show ?thesis
    by (simp add: discard_occurrence_def fresh_reduction_def)
next
  case (Some a)
  then obtain i resources where "a = \<lparr>ra_id = i, ra_action = ReleaseStepResources resources\<rparr>"
    by (auto simp: occurrence_resource_release_def split: occurrence.splits if_splits)
  then show ?thesis
    using Some micro.release [of "fresh_reduction False st" i resources]
    by (simp add: discard_occurrence_def fresh_reduction_def)
qed

lemma reduce_micros:
  assumes wf: "definition_wf (definition_of st)" and "reduce ports st occurrence = Some r"
  shows "micros (fresh_reduction False st) r"
proof (cases "workflow_terminal (workflow st)")
  case True
  then show ?thesis
    using assms(2) discard_micros by (auto simp: reduce_def)
next
  case False
  obtain accepted r1 where r1: "apply_occurrence ports occurrence (fresh_reduction False st) = (accepted, r1)"
    by (cases "apply_occurrence ports occurrence (fresh_reduction False st)")
  have first: "micros (fresh_reduction False st) r1"
    by (rule apply_occurrence_micros [OF _ _ r1]) (use wf False in simp_all)
  show ?thesis
  proof (cases accepted)
    case True
    have "micros (fresh_reduction False st) (r1\<lparr>occurrence_accepted := True\<rparr>)"
      using first micro.accept [of r1 True] by simp
    moreover have "micros (r1\<lparr>occurrence_accepted := True\<rparr>) r"
      using assms(2) False r1 True wf micros_definition [OF first]
      by (intro stabilize_micros [of _ ports]) (simp_all add: reduce_def fresh_reduction_def)
    ultimately show ?thesis
      by (rule rtranclp_trans)
  next
    case rejected: False
    then show ?thesis
      using first assms(2) False r1 by (simp add: reduce_def fresh_reduction_def)
  qed
qed

lemma initialize_micros:
  fixes r :: "('p, 'c, 'o, 'd) reduction"
  assumes wf: "definition_wf def"
    and "initialize_seeded_definition ports def cancellation seed = Some r"
  shows "micros (fresh_reduction True (initial_state def seed)) r"
proof -
  define r0 :: "('p, 'c, 'o, 'd) reduction" where "r0 = fresh_reduction True (initial_state def seed)"
  define r1 where "r1 = (case cancellation of
       None \<Rightarrow> r0
     | Some (InitialGraceful request operation) \<Rightarrow> snd (apply_cancellation request operation r0)
     | Some (InitialForceAbort operation deadline) \<Rightarrow> snd (apply_force_abort operation deadline r0))"
  have wf0: "definition_wf (definition_of (state r0))"
    using wf by (simp add: r0_def initial_state_def)
  have "micros r0 r1"
    using apply_cancellation_refines [OF wf0] apply_force_abort_refines [OF wf0]
    by (auto simp: r1_def split: option.split initial_cancellation.split) (metis prod.collapse)+
  moreover have "stabilize ports r1 = Some r"
    using assms(2)
    unfolding initialize_seeded_definition_def r1_def r0_def fresh_reduction_def Let_def .
  with calculation have "micros r1 r"
    using micros_definition_wf [OF _ wf0] by (intro stabilize_micros [of _ ports])
  ultimately show ?thesis
    unfolding r0_def by (rule rtranclp_trans)
qed

end
