(* ===== verification/Runtime_Invariants.thy ===== *)
theory Runtime_Invariants
  imports Runtime_Stabilize
begin

text \<open>
  Invariants of the reducer.  The interface \<open>reducer_invariant\<close> asks that a property of reductions
  be kept by every step of the transition system, and gives that \<open>reduce\<close> and
  \<open>initialize_seeded_definition\<close> keep it.  It is interpreted on each invariant of this theory.
\<close>

section \<open>The interface of an invariant\<close>

locale reducer_invariant =
  fixes inv :: "('p, 'c, 'o, 'd) reduction \<Rightarrow> bool"
  assumes keeps: "micro r r' \<Longrightarrow> inv r \<Longrightarrow> inv r'"
begin

lemma micros_keep: "micros r r' \<Longrightarrow> inv r \<Longrightarrow> inv r'"
  by (induction rule: rtranclp_induct) (auto intro: keeps)

lemma reduce_keeps:
  "definition_wf (definition_of st) \<Longrightarrow> reduce ports st occurrence = Some r \<Longrightarrow>
   inv (fresh_reduction False st) \<Longrightarrow> inv r"
  using micros_keep reduce_micros by blast

lemma initialize_keeps:
  "definition_wf def \<Longrightarrow> initialize_seeded_definition ports def cancellation seed = Some r \<Longrightarrow>
   inv (fresh_reduction True (initial_state def seed)) \<Longrightarrow> inv r"
  using micros_keep initialize_micros by blast

end

section \<open>Facts on node transitions\<close>

text \<open>The transitions of a node by the kind of its state.\<close>

fun legal_transition :: "step_state_kind \<Rightarrow> step_state_kind \<Rightarrow> bool" where
  "legal_transition KPending k = (k \<in> {KStarting, KFailed, KBlocked, KSkipped, KNotRun, KCancelled})"
| "legal_transition KStarting k = (k \<in> {KRunning, KStarting, KRecovering, KFailed, KCancelling})"
| "legal_transition KRunning k = (k \<in> {KCapturingOutputs, KStarting, KRecovering, KFailed, KCancelling})"
| "legal_transition KCapturingOutputs k =
     (k \<in> {KSucceeded, KStarting, KRecovering, KFailed, KCancelling})"
| "legal_transition KRecovering k = (k \<in> {KRecovering, KStarting, KFailed, KCancelling})"
| "legal_transition KCancelling k = (k = KCancelled)"
| "legal_transition _ _ = False"

lemma target_active_cases:
  assumes "target_active s"
  obtains "s = Starting" | "s = Running" | "s = CapturingOutputs"
  using assms by (cases s) auto

lemma invocation_active_cases:
  assumes "invocation_active s"
  obtains "s = Starting" | "s = Running" | "s = CapturingOutputs" | round h where "s = Recovering round h"
  using assms by (cases s) auto

lemma undispatched_cases:
  assumes "undispatched s"
  obtains d where "s = Blocked d" | d where "s = Skipped d" | d where "s = NotRun d"
    | d where "s = Cancelled d"
  using assms by (cases s) auto

lemma round_dueD: "round_due n record number \<Longrightarrow> target_active (srs_state n)"
  by (simp add: round_due_def)

lemma node_step_legal:
  "node_step step sequence n n' acts \<Longrightarrow> legal_transition (kind (srs_state n)) (kind (srs_state n'))"
  by (induction rule: node_step.induct)
    (auto dest!: round_dueD elim!: target_active_cases invocation_active_cases undispatched_cases)

lemma node_step_not_terminal: "node_step step sequence n n' acts \<Longrightarrow> \<not> is_terminal (srs_state n)"
  by (induction rule: node_step.induct)
    (auto dest!: round_dueD elim!: target_active_cases invocation_active_cases)

lemma node_step_active:
  "node_step step sequence n n' acts \<Longrightarrow> is_active (srs_state n') \<Longrightarrow>
   is_active (srs_state n) \<or> srs_state n = Pending \<and> srs_state n' = Starting"
  by (induction rule: node_step.induct)
    (auto dest!: round_dueD elim!: target_active_cases invocation_active_cases undispatched_cases)

lemma node_touch_state: "node_touch step n n' acts \<Longrightarrow> srs_state n' = srs_state n"
  by (induction rule: node_touch.induct) (auto simp: bookkept_def)

section \<open>Terminal nodes\<close>

text \<open>A node that is terminal in a base state is in the same state in the reduction.\<close>

definition terminal_kept ::
  "('c, 'o, 'd) runtime_state \<Rightarrow> ('p, 'c, 'o, 'd) reduction \<Rightarrow> bool" where
  "terminal_kept base r \<longleftrightarrow>
     (\<forall>s n. map_of (steps base) s = Some n \<and> is_terminal (srs_state n) \<longrightarrow>
        (\<exists>n'. map_of (steps (state r)) s = Some n' \<and> srs_state n' = srs_state n))"

lemma terminal_kept_modify:
  assumes "terminal_kept base r" and "map_of (steps (state r)) step = Some n"
    and "\<not> is_terminal (srs_state n) \<or> srs_state n' = srs_state n"
    and "steps (state r') = bt_modify step (\<lambda>_. n') (steps (state r))"
  shows "terminal_kept base r'"
  unfolding terminal_kept_def
proof (intro allI impI, elim conjE)
  fix s m
  assume "map_of (steps base) s = Some m" "is_terminal (srs_state m)"
  then obtain m' where "map_of (steps (state r)) s = Some m'" "srs_state m' = srs_state m"
    using assms(1) by (auto simp: terminal_kept_def)
  then show "\<exists>n'. map_of (steps (state r')) s = Some n' \<and> srs_state n' = srs_state m"
    using assms(2,3,4) \<open>is_terminal (srs_state m)\<close> by (cases "s = step") auto
qed

lemma terminal_kept_steps:
  "terminal_kept base r \<Longrightarrow> steps (state r') = steps (state r) \<Longrightarrow> terminal_kept base r'"
  by (simp add: terminal_kept_def)

lemma bt_modify_const_twice:
  "bt_modify k (\<lambda>_. b) (bt_modify k (\<lambda>_. a) m) = bt_modify k (\<lambda>_. b) m"
  by (simp add: bt_modify_modify comp_def)

interpretation terminal: reducer_invariant "terminal_kept base :: ('p, 'c, 'o, 'd) reduction \<Rightarrow> bool"
  for base :: "('c, 'o, 'd) runtime_state"
proof
  fix r r' :: "('p, 'c, 'o, 'd) reduction"
  assume "micro r r'" and "terminal_kept base r"
  then show "terminal_kept base r'"
  proof (induction rule: micro.induct)
    case (node r step n n' acts)
    then show ?case
      by - (rule terminal_kept_modify [where n' = n' and step = step and n = n and r = r], auto dest: node_step_not_terminal)
  next
    case (complete r step n m n' outputs)
    then show ?case
      by - (rule terminal_kept_modify [where n' = n' and step = step and n = n and r = r], auto simp: bt_modify_const_twice)
  next
    case (touch r step n n' acts)
    then show ?case
      by - (rule terminal_kept_modify [where n' = n' and step = step and n = n and r = r], auto dest: node_touch_state)
  next
    case (workflow r sequence st st' ev acts)
    then show ?case
      by - (rule terminal_kept_steps [of base r],
          auto dest!: workflow_step_frame next_sequence_frame)
  qed (auto simp: terminal_kept_def)
qed

lemma terminal_kept_refl [simp]: "terminal_kept st (fresh_reduction accepted st)"
  by (simp add: terminal_kept_def)

section \<open>Legal events\<close>

fun legal_event :: "'d transition_event \<Rightarrow> bool" where
  "legal_event (EvStep _ _ _ _ from to) = legal_transition from to"
| "legal_event (EvWorkflow _ from to) = (\<not> workflow_terminal from)"
| "legal_event _ = True"

definition events_legal :: "('p, 'c, 'o, 'd) reduction \<Rightarrow> bool" where
  "events_legal r \<longleftrightarrow> list_all legal_event (events r)"

lemma workflow_step_legal: "workflow_step st sequence st' ev acts \<Longrightarrow> legal_event ev"
  by (induction rule: workflow_step.induct) (auto simp: workflow_terminal_def)

lemma events_commit_node [simp]:
  "events (commit_node step n n' acts r) = events r @ [EvStep (allocated r) step
     (role_of (state r) step) (policy_of (state r) step) (kind (srs_state n)) (kind (srs_state n'))]"
  by (simp add: commit_node_def)

interpretation legal: reducer_invariant "events_legal :: ('p, 'c, 'o, 'd) reduction \<Rightarrow> bool"
proof
  fix r r' :: "('p, 'c, 'o, 'd) reduction"
  assume "micro r r'" and "events_legal r"
  then show "events_legal r'"
    by (induction rule: micro.induct)
      (auto simp: events_legal_def dest: node_step_legal workflow_step_legal)
qed

section \<open>Parallelism\<close>

definition parallelism_bounded :: "('p, 'c, 'o, 'd) reduction \<Rightarrow> bool" where
  "parallelism_bounded r \<longleftrightarrow>
     active_count (state r) \<le> maximum_parallel_steps (definition_of (state r))"

lemma active_count_steps: "steps st' = steps st \<Longrightarrow> active_count st' = active_count st"
  by (simp add: active_count_def)

lemma active_count_no_start:
  assumes "map_of (steps st) step = Some n" and "steps st' = bt_modify step (\<lambda>_. n') (steps st)"
    and "is_active (srs_state n') \<longrightarrow> is_active (srs_state n)"
  shows "active_count st' \<le> active_count st"
  using active_count_modify [OF assms(1,2)] assms(3) by (auto split: if_splits)

interpretation parallelism: reducer_invariant "parallelism_bounded :: ('p, 'c, 'o, 'd) reduction \<Rightarrow> bool"
proof
  fix r r' :: "('p, 'c, 'o, 'd) reduction"
  assume "micro r r'" and "parallelism_bounded r"
  then show "parallelism_bounded r'"
  proof (induction rule: micro.induct)
    case (node r step n n' acts)
    show ?case
    proof (cases "srs_state n = Pending \<and> srs_state n' = Starting")
      case True
      then have "active_count (state r) < maximum_parallel_steps (definition_of (state r))"
        using node by (simp add: start_allowed_def)
      then show ?thesis
        using True active_count_modify [OF node(1), of "state (commit_node step n n' acts r)" n']
        by (simp add: parallelism_bounded_def)
    next
      case False
      then show ?thesis
        using active_count_no_start [OF node(1), of "state (commit_node step n n' acts r)" n']
          node_step_active [OF node(2)] node.prems
        by (auto simp: parallelism_bounded_def)
    qed
  next
    case (complete r step n m n' outputs)
    then show ?case
      using active_count_no_start [of "state r" step n
          "state (commit_node step m n' [] (commit_node step n m [] r))" n']
      by (auto simp: parallelism_bounded_def bt_modify_const_twice)
  next
    case (touch r step n n' acts)
    then show ?case
      using active_count_no_start [of "state r" step n "state (touch_node step n' acts r)" n']
      by (auto simp: parallelism_bounded_def dest: node_touch_state)
  next
    case (workflow r sequence st st' ev acts)
    then show ?case
      using active_count_steps [of st' "state r"]
      by (auto simp: parallelism_bounded_def dest!: workflow_step_frame next_sequence_frame)
  qed (simp_all add: parallelism_bounded_def active_count_def)
qed

end
