(* ===== verification/Runtime_Safety.thy ===== *)
theory Runtime_Safety
  imports Runtime_Invariants
begin

text \<open>
  Further invariants of the reducer: the consistency of every node with its invocation and recovery
  rounds, the numbering of events, the completion of a run, and the justification of every start.
\<close>

section \<open>Consistent nodes\<close>

definition rounds_shape ::
  "('c, 'o) step_runtime_state \<Rightarrow> (recovery_round_number \<times> target_execution_number) list" where
  "rounds_shape n = (case recovery_shape n of None \<Rightarrow> [] | Some (_, _, rs) \<Rightarrow> rs)"

text \<open>Rounds never exceed their configuration and are numbered from one, as the executions are.\<close>

definition recovery_ok :: "('c, 'o) step_runtime_state \<Rightarrow> bool" where
  "recovery_ok n \<longleftrightarrow>
     (case recovery_shape n of
        None \<Rightarrow> True
      | Some (configured, _, rs) \<Rightarrow>
          length rs \<le> unat configured \<and>
          (\<forall>i<length rs. unat (round_get (fst (rs ! i))) = Suc i \<and>
             unat (execution_get (snd (rs ! i))) = Suc i))"

definition execution_ok :: "('c, 'o) step_runtime_state \<Rightarrow> bool" where
  "execution_ok n \<longleftrightarrow>
     (\<exists>e. target_execution n = Some e \<and> active_invocation n = Some (ActiveTarget e) \<and>
        unat (execution_get e) = Suc (length (rounds_shape n)))"

definition node_ok :: "('c, 'o) step_runtime_state \<Rightarrow> bool" where
  "node_ok n \<longleftrightarrow> recovery_ok n \<and>
     (case srs_state n of
        Pending \<Rightarrow> current_action n = None \<and> active_invocation n = None \<and> rounds_shape n = []
      | Starting \<Rightarrow> current_action n \<noteq> None \<and> execution_ok n
      | Running \<Rightarrow> current_action n \<noteq> None \<and> execution_ok n
      | CapturingOutputs \<Rightarrow> current_action n \<noteq> None \<and> execution_ok n
      | Recovering round _ \<Rightarrow> current_action n \<noteq> None \<and>
          active_invocation n = Some (ActiveRecoveryHandler round) \<and>
          rounds_shape n \<noteq> [] \<and> fst (last (rounds_shape n)) = round
      | Cancelling _ \<Rightarrow> current_action n \<noteq> None \<and> active_invocation n \<noteq> None
      | _ \<Rightarrow> current_action n = None \<and> active_invocation n = None)"

lemma same_target_ok:
  assumes "same_target n n'"
  shows "recovery_ok n' = recovery_ok n" and "rounds_shape n' = rounds_shape n"
    and "target_execution n' = target_execution n"
  using assms by (simp_all add: same_target_def recovery_ok_def rounds_shape_def)

lemma same_target_execution_ok:
  "same_target n n' \<Longrightarrow> active_invocation n' = active_invocation n \<Longrightarrow> execution_ok n' = execution_ok n"
  by (simp add: execution_ok_def same_target_ok)

lemma add_round_shape:
  assumes "recovery n = Some rec"
  shows "recovery_shape (add_round entry n) =
      Some (rec_configured_rounds rec, rec_handler_kind rec, rounds_shape n @
        [(rr_number entry, ptf_execution_number (rr_failed_execution entry))])"
    and "rounds_shape n = map (\<lambda>record. (rr_number record,
      ptf_execution_number (rr_failed_execution record))) (rec_rounds rec)"
  using assms by (simp_all add: recovery_shape_def rounds_shape_def add_round_def)

lemma round_due_ok:
  assumes "round_due n entry number" and "recovery_ok n"
  shows "recovery_ok (add_round entry n)"
    and "rounds_shape (add_round entry n) = rounds_shape n @ [(rr_number entry, number)]"
    and "unat (execution_get number) = Suc (length (rounds_shape n))"
proof -
  obtain rec where rec: "recovery n = Some rec"
    and len: "length (rec_rounds rec) < unat (rec_configured_rounds rec)"
    "unat (execution_get number) = Suc (length (rec_rounds rec))"
    and num: "rr_number entry = RecoveryRoundNumber (execution_get number)"
    "ptf_execution_number (rr_failed_execution entry) = number"
    using assms(1) by (auto simp: round_due_def split: option.splits)
  note shape = add_round_shape [OF rec]
  show "unat (execution_get number) = Suc (length (rounds_shape n))"
    using len(2) shape(2) by simp
  show "rounds_shape (add_round entry n) = rounds_shape n @ [(rr_number entry, number)]"
    using shape(1) [of entry] num(2) by (simp add: rounds_shape_def)
  have "\<forall>i<length (rounds_shape n). unat (round_get (fst (rounds_shape n ! i))) = Suc i \<and>
      unat (execution_get (snd (rounds_shape n ! i))) = Suc i"
    using assms(2) rec by (simp add: recovery_ok_def recovery_shape_def rounds_shape_def)
  then show "recovery_ok (add_round entry n)"
    using shape len num by (auto simp: recovery_ok_def nth_append less_Suc_eq)
qed

lemma execution_next_unat: "execution_next e = Some e' \<Longrightarrow> unat (execution_get e') = Suc (unat (execution_get e))"
  by (auto simp: execution_next_def dest!: checked_add_SomeD)

lemma started_target_shape [simp]:
  "recovery_shape (started_target sequence number n) = recovery_shape n"
  "rounds_shape (started_target sequence number n) = rounds_shape n"
  "recovery_ok (started_target sequence number n) = recovery_ok n"
  by (simp_all add: recovery_shape_def rounds_shape_def recovery_ok_def)

lemma started_target_ok:
  "recovery_ok n \<Longrightarrow> unat (execution_get number) = Suc (length (rounds_shape n)) \<Longrightarrow>
   node_ok (started_target sequence number n)"
  by (simp add: node_ok_def execution_ok_def)

lemma first_execution_unat: "unat (execution_get first_execution) = 1"
  by (simp add: first_execution_def)

lemma recheck_number:
  assumes "recovery_ok n" and "recovery n = Some rec" and "rec_rounds rec \<noteq> []"
  shows "unat (execution_get (ptf_execution_number (rr_failed_execution (last (rec_rounds rec))))) =
    length (rounds_shape n)"
proof -
  have "length (rec_rounds rec) - 1 < length (rec_rounds rec)"
    using assms(3) by simp
  then show ?thesis
    using assms by (auto simp: recovery_ok_def recovery_shape_def rounds_shape_def last_conv_nth)
qed

lemma node_step_ok: "node_step step sequence n n' acts \<Longrightarrow> node_ok n \<Longrightarrow> node_ok n'"
proof (induction rule: node_step.induct)
  case (start n ins)
  then show ?case
    by (intro started_target_ok) (auto simp: node_ok_def first_execution_unat)
next
  case (retry n entry number number' ins)
  then have "recovery_ok n"
    by (simp add: node_ok_def)
  note due = round_due_ok [OF retry(1) this]
  show ?case
    using due execution_next_unat [OF retry(2)] by (intro started_target_ok) simp_all
next
  case (recheck n round rec number m ins)
  then have "recovery_ok n"
    by (simp add: node_ok_def)
  then show ?case
    using recheck_number [OF _ recheck(2,3)] execution_next_unat [OF recheck(4)]
      same_target_ok [OF recheck(5)]
    by (intro started_target_ok) simp_all
next
  case (recover n entry number round n' hk history)
  then have "recovery_ok n"
    by (simp add: node_ok_def)
  note due = round_due_ok [OF recover(1) this]
  show ?case
    using recover due same_target_ok [OF recover(6)] by (simp add: node_ok_def)
next
  case (fail_last n entry number n' detail)
  then have "recovery_ok n"
    by (simp add: node_ok_def)
  note due = round_due_ok [OF fail_last(1) this]
  show ?case
    using fail_last due same_target_ok [OF fail_last(6)] by (simp add: node_ok_def)
next
  case (dispose n n')
  then show ?case
    using same_target_ok [OF dispose(5)]
    by (auto simp: node_ok_def elim!: undispatched_cases)
next
  case (cancel n active n' detail i a reason deadline)
  then show ?case
    using same_target_ok [OF cancel(7)] by (auto simp: node_ok_def)
qed (auto simp: node_ok_def same_target_ok same_target_execution_ok)

lemma bookkept_ok:
  assumes "bookkept n n'" and "node_ok n"
  shows "node_ok n'"
proof -
  have "same_target n n'" "srs_state n' = srs_state n" "current_action n' = current_action n"
    "active_invocation n' = active_invocation n"
    using assms(1) by (simp_all add: bookkept_def)
  then show ?thesis
    using assms(2) same_target_ok [of n n'] same_target_execution_ok [of n n']
    by (cases "srs_state n") (simp_all add: node_ok_def)
qed

lemma node_touch_ok: "node_touch step n n' acts \<Longrightarrow> node_ok n \<Longrightarrow> node_ok n'"
proof (induction rule: node_touch.induct)
  case (pass n)
  then show ?case
    by (simp add: node_ok_def recovery_ok_def rounds_shape_def recovery_shape_def)
next
  case (abort n d i acts reason deadline)
  then show ?case
    by (simp add: node_ok_def recovery_ok_def rounds_shape_def recovery_shape_def)
qed (rule bookkept_ok)

definition nodes_ok :: "('p, 'c, 'o, 'd) reduction \<Rightarrow> bool" where
  "nodes_ok r \<longleftrightarrow> (\<forall>s n. map_of (steps (state r)) s = Some n \<longrightarrow> node_ok n)"

lemma nodes_ok_modify:
  "nodes_ok r \<Longrightarrow> node_ok n' \<Longrightarrow> steps (state r') = bt_modify step (\<lambda>_. n') (steps (state r)) \<Longrightarrow>
   nodes_ok r'"
  by (auto simp: nodes_ok_def map_of_bt_modify)

interpretation nodes: reducer_invariant "nodes_ok :: ('p, 'c, 'o, 'd) reduction \<Rightarrow> bool"
proof
  fix r r' :: "('p, 'c, 'o, 'd) reduction"
  assume "micro r r'" and "nodes_ok r"
  then show "nodes_ok r'"
  proof (induction rule: micro.induct)
    case (node r step n n' acts)
    then have "node_ok n"
      by (simp add: nodes_ok_def)
    then show ?case
      using node by - (rule nodes_ok_modify [of r n'], auto intro: node_step_ok)
  next
    case (complete r step n m n' outputs)
    then have "node_ok n"
      by (simp add: nodes_ok_def)
    then have "node_ok n'"
      using complete same_target_ok [of n m] same_target_ok [of m n'] by (simp add: node_ok_def)
    then show ?case
      using complete by - (rule nodes_ok_modify [of r n'], auto simp: bt_modify_const_twice)
  next
    case (touch r step n n' acts)
    then have "node_ok n"
      by (simp add: nodes_ok_def)
    then show ?case
      using touch by - (rule nodes_ok_modify [of r n'], auto intro: node_touch_ok)
  next
    case (workflow r sequence st st' ev acts)
    then show ?case
      by (auto simp: nodes_ok_def dest!: workflow_step_frame next_sequence_frame)
  qed (simp_all add: nodes_ok_def)
qed

section \<open>Event numbers\<close>

text \<open>
  While the capacity is not exceeded, the events of a reduction carry the sequence numbers that
  follow the number of its first state, without a gap or a repetition.
\<close>

definition events_numbered :: "transition_sequence \<Rightarrow> ('p, 'c, 'o, 'd) reduction \<Rightarrow> bool" where
  "events_numbered base r \<longleftrightarrow>
     unat (maximum_transitions (definition_of (state r))) < 2 ^ 64 - 1 \<and>
     (\<not> transition_capacity_exceeded (state r) \<longrightarrow>
        unat (last_transition_sequence (state r)) = unat base + length (events r) \<and>
        map (unat \<circ> ev_sequence) (events r) =
          [Suc (unat base) ..< Suc (unat base + length (events r))])"

lemma next_sequence_numbered:
  assumes "unat (maximum_transitions (definition_of st)) < 2 ^ 64 - 1"
    and "next_sequence st = (sequence, st')" and "\<not> transition_capacity_exceeded st'"
  shows "unat sequence = Suc (unat (last_transition_sequence st))"
    and "last_transition_sequence st' = sequence" and "\<not> transition_capacity_exceeded st"
proof -
  have le: "\<not> sequence_next (last_transition_sequence st) > maximum_transitions (definition_of st)"
    and eq: "sequence = sequence_next (last_transition_sequence st)"
    and "last_transition_sequence st' = sequence"
    and "transition_capacity_exceeded st' = transition_capacity_exceeded st"
    using assms(2,3) by (auto simp: next_sequence_def Let_def split: if_splits)
  then show "last_transition_sequence st' = sequence" "\<not> transition_capacity_exceeded st"
    using assms(3) by simp_all
  have "unat sequence \<le> unat (maximum_transitions (definition_of st))"
    using le eq by (simp add: word_le_nat_alt not_less)
  then have "unat sequence < 2 ^ 64 - 1"
    using assms(1) by (rule le_less_trans)
  moreover have "unat sequence = min (Suc (unat (last_transition_sequence st))) (2 ^ 64 - 1)"
    unfolding eq sequence_next_def by (simp add: unat_saturating_add)
  ultimately show "unat sequence = Suc (unat (last_transition_sequence st))"
    by (simp add: min_def split: if_splits)
qed

lemma events_numbered_snoc:
  assumes "events_numbered base r" and "next_sequence (state r) = (sequence, st)"
    and "definition_of (state r') = definition_of (state r)"
    and "last_transition_sequence (state r') = last_transition_sequence st"
    and "transition_capacity_exceeded (state r') = transition_capacity_exceeded st"
    and "events r' = events r @ [ev]" and "ev_sequence ev = sequence"
  shows "events_numbered base r'"
  using assms next_sequence_numbered [OF _ assms(2)] by (auto simp: events_numbered_def)

lemma workflow_step_numbers:
  "workflow_step st sequence st' ev acts \<Longrightarrow> ev_sequence ev = sequence \<and>
     last_transition_sequence st' = last_transition_sequence st \<and>
     transition_capacity_exceeded st' = transition_capacity_exceeded st"
  by (induction rule: workflow_step.induct) auto

lemma events_numbered_commit:
  "events_numbered base r \<Longrightarrow> events_numbered base (commit_node step n n' acts r)"
  by (rule events_numbered_snoc [of base r "allocated r" "snd (next_sequence (state r))"])
    (auto simp: commit_node_def)

interpretation numbers: reducer_invariant
  "events_numbered base :: ('p, 'c, 'o, 'd) reduction \<Rightarrow> bool" for base
proof
  fix r r' :: "('p, 'c, 'o, 'd) reduction"
  assume "micro r r'" and "events_numbered base r"
  then show "events_numbered base r'"
  proof (induction rule: micro.induct)
    case (workflow r sequence st st' ev acts)
    then show ?case
      using workflow_step_frame [OF workflow(2)] next_sequence_frame [OF workflow(1)]
        workflow_step_numbers [OF workflow(2)]
      by - (rule events_numbered_snoc [OF workflow(3) workflow(1)], auto)
  next
    case (touch r step n n' acts)
    then show ?case
      by (simp add: events_numbered_def touch_node_def)
  qed (simp_all add: events_numbered_commit, simp_all add: events_numbered_def)
qed

end
