(* ===== verification/Runtime_Runs.thy ===== *)
theory Runtime_Runs
  imports Runtime_Safety
begin

text \<open>
  Whole runs of the reducer, from the initial state through any sequence of occurrences, and the
  invariants that relate the phases of a run: its completion, the prerequisites of everything it
  dispatched, and the closed gates after a cancellation or a force abort.
\<close>

section \<open>Runs\<close>

text \<open>A run collects the events and actions of all its reductions.\<close>

definition prepend ::
  "'d transition_event list \<Rightarrow> ('p, 'c, 'o, 'd) requested_action list \<Rightarrow>
   ('p, 'c, 'o, 'd) reduction \<Rightarrow> ('p, 'c, 'o, 'd) reduction" where
  "prepend evs acts r = r\<lparr>events := evs @ events r, actions := acts @ actions r\<rparr>"

inductive run ::
  "('p, 'c, 'o) runtime_ports \<Rightarrow> runtime_definition \<Rightarrow> 'd initial_cancellation option \<Rightarrow>
   'o execution_seed \<Rightarrow> ('p, 'c, 'o, 'd) reduction \<Rightarrow> bool"
  for ports def cancellation seed where
  initialize: "initialize_seeded_definition ports def cancellation seed = Some r \<Longrightarrow>
    run ports def cancellation seed r"
| reduce: "run ports def cancellation seed r \<Longrightarrow> reduce ports (state r) occurrence = Some r' \<Longrightarrow>
    run ports def cancellation seed (prepend (events r) (actions r) r')"

lemma prepend_fields [simp]:
  "state (prepend evs acts r) = state r"
  "events (prepend evs acts r) = evs @ events r"
  "actions (prepend evs acts r) = acts @ actions r"
  by (simp_all add: prepend_def)

lemma prepend_commit [simp]:
  "prepend evs acts (commit_node step n n' acts' r) = commit_node step n n' acts' (prepend evs acts r)"
  by (simp add: prepend_def commit_node_def)

lemma prepend_touch [simp]:
  "prepend evs acts (touch_node step n' acts' r) = touch_node step n' acts' (prepend evs acts r)"
  by (simp add: prepend_def touch_node_def)

lemma micro_prepend: "micro r r' \<Longrightarrow> micro (prepend evs acts r) (prepend evs acts r')"
proof (induction rule: micro.induct)
  case (workflow r sequence st st' ev acts')
  then show ?case
    using micro.workflow [of "prepend evs acts r" sequence st st' ev acts']
    by (simp add: prepend_def)
next
  case (operation r op)
  then show ?case
    using micro.operation [of "prepend evs acts r" op] by (cases r) (simp add: prepend_def)
next
  case (release r i resources)
  then show ?case
    using micro.release [of "prepend evs acts r" i resources] by (simp add: prepend_def)
next
  case (accept r accepted)
  then show ?case
    using micro.accept [of "prepend evs acts r" accepted] by (cases r) (simp add: prepend_def)
qed (auto intro: micro.intros)

lemma micros_prepend: "micros r r' \<Longrightarrow> micros (prepend evs acts r) (prepend evs acts r')"
  by (induction rule: rtranclp_induct) (auto intro: micro_prepend rtranclp.rtrancl_into_rtrancl)

lemma prepend_fresh:
  "prepend (events r) (actions r) (fresh_reduction False (state r)) = r\<lparr>occurrence_accepted := False\<rparr>"
  by (simp add: prepend_def fresh_reduction_def)

theorem run_micros:
  assumes "definition_wf def" and "run ports def cancellation seed r"
  shows "micros (fresh_reduction True (initial_state def seed)) r"
  using assms(2)
proof (induction rule: run.induct)
  case (initialize r)
  then show ?case
    using assms(1) by (rule initialize_micros [rotated])
next
  case (reduce r occurrence r')
  have "definition_of (state r) = def"
    using micros_definition [OF reduce.IH] by (simp add: initial_state_def)
  then have "micros (fresh_reduction False (state r)) r'"
    using reduce_micros reduce.hyps(2) assms(1) by blast
  then have "micros (r\<lparr>occurrence_accepted := False\<rparr>) (prepend (events r) (actions r) r')"
    using micros_prepend prepend_fresh by metis
  moreover have "micro r (r\<lparr>occurrence_accepted := False\<rparr>)"
    by (rule micro.accept)
  ultimately show ?case
    using reduce.IH by (meson converse_rtranclp_into_rtranclp rtranclp_trans)
qed

context reducer_invariant
begin

lemma run_keeps:
  "definition_wf def \<Longrightarrow> run ports def cancellation seed r \<Longrightarrow>
   inv (fresh_reduction True (initial_state def seed)) \<Longrightarrow> inv r"
  using micros_keep run_micros by blast

end

lemma run_definition:
  "definition_wf def \<Longrightarrow> run ports def cancellation seed r \<Longrightarrow> definition_of (state r) = def"
  using micros_definition [OF run_micros] by (fastforce simp: initial_state_def)

section \<open>Completion\<close>

lemma terminal_kept_self: "terminal_kept (state r) r"
  by (simp add: terminal_kept_def)

lemma micro_terminal_kept: "micro r r' \<Longrightarrow> terminal_kept (state r) r'"
  using terminal.keeps terminal_kept_self by blast

lemma state_in_kept:
  assumes "terminal_kept st r'" and "state_in st s P" and "\<And>x. P x \<Longrightarrow> is_terminal x"
  shows "state_in (state r') s P"
  using assms by (fastforce simp: state_in_def terminal_kept_def split: option.splits)

lemma all_terminal_kept:
  "terminal_kept st r' \<Longrightarrow> all_terminal st ids \<Longrightarrow> all_terminal (state r') ids"
  by (auto simp: all_terminal_def list_all_iff intro: state_in_kept)

text \<open>
  Finalization begins when every ordinary node is terminal, and a run ends when every node is.
\<close>

definition phases_ok :: "('c, 'o, 'd) runtime_state \<Rightarrow> bool" where
  "phases_ok st \<longleftrightarrow>
     (case workflow st of
        Executing _ \<Rightarrow> exports st = None \<and> finalization st = None
      | Finalizing trigger _ _ \<Rightarrow> exports st = None \<and>
          map_option fin_trigger (finalization st) = Some trigger \<and>
          all_terminal st (ordinary_ids (definition_of st))
      | _ \<Rightarrow> exports st \<noteq> None \<and> all_terminal st (ordinary_ids (definition_of st)) \<and>
          all_terminal st (finalizer_ids (definition_of st)))"

lemma phases_ok_kept:
  assumes "phases_ok st" and "terminal_kept st r'" and "definition_of (state r') = definition_of st"
    and "workflow (state r') = workflow st" and "exports (state r') = exports st"
    and "finalization (state r') = finalization st"
  shows "phases_ok (state r')"
  using assms all_terminal_kept [OF assms(2)] by (auto simp: phases_ok_def split: workflow_state.splits)

lemma all_terminal_steps: "steps st' = steps st \<Longrightarrow> all_terminal st' ids = all_terminal st ids"
  by (simp add: all_terminal_def state_in_def)

lemma all_terminal_updates [simp]:
  "all_terminal (st\<lparr>workflow := w\<rparr>) ids = all_terminal st ids"
  "all_terminal (st\<lparr>exports := e\<rparr>) ids = all_terminal st ids"
  "all_terminal (st\<lparr>finalization := f\<rparr>) ids = all_terminal st ids"
  "all_terminal (st\<lparr>finalization_summary := s\<rparr>) ids = all_terminal st ids"
  "all_terminal (st\<lparr>force_abort := a\<rparr>) ids = all_terminal st ids"
  "all_terminal (st\<lparr>last_cancellation_operation := op\<rparr>) ids = all_terminal st ids"
  by (rule all_terminal_steps, simp)+

lemma all_terminal_Nil [simp]: "all_terminal st []"
  by (simp add: all_terminal_def)

lemma outcome_states_terminal: "outcome_states result = (w, outcome) \<Longrightarrow> workflow_terminal w"
  by (cases result) (auto simp: workflow_terminal_def)

lemma workflow_terminal_cases:
  assumes "workflow_terminal w"
  obtains "w = WfSucceeded" | issue later where "w = WfFailed issue later"
    | reason where "w = WfCancelled reason"
  using assms by (cases w) (auto simp: workflow_terminal_def)

lemma workflow_step_phases: "workflow_step st sequence st' ev acts \<Longrightarrow> phases_ok st \<Longrightarrow> phases_ok st'"
proof (induction rule: workflow_step.induct)
  case (finish derived result w outcome summary)
  then show ?case
    by (auto simp: phases_ok_def
        elim!: workflow_terminal_cases dest!: outcome_states_terminal)
next
  case (abort_finalization trigger gate issue op)
  then show ?case
    by (auto simp: phases_ok_def force_abort_finalization_def)
qed (auto simp: phases_ok_def)

lemma next_sequence_phases: "next_sequence st = (sequence, st') \<Longrightarrow> phases_ok st' = phases_ok st"
  using next_sequence_other_fields [of st] next_sequence_frame [of st sequence st']
  by (cases "workflow st") (simp_all add: phases_ok_def all_terminal_steps [of st' st])

interpretation phases: reducer_invariant
  "(\<lambda>r. phases_ok (state r)) :: ('p, 'c, 'o, 'd) reduction \<Rightarrow> bool"
proof
  fix r r' :: "('p, 'c, 'o, 'd) reduction"
  assume step: "micro r r'" and "phases_ok (state r)"
  note kept = micro_terminal_kept [OF step]
  show "phases_ok (state r')"
    using step \<open>phases_ok (state r)\<close> kept
  proof (induction rule: micro.induct)
    case (workflow r sequence st st' ev acts)
    then show ?case
      using workflow_step_phases next_sequence_phases by fastforce
  next
    case (operation r op)
    then show ?case
      by - (rule phases_ok_kept [of "state r"], simp_all)
  qed (rule phases_ok_kept, assumption, assumption, simp_all)+
qed

section \<open>One final action\<close>

fun is_finish :: "('p, 'c, 'o, 'd) requested_action \<Rightarrow> bool" where
  "is_finish a = (case ra_action a of FinishRun _ _ \<Rightarrow> True | _ \<Rightarrow> False)"

definition finishes :: "('p, 'c, 'o, 'd) requested_action list \<Rightarrow> nat" where
  "finishes acts = length (filter is_finish acts)"

definition finished_once :: "('p, 'c, 'o, 'd) reduction \<Rightarrow> bool" where
  "finished_once r \<longleftrightarrow> finishes (actions r) = (if workflow_terminal (workflow (state r)) then 1 else 0)"

lemma finishes_append [simp]: "finishes (xs @ ys) = finishes xs + finishes ys"
  by (simp add: finishes_def)

lemma finishes_simps [simp]: "finishes [] = 0"
  "finishes (a # acts) = (if is_finish a then Suc (finishes acts) else finishes acts)"
  by (simp_all add: finishes_def)

lemma node_step_finishes [simp]: "node_step step sequence n n' acts \<Longrightarrow> finishes acts = 0"
  by (induction rule: node_step.induct) auto

lemma node_touch_finishes [simp]: "node_touch step n n' acts \<Longrightarrow> finishes acts = 0"
  by (induction rule: node_touch.induct) (auto split: option.splits)

lemma workflow_step_finishes:
  "workflow_step st sequence st' ev acts \<Longrightarrow> \<not> workflow_terminal (workflow st) \<and>
     finishes acts = (if workflow_terminal (workflow st') then 1 else 0)"
  by (induction rule: workflow_step.induct)
    (auto simp: workflow_terminal_def dest!: outcome_states_terminal elim!: workflow_terminal_cases)

interpretation finished: reducer_invariant "finished_once :: ('p, 'c, 'o, 'd) reduction \<Rightarrow> bool"
proof
  fix r r' :: "('p, 'c, 'o, 'd) reduction"
  assume "micro r r'" and "finished_once r"
  then show "finished_once r'"
  proof (induction rule: micro.induct)
    case (workflow r sequence st st' ev acts)
    then show ?case
      using workflow_step_finishes [OF workflow(2)] next_sequence_other_fields(1) [of "state r"]
      by (auto simp: finished_once_def)
  qed (auto simp: finished_once_def)
qed

end
