(* ===== verification/Runtime_Dispatch.thy ===== *)
theory Runtime_Dispatch
  imports Runtime_Runs
begin

text \<open>
  What a run may dispatch: the prerequisites of every dispatched node hold for the rest of the run,
  nothing pending starts once its gate has closed, and every action is identified by the transition
  that requested it.
\<close>

section \<open>Prerequisites of dispatched nodes\<close>

text \<open>States only a dispatched node can have; a failure may also precede dispatch.\<close>

fun dispatched :: "'o step_state \<Rightarrow> bool" where
  "dispatched Starting = True"
| "dispatched Running = True"
| "dispatched CapturingOutputs = True"
| "dispatched (Recovering _ _) = True"
| "dispatched (Cancelling _) = True"
| "dispatched (Succeeded _) = True"
| "dispatched _ = False"

definition justified :: "('c, 'o, 'd) runtime_state \<Rightarrow> string \<Rightarrow> bool" where
  "justified st step \<longleftrightarrow>
     (case map_of (def_steps (definition_of st)) step of
        None \<Rightarrow> False
      | Some def \<Rightarrow>
          step \<in> set (ordinary_ids (definition_of st)) \<and>
            list_all (ordinary_prerequisite_satisfied st) (prerequisites def) \<or>
          step \<in> set (finalizer_ids (definition_of st)) \<and>
            list_all (\<lambda>prerequisite. state_in st (producer prerequisite) is_terminal)
              (prerequisites def) \<and>
            unavailable_references st def = [] \<and>
            (\<exists>fin. finalization st = Some fin \<and> bs_contains (when_triggers def) (fin_trigger fin)))"

lemma step_data_available_terminal: "step_data_available s \<Longrightarrow> is_terminal s"
  by (cases s) (auto simp: step_data_available_def)

lemma state_in_present:
  assumes "micro r r'" and "state_in (state r) s P"
  obtains n where "map_of (steps (state r')) s = Some n"
  using assms micro_frame [OF assms(1)] map_of_keys [of "steps (state r')" "steps (state r)" s]
  by (fastforce simp: state_in_def split: option.splits)

lemma prerequisite_satisfied_iff:
  "ordinary_prerequisite_satisfied st p \<longleftrightarrow>
     (\<exists>n. map_of (steps st) (producer p) = Some n) \<and>
     (control p \<longrightarrow> ordinary_control_satisfied st p) \<and>
     (data p \<longrightarrow> state_in st (producer p) step_data_available) \<and>
     (disposition_control p \<longrightarrow> state_in st (producer p) is_terminal)"
  by (auto simp: ordinary_prerequisite_satisfied_def state_in_def split: option.splits)

lemma control_satisfied_kept:
  assumes "terminal_kept st r'" and "definition_of (state r') = definition_of st"
    and "ordinary_control_satisfied st p"
  shows "ordinary_control_satisfied (state r') p"
  using assms(3) unfolding ordinary_control_satisfied_def assms(2)
  by (rule state_in_kept [OF assms(1)]) (auto split: step_state.splits)

lemma prerequisite_satisfied_kept:
  assumes "micro r r'" and "ordinary_prerequisite_satisfied (state r) p"
  shows "ordinary_prerequisite_satisfied (state r') p"
proof -
  note kept = micro_terminal_kept [OF assms(1)]
  have "definition_of (state r') = definition_of (state r)"
    using micro_frame [OF assms(1)] by simp
  note control = control_satisfied_kept [OF kept this]
  obtain n where n: "map_of (steps (state r')) (producer p) = Some n"
    using state_in_present [OF assms(1)] assms(2) unfolding ordinary_prerequisite_satisfied_def
    by blast
  show ?thesis
    using assms(2) n control state_in_kept [OF kept _ step_data_available_terminal]
      state_in_kept [OF kept, of _ is_terminal]
    unfolding prerequisite_satisfied_iff by blast
qed

lemma unavailable_kept:
  assumes "terminal_kept st r'" and "unavailable_references st def = []"
  shows "unavailable_references (state r') def = []"
  using assms(2) state_in_kept [OF assms(1), of _ step_data_available] step_data_available_terminal
  by (auto simp: unavailable_references_def List.map_filter_def filter_empty_conv
      split: prerequisite.splits option.splits if_splits)

lemma fin_trigger_kept:
  assumes "micro r r'" and "finalization (state r) = Some fin" and "phases_ok (state r)"
  shows "\<exists>fin'. finalization (state r') = Some fin' \<and> fin_trigger fin' = fin_trigger fin"
  using assms
proof (induction rule: micro.induct)
  case (workflow r sequence st st' ev acts)
  have "finalization st = Some fin" "phases_ok st"
    using workflow next_sequence_other_fields(2) [of "state r"] next_sequence_phases [OF workflow(1)]
    by auto
  with workflow(2) show ?case
    by (induction rule: workflow_step.induct)
      (auto simp: phases_ok_def force_abort_finalization_def)
qed simp_all

lemma justified_kept:
  assumes "micro r r'" and "phases_ok (state r)" and "justified (state r) step"
  shows "justified (state r') step"
proof -
  note kept = micro_terminal_kept [OF assms(1)]
  have "definition_of (state r') = definition_of (state r)"
    using micro_frame [OF assms(1)] by simp
  then show ?thesis
    using assms(3) prerequisite_satisfied_kept [OF assms(1)] unavailable_kept [OF kept]
      state_in_kept [OF kept, of _ is_terminal] fin_trigger_kept [OF assms(1) _ assms(2)]
    by (fastforce simp: justified_def list_all_iff split: option.splits)
qed

lemma start_allowed_justified: "start_allowed st step \<Longrightarrow> justified st step"
  by (auto simp: start_allowed_def ready_node_def justified_def ordinary_ready_def
      finalizer_ready_def condition_ids_def
      split: option.splits workflow_node_role.splits if_splits)

lemma node_step_dispatched:
  "node_step step sequence n n' acts \<Longrightarrow> dispatched (srs_state n') \<Longrightarrow>
   dispatched (srs_state n) \<or> srs_state n = Pending \<and> srs_state n' = Starting"
  by (induction rule: node_step.induct)
    (auto dest!: round_dueD elim!: target_active_cases invocation_active_cases undispatched_cases)

definition dispatch_justified :: "('p, 'c, 'o, 'd) reduction \<Rightarrow> bool" where
  "dispatch_justified r \<longleftrightarrow> phases_ok (state r) \<and>
     (\<forall>s n. map_of (steps (state r)) s = Some n \<and> dispatched (srs_state n) \<longrightarrow> justified (state r) s)"

lemma dispatch_justified_modify:
  assumes "micro r r'" and "dispatch_justified r" and "map_of (steps (state r)) step = Some n"
    and "steps (state r') = bt_modify step (\<lambda>_. n') (steps (state r))"
    and "dispatched (srs_state n') \<Longrightarrow> dispatched (srs_state n) \<or> justified (state r) step"
  shows "dispatch_justified r'"
proof -
  have "phases_ok (state r')"
    using assms(1,2) by (auto simp: dispatch_justified_def intro: phases.keeps)
  moreover have "justified (state r') s"
    if "map_of (steps (state r')) s = Some m" "dispatched (srs_state m)" for s m
  proof -
    have "justified (state r) s"
      using that assms(2-5) by (cases "s = step") (auto simp: dispatch_justified_def)
    then show ?thesis
      using justified_kept assms(1,2) by (auto simp: dispatch_justified_def)
  qed
  ultimately show ?thesis
    by (auto simp: dispatch_justified_def)
qed

lemma dispatch_justified_steps:
  assumes "micro r r'" and "dispatch_justified r" and "steps (state r') = steps (state r)"
  shows "dispatch_justified r'"
  using assms justified_kept [OF assms(1)] phases.keeps [OF assms(1)]
  by (auto simp: dispatch_justified_def)

interpretation dispatch: reducer_invariant "dispatch_justified :: ('p, 'c, 'o, 'd) reduction \<Rightarrow> bool"
proof
  fix r r' :: "('p, 'c, 'o, 'd) reduction"
  assume step: "micro r r'" and inv: "dispatch_justified r"
  from step show "dispatch_justified r'"
  proof (cases rule: micro.cases)
    case (node step n n' acts)
    then show ?thesis
      using node_step_dispatched [OF node(3)]
      by - (rule dispatch_justified_modify [OF step inv node(2), of n'],
          auto dest: start_allowed_justified)
  next
    case (complete step n m n' outputs)
    then show ?thesis
      by - (rule dispatch_justified_modify [OF step inv complete(2), of n'],
          auto simp: bt_modify_const_twice)
  next
    case (touch step n n' acts)
    then show ?thesis
      by - (rule dispatch_justified_modify [OF step inv touch(2), of n'],
          auto dest: node_touch_state)
  next
    case (workflow sequence st st' ev acts)
    then show ?thesis
      by - (rule dispatch_justified_steps [OF step inv],
          auto dest!: workflow_step_frame next_sequence_frame)
  qed (rule dispatch_justified_steps [OF step inv], simp)+
qed

section \<open>Closed gates\<close>

text \<open>After a force abort no gate is open, in either phase.\<close>

definition abort_closes :: "('c, 'o, 'd) runtime_state \<Rightarrow> bool" where
  "abort_closes st \<longleftrightarrow>
     (case force_abort st of
        None \<Rightarrow> True
      | Some evidence \<Rightarrow>
          \<not> selection_gate_open st RoleStep \<and> \<not> selection_gate_open st RoleFinalizer \<and>
          (\<forall>gate. workflow st = Executing gate \<longrightarrow> fae_phase evidence = CancelOrdinary))"

lemma workflow_step_abort:
  "workflow_step st sequence st' ev acts \<Longrightarrow> abort_closes st \<Longrightarrow> abort_closes st'"
proof (induction rule: workflow_step.induct)
  case (finish derived result w outcome summary)
  then show ?case
    by (auto simp: abort_closes_def selection_gate_open_def split: option.splits
        elim!: workflow_terminal_cases dest!: outcome_states_terminal)
next
  case (abort_ordinary gate op)
  then show ?case
    by (cases gate) (auto simp: abort_closes_def selection_gate_open_def force_abort_gate_def)
next
  case (abort_finalization trigger gate issue op)
  then show ?case
    by (cases gate)
      (auto simp: abort_closes_def selection_gate_open_def force_abort_finalization_gate_def)
qed (auto simp: abort_closes_def selection_gate_open_def ordinary_force_abort_def
    split: option.splits finalization_gate.splits)

lemma abort_closes_cong:
  "workflow st' = workflow st \<Longrightarrow> force_abort st' = force_abort st \<Longrightarrow> abort_closes st' = abort_closes st"
  by (cases "force_abort st") (simp_all add: abort_closes_def selection_gate_open_def)

interpretation abort: reducer_invariant
  "(\<lambda>r. abort_closes (state r)) :: ('p, 'c, 'o, 'd) reduction \<Rightarrow> bool"
proof
  fix r r' :: "('p, 'c, 'o, 'd) reduction"
  assume "micro r r'" and "abort_closes (state r)"
  then show "abort_closes (state r')"
  proof (induction rule: micro.induct)
    case (workflow r sequence st st' ev acts)
    then show ?case
      using workflow_step_abort abort_closes_cong [of st "state r"]
        next_sequence_other_fields(1,3) [of "state r"] by auto
  qed (auto simp: abort_closes_def selection_gate_open_def split: option.splits)
qed

text \<open>
  A closed gate of a phase that has begun never opens again, and an abort of the ordinary phase keeps
  the gate of the finalizers from opening.
\<close>

definition gate_stays :: "workflow_node_role \<Rightarrow> ('c, 'o, 'd) runtime_state \<Rightarrow> bool" where
  "gate_stays the_role st \<longleftrightarrow> \<not> selection_gate_open st the_role \<and>
     (the_role = RoleFinalizer \<longrightarrow> (\<forall>gate. workflow st = Executing gate \<longrightarrow> ordinary_force_abort st))"

lemma workflow_step_gate_stays:
  "workflow_step st sequence st' ev acts \<Longrightarrow> gate_stays the_role st \<Longrightarrow> gate_stays the_role st'"
proof (induction rule: workflow_step.induct)
  case (finish derived result w outcome summary)
  then show ?case
    by (auto simp: gate_stays_def selection_gate_open_def
        elim!: workflow_terminal_cases dest!: outcome_states_terminal)
next
  case (abort_ordinary gate op)
  then show ?case
    by (cases gate)
      (auto simp: gate_stays_def selection_gate_open_def force_abort_gate_def ordinary_force_abort_def
        split: workflow_node_role.splits)
next
  case (abort_finalization trigger gate issue op)
  then show ?case
    by (cases gate)
      (auto simp: gate_stays_def selection_gate_open_def force_abort_finalization_gate_def
        split: workflow_node_role.splits)
qed (auto simp: gate_stays_def selection_gate_open_def ordinary_force_abort_def
    split: option.splits finalization_gate.splits workflow_node_role.splits)


definition starts_stopped ::
  "workflow_node_role \<Rightarrow> ('c, 'o, 'd) runtime_state \<Rightarrow> ('p, 'c, 'o, 'd) reduction \<Rightarrow> bool" where
  "starts_stopped the_role base r \<longleftrightarrow>
     definition_wf (definition_of (state r)) \<and> gate_stays the_role (state r) \<and>
     (\<forall>s n. s \<in> set (condition_ids (state r) the_role) \<and> map_of (steps base) s = Some n \<and>
        srs_state n = Pending \<longrightarrow> \<not> state_in (state r) s dispatched)"

lemma condition_ids_disjoint:
  assumes "definition_wf (definition_of st)" and "s \<in> set (condition_ids st a)"
    and "s \<in> set (condition_ids st b)"
  shows "a = b"
  using assms by (cases a; cases b) (auto simp: definition_wf_def condition_ids_def dest: eq_key_imp_eq_value)

lemma condition_ids_cong:
  "definition_of st' = definition_of st \<Longrightarrow> condition_ids st' the_role = condition_ids st the_role"
  by (cases the_role) (simp_all add: condition_ids_def)

lemma gate_stays_cong:
  "workflow st' = workflow st \<Longrightarrow> force_abort st' = force_abort st \<Longrightarrow>
   gate_stays the_role st' = gate_stays the_role st"
  by (simp add: gate_stays_def selection_gate_open_def ordinary_force_abort_def)

lemma stopped_start:
  assumes "definition_wf (definition_of st)" and "gate_stays the_role st"
    and "step \<in> set (condition_ids st the_role)"
  shows "\<not> start_allowed st step"
  using assms condition_ids_disjoint [OF assms(1)]
  by (fastforce simp: start_allowed_def gate_stays_def)

lemma starts_stopped_modify:
  assumes "starts_stopped the_role base r" and "map_of (steps (state r)) step = Some n"
    and "definition_of (state r') = definition_of (state r)"
    and "workflow (state r') = workflow (state r)" and "force_abort (state r') = force_abort (state r)"
    and "steps (state r') = bt_modify step (\<lambda>_. n') (steps (state r))"
    and "dispatched (srs_state n') \<Longrightarrow>
      dispatched (srs_state n) \<or> step \<notin> set (condition_ids (state r) the_role)"
  shows "starts_stopped the_role base r'"
  using assms gate_stays_cong [OF assms(4,5)] condition_ids_cong [OF assms(3)]
  by (auto simp: starts_stopped_def state_in_def map_of_bt_modify split: option.splits)

lemma starts_stopped_cong:
  assumes "starts_stopped the_role base r" and "steps (state r') = steps (state r)"
    and "definition_of (state r') = definition_of (state r)"
    and "gate_stays the_role (state r')"
  shows "starts_stopped the_role base r'"
proof -
  have "state_in (state r') s dispatched = state_in (state r) s dispatched" for s
    using assms(2) by (simp add: state_in_def)
  then show ?thesis
    using assms condition_ids_cong [OF assms(3)] by (simp add: starts_stopped_def)
qed

interpretation stopped: reducer_invariant
  "starts_stopped the_role base :: ('p, 'c, 'o, 'd) reduction \<Rightarrow> bool"
  for the_role and base :: "('c, 'o, 'd) runtime_state"
proof
  fix r r' :: "('p, 'c, 'o, 'd) reduction"
  assume step: "micro r r'" and inv: "starts_stopped the_role base r"
  from step show "starts_stopped the_role base r'"
  proof (cases rule: micro.cases)
    case (node step n n' acts)
    then show ?thesis
      using node_step_dispatched [OF node(3)] inv stopped_start [of "state r" the_role step]
      by - (rule starts_stopped_modify [OF inv node(2), of _ n'], auto simp: starts_stopped_def)
  next
    case (complete step n m n' outputs)
    then show ?thesis
      by - (rule starts_stopped_modify [OF inv complete(2), of _ n'],
          auto simp: bt_modify_const_twice)
  next
    case (touch step n n' acts)
    then show ?thesis
      by - (rule starts_stopped_modify [OF inv touch(2), of _ n'], auto dest: node_touch_state)
  next
    case (workflow sequence st st' ev acts)
    have "gate_stays the_role st"
      using inv workflow(2) next_sequence_other_fields(1,3) [of "state r"] gate_stays_cong [of st "state r"]
      by (auto simp: starts_stopped_def)
    then have "gate_stays the_role (state r')"
      using workflow workflow_step_gate_stays by auto
    then show ?thesis
      using workflow by - (rule starts_stopped_cong [OF inv],
          auto dest!: workflow_step_frame next_sequence_frame)
  next
    case (operation op)
    then show ?thesis
      using inv gate_stays_cong [of "state r'" "state r"]
      by - (rule starts_stopped_cong [OF inv], auto simp: starts_stopped_def)
  qed (use inv in \<open>simp_all add: starts_stopped_def\<close>)
qed

section \<open>Identified actions\<close>

text \<open>
  The sequence numbers of the actions that are identified by a transition: all but releases and the
  actions of a force abort, which has identifiers of its own.
\<close>

definition own_request :: "('p, 'c, 'o, 'd) requested_action \<Rightarrow> bool" where
  "own_request a \<longleftrightarrow>
     (case ra_action a of ReleaseStepResources _ \<Rightarrow> False | _ \<Rightarrow> \<not> is_force_abort (ra_id a))"

definition request_numbers :: "('p, 'c, 'o, 'd) requested_action list \<Rightarrow> nat list" where
  "request_numbers acts = map (\<lambda>a. unat (transition_sequence (ra_id a))) (filter own_request acts)"

definition requests_ordered :: "('p, 'c, 'o, 'd) reduction \<Rightarrow> bool" where
  "requests_ordered r \<longleftrightarrow>
     unat (maximum_transitions (definition_of (state r))) < 2 ^ 64 - 1 \<and>
     (\<not> transition_capacity_exceeded (state r) \<longrightarrow>
        sorted_wrt (<) (request_numbers (actions r)) \<and>
        (\<forall>i\<in>set (request_numbers (actions r)). i \<le> unat (last_transition_sequence (state r))))"

lemma request_numbers_simps [simp]:
  "request_numbers (xs @ ys) = request_numbers xs @ request_numbers ys"
  "request_numbers [] = []"
  "request_numbers (a # acts) =
     (if own_request a then [unat (transition_sequence (ra_id a))] else []) @ request_numbers acts"
  by (simp_all add: request_numbers_def)

lemma node_step_requests:
  "node_step step sequence n n' acts \<Longrightarrow>
   request_numbers acts = [] \<or> request_numbers acts = [unat sequence]"
  by (induction rule: node_step.induct) (auto simp: own_request_def for_transition_def)

lemma node_touch_requests: "node_touch step n n' acts \<Longrightarrow> request_numbers acts = []"
  by (induction rule: node_touch.induct) (auto simp: own_request_def split: option.splits)

lemma workflow_step_requests:
  "workflow_step st sequence st' ev acts \<Longrightarrow>
   request_numbers acts = [] \<or> request_numbers acts = [unat sequence]"
  by (induction rule: workflow_step.induct) (auto simp: own_request_def for_transition_def)

lemma requests_ordered_next:
  assumes "requests_ordered r" and "next_sequence (state r) = (sequence, st)"
    and "definition_of (state r') = definition_of (state r)"
    and "last_transition_sequence (state r') = last_transition_sequence st"
    and "transition_capacity_exceeded (state r') = transition_capacity_exceeded st"
    and "actions r' = actions r @ acts"
    and "request_numbers acts = [] \<or> request_numbers acts = [unat sequence]"
  shows "requests_ordered r'"
  using assms next_sequence_numbered [OF _ assms(2)]
  by (fastforce simp: requests_ordered_def sorted_wrt_append)

lemma requests_ordered_commit:
  "requests_ordered r \<Longrightarrow>
   request_numbers acts = [] \<or> request_numbers acts = [unat (allocated r)] \<Longrightarrow>
   requests_ordered (commit_node step n n' acts r)"
  by (rule requests_ordered_next [of r "allocated r" "snd (next_sequence (state r))"])
    (auto simp: commit_node_def)

interpretation requests: reducer_invariant "requests_ordered :: ('p, 'c, 'o, 'd) reduction \<Rightarrow> bool"
proof
  fix r r' :: "('p, 'c, 'o, 'd) reduction"
  assume "micro r r'" and "requests_ordered r"
  then show "requests_ordered r'"
  proof (induction rule: micro.induct)
    case (workflow r sequence st st' ev acts)
    then show ?case
      using workflow_step_frame [OF workflow(2)] next_sequence_frame [OF workflow(1)]
        workflow_step_numbers [OF workflow(2)] workflow_step_requests [OF workflow(2)]
      by - (rule requests_ordered_next [OF workflow(3) workflow(1)], auto)
  next
    case (touch r step n n' acts)
    then show ?case
      by (simp add: requests_ordered_def touch_node_def node_touch_requests)
  next
    case (release r i resources)
    then show ?case
      by (simp add: requests_ordered_def own_request_def)
  qed (simp_all add: requests_ordered_commit node_step_requests, simp_all add: requests_ordered_def)
qed

end
