(* ===== verification/Runtime_Capacity.thy ===== *)
theory Runtime_Capacity
  imports Runtime_Dispatch
begin

text \<open>
  How many transitions a run can make.  Every node has a potential that each of its transitions
  lowers, and so has the workflow; together they bound the sequence numbers of a run, so that a
  definition with enough capacity never exceeds it.
\<close>

section \<open>Potentials\<close>

definition rounds_left :: "('c, 'o) step_runtime_state \<Rightarrow> nat" where
  "rounds_left n =
     (case recovery_shape n of None \<Rightarrow> 0 | Some (configured, _, rs) \<Rightarrow> unat configured - length rs)"

text \<open>
  A round adds at most five transitions: the start of the handler, its run, and the start, run and
  capture of the next execution.
\<close>

definition node_potential :: "('c, 'o) step_runtime_state \<Rightarrow> nat" where
  "node_potential n =
     (case srs_state n of
        Pending \<Rightarrow> 5 + 5 * rounds_left n
      | Starting \<Rightarrow> 4 + 5 * rounds_left n
      | Running \<Rightarrow> 3 + 5 * rounds_left n
      | CapturingOutputs \<Rightarrow> 2 + 5 * rounds_left n
      | Recovering _ HandlerStarting \<Rightarrow> 6 + 5 * rounds_left n
      | Recovering _ HandlerRunning \<Rightarrow> 5 + 5 * rounds_left n
      | Cancelling _ \<Rightarrow> 1
      | _ \<Rightarrow> 0)"

fun is_issue :: "'o step_state \<Rightarrow> bool" where
  "is_issue (Failed _) = True"
| "is_issue (Blocked _) = True"
| "is_issue _ = False"

lemma same_target_rounds: "same_target n n' \<Longrightarrow> rounds_left n' = rounds_left n"
  by (simp add: same_target_def rounds_left_def)

lemma started_target_rounds [simp]: "rounds_left (started_target sequence number n) = rounds_left n"
  by (simp add: rounds_left_def)

lemma add_round_rounds:
  assumes "round_due n entry number"
  shows "Suc (rounds_left (add_round entry n)) = rounds_left n"
  using assms
  by (auto simp: round_due_def rounds_left_def recovery_shape_def add_round_def split: option.splits)

lemma target_potential: "target_active (srs_state n) \<Longrightarrow> 2 + 5 * rounds_left n \<le> node_potential n"
  by (erule target_active_cases) (simp_all add: node_potential_def)

lemma invocation_potential: "invocation_active (srs_state n) \<Longrightarrow> 2 \<le> node_potential n"
  by (erule invocation_active_cases)
    (auto simp: node_potential_def split: recovery_handler_activity.splits)

lemma round_due_potential:
  assumes "round_due n entry number"
  shows "7 + 5 * rounds_left (add_round entry n) \<le> node_potential n"
  using target_potential [OF round_dueD [OF assms]] add_round_rounds [OF assms] by simp

text \<open>A transition lowers the potential of its node, by two where it leaves an issue.\<close>

lemma node_step_potential:
  "node_step step sequence n n' acts \<Longrightarrow>
   node_potential n' + (if is_issue (srs_state n') then 2 else 1) \<le> node_potential n"
proof (induction rule: node_step.induct)
  case (fail n n' detail)
  then have "2 \<le> node_potential n"
    using invocation_potential by (auto simp: node_potential_def)
  then show ?case
    using fail by (simp add: node_potential_def)
next
  case (fail_last n entry number n' detail)
  then show ?case
    using round_due_potential [OF fail_last(1)] by (simp add: node_potential_def)
next
  case (retry n entry number number' ins)
  then show ?case
    using round_due_potential [OF retry(1)] by (simp add: node_potential_def)
next
  case (recover n entry number round n' hk history)
  then show ?case
    using round_due_potential [OF recover(1)] same_target_rounds [OF recover(6)]
    by (simp add: node_potential_def)
next
  case (recheck n round rec number m ins)
  then show ?case
    using same_target_rounds [OF recheck(5)] by (simp add: node_potential_def)
next
  case (cancel n active n' detail i a reason deadline)
  then show ?case
    using invocation_potential [OF cancel(1)] by (simp add: node_potential_def)
next
  case (dispose n n')
  then show ?case
    by (auto simp: node_potential_def elim!: undispatched_cases)
qed (simp_all add: node_potential_def same_target_rounds)

lemma node_touch_potential: "node_touch step n n' acts \<Longrightarrow> node_potential n' = node_potential n"
proof (induction rule: node_touch.induct)
  case (note_recovery n n')
  then have "srs_state n' = srs_state n" "rounds_left n' = rounds_left n"
    by (auto simp: bookkept_def same_target_rounds)
  then show ?case
    by (cases "srs_state n") (simp_all add: node_potential_def)
qed (simp_all add: node_potential_def rounds_left_def recovery_shape_def)

definition nodes_potential :: "('c, 'o, 'd) runtime_state \<Rightarrow> nat" where
  "nodes_potential st = (\<Sum>e \<leftarrow> steps st. node_potential (snd e))"

lemma nodes_potential_modify:
  assumes "map_of (steps st) step = Some n" and "steps st' = bt_modify step (\<lambda>_. n') (steps st)"
  shows "nodes_potential st' + node_potential n = nodes_potential st + node_potential n'"
  using sum_bt_modify [of "steps st" step n "\<lambda>_. node_potential" "\<lambda>_. n'"] assms
  by (simp add: nodes_potential_def)

text \<open>The transitions the workflow can still make.\<close>

definition workflow_potential :: "('c, 'o, 'd) runtime_state \<Rightarrow> nat" where
  "workflow_potential st =
     (case workflow st of
        Executing gate \<Rightarrow>
          (case gate of GateCancelling _ _ \<Rightarrow> 0 | _ \<Rightarrow> 1) +
          (if force_abort st = None then 1 else 0) +
          (if finalizer_ids (definition_of st) = [] then 0 else 3) + 1
      | Finalizing _ gate issue \<Rightarrow>
          (if issue = None then 1 else 0) +
          (case gate of FgOpen \<Rightarrow> 1 | _ \<Rightarrow> 0) +
          (if force_abort st = None then 1 else 0) + 1
      | _ \<Rightarrow> 0)"

text \<open>The failure that stops an open gate pays for the transition of the gate.\<close>

definition stop_credit :: "('c, 'o, 'd) runtime_state \<Rightarrow> nat" where
  "stop_credit st =
     (if workflow st = Executing GateOpen \<and> list_ex (\<lambda>(_, n). is_issue (srs_state n)) (steps st)
      then 1 else 0)"

definition potential :: "('c, 'o, 'd) runtime_state \<Rightarrow> nat" where
  "potential st = nodes_potential st + workflow_potential st + stop_credit st"

lemma issue_recorded_credit:
  assumes "issue_recorded issue st" and "workflow st = Executing GateOpen"
  shows "stop_credit st = 1"
proof -
  obtain s n where "map_of (steps st) s = Some n" "is_issue (srs_state n)"
    using assms(1) by (auto simp: issue_recorded_def state_in_def split: option.splits)
  then have "list_ex (\<lambda>(_, n). is_issue (srs_state n)) (steps st)"
    by (auto simp: list_ex_iff dest!: map_of_SomeD)
  then show ?thesis
    using assms(2) by (simp add: stop_credit_def)
qed

lemma stop_credit_modify:
  assumes "map_of (steps st) step = Some n" and "steps st' = bt_modify step (\<lambda>_. n') (steps st)"
    and "workflow st' = workflow st"
  shows "stop_credit st' \<le>
    stop_credit st + (if is_issue (srs_state n') \<and> \<not> is_issue (srs_state n) then 1 else 0)"
proof -
  have "map_of m step = Some n \<Longrightarrow>
    list_ex (\<lambda>(_, n). is_issue (srs_state n)) (bt_modify step (\<lambda>_. n') m) \<Longrightarrow>
    list_ex (\<lambda>(_, n). is_issue (srs_state n)) m \<or> is_issue (srs_state n') \<and> \<not> is_issue (srs_state n)"
    for m :: "(string \<times> ('a, 'b) step_runtime_state) list"
    by (induction m) (auto split: if_splits)
  then show ?thesis
    using assms by (auto simp: stop_credit_def)
qed

lemma workflow_potential_cong:
  "workflow st' = workflow st \<Longrightarrow> force_abort st' = force_abort st \<Longrightarrow>
   definition_of st' = definition_of st \<Longrightarrow> workflow_potential st' = workflow_potential st"
  by (cases "workflow st") (simp_all add: workflow_potential_def)

lemma nodes_potential_cong: "steps st' = steps st \<Longrightarrow> nodes_potential st' = nodes_potential st"
  by (simp add: nodes_potential_def)

lemma potential_cong:
  assumes "steps st' = steps st" and "workflow st' = workflow st"
    and "force_abort st' = force_abort st" and "definition_of st' = definition_of st"
  shows "potential st' = potential st"
  using assms nodes_potential_cong [OF assms(1)] workflow_potential_cong [OF assms(2-4)]
  by (simp add: potential_def stop_credit_def)

lemma potential_node:
  assumes "map_of (steps st) step = Some n" and "steps st' = bt_modify step (\<lambda>_. n') (steps st)"
    and "workflow st' = workflow st" "force_abort st' = force_abort st"
    and "definition_of st' = definition_of st"
    and "node_potential n' + k + (if is_issue (srs_state n') \<and> \<not> is_issue (srs_state n) then 1 else 0)
      \<le> node_potential n"
  shows "potential st' + k \<le> potential st"
  using nodes_potential_modify [OF assms(1,2)] stop_credit_modify [OF assms(1,2,3)]
    workflow_potential_cong [OF assms(3,4,5)] assms(6)
  by (simp add: potential_def)

lemma workflow_step_potential:
  "workflow_step st sequence st' ev acts \<Longrightarrow> abort_closes st \<Longrightarrow> potential st' + 1 \<le> potential st"
proof (induction rule: workflow_step.induct)
  case (failure_stop w issue)
  then show ?case
    using issue_recorded_credit [OF failure_stop(3,1)]
    by (simp add: potential_def nodes_potential_def workflow_potential_def stop_credit_def)
next
  case (finish derived result w outcome summary)
  then show ?case
    using outcome_states_terminal [OF finish(3)]
    by (auto simp: potential_def nodes_potential_def workflow_potential_def stop_credit_def
        elim!: workflow_terminal_cases)
next
  case (abort_ordinary gate op)
  then show ?case
    by (cases gate) (auto simp: potential_def nodes_potential_def workflow_potential_def
        stop_credit_def force_abort_gate_def)
next
  case (abort_finalization trigger gate issue op)
  then show ?case
    by (cases gate) (auto simp: potential_def nodes_potential_def workflow_potential_def
        stop_credit_def force_abort_finalization_gate_def)
next
  case (finalize gate w trigger fgate issue fin)
  then show ?case
    by (auto simp: potential_def nodes_potential_def workflow_potential_def
        stop_credit_def ordinary_force_abort_def abort_closes_def
        split: finalization_gate.splits)
qed (auto simp: potential_def nodes_potential_def workflow_potential_def stop_credit_def)

section \<open>Capacity\<close>

text \<open>The capacity that is left covers the potential.\<close>

definition capacity_left :: "('p, 'c, 'o, 'd) reduction \<Rightarrow> bool" where
  "capacity_left r \<longleftrightarrow>
     abort_closes (state r) \<and> \<not> transition_capacity_exceeded (state r) \<and>
     unat (last_transition_sequence (state r)) + potential (state r)
       \<le> unat (maximum_transitions (definition_of (state r)))"

lemma next_sequence_within:
  assumes "Suc (unat (last_transition_sequence st)) \<le> unat (maximum_transitions (definition_of st))"
    and "next_sequence st = (sequence, st')"
  shows "unat (last_transition_sequence st') = Suc (unat (last_transition_sequence st))"
    and "transition_capacity_exceeded st' = transition_capacity_exceeded st"
proof -
  have "Suc (unat (last_transition_sequence st)) \<le> 2 ^ 64 - 1"
    using assms(1) unsigned_less [where 'a = nat, of "maximum_transitions (definition_of st)"] by simp
  then have "unat (sequence_next (last_transition_sequence st)) = Suc (unat (last_transition_sequence st))"
    by (simp add: sequence_next_def unat_saturating_add)
  moreover from this have "\<not> sequence_next (last_transition_sequence st) > maximum_transitions (definition_of st)"
    using assms(1) by (simp add: word_less_nat_alt)
  ultimately show "unat (last_transition_sequence st') = Suc (unat (last_transition_sequence st))"
    and "transition_capacity_exceeded st' = transition_capacity_exceeded st"
    using assms(2) by (auto simp: next_sequence_def Let_def)
qed

lemma capacity_left_next:
  assumes "capacity_left r" and "next_sequence (state r) = (sequence, st)"
    and "definition_of (state r') = definition_of (state r)"
    and "last_transition_sequence (state r') = last_transition_sequence st"
    and "transition_capacity_exceeded (state r') = transition_capacity_exceeded st"
    and "potential (state r') + 1 \<le> potential (state r)" and "abort_closes (state r')"
  shows "capacity_left r'"
  using assms next_sequence_within [OF _ assms(2)] by (simp add: capacity_left_def)

lemma capacity_left_commit:
  assumes "capacity_left r" and "map_of (steps (state r)) step = Some n"
    and "node_potential n' + 1 + (if is_issue (srs_state n') \<and> \<not> is_issue (srs_state n) then 1 else 0)
      \<le> node_potential n"
  shows "capacity_left (commit_node step n n' acts r)"
proof (rule capacity_left_next [OF assms(1), of "allocated r" "snd (next_sequence (state r))"])
  show "potential (state (commit_node step n n' acts r)) + 1 \<le> potential (state r)"
    by (rule potential_node [OF assms(2) _ _ _ _ assms(3)]) simp_all
  show "abort_closes (state (commit_node step n n' acts r))"
    using assms(1) abort_closes_cong [of "state (commit_node step n n' acts r)" "state r"]
    by (simp add: capacity_left_def)
qed (simp_all add: commit_node_def)

lemma capacity_left_cong:
  assumes "capacity_left r" and "steps (state r') = steps (state r)"
    and "workflow (state r') = workflow (state r)"
    and "force_abort (state r') = force_abort (state r)"
    and "definition_of (state r') = definition_of (state r)"
    and "last_transition_sequence (state r') = last_transition_sequence (state r)"
    and "transition_capacity_exceeded (state r') = transition_capacity_exceeded (state r)"
  shows "capacity_left r'"
  using assms potential_cong [OF assms(2-5)] abort_closes_cong [OF assms(3,4)]
  by (simp add: capacity_left_def)

interpretation capacity: reducer_invariant "capacity_left :: ('p, 'c, 'o, 'd) reduction \<Rightarrow> bool"
proof
  fix r r' :: "('p, 'c, 'o, 'd) reduction"
  assume "micro r r'" and "capacity_left r"
  then show "capacity_left r'"
  proof (induction rule: micro.induct)
    case (node r step n n' acts)
    then show ?case
      using node_step_potential [OF node(2)]
      by - (rule capacity_left_commit, auto split: if_splits)
  next
    case (complete r step n m n' outputs)
    have "capacity_left (commit_node step n m [] r)"
      using complete same_target_rounds [of n m]
      by - (rule capacity_left_commit, auto simp: node_potential_def)
    then show ?case
      using complete
      by - (rule capacity_left_commit, auto simp: node_potential_def)
  next
    case (touch r step n n' acts)
    have "potential (state (touch_node step n' acts r)) \<le> potential (state r)"
      using potential_node [OF touch(1), of "state (touch_node step n' acts r)" n' 0]
        node_touch_potential [OF touch(2)] node_touch_state [OF touch(2)]
      by simp
    then show ?case
      using touch abort_closes_cong [of "state (touch_node step n' acts r)" "state r"]
      by (auto simp: capacity_left_def touch_node_def)
  next
    case (workflow r sequence st st' ev acts)
    have eq: "potential st = potential (state r)" "abort_closes st"
      using workflow next_sequence_frame [OF workflow(1)] next_sequence_other_fields [of "state r"]
        potential_cong [of st "state r"] abort_closes_cong [of st "state r"]
      by (auto simp: capacity_left_def)
    show ?case
      using workflow_step_frame [OF workflow(2)] next_sequence_frame [OF workflow(1)]
        workflow_step_numbers [OF workflow(2)] workflow_step_potential [OF workflow(2)]
        workflow_step_abort [OF workflow(2)] eq
      by - (rule capacity_left_next [OF workflow(3) workflow(1)], auto)
  next
    case (operation r op)
    then show ?case
      by - (rule capacity_left_cong, auto)
  qed (simp_all add: capacity_left_def)
qed

end
