(* ===== verification/Capacity.thy ===== *)
theory Capacity
  imports Workflow_Types
begin

text \<open>
  Capacity of a workflow (\<^verbatim>\<open>crates/execution/src/workflow/capacity.rs\<close>) and its admission
  (\<^verbatim>\<open>admit_capacity\<close> of \<^verbatim>\<open>admission.rs\<close>): how many transitions, invocations and bytes a workflow may
  need, and whether an executor's budget covers them.
\<close>

section \<open>Limits\<close>

definition GENERAL_MAXIMUM_TRANSITIONS_WITHOUT_FINALIZERS :: u64 where
  "GENERAL_MAXIMUM_TRANSITIONS_WITHOUT_FINALIZERS = 1283"

definition GENERAL_MAXIMUM_TRANSITIONS_WITH_FINALIZERS :: u64 where
  "GENERAL_MAXIMUM_TRANSITIONS_WITH_FINALIZERS = 1286"

definition CLOUD_MAXIMUM_TRANSITIONS_WITHOUT_FINALIZERS :: u64 where
  "CLOUD_MAXIMUM_TRANSITIONS_WITHOUT_FINALIZERS = 1027"

definition CLOUD_MAXIMUM_TRANSITIONS_WITH_FINALIZERS :: u64 where
  "CLOUD_MAXIMUM_TRANSITIONS_WITH_FINALIZERS = 1030"

definition RUNNER_OBSERVATION_RESERVE :: u64 where
  "RUNNER_OBSERVATION_RESERVE = 64"

definition RUNNER_ORDINARY_FRAME_BYTES :: u64 where
  "RUNNER_ORDINARY_FRAME_BYTES = 262144"

definition RUNNER_TERMINAL_FRAME_BYTES :: u64 where
  "RUNNER_TERMINAL_FRAME_BYTES = 67108864"

definition MAXIMUM_ENCODED_OUTBOX_BYTES :: u64 where
  "MAXIMUM_ENCODED_OUTBOX_BYTES = 1024720896"

definition MAXIMUM_CONDITION_TRANSITION_COUNT :: u64 where
  "MAXIMUM_CONDITION_TRANSITION_COUNT = 256"

definition MAXIMUM_CONDITION_TRANSITION_BYTES :: u64 where
  "MAXIMUM_CONDITION_TRANSITION_BYTES = 256 * 1024 * 1024"

definition MAXIMUM_TERMINAL_RESULT_STRUCTURE_BYTES :: u64 where
  "MAXIMUM_TERMINAL_RESULT_STRUCTURE_BYTES = 512 * 1024 * 1024"

definition MAXIMUM_PORTABLE_RESULT_BYTES :: u64 where
  "MAXIMUM_PORTABLE_RESULT_BYTES = 901080408"

definition ORDINARY_PORTABLE_RESULT_BYTES :: u64 where
  "ORDINARY_PORTABLE_RESULT_BYTES = 202027692"

definition MAXIMUM_RETAINED_BYTES_PER_STREAM :: u64 where
  "MAXIMUM_RETAINED_BYTES_PER_STREAM = 4 * 1024 * 1024"

definition RUN_LOG_BYTE_BUDGET :: u64 where
  "RUN_LOG_BYTE_BUDGET = 64 * 1024 * 1024"

definition MAXIMUM_RETAINED_STREAM_BYTES_PER_RUN :: u64 where
  "MAXIMUM_RETAINED_STREAM_BYTES_PER_RUN = 2 * RUN_LOG_BYTE_BUDGET"

definition MAX_SOURCE_CLOSURE_BYTES :: u64 where
  "MAX_SOURCE_CLOSURE_BYTES = 64 * 1024 * 1024"

definition MAXIMUM_EXPORT_MEDIA_TYPE_JSON_BYTES :: u64 where
  "MAXIMUM_EXPORT_MEDIA_TYPE_JSON_BYTES = 4096 * 128 * 12"

text \<open>\<^verbatim>\<open>div_ceil(3)\<close> of a value far from the end of its range.\<close>

definition MAXIMUM_ENCODED_RETAINED_STREAM_BYTES :: u64 where
  "MAXIMUM_ENCODED_RETAINED_STREAM_BYTES =
     2 * ((MAXIMUM_RETAINED_STREAM_BYTES_PER_RUN + 2) div 3 * 4 + 2 * 256 * 4)"

definition JSON_ESCAPED_POINTER_SOURCE_MULTIPLIER :: u64 where
  "JSON_ESCAPED_POINTER_SOURCE_MULTIPLIER = 3"

definition MAXIMUM_CONDITION_PREDICATE_NODES :: u64 where
  "MAXIMUM_CONDITION_PREDICATE_NODES = 256"

definition MAXIMUM_CONDITION_PREDICATE_DEPTH :: u64 where
  "MAXIMUM_CONDITION_PREDICATE_DEPTH = 16"

definition MAXIMUM_PREDICATE_PATH_SEGMENT :: string where
  "MAXIMUM_PREDICATE_PATH_SEGMENT = ''/all/63''"

definition CONDITION_FALSE_TRANSITION_PREFIX :: string where
  "CONDITION_FALSE_TRANSITION_PREFIX =
     ''{\"state\":\"skipped\",\"detail\":{\"code\":\"condition_false\",\"evaluatedPredicates\":[''"

definition CONDITION_FALSE_ENTRY_PREFIX :: string where
  "CONDITION_FALSE_ENTRY_PREFIX = ''{\"path\":\"''"

definition CONDITION_FALSE_ENTRY_SUFFIX :: string where
  "CONDITION_FALSE_ENTRY_SUFFIX = ''\",\"result\":false}''"

definition CONDITION_FALSE_TRANSITION_SUFFIX :: string where
  "CONDITION_FALSE_TRANSITION_SUFFIX = '']}}''"

lemmas capacity_limits =
  GENERAL_MAXIMUM_TRANSITIONS_WITHOUT_FINALIZERS_def GENERAL_MAXIMUM_TRANSITIONS_WITH_FINALIZERS_def
  CLOUD_MAXIMUM_TRANSITIONS_WITHOUT_FINALIZERS_def CLOUD_MAXIMUM_TRANSITIONS_WITH_FINALIZERS_def
  RUNNER_OBSERVATION_RESERVE_def RUNNER_ORDINARY_FRAME_BYTES_def RUNNER_TERMINAL_FRAME_BYTES_def
  MAXIMUM_ENCODED_OUTBOX_BYTES_def MAXIMUM_CONDITION_TRANSITION_COUNT_def
  MAXIMUM_CONDITION_TRANSITION_BYTES_def MAXIMUM_TERMINAL_RESULT_STRUCTURE_BYTES_def
  MAXIMUM_PORTABLE_RESULT_BYTES_def ORDINARY_PORTABLE_RESULT_BYTES_def
  MAXIMUM_RETAINED_BYTES_PER_STREAM_def RUN_LOG_BYTE_BUDGET_def
  MAXIMUM_RETAINED_STREAM_BYTES_PER_RUN_def MAX_SOURCE_CLOSURE_BYTES_def
  MAXIMUM_EXPORT_MEDIA_TYPE_JSON_BYTES_def MAXIMUM_ENCODED_RETAINED_STREAM_BYTES_def
  JSON_ESCAPED_POINTER_SOURCE_MULTIPLIER_def MAXIMUM_CONDITION_PREDICATE_NODES_def
  MAXIMUM_CONDITION_PREDICATE_DEPTH_def MAXIMUM_PREDICATE_PATH_SEGMENT_def
  CONDITION_FALSE_TRANSITION_PREFIX_def CONDITION_FALSE_ENTRY_PREFIX_def
  CONDITION_FALSE_ENTRY_SUFFIX_def CONDITION_FALSE_TRANSITION_SUFFIX_def

section \<open>Failures\<close>

text \<open>\<^verbatim>\<open>u64::try_from\<close> of a \<^verbatim>\<open>usize\<close>.\<close>

definition u64_try_from :: "nat \<Rightarrow> u64 option" where
  "u64_try_from n = (if int n < 2 ^ 64 then Some (of_nat n) else None)"

lemma u64_try_from_Some: "u64_try_from n = Some w \<Longrightarrow> unat w = n"
  by (auto simp: u64_try_from_def take_bit_nat_eq_self unsigned_of_nat split: if_splits)

datatype capacity_calculation_failure =
    ArithmeticOverflow
  | GeneralTransitionCapacityExceeded
  | CloudTransitionCapacityExceeded
  | ConditionEvidenceCapacityExceeded

datatype condition_capacity_failure =
    ConditionArithmeticOverflow
  | SourceClosureCapacityExceeded
  | ConditionTransitionCapacityExceeded
  | TerminalResultStructureCapacityExceeded
  | PortableResultCapacityExceeded
  | OutboxEntryCapacityExceeded

section \<open>Records\<close>

record capacity_counts =
  cc_steps :: u64
  cc_finalizers :: u64
  cc_recovery_rounds :: u64
  cc_handler_rounds :: u64

record computed_workflow_capacity =
  general_maximum_transitions :: u64
  cloud_maximum_transitions :: u64
  maximum_invocations :: u64
  maximum_retained_bytes_per_invocation :: u64
  diagnostic_retention_bytes :: u64
  native_session_retention_bytes :: u64
  aggregate_retention_bytes :: u64
  condition_transition_count :: u64
  aggregate_condition_transition_bytes :: u64
  terminal_result_structure_bytes :: u64
  portable_result_bytes :: u64
  encoded_outbox_bytes :: u64

datatype content_digest_algorithm = Sha256

record workflow_content_digest =
  cd_algorithm :: content_digest_algorithm
  cd_value :: string

record workflow_capacity =
  source_closure_digest :: workflow_content_digest
  requirements :: computed_workflow_capacity

definition is_bound_to :: "workflow_capacity \<Rightarrow> workflow_content_digest \<Rightarrow> bool" where
  "is_bound_to self digest = (source_closure_digest self = digest)"

record condition_evidence_capacity =
  ce_maximum_json_escaped_pointer_bytes :: u64
  ce_condition_transition_bytes :: u64
  ce_terminal_result_structure_bytes :: u64
  ce_portable_result_bytes :: u64

record condition_capacity_bounds =
  cb_selected_maximum_transitions :: u64
  cb_condition_transition_count :: u64
  cb_aggregate_condition_transition_bytes :: u64
  cb_terminal_result_structure_bytes :: u64
  cb_portable_result_bytes :: u64
  cb_encoded_outbox_bytes :: u64

definition from_parts ::
  "u64 \<Rightarrow> u64 \<times> u64 \<Rightarrow> u64 \<times> u64 \<times> u64 \<Rightarrow> condition_capacity_bounds" where
  "from_parts selected_maximum_transitions condition result =
     \<lparr>cb_selected_maximum_transitions = selected_maximum_transitions,
      cb_condition_transition_count = fst condition,
      cb_aggregate_condition_transition_bytes = snd condition,
      cb_terminal_result_structure_bytes = fst result,
      cb_portable_result_bytes = fst (snd result),
      cb_encoded_outbox_bytes = snd (snd result)\<rparr>"

section \<open>Transition bounds\<close>

definition checked_product :: "u64 \<Rightarrow> u64 \<Rightarrow> capacity_calculation_failure + u64" where
  "checked_product left right = ok_or ArithmeticOverflow (checked_mul left right)"

definition weighted_bound :: "u64 \<Rightarrow> u64 \<Rightarrow> u64 \<Rightarrow> capacity_calculation_failure + u64" where
  "weighted_bound weighted_nodes finalizers weight =
     try_in (checked_product weighted_nodes weight) (\<lambda>product.
       ok_or ArithmeticOverflow (checked_add product (if finalizers = 0 then 3 else 6)))"

definition transition_bounds ::
  "capacity_counts \<Rightarrow> capacity_calculation_failure + u64 \<times> u64 \<times> u64" where
  "transition_bounds counts =
     try_in (ok_or ArithmeticOverflow
       (Option.bind (checked_add (cc_steps counts) (cc_finalizers counts))
         (\<lambda>x. checked_add x (cc_recovery_rounds counts)))) (\<lambda>weighted_nodes.
     try_in (weighted_bound weighted_nodes (cc_finalizers counts) 5) (\<lambda>general.
     try_in (weighted_bound weighted_nodes (cc_finalizers counts) 4) (\<lambda>bound.
     try_in (ok_or ArithmeticOverflow (checked_add bound (cc_handler_rounds counts))) (\<lambda>cloud.
       Inr (weighted_nodes, general, cloud)))))"

definition validate_general_transition_bound ::
  "u64 \<Rightarrow> u64 \<Rightarrow> capacity_calculation_failure + unit" where
  "validate_general_transition_bound maximum finalizers =
     (let cap = (if finalizers = 0 then GENERAL_MAXIMUM_TRANSITIONS_WITHOUT_FINALIZERS
                 else GENERAL_MAXIMUM_TRANSITIONS_WITH_FINALIZERS)
      in if maximum > cap then Inl GeneralTransitionCapacityExceeded else Inr ())"

definition validate_cloud_transition_bound ::
  "u64 \<Rightarrow> u64 \<Rightarrow> capacity_calculation_failure + unit" where
  "validate_cloud_transition_bound maximum finalizers =
     (let cap = (if finalizers = 0 then CLOUD_MAXIMUM_TRANSITIONS_WITHOUT_FINALIZERS
                 else CLOUD_MAXIMUM_TRANSITIONS_WITH_FINALIZERS)
      in if maximum > cap then Inl CloudTransitionCapacityExceeded else Inr ())"

definition calculate_capacity ::
  "capacity_counts \<Rightarrow> capacity_calculation_failure + computed_workflow_capacity" where
  "calculate_capacity counts =
     try_in (transition_bounds counts) (\<lambda>(weighted_nodes, general, cloud).
     try_in (validate_general_transition_bound general (cc_finalizers counts)) (\<lambda>_.
     try_in (validate_cloud_transition_bound cloud (cc_finalizers counts)) (\<lambda>_.
     try_in (ok_or ArithmeticOverflow (checked_add weighted_nodes (cc_handler_rounds counts)))
       (\<lambda>invocations.
     if invocations = 0 then Inl ArithmeticOverflow
     else
       (let retained = min (RUN_LOG_BYTE_BUDGET div invocations) MAXIMUM_RETAINED_BYTES_PER_STREAM
        in
     try_in (checked_product invocations retained) (\<lambda>native.
     try_in (checked_product native 2) (\<lambda>diagnostic.
     try_in (ok_or ArithmeticOverflow (checked_add diagnostic native)) (\<lambda>aggregate.
     try_in (ok_or ArithmeticOverflow (checked_add cloud RUNNER_OBSERVATION_RESERVE)) (\<lambda>entries.
     try_in (checked_product entries RUNNER_ORDINARY_FRAME_BYTES) (\<lambda>frames.
     try_in (ok_or ArithmeticOverflow
       (checked_add frames (RUNNER_TERMINAL_FRAME_BYTES - RUNNER_ORDINARY_FRAME_BYTES))) (\<lambda>outbox.
       Inr \<lparr>general_maximum_transitions = general,
            cloud_maximum_transitions = cloud,
            maximum_invocations = invocations,
            maximum_retained_bytes_per_invocation = retained,
            diagnostic_retention_bytes = diagnostic,
            native_session_retention_bytes = native,
            aggregate_retention_bytes = aggregate,
            condition_transition_count = 0,
            aggregate_condition_transition_bytes = 0,
            terminal_result_structure_bytes = RUNNER_TERMINAL_FRAME_BYTES,
            portable_result_bytes = ORDINARY_PORTABLE_RESULT_BYTES,
            encoded_outbox_bytes = outbox\<rparr>)))))))))))"

section \<open>Condition evidence\<close>

definition condition_checked_product :: "u64 \<Rightarrow> u64 \<Rightarrow> condition_capacity_failure + u64" where
  "condition_checked_product left right = ok_or ConditionArithmeticOverflow (checked_mul left right)"

definition condition_encoded_bytes :: "string \<Rightarrow> condition_capacity_failure + u64" where
  "condition_encoded_bytes bytes = ok_or ConditionArithmeticOverflow (u64_try_from (length bytes))"

definition condition_false_transition_bound :: "condition_capacity_failure + u64" where
  "condition_false_transition_bound =
     try_in (ok_or ConditionArithmeticOverflow (checked_sub MAXIMUM_CONDITION_PREDICATE_DEPTH 1))
       (\<lambda>segments.
     try_in (condition_encoded_bytes MAXIMUM_PREDICATE_PATH_SEGMENT) (\<lambda>segment.
     try_in (condition_checked_product segments segment) (\<lambda>maximum_path_bytes.
     try_in (condition_encoded_bytes CONDITION_FALSE_ENTRY_PREFIX) (\<lambda>entry_prefix_bytes.
     try_in (condition_encoded_bytes CONDITION_FALSE_ENTRY_SUFFIX) (\<lambda>entry_suffix_bytes.
     try_in (ok_or ConditionArithmeticOverflow
       (Option.bind (checked_add entry_prefix_bytes maximum_path_bytes)
         (\<lambda>bytes. checked_add bytes entry_suffix_bytes))) (\<lambda>maximum_entry_bytes.
     try_in (condition_checked_product MAXIMUM_CONDITION_PREDICATE_NODES maximum_entry_bytes)
       (\<lambda>nodes_bytes.
     try_in (ok_or ConditionArithmeticOverflow (checked_sub MAXIMUM_CONDITION_PREDICATE_NODES 1))
       (\<lambda>separators.
     try_in (ok_or ConditionArithmeticOverflow (checked_add nodes_bytes separators))
       (\<lambda>entries_bytes.
     try_in (condition_encoded_bytes CONDITION_FALSE_TRANSITION_PREFIX) (\<lambda>transition_prefix_bytes.
     try_in (condition_encoded_bytes CONDITION_FALSE_TRANSITION_SUFFIX) (\<lambda>transition_suffix_bytes.
       ok_or ConditionArithmeticOverflow
         (Option.bind (checked_add transition_prefix_bytes entries_bytes)
           (\<lambda>bytes. checked_add bytes transition_suffix_bytes)))))))))))))"

definition portable_result_bound :: "u64 \<Rightarrow> condition_capacity_failure + u64" where
  "portable_result_bound structure =
     ok_or ConditionArithmeticOverflow
       (Option.bind (checked_add structure MAXIMUM_ENCODED_RETAINED_STREAM_BYTES)
         (\<lambda>bytes. checked_add bytes MAXIMUM_EXPORT_MEDIA_TYPE_JSON_BYTES))"

definition calculate_condition_evidence_capacity ::
  "u64 \<Rightarrow> condition_capacity_failure + condition_evidence_capacity" where
  "calculate_condition_evidence_capacity source_closure_bytes =
     try_in (condition_checked_product source_closure_bytes JSON_ESCAPED_POINTER_SOURCE_MULTIPLIER)
       (\<lambda>pointer_bytes.
     try_in (ok_or ConditionArithmeticOverflow (checked_add pointer_bytes source_closure_bytes))
       (\<lambda>pointer_failure_transition_bytes.
     try_in condition_false_transition_bound (\<lambda>false_bound.
     (let transition_bytes = max pointer_failure_transition_bytes false_bound in
     try_in (condition_checked_product transition_bytes 2) (\<lambda>structure.
     try_in (portable_result_bound structure) (\<lambda>portable.
       if source_closure_bytes > MAX_SOURCE_CLOSURE_BYTES then Inl SourceClosureCapacityExceeded
       else if transition_bytes > MAXIMUM_CONDITION_TRANSITION_BYTES
       then Inl ConditionTransitionCapacityExceeded
       else if structure > MAXIMUM_TERMINAL_RESULT_STRUCTURE_BYTES
       then Inl TerminalResultStructureCapacityExceeded
       else if portable > MAXIMUM_PORTABLE_RESULT_BYTES then Inl PortableResultCapacityExceeded
       else Inr \<lparr>ce_maximum_json_escaped_pointer_bytes = pointer_bytes,
                 ce_condition_transition_bytes = transition_bytes,
                 ce_terminal_result_structure_bytes = structure,
                 ce_portable_result_bytes = portable\<rparr>))))))"

definition calculate_condition_outbox_reservation ::
  "u64 \<Rightarrow> u64 \<Rightarrow> u64 \<Rightarrow> u64 \<Rightarrow> condition_capacity_failure + u64" where
  "calculate_condition_outbox_reservation cloud count aggregate structure =
     try_in (ok_or ConditionArithmeticOverflow (checked_add cloud RUNNER_OBSERVATION_RESERVE))
       (\<lambda>entries.
     try_in (ok_or ConditionArithmeticOverflow (checked_add count 1)) (\<lambda>large_entries.
     try_in (ok_or OutboxEntryCapacityExceeded (checked_sub entries large_entries))
       (\<lambda>ordinary_entries.
     try_in (condition_checked_product ordinary_entries RUNNER_ORDINARY_FRAME_BYTES) (\<lambda>frames.
       ok_or ConditionArithmeticOverflow
         (Option.bind (checked_add frames aggregate) (\<lambda>bytes. checked_add bytes structure))))))"

definition valid_condition_capacity :: "condition_capacity_bounds \<Rightarrow> bool" where
  "valid_condition_capacity capacity =
     (let expected_outbox =
            (case calculate_condition_outbox_reservation
                (cb_selected_maximum_transitions capacity)
                (cb_condition_transition_count capacity)
                (cb_aggregate_condition_transition_bytes capacity)
                (cb_terminal_result_structure_bytes capacity) of
               Inl _ \<Rightarrow> None | Inr bytes \<Rightarrow> Some bytes)
      in if cb_condition_transition_count capacity = 0
         then cb_aggregate_condition_transition_bytes capacity = 0 \<and>
           cb_terminal_result_structure_bytes capacity = RUNNER_TERMINAL_FRAME_BYTES \<and>
           cb_portable_result_bytes capacity = ORDINARY_PORTABLE_RESULT_BYTES \<and>
           expected_outbox = Some (cb_encoded_outbox_bytes capacity)
         else cb_condition_transition_count capacity \<le> MAXIMUM_CONDITION_TRANSITION_COUNT \<and>
           1 \<le> cb_aggregate_condition_transition_bytes capacity \<and>
           cb_aggregate_condition_transition_bytes capacity \<le> MAXIMUM_CONDITION_TRANSITION_BYTES \<and>
           checked_mul (cb_aggregate_condition_transition_bytes capacity) 2 =
             Some (cb_terminal_result_structure_bytes capacity) \<and>
           cb_terminal_result_structure_bytes capacity
             \<le> MAXIMUM_TERMINAL_RESULT_STRUCTURE_BYTES \<and>
           checked_add (cb_terminal_result_structure_bytes capacity)
             (MAXIMUM_ENCODED_RETAINED_STREAM_BYTES + MAXIMUM_EXPORT_MEDIA_TYPE_JSON_BYTES) =
             Some (cb_portable_result_bytes capacity) \<and>
           cb_portable_result_bytes capacity \<le> MAXIMUM_PORTABLE_RESULT_BYTES \<and>
           expected_outbox = Some (cb_encoded_outbox_bytes capacity) \<and>
           cb_encoded_outbox_bytes capacity \<le> MAXIMUM_ENCODED_OUTBOX_BYTES)"

section \<open>The capacity of a workflow\<close>

fun count_recoveries ::
  "validated_step_recovery option list \<Rightarrow> u64 \<times> u64 \<Rightarrow> capacity_calculation_failure + u64 \<times> u64"
  where
  "count_recoveries [] counts = Inr counts"
| "count_recoveries (None # rs) counts = count_recoveries rs counts"
| "count_recoveries (Some recovery # rs) (recovery_rounds, handler_rounds) =
     (let retries = ucast (vr_retries recovery) in
      try_in (ok_or ArithmeticOverflow (checked_add recovery_rounds retries)) (\<lambda>recovery_rounds.
      try_in (if vr_handler recovery \<noteq> None
              then ok_or ArithmeticOverflow (checked_add handler_rounds retries)
              else Inr handler_rounds) (\<lambda>handler_rounds.
        count_recoveries rs (recovery_rounds, handler_rounds))))"

definition conditional_nodes :: "validated_workflow \<Rightarrow> nat" where
  "conditional_nodes workflow =
     length (filter (\<lambda>step. vc_condition (common_step step) \<noteq> None)
       (bt_values (vw_steps workflow) @ map vf_body (bt_values (vw_finalizers workflow))))"

definition require_condition_evidence ::
  "nat \<Rightarrow> u64 \<Rightarrow> computed_workflow_capacity \<Rightarrow>
   capacity_calculation_failure + computed_workflow_capacity" where
  "require_condition_evidence nodes source_closure_bytes required =
     (case calculate_condition_evidence_capacity source_closure_bytes of
        Inl _ \<Rightarrow> Inl ConditionEvidenceCapacityExceeded
      | Inr evidence \<Rightarrow>
          try_in (ok_or ArithmeticOverflow (u64_try_from nodes)) (\<lambda>count.
          (case calculate_condition_outbox_reservation (cloud_maximum_transitions required) count
              (ce_condition_transition_bytes evidence)
              (ce_terminal_result_structure_bytes evidence) of
             Inl _ \<Rightarrow> Inl ConditionEvidenceCapacityExceeded
           | Inr outbox \<Rightarrow>
               Inr (required
                 \<lparr>condition_transition_count := count,
                  aggregate_condition_transition_bytes := ce_condition_transition_bytes evidence,
                  terminal_result_structure_bytes := ce_terminal_result_structure_bytes evidence,
                  portable_result_bytes := ce_portable_result_bytes evidence,
                  encoded_outbox_bytes := outbox\<rparr>))))"

definition resolve_workflow_capacity ::
  "validated_workflow \<Rightarrow> workflow_content_digest \<Rightarrow> u64 \<Rightarrow>
   capacity_calculation_failure + workflow_capacity" where
  "resolve_workflow_capacity workflow digest source_closure_bytes =
     try_in (ok_or ArithmeticOverflow (u64_try_from (length (vw_steps workflow)))) (\<lambda>step_count.
     try_in (ok_or ArithmeticOverflow (u64_try_from (length (vw_finalizers workflow))))
       (\<lambda>finalizer_count.
     try_in (count_recoveries (bt_values (vw_recoveries workflow)) (0, 0))
       (\<lambda>(recovery_rounds, handler_rounds).
     try_in (calculate_capacity
       \<lparr>cc_steps = step_count, cc_finalizers = finalizer_count,
        cc_recovery_rounds = recovery_rounds, cc_handler_rounds = handler_rounds\<rparr>) (\<lambda>required.
     try_in (if conditional_nodes workflow \<noteq> 0
             then require_condition_evidence (conditional_nodes workflow) source_closure_bytes required
             else Inr required) (\<lambda>required.
       Inr \<lparr>source_closure_digest = digest, requirements = required\<rparr>)))))"

section \<open>Admission\<close>

record workflow_capacity_budget =
  budget_maximum_invocations :: u64
  budget_diagnostic_retention_bytes :: u64
  budget_native_session_retention_bytes :: u64
  budget_aggregate_retention_bytes :: u64
  budget_encoded_outbox_bytes :: u64

definition supported_maximum :: workflow_capacity_budget where
  "supported_maximum =
     \<lparr>budget_maximum_invocations = 488,
      budget_diagnostic_retention_bytes = 134217728,
      budget_native_session_retention_bytes = 67108864,
      budget_aggregate_retention_bytes = 201326592,
      budget_encoded_outbox_bytes = 1024720896\<rparr>"

datatype workflow_execution_contract = General | WorkflowV1CloudInputsArtifactsV1

definition contract_as_str :: "workflow_execution_contract \<Rightarrow> string" where
  "contract_as_str self =
     (case self of
        General \<Rightarrow> ''workflow_v1_general@1''
      | WorkflowV1CloudInputsArtifactsV1 \<Rightarrow> ''workflow_v1_cloud_inputs_artifacts@1'')"

record admitted_workflow_capacity =
  ac_resolved :: workflow_capacity
  ac_execution_contract :: workflow_execution_contract
  ac_maximum_transitions :: u64

text \<open>The failures of \<^verbatim>\<open>admit_capacity\<close>, each with its one location.\<close>

datatype capacity_admission_failure =
    CapacitySourceBindingMismatch
  | InvocationCapacityUnavailable
  | DiagnosticRetentionCapacityUnavailable
  | NativeSessionRetentionCapacityUnavailable
  | AggregateRetentionCapacityUnavailable
  | EncodedOutboxCapacityUnavailable

text \<open>
  \<open>digested\<close> is the digest of the source closure, which a hash library computes; \<open>content_digest\<close> is the
  one the resolved workflow carries.
\<close>

definition capacity_is_bound_to_source_closure ::
  "workflow_content_digest option \<Rightarrow> workflow_content_digest \<Rightarrow> workflow_capacity \<Rightarrow> bool" where
  "capacity_is_bound_to_source_closure digested content_digest capacity =
     (case digested of
        None \<Rightarrow> False
      | Some digest \<Rightarrow> digest = content_digest \<and> is_bound_to capacity digest)"

definition admit_capacity ::
  "workflow_content_digest option \<Rightarrow> workflow_content_digest \<Rightarrow> workflow_capacity \<Rightarrow>
   workflow_capacity_budget \<Rightarrow> workflow_execution_contract \<Rightarrow>
   capacity_admission_failure + admitted_workflow_capacity" where
  "admit_capacity digested content_digest capacity budget contract =
     (if \<not> capacity_is_bound_to_source_closure digested content_digest capacity
      then Inl CapacitySourceBindingMismatch
      else
        (let required = requirements capacity in
         case find (\<lambda>(available, needed, _). available < needed)
             [(budget_maximum_invocations budget, maximum_invocations required,
               InvocationCapacityUnavailable),
              (budget_diagnostic_retention_bytes budget, diagnostic_retention_bytes required,
               DiagnosticRetentionCapacityUnavailable),
              (budget_native_session_retention_bytes budget, native_session_retention_bytes required,
               NativeSessionRetentionCapacityUnavailable),
              (budget_aggregate_retention_bytes budget, aggregate_retention_bytes required,
               AggregateRetentionCapacityUnavailable)] of
           Some (_, _, failure) \<Rightarrow> Inl failure
         | None \<Rightarrow>
             if contract = WorkflowV1CloudInputsArtifactsV1 \<and>
               budget_encoded_outbox_bytes budget < encoded_outbox_bytes required
             then Inl EncodedOutboxCapacityUnavailable
             else
               Inr \<lparr>ac_resolved = capacity, ac_execution_contract = contract,
                    ac_maximum_transitions =
                      (case contract of
                         General \<Rightarrow> general_maximum_transitions required
                       | WorkflowV1CloudInputsArtifactsV1 \<Rightarrow> cloud_maximum_transitions required)\<rparr>))"

end
