(* ===== verification/Capacity_Checks.thy ===== *)
theory Capacity_Checks
  imports Capacity
begin

text \<open>
  Facts on capacities: what the computed bounds are as numbers, that a resolved capacity satisfies the
  contract shared with the replay of results, and that the supported budget covers it.
\<close>

section \<open>Transition bounds\<close>

definition phase_transitions :: "u64 \<Rightarrow> nat" where
  "phase_transitions finalizers = (if finalizers = 0 then 3 else 6)"

lemma weighted_bound_unat:
  assumes "weighted_bound w finalizers weight = Inr b"
  shows "unat b = unat w * unat weight + phase_transitions finalizers"
  using assms
  by (auto simp: weighted_bound_def checked_product_def phase_transitions_def
      dest!: checked_mul_SomeD checked_add_SomeD split: if_splits)

lemma transition_bounds_unat:
  assumes "transition_bounds counts = Inr (w, general, cloud)"
  shows "unat w = unat (cc_steps counts) + unat (cc_finalizers counts) + unat (cc_recovery_rounds counts)"
    and "unat general = 5 * unat w + phase_transitions (cc_finalizers counts)"
    and "unat cloud = 4 * unat w + phase_transitions (cc_finalizers counts) +
      unat (cc_handler_rounds counts)"
  using assms
  by (auto simp: transition_bounds_def bind_eq_Some_conv
      dest!: weighted_bound_unat checked_add_SomeD)

lemma validate_general_unat:
  "validate_general_transition_bound maximum finalizers = Inr u \<Longrightarrow>
   unat maximum \<le> 1280 + phase_transitions finalizers"
  by (auto simp: validate_general_transition_bound_def phase_transitions_def capacity_limits
      word_le_nat_alt not_less split: if_splits)

lemma validate_cloud_unat:
  "validate_cloud_transition_bound maximum finalizers = Inr u \<Longrightarrow>
   unat maximum \<le> 1024 + phase_transitions finalizers"
  by (auto simp: validate_cloud_transition_bound_def phase_transitions_def capacity_limits
      word_le_nat_alt not_less split: if_splits)

text \<open>The invocations share the byte budget of a run.\<close>

lemma retained_bound:
  fixes y :: u64
  assumes "unat y = k"
  shows "k * unat (min (67108864 div y) limit) \<le> 67108864"
proof -
  have "k * unat (min (67108864 div y) limit) \<le> k * unat (67108864 div y)"
    by (intro mult_le_mono2) (simp add: min_def word_le_nat_alt)
  also have "\<dots> = k * (67108864 div k)"
    using assms by (simp add: unat_div)
  also have "\<dots> \<le> 67108864"
    by simp
  finally show ?thesis .
qed

lemma calculate_capacity_bounds:
  assumes "calculate_capacity counts = Inr cap"
  shows "\<exists>w. transition_bounds counts =
      Inr (w, general_maximum_transitions cap, cloud_maximum_transitions cap) \<and>
      unat (maximum_invocations cap) = unat w + unat (cc_handler_rounds counts)"
    and "unat (general_maximum_transitions cap) \<le> 1280 + phase_transitions (cc_finalizers counts)"
    and "unat (cloud_maximum_transitions cap) \<le> 1024 + phase_transitions (cc_finalizers counts)"
    and "unat (native_session_retention_bytes cap) \<le> 67108864"
    and "unat (diagnostic_retention_bytes cap) = 2 * unat (native_session_retention_bytes cap)"
    and "unat (aggregate_retention_bytes cap) = 3 * unat (native_session_retention_bytes cap)"
    and "unat (encoded_outbox_bytes cap) =
      (unat (cloud_maximum_transitions cap) + 64) * 262144 + 66846720"
    and "condition_transition_count cap = 0" and "aggregate_condition_transition_bytes cap = 0"
    and "terminal_result_structure_bytes cap = RUNNER_TERMINAL_FRAME_BYTES"
    and "portable_result_bytes cap = ORDINARY_PORTABLE_RESULT_BYTES"
  using assms
  by (auto simp: calculate_capacity_def Let_def checked_product_def capacity_limits
      dest!: validate_general_unat validate_cloud_unat checked_add_SomeD checked_mul_SomeD
      split: if_splits intro: retained_bound)

section \<open>Condition evidence\<close>

lemma condition_false_transition_bound_eq: "condition_false_transition_bound = Inr 33871"
  by code_simp

lemma evidence_capacity_bounds:
  assumes "calculate_condition_evidence_capacity bytes = Inr evidence"
  shows "1 \<le> ce_condition_transition_bytes evidence"
    and "ce_condition_transition_bytes evidence \<le> MAXIMUM_CONDITION_TRANSITION_BYTES"
    and "checked_mul (ce_condition_transition_bytes evidence) 2 =
      Some (ce_terminal_result_structure_bytes evidence)"
    and "ce_terminal_result_structure_bytes evidence \<le> MAXIMUM_TERMINAL_RESULT_STRUCTURE_BYTES"
    and "portable_result_bound (ce_terminal_result_structure_bytes evidence) =
      Inr (ce_portable_result_bytes evidence)"
    and "ce_portable_result_bytes evidence \<le> MAXIMUM_PORTABLE_RESULT_BYTES"
  using assms
  by (auto simp: calculate_condition_evidence_capacity_def Let_def condition_checked_product_def
      condition_false_transition_bound_eq max_def word_le_nat_alt not_less not_le split: if_splits)

lemma checked_add_Some_iff:
  "checked_add (a :: u64) b = Some c \<longleftrightarrow> unat c = unat a + unat b"
proof
  assume eq: "unat c = unat a + unat b"
  moreover have "unat c < 2 ^ 64"
    using unsigned_less [where 'a = nat, of c] by simp
  moreover have "a + b = c"
    using arg_cong [OF eq, of "of_nat :: nat \<Rightarrow> u64"] by simp
  ultimately show "checked_add a b = Some c"
    unfolding checked_add_def uint_add_less_exp by simp
qed (rule checked_add_SomeD)

lemma portable_result_bound_add:
  assumes "portable_result_bound structure = Inr portable"
  shows "checked_add structure
    (MAXIMUM_ENCODED_RETAINED_STREAM_BYTES + MAXIMUM_EXPORT_MEDIA_TYPE_JSON_BYTES) = Some portable"
  using assms
  by (auto simp: portable_result_bound_def bind_eq_Some_conv checked_add_Some_iff capacity_limits)

section \<open>Resolved capacities\<close>

definition recovery_rounds_of :: "validated_step_recovery option list \<Rightarrow> nat" where
  "recovery_rounds_of rs = (\<Sum>r \<leftarrow> rs. case r of None \<Rightarrow> 0 | Some recovery \<Rightarrow> unat (vr_retries recovery))"

lemma count_recoveries_unat:
  "count_recoveries rs (a, b) = Inr (a', b') \<Longrightarrow>
   unat a' = unat a + recovery_rounds_of rs \<and> unat b' \<le> unat b + recovery_rounds_of rs"
proof (induction rs "(a, b)" arbitrary: a b rule: count_recoveries.induct)
  case (3 recovery rs a b)
  have "unat (ucast (vr_retries recovery) :: u64) = unat (vr_retries recovery)"
    using unsigned_less [where 'a = nat, of "vr_retries recovery"]
    by (simp add: unsigned_ucast_eq take_bit_nat_eq_self)
  moreover obtain a1 b1 where "checked_add a (ucast (vr_retries recovery)) = Some a1"
    "if vr_handler recovery = None then b1 = b
     else checked_add b (ucast (vr_retries recovery)) = Some b1"
    "count_recoveries rs (a1, b1) = Inr (a', b')"
    using 3(2) by (auto simp: Let_def split: if_splits)
  ultimately show ?case
    using 3(1) [OF refl, of a1 b1]
    by (auto simp: recovery_rounds_of_def dest!: checked_add_SomeD split: if_splits)
qed (simp_all add: recovery_rounds_of_def)

definition weighted_nodes_of :: "validated_workflow \<Rightarrow> nat" where
  "weighted_nodes_of workflow =
     length (vw_steps workflow) + length (vw_finalizers workflow) +
     recovery_rounds_of (bt_values (vw_recoveries workflow))"

lemma require_condition_evidenceE:
  assumes "require_condition_evidence nodes bytes required = Inr cap"
  obtains evidence count outbox where
    "calculate_condition_evidence_capacity bytes = Inr evidence" "unat count = nodes"
    "calculate_condition_outbox_reservation (cloud_maximum_transitions required) count
       (ce_condition_transition_bytes evidence) (ce_terminal_result_structure_bytes evidence) =
       Inr outbox"
    "cap = required
       \<lparr>condition_transition_count := count,
        aggregate_condition_transition_bytes := ce_condition_transition_bytes evidence,
        terminal_result_structure_bytes := ce_terminal_result_structure_bytes evidence,
        portable_result_bytes := ce_portable_result_bytes evidence,
        encoded_outbox_bytes := outbox\<rparr>"
proof -
  obtain evidence where evidence: "calculate_condition_evidence_capacity bytes = Inr evidence"
    using assms by (cases "calculate_condition_evidence_capacity bytes")
      (auto simp: require_condition_evidence_def)
  then obtain count where count: "u64_try_from nodes = Some count"
    using assms by (auto simp: require_condition_evidence_def)
  show thesis
  proof (cases "calculate_condition_outbox_reservation (cloud_maximum_transitions required) count
      (ce_condition_transition_bytes evidence) (ce_terminal_result_structure_bytes evidence)")
    case (Inr outbox)
    then show thesis
      using assms evidence count u64_try_from_Some [OF count]
      by (intro that [OF evidence _ Inr]) (simp_all add: require_condition_evidence_def try_in_def ok_or_def)
  qed (use assms evidence count in \<open>simp add: require_condition_evidence_def try_in_def ok_or_def\<close>)
qed

lemma require_condition_evidence_keeps:
  assumes "require_condition_evidence nodes bytes required = Inr cap"
  shows "general_maximum_transitions cap = general_maximum_transitions required"
    and "cloud_maximum_transitions cap = cloud_maximum_transitions required"
    and "maximum_invocations cap = maximum_invocations required"
    and "diagnostic_retention_bytes cap = diagnostic_retention_bytes required"
    and "native_session_retention_bytes cap = native_session_retention_bytes required"
    and "aggregate_retention_bytes cap = aggregate_retention_bytes required"
  by (rule require_condition_evidenceE [OF assms], simp)+

text \<open>The parts of a successful resolution.\<close>

lemma resolve_workflow_capacityE:
  assumes "resolve_workflow_capacity workflow digest bytes = Inr cap"
  obtains s f rounds handlers required where
    "unat s = length (vw_steps workflow)" "unat f = length (vw_finalizers workflow)"
    "unat rounds = recovery_rounds_of (bt_values (vw_recoveries workflow))"
    "unat handlers \<le> unat rounds"
    "calculate_capacity \<lparr>cc_steps = s, cc_finalizers = f, cc_recovery_rounds = rounds,
       cc_handler_rounds = handlers\<rparr> = Inr required"
    "conditional_nodes workflow = 0 \<and> requirements cap = required \<or>
     conditional_nodes workflow \<noteq> 0 \<and>
       require_condition_evidence (conditional_nodes workflow) bytes required = Inr (requirements cap)"
    "source_closure_digest cap = digest"
proof -
  obtain s f rounds handlers required where parts:
    "u64_try_from (length (vw_steps workflow)) = Some s"
    "u64_try_from (length (vw_finalizers workflow)) = Some f"
    "count_recoveries (bt_values (vw_recoveries workflow)) (0, 0) = Inr (rounds, handlers)"
    "calculate_capacity \<lparr>cc_steps = s, cc_finalizers = f, cc_recovery_rounds = rounds,
       cc_handler_rounds = handlers\<rparr> = Inr required"
    "conditional_nodes workflow = 0 \<and> requirements cap = required \<or>
     conditional_nodes workflow \<noteq> 0 \<and>
       require_condition_evidence (conditional_nodes workflow) bytes required = Inr (requirements cap)"
    "source_closure_digest cap = digest"
    using assms by (cases "conditional_nodes workflow = 0") (auto simp: resolve_workflow_capacity_def)
  show thesis
    using that [OF u64_try_from_Some [OF parts(1)] u64_try_from_Some [OF parts(2)] _ _ parts(4-6)]
      count_recoveries_unat [OF parts(3)] by auto
qed

lemma resolved_capacity_bounds:
  assumes "resolve_workflow_capacity workflow digest bytes = Inr cap"
  shows "unat (general_maximum_transitions (requirements cap)) =
      5 * weighted_nodes_of workflow + (if vw_finalizers workflow = [] then 3 else 6)"
    and "weighted_nodes_of workflow \<le> 256"
    and "unat (maximum_invocations (requirements cap)) \<le> 409"
    and "unat (native_session_retention_bytes (requirements cap)) \<le> 67108864"
    and "unat (diagnostic_retention_bytes (requirements cap)) \<le> 134217728"
    and "unat (aggregate_retention_bytes (requirements cap)) \<le> 201326592"
proof -
  obtain s f rounds handlers required where parts:
    "unat s = length (vw_steps workflow)" "unat f = length (vw_finalizers workflow)"
    "unat rounds = recovery_rounds_of (bt_values (vw_recoveries workflow))"
    "unat handlers \<le> unat rounds"
    "calculate_capacity \<lparr>cc_steps = s, cc_finalizers = f, cc_recovery_rounds = rounds,
       cc_handler_rounds = handlers\<rparr> = Inr required"
    and req: "conditional_nodes workflow = 0 \<and> requirements cap = required \<or>
     conditional_nodes workflow \<noteq> 0 \<and>
       require_condition_evidence (conditional_nodes workflow) bytes required = Inr (requirements cap)"
    using resolve_workflow_capacityE [OF assms] by metis
  have phase: "phase_transitions f = (if vw_finalizers workflow = [] then 3 else 6)"
    using parts(2) by (auto simp: phase_transitions_def unat_eq_0)
  note calc = calculate_capacity_bounds [OF parts(5), simplified]
  obtain w where w: "transition_bounds \<lparr>cc_steps = s, cc_finalizers = f, cc_recovery_rounds = rounds,
      cc_handler_rounds = handlers\<rparr> =
      Inr (w, general_maximum_transitions required, cloud_maximum_transitions required)"
    and inv: "unat (maximum_invocations required) = unat w + unat handlers"
    using calc(1) by auto
  note bounds = transition_bounds_unat [OF w, simplified]
  have same: "general_maximum_transitions (requirements cap) = general_maximum_transitions required"
    "maximum_invocations (requirements cap) = maximum_invocations required"
    "native_session_retention_bytes (requirements cap) = native_session_retention_bytes required"
    "diagnostic_retention_bytes (requirements cap) = diagnostic_retention_bytes required"
    "aggregate_retention_bytes (requirements cap) = aggregate_retention_bytes required"
    using req require_condition_evidence_keeps by auto
  have nodes: "unat w = weighted_nodes_of workflow"
    using bounds(1) parts(1-3) by (simp add: weighted_nodes_of_def)
  show "unat (general_maximum_transitions (requirements cap)) =
      5 * weighted_nodes_of workflow + (if vw_finalizers workflow = [] then 3 else 6)"
    using bounds(2) nodes phase same(1) by simp
  show "weighted_nodes_of workflow \<le> 256"
    using bounds(2) calc(2) nodes by simp
  show "unat (maximum_invocations (requirements cap)) \<le> 409"
    using inv bounds calc(3) parts(4) same(2) by simp
  show "unat (native_session_retention_bytes (requirements cap)) \<le> 67108864"
    "unat (diagnostic_retention_bytes (requirements cap)) \<le> 134217728"
    "unat (aggregate_retention_bytes (requirements cap)) \<le> 201326592"
    using calc(4-6) same by simp_all
qed

lemma supported_maximum_admits:
  assumes "resolve_workflow_capacity workflow digest bytes = Inr cap"
  shows "admit_capacity (Some digest) digest cap supported_maximum General =
    Inr \<lparr>ac_resolved = cap, ac_execution_contract = General,
         ac_maximum_transitions = general_maximum_transitions (requirements cap)\<rparr>"
proof -
  have "source_closure_digest cap = digest"
    using resolve_workflow_capacityE [OF assms] by metis
  then show ?thesis
    using resolved_capacity_bounds [OF assms]
    by (simp add: admit_capacity_def capacity_is_bound_to_source_closure_def is_bound_to_def
        supported_maximum_def word_less_nat_alt Let_def)
qed

text \<open>The capacity selected by admission is the one of the contract.\<close>

lemma admit_capacity_selects:
  assumes "admit_capacity digested content_digest cap budget contract = Inr admitted"
  shows "ac_maximum_transitions admitted =
    (case contract of General \<Rightarrow> general_maximum_transitions (requirements cap)
     | WorkflowV1CloudInputsArtifactsV1 \<Rightarrow> cloud_maximum_transitions (requirements cap))"
  using assms
  by (auto simp: admit_capacity_def Let_def split: if_splits option.splits prod.splits)

definition capacity_bounds_of :: "workflow_capacity \<Rightarrow> condition_capacity_bounds" where
  "capacity_bounds_of cap =
     (let required = requirements cap in
      from_parts (cloud_maximum_transitions required)
        (condition_transition_count required, aggregate_condition_transition_bytes required)
        (terminal_result_structure_bytes required, portable_result_bytes required,
         encoded_outbox_bytes required))"

lemma conditional_nodes_le: "conditional_nodes workflow \<le> weighted_nodes_of workflow"
proof -
  have "conditional_nodes workflow \<le>
      length (bt_values (vw_steps workflow) @ map vf_body (bt_values (vw_finalizers workflow)))"
    unfolding conditional_nodes_def by (rule length_filter_le)
  then show ?thesis
    by (simp add: weighted_nodes_of_def bt_values_def)
qed

lemma unat_of_small: "n < 2 ^ 64 \<Longrightarrow> unat (of_nat n :: u64) = n"
  by (simp add: unsigned_of_nat take_bit_nat_eq_self)

lemma checked_sub_Some_iff: "checked_sub (a :: u64) b = Some c \<longleftrightarrow> unat a = unat b + unat c"
proof
  assume eq: "unat a = unat b + unat c"
  then have "b \<le> a"
    by (simp add: word_le_nat_alt)
  moreover have "a = b + c"
    using arg_cong [OF eq, of "of_nat :: nat \<Rightarrow> u64"] by simp
  ultimately show "checked_sub a b = Some c"
    by (simp add: checked_sub_def)
qed (auto dest: checked_sub_SomeD)

lemma checked_mul_Some_iff: "checked_mul (a :: u64) b = Some c \<longleftrightarrow> unat c = unat a * unat b"
proof
  assume eq: "unat c = unat a * unat b"
  moreover have "unat c < 2 ^ 64"
    using unsigned_less [where 'a = nat, of c] by simp
  moreover have "a * b = c"
    using arg_cong [OF eq, of "of_nat :: nat \<Rightarrow> u64"] by simp
  ultimately show "checked_mul a b = Some c"
    unfolding checked_mul_def uint_mul_less_exp by simp
qed (rule checked_mul_SomeD)

lemma plain_outbox:
  assumes "unat outbox = (unat cloud + 64) * 262144 + 66846720" and "unat cloud \<le> 1030"
  shows "calculate_condition_outbox_reservation cloud 0 0 RUNNER_TERMINAL_FRAME_BYTES = Inr outbox"
proof -
  define entries ordinary frames :: u64 where
    "entries = of_nat (unat cloud + 64)" and "ordinary = of_nat (unat cloud + 63)" and
    "frames = of_nat ((unat cloud + 63) * 262144)"
  have "unat entries = unat cloud + 64" "unat ordinary = unat cloud + 63"
    "unat frames = (unat cloud + 63) * 262144"
    unfolding entries_def ordinary_def frames_def
    by (rule unat_of_small, use assms(2) in simp)+
  then have "checked_add cloud 64 = Some entries" "checked_add (0 :: u64) 1 = Some 1"
    "checked_sub entries 1 = Some ordinary" "checked_mul ordinary 262144 = Some frames"
    "checked_add frames 0 = Some frames" "checked_add frames 67108864 = Some outbox"
    using assms(1)
    by (simp_all add: checked_add_Some_iff checked_sub_Some_iff checked_mul_Some_iff)
  then show ?thesis
    by (simp add: calculate_condition_outbox_reservation_def condition_checked_product_def
        capacity_limits ok_or_def try_in_def)
qed

lemma resolved_plain_valid:
  assumes "resolve_workflow_capacity workflow digest bytes = Inr cap"
    and "conditional_nodes workflow = 0"
  shows "valid_condition_capacity (capacity_bounds_of cap)"
proof -
  obtain counts where calc: "calculate_capacity counts = Inr (requirements cap)"
    using resolve_workflow_capacityE [OF assms(1)] assms(2) by metis
  note calc = calculate_capacity_bounds [OF calc]
  have "unat (cloud_maximum_transitions (requirements cap)) \<le> 1030"
    using calc(3) by (simp add: phase_transitions_def split: if_splits)
  from plain_outbox [OF calc(7) this] show ?thesis
    using calc(8-11)
    by (simp add: valid_condition_capacity_def capacity_bounds_of_def from_parts_def Let_def)
qed

lemma resolved_conditional_valid:
  assumes "resolve_workflow_capacity workflow digest bytes = Inr cap"
    and "conditional_nodes workflow \<noteq> 0"
  shows "valid_condition_capacity (capacity_bounds_of cap) \<longleftrightarrow>
    encoded_outbox_bytes (requirements cap) \<le> MAXIMUM_ENCODED_OUTBOX_BYTES"
proof -
  obtain required where
    "require_condition_evidence (conditional_nodes workflow) bytes required = Inr (requirements cap)"
    using resolve_workflow_capacityE [OF assms(1)] assms(2) by metis
  then obtain evidence count outbox where
    evidence: "calculate_condition_evidence_capacity bytes = Inr evidence"
    and count: "unat count = conditional_nodes workflow"
    and outbox: "calculate_condition_outbox_reservation (cloud_maximum_transitions required) count
       (ce_condition_transition_bytes evidence) (ce_terminal_result_structure_bytes evidence) =
       Inr outbox"
    and cap: "requirements cap = required
       \<lparr>condition_transition_count := count,
        aggregate_condition_transition_bytes := ce_condition_transition_bytes evidence,
        terminal_result_structure_bytes := ce_terminal_result_structure_bytes evidence,
        portable_result_bytes := ce_portable_result_bytes evidence,
        encoded_outbox_bytes := outbox\<rparr>"
    by (rule require_condition_evidenceE)
  have "count \<noteq> 0"
    using count assms(2) by auto
  moreover have "count \<le> MAXIMUM_CONDITION_TRANSITION_COUNT"
    using count conditional_nodes_le [of workflow] resolved_capacity_bounds(2) [OF assms(1)]
    by (simp add: capacity_limits word_le_nat_alt)
  ultimately show ?thesis
    using evidence_capacity_bounds [OF evidence] outbox
      portable_result_bound_add [OF evidence_capacity_bounds(5) [OF evidence]]
    by (simp add: valid_condition_capacity_def capacity_bounds_of_def from_parts_def Let_def cap)
qed

end
