(* ===== verification/Run_Capacity.thy ===== *)
theory Run_Capacity
  imports Runtime_Capacity Capacity_Checks
begin

text \<open>
  Admitted workflows and their runs: the definition a workflow gives the reducer is well formed, and
  the capacity computed for the general contract is never exceeded.
\<close>

section \<open>Well-formed definitions\<close>

text \<open>
  What validation guarantees of a workflow's tables: they are maps, and a step and a finalizer never
  share a name.
\<close>

definition workflow_wf :: "validated_workflow \<Rightarrow> bool" where
  "workflow_wf vw \<longleftrightarrow>
     bt_wf (vw_steps vw) \<and> bt_wf (vw_finalizers vw) \<and> bt_wf (vw_recoveries vw) \<and>
     list_all (\<lambda>s. \<not> bt_contains_key (vw_finalizers vw) s) (bt_keys (vw_steps vw))"

definition workflow_nodes :: "validated_workflow \<Rightarrow> (string \<times> runtime_step) list" where
  "workflow_nodes vw =
     map (\<lambda>(sid, step). (sid, runtime_step RoleStep step
       (case map_of (vw_recoveries vw) sid of None \<Rightarrow> None | Some r \<Rightarrow> r) []))
       (vw_steps vw) @
     map (\<lambda>(sid, finalizer). (sid, runtime_finalizer finalizer)) (vw_finalizers vw)"

lemma map_fst_snd_map: "map fst (map (\<lambda>(a, b). (a, f a b)) xs) = map fst xs"
  by (induction xs) auto

lemma workflow_nodes_keys:
  "map fst (workflow_nodes vw) = bt_keys (vw_steps vw) @ bt_keys (vw_finalizers vw)"
  unfolding workflow_nodes_def bt_keys_def map_append
  using map_fst_snd_map [of "\<lambda>sid step. runtime_step RoleStep step
      (case map_of (vw_recoveries vw) sid of None \<Rightarrow> None | Some r \<Rightarrow> r) []"]
    map_fst_snd_map [of "\<lambda>_. runtime_finalizer"]
  by simp

lemma workflow_nodes_distinct:
  "workflow_wf vw \<Longrightarrow> distinct (map fst (workflow_nodes vw))"
  by (auto simp: workflow_nodes_keys workflow_wf_def bt_keys_def bt_contains_key_def list_all_iff
      map_of_eq_None_iff dest: bt_wf_distinct)

lemma from_admitted_fields [simp]:
  "def_steps (from_admitted vw parallel transitions vs) = bt_collect (workflow_nodes vw)"
  "ordinary_ids (from_admitted vw parallel transitions vs) = bt_keys (vw_steps vw)"
  "finalizer_ids (from_admitted vw parallel transitions vs) = bt_keys (vw_finalizers vw)"
  "maximum_transitions (from_admitted vw parallel transitions vs) = transitions"
  "maximum_parallel_steps (from_admitted vw parallel transitions vs) = parallel"
  by (simp_all add: from_admitted_def from_workflow_def workflow_nodes_def)

lemma runtime_step_role [simp]: "role (runtime_step step_role step policy triggers) = step_role"
  by (simp add: runtime_step_def Let_def)

theorem from_admitted_wf:
  assumes "workflow_wf vw"
  shows "definition_wf (from_admitted vw parallel transitions vs)"
proof -
  note distinct = workflow_nodes_distinct [OF assms]
  have keys: "distinct (map fst (vw_steps vw))" "distinct (map fst (vw_finalizers vw))"
    using assms by (simp_all add: workflow_wf_def bt_wf_distinct)
  have entries: "map_of (bt_collect (workflow_nodes vw)) s = Some x \<longleftrightarrow>
      (s, x) \<in> set (workflow_nodes vw)" for s x
    using distinct by (simp add: map_of_bt_collect)
  have "set (bt_keys (vw_steps vw)) =
      {s. \<exists>x. (s, x) \<in> set (workflow_nodes vw) \<and> role x = RoleStep}"
    by (force simp: bt_keys_def workflow_nodes_def runtime_finalizer_def)
  moreover have "set (bt_keys (vw_finalizers vw)) =
      {s. \<exists>x. (s, x) \<in> set (workflow_nodes vw) \<and> role x = RoleFinalizer}"
    by (force simp: bt_keys_def workflow_nodes_def runtime_finalizer_def)
  ultimately show ?thesis
    using keys bt_wf_distinct [OF bt_wf_collect, of "workflow_nodes vw"]
    by (simp add: definition_wf_def entries) (simp add: bt_keys_def)
qed

section \<open>The potential of an initial state\<close>

definition round_weight :: "runtime_step \<Rightarrow> nat" where
  "round_weight d = (case step_recovery_policy d of None \<Rightarrow> 0 | Some policy \<Rightarrow> unat (retries policy))"

lemma initial_node_potential: "node_potential (initial_step_state seed s d) \<le> 5 + 5 * round_weight d"
  by (auto simp: initial_step_state_def Let_def node_potential_def rounds_left_def recovery_shape_def
      round_weight_def split: option.splits)

lemma initial_nodes_potential:
  fixes seed :: "'o execution_seed"
  shows "nodes_potential (initial_state def seed :: ('c, 'o, 'd) runtime_state) \<le>
    (\<Sum>e \<leftarrow> def_steps def. 5 + 5 * round_weight (snd e))"
proof -
  have "nodes_potential (initial_state def seed :: ('c, 'o, 'd) runtime_state) =
      (\<Sum>e \<leftarrow> def_steps def.
        node_potential (initial_step_state seed (fst e) (snd e) :: ('c, 'o) step_runtime_state))"
    by (simp add: nodes_potential_def initial_state_def split_beta comp_def)
  also have "\<dots> \<le> (\<Sum>e \<leftarrow> def_steps def. 5 + 5 * round_weight (snd e))"
    by (intro sum_list_mono initial_node_potential)
  finally show ?thesis .
qed

lemma initial_potential:
  fixes st :: "('c, 'o, 'd) runtime_state"
  assumes st_def: "st = initial_state def seed"
  shows "potential st \<le>
     (\<Sum>e \<leftarrow> def_steps def. 5 + 5 * round_weight (snd e)) + (if finalizer_ids def = [] then 3 else 6)"
proof -
  have "workflow_potential st = (if finalizer_ids def = [] then 3 else 6)"
    by (simp add: st_def workflow_potential_def initial_state_def)
  moreover have "stop_credit st = 0"
    by (auto simp: st_def stop_credit_def initial_state_def list_ex_iff initial_step_state_def Let_def
        split: option.splits)
  moreover have "nodes_potential st \<le> (\<Sum>e \<leftarrow> def_steps def. 5 + 5 * round_weight (snd e))"
    unfolding st_def by (rule initial_nodes_potential)
  ultimately show ?thesis
    by (simp add: potential_def)
qed

lemma sum_recoveries:
  assumes "bt_wf recoveries" and "distinct (map fst xs)"
  shows "(\<Sum>e \<leftarrow> xs. case map_of recoveries (fst e) of Some (Some r) \<Rightarrow> unat (vr_retries r) | _ \<Rightarrow> 0)
    \<le> recovery_rounds_of (bt_values recoveries)"
proof -
  let ?w = "\<lambda>r. case r of None \<Rightarrow> 0 | Some r \<Rightarrow> unat (vr_retries r)"
  let ?f = "\<lambda>s. case map_of recoveries s of Some (Some r) \<Rightarrow> unat (vr_retries r) | _ \<Rightarrow> 0"
  have dist: "distinct (map fst recoveries)"
    using assms(1) by (rule bt_wf_distinct)
  have "(\<Sum>e \<leftarrow> xs. ?f (fst e)) = sum ?f (fst ` set xs)"
    using sum_list_distinct_conv_sum_set [OF assms(2), of ?f] by (simp add: comp_def)
  also have "\<dots> \<le> sum ?f (fst ` set xs \<inter> fst ` set recoveries)"
  proof -
    have "sum ?f (fst ` set xs) = sum ?f (fst ` set xs \<inter> fst ` set recoveries)"
      by (rule sum.mono_neutral_right) (force split: option.splits dest: map_of_SomeD)+
    then show ?thesis
      by simp
  qed
  also have "\<dots> \<le> sum ?f (fst ` set recoveries)"
    by (rule sum_mono2) auto
  also have "\<dots> = (\<Sum>e \<leftarrow> recoveries. ?f (fst e))"
    using sum_list_distinct_conv_sum_set [OF dist, of ?f] by (simp add: comp_def)
  also have "\<dots> = (\<Sum>e \<leftarrow> recoveries. ?w (snd e))"
    using dist by (intro arg_cong [of _ _ sum_list] map_cong refl)
      (auto split: option.splits dest: eq_key_imp_eq_value)
  finally show ?thesis
    by (simp add: recovery_rounds_of_def bt_values_def comp_def)
qed

lemma admitted_node_weights:
  assumes "workflow_wf vw"
  shows "(\<Sum>e \<leftarrow> bt_collect (workflow_nodes vw). 5 + 5 * round_weight (snd e))
    \<le> 5 * weighted_nodes_of vw"
proof -
  have steps: "distinct (map fst (vw_steps vw))" "bt_wf (vw_recoveries vw)"
    using assms by (simp_all add: workflow_wf_def bt_wf_distinct)
  have "round_weight (runtime_finalizer f) = 0" for f
    by (simp add: round_weight_def runtime_finalizer_def runtime_step_def Let_def)
  moreover have "round_weight (runtime_step RoleStep step
      (case map_of recoveries s of None \<Rightarrow> None | Some r \<Rightarrow> r) []) =
      (case map_of recoveries s of Some (Some r) \<Rightarrow> unat (vr_retries r) | _ \<Rightarrow> 0)" for step and s :: string and recoveries
    by (auto simp: round_weight_def runtime_step_def Let_def split: option.splits)
  ultimately have "(\<Sum>e \<leftarrow> workflow_nodes vw. round_weight (snd e)) =
      (\<Sum>e \<leftarrow> vw_steps vw.
        case map_of (vw_recoveries vw) (fst e) of Some (Some r) \<Rightarrow> unat (vr_retries r) | _ \<Rightarrow> 0)"
    by (simp add: workflow_nodes_def split_beta comp_def)
  also have "\<dots> \<le> recovery_rounds_of (bt_values (vw_recoveries vw))"
    by (rule sum_recoveries [OF steps(2,1)])
  finally have "(\<Sum>e \<leftarrow> workflow_nodes vw. round_weight (snd e)) \<le>
      recovery_rounds_of (bt_values (vw_recoveries vw))" .
  moreover have "(\<Sum>e \<leftarrow> workflow_nodes vw. 5 + 5 * round_weight (snd e)) =
      5 * length (workflow_nodes vw) + 5 * (\<Sum>e \<leftarrow> workflow_nodes vw. round_weight (snd e))"
    by (simp add: sum_list_addf sum_list_const_mult sum_list_triv)
  moreover have "length (workflow_nodes vw) = length (vw_steps vw) + length (vw_finalizers vw)"
    by (simp add: workflow_nodes_def)
  ultimately show ?thesis
    using sum_bt_collect [OF workflow_nodes_distinct [OF assms], of "\<lambda>e. 5 + 5 * round_weight (snd e)"]
    by (simp add: weighted_nodes_of_def)
qed

theorem admitted_capacity_left:
  fixes st :: "('c, 'o, 'd) runtime_state"
  assumes "workflow_wf vw" and "resolve_workflow_capacity vw digest bytes = Inr cap"
    and "admit_capacity digested content_digest cap budget General = Inr admitted"
    and st: "st = initial_state (from_admitted vw parallel (ac_maximum_transitions admitted) vs) seed"
  shows "capacity_left (fresh_reduction accepted st)"
proof -
  have "potential st \<le> 5 * weighted_nodes_of vw + (if vw_finalizers vw = [] then 3 else 6)"
    using initial_potential [OF st] admitted_node_weights [OF assms(1)]
    by (simp add: bt_keys_def split: if_splits)
  moreover have "unat (ac_maximum_transitions admitted) =
      5 * weighted_nodes_of vw + (if vw_finalizers vw = [] then 3 else 6)"
    using admit_capacity_selects [OF assms(3)] resolved_capacity_bounds(1) [OF assms(2)] by simp
  moreover have "abort_closes st" "\<not> transition_capacity_exceeded st"
    "last_transition_sequence st = 0"
    "maximum_transitions (definition_of st) = ac_maximum_transitions admitted"
    by (simp_all add: st abort_closes_def initial_state_def)
  ultimately show ?thesis
    by (simp add: capacity_left_def)
qed

end
