(* ===== verification/Runtime_Termination.thy ===== *)
theory Runtime_Termination
  imports Runtime_Runs Evidence_Checks
begin

text \<open>
  The reducer always returns: each pass of the stabilizing loop but the last raises the sequence
  number, which the capacity of the definition bounds, and the loop over unavailable inputs settles
  one pending finalizer at a time.
\<close>

section \<open>Growing sequence numbers\<close>

definition sequence_within ::
  "('c, 'o, 'd) runtime_state \<Rightarrow> ('p, 'c, 'o, 'd) reduction \<Rightarrow> bool" where
  "sequence_within base r \<longleftrightarrow>
     definition_of (state r) = definition_of base \<and>
     (last_transition_sequence (state r) = last_transition_sequence base \<or>
      last_transition_sequence base < last_transition_sequence (state r) \<and>
      last_transition_sequence (state r) \<le> maximum_transitions (definition_of base))"

lemma sequence_next_le: "a \<le> sequence_next a"
  by (auto simp: sequence_next_def word_le_nat_alt unat_saturating_add min_def
      dest: le_less_trans [OF _ unsigned_less])
    (use unsigned_less [where 'a = nat, of a] in simp)

lemma next_sequence_grows:
  assumes "next_sequence st = (sequence, st')"
  shows "last_transition_sequence st' = last_transition_sequence st \<or>
    last_transition_sequence st < last_transition_sequence st' \<and>
    last_transition_sequence st' \<le> maximum_transitions (definition_of st)"
  using assms sequence_next_le [of "last_transition_sequence st"]
  by (auto simp: next_sequence_def Let_def not_less split: if_splits)

lemma sequence_within_next:
  assumes "sequence_within base r" and "next_sequence (state r) = (sequence, st)"
    and "definition_of (state r') = definition_of (state r)"
    and "last_transition_sequence (state r') = last_transition_sequence st"
  shows "sequence_within base r'"
  using assms(1,3,4) next_sequence_grows [OF assms(2)] by (auto simp: sequence_within_def)

lemma sequence_within_commit:
  "sequence_within base r \<Longrightarrow> sequence_within base (commit_node step n n' acts r)"
  by (rule sequence_within_next [of base r "allocated r" "snd (next_sequence (state r))"])
    (auto simp: commit_node_def)

interpretation sequences: reducer_invariant
  "sequence_within base :: ('p, 'c, 'o, 'd) reduction \<Rightarrow> bool" for base :: "('c, 'o, 'd) runtime_state"
proof
  fix r r' :: "('p, 'c, 'o, 'd) reduction"
  assume "micro r r'" and "sequence_within base r"
  then show "sequence_within base r'"
  proof (induction rule: micro.induct)
    case (workflow r sequence st st' ev acts)
    then show ?case
      using workflow_step_frame [OF workflow(2)] next_sequence_frame [OF workflow(1)]
        workflow_step_numbers [OF workflow(2)]
      by - (rule sequence_within_next [OF workflow(3) workflow(1)], auto)
  next
    case (touch r step n n' acts)
    then show ?case
      by (simp add: sequence_within_def touch_node_def)
  qed (simp_all add: sequence_within_commit, simp_all add: sequence_within_def)
qed

section \<open>Blocking finalizers\<close>

text \<open>
  What holds of the prerequisites of every validated node: a body reference names an output, and
  there are at most as many as a blocked detail may list.
\<close>

definition references_ok :: "runtime_step \<Rightarrow> bool" where
  "references_ok d \<longleftrightarrow>
     length (evidence_prerequisites d) \<le> maximum_prerequisites \<and>
     list_all (\<lambda>p. case p of PBody r \<Rightarrow> is_output_reference r | _ \<Rightarrow> True) (evidence_prerequisites d)"

definition definition_references_ok :: "runtime_definition \<Rightarrow> bool" where
  "definition_references_ok def \<longleftrightarrow> list_all (\<lambda>(_, d). references_ok d) (def_steps def)"

lemma is_output_reference_nonempty: "is_output_reference r \<Longrightarrow> r \<noteq> []"
  by (auto simp: is_output_reference_def split: list.splits)

lemma body_prerequisites_all:
  "list_all is_output_reference refs \<Longrightarrow> body_prerequisites refs = map PBody refs"
  by (induction refs) (auto simp: body_prerequisites_def prerequisite_body_def List.map_filter_simps)

lemma blocked_detail_of_references:
  assumes "refs \<noteq> []" and "length refs \<le> maximum_prerequisites" and "list_all is_output_reference refs"
  shows "\<exists>detail. blocked_detail_new (body_prerequisites refs) = Inr detail"
proof -
  let ?ps = "dedup (sort (map PBody refs))"
  have "?ps \<noteq> []"
    using assms(1) set_dedup [of "sort (map PBody refs)"] by (metis list.map_disc_iff set_empty set_sort)
  moreover have "length ?ps \<le> maximum_prerequisites"
    using length_dedup_le [of "sort (map PBody refs)"] assms(2) by simp
  moreover have "\<not> list_ex (\<lambda>p. prerequisite_target p = [] \<or>
      (kind_of p \<noteq> PkControl \<and> \<not> is_output_reference (prerequisite_target p))) ?ps"
    using assms(3) is_output_reference_nonempty by (auto simp: list_ex_iff list_all_iff)
  ultimately show ?thesis
    by (simp add: blocked_detail_new_def Let_def body_prerequisites_all [OF assms(3)])
qed

lemma length_map_filter: "length (List.map_filter f xs) \<le> length xs"
  by (induction xs) (auto simp: List.map_filter_simps split: option.splits)

lemma unavailable_references_ok:
  assumes "references_ok d"
  shows "length (unavailable_references st d) \<le> maximum_prerequisites"
    and "list_all is_output_reference (unavailable_references st d)"
  using assms length_map_filter [of _ "evidence_prerequisites d"] le_trans
  unfolding references_ok_def unavailable_references_def
  by (blast, auto simp: list_all_iff List.map_filter_def split: prerequisite.splits option.splits if_splits)

lemma next_input_unavailable_ok:
  assumes "next_input_unavailable st = Some found" and "definition_references_ok (definition_of st)"
  shows "\<exists>detail. blocked_detail_new (body_prerequisites (snd found)) = Inr detail"
    and "\<exists>d. map_of (def_steps (definition_of st)) (fst found) = Some d"
proof -
  obtain s where "finalizer_input_unavailable st s = Some found"
    using find_map_SomeD [OF assms(1) [unfolded next_input_unavailable_def]] by blast
  then obtain d where d: "map_of (def_steps (definition_of st)) s = Some d"
    and found: "found = (s, unavailable_references st d)" "unavailable_references st d \<noteq> []"
    by (auto simp: finalizer_input_unavailable_def Let_def split: option.splits if_splits)
  have "references_ok d"
    using assms(2) d by (auto simp: definition_references_ok_def list_all_iff dest!: map_of_SomeD)
  then show "\<exists>detail. blocked_detail_new (body_prerequisites (snd found)) = Inr detail"
    using found unavailable_references_ok [of d st] by (auto intro: blocked_detail_of_references)
  show "\<exists>d. map_of (def_steps (definition_of st)) (fst found) = Some d"
    using d found by simp
qed

lemma block_finalizer_inputs_total:
  assumes "definition_references_ok (definition_of (state r))"
  shows "\<exists>r'. block_finalizer_inputs r = Some r'"
  using assms
proof (induction "pending_count (state r)" arbitrary: r rule: less_induct)
  case less
  show ?case
  proof (cases "next_input_unavailable (state r)")
    case None
    then show ?thesis
      by (subst block_finalizer_inputs.simps) simp
  next
    case (Some found)
    note ok = next_input_unavailable_ok [OF Some less.prems]
    obtain detail where detail: "blocked_detail_new (body_prerequisites (snd found)) = Inr detail"
      using ok(1) by blast
    obtain d where d: "map_of (def_steps (definition_of (state r))) (fst found) = Some d"
      using ok(2) by blast
    obtain n where n: "map_of (steps (state r)) (fst found) = Some n" "srs_state n = Pending"
      using Some by (rule next_input_unavailableD)
    have "definition_of (state (settle_blocked (fst found) detail r)) = definition_of (state r)"
      using micros_definition [OF settle_blocked_micros [OF n]] .
    then obtain r' where "block_finalizer_inputs (settle_blocked (fst found) detail r) = Some r'"
      using less.hyps [OF settle_blocked_decreases [OF d n], of detail] less.prems by metis
    then show ?thesis
      using Some detail by (subst block_finalizer_inputs.simps) simp
  qed
qed

lemma propagate_finalizer_total:
  assumes "definition_wf (definition_of (state r))"
    and "definition_references_ok (definition_of (state r))"
  shows "\<exists>r'. propagate_finalizer_dispositions r = Some r'"
  unfolding propagate_finalizer_dispositions_def
  using assms micros_definition [OF propagate_triggers_micros [of r]]
    micros_definition [OF block_finalizer_conditions_micros
      [of "propagate_finalizer_trigger_dispositions r"]]
  by (intro block_finalizer_inputs_total) simp

section \<open>The stabilizing loop\<close>

lemma stabilize_finalizers_total:
  assumes "definition_wf (definition_of (state r))"
    and "definition_references_ok (definition_of (state r))"
  shows "\<exists>r'. stabilize_finalizers ports r = Some r'"
proof (cases "ordinary_force_abort (state r)")
  case False
  obtain r1 where r1: "propagate_finalizer_dispositions r = Some r1"
    using propagate_finalizer_total [OF assms] by blast
  define r2 where "r2 = evaluate_ready_conditions ports RoleFinalizer r1"
  have "definition_of (state r2) = definition_of (state r)"
    unfolding r2_def using micros_definition [OF propagate_finalizer_micros [OF assms(1) r1]]
      micros_definition [OF evaluate_ready_conditions_micros] by metis
  then obtain r3 where "propagate_finalizer_dispositions r2 = Some r3"
    using propagate_finalizer_total [of r2] assms by auto
  then show ?thesis
    using False r1 by (simp add: stabilize_finalizers_def r2_def)
qed (simp add: stabilize_finalizers_def Let_def)

lemma stabilize_pass_total:
  "definition_wf (definition_of (state r)) \<Longrightarrow>
   definition_references_ok (definition_of (state r)) \<Longrightarrow> \<exists>r'. stabilize_pass ports r = Some r'"
  using stabilize_finalizers_total
  by (auto simp: stabilize_pass_def split: workflow_state.splits)

theorem stabilize_total:
  assumes "definition_wf (definition_of (state r))"
    and "definition_references_ok (definition_of (state r))"
  shows "\<exists>r'. stabilize ports r = Some r'"
  using assms
proof (induction "unat (maximum_transitions (definition_of (state r))) -
    unat (last_transition_sequence (state r))" arbitrary: r rule: less_induct)
  case less
  obtain r1 where r1: "stabilize_pass ports r = Some r1"
    using stabilize_pass_total [OF less.prems] by blast
  note steps = stabilize_pass_micros [OF less.prems(1) r1]
  show ?case
  proof (cases "last_transition_sequence (state r1) = last_transition_sequence (state r)")
    case True
    then show ?thesis
      using r1 by (subst stabilize.simps) simp
  next
    case False
    have "sequence_within (state r) r"
      by (simp add: sequence_within_def)
    then have "sequence_within (state r) r1"
      using sequences.micros_keep [OF steps] by blast
    then have "definition_of (state r1) = definition_of (state r)"
      and "last_transition_sequence (state r) < last_transition_sequence (state r1)"
      and "last_transition_sequence (state r1) \<le> maximum_transitions (definition_of (state r))"
      using False by (auto simp: sequence_within_def)
    then obtain r' where "stabilize ports r1 = Some r'"
      using less.hyps [of r1] less.prems
      by (auto simp: word_less_nat_alt word_le_nat_alt diff_less_mono2)
    then show ?thesis
      using r1 False by (subst stabilize.simps) simp
  qed
qed

lemma apply_occurrence_definition:
  assumes "definition_wf (definition_of (state r))" and "\<not> workflow_terminal (workflow (state r))"
    and "apply_occurrence ports occurrence r = (accepted, r')"
  shows "definition_of (state r') = definition_of (state r)"
  using micros_definition [OF apply_occurrence_micros] assms by metis

theorem reduce_total:
  fixes ports :: "('p, 'c, 'o) runtime_ports" and st :: "('c, 'o, 'd) runtime_state"
  assumes "definition_wf (definition_of st)" and "definition_references_ok (definition_of st)"
  shows "\<exists>r. reduce ports st occurrence = Some r"
proof (cases "workflow_terminal (workflow st)")
  case False
  define r0 :: "('p, 'c, 'o, 'd) reduction" where "r0 = \<lparr>state = st, events = [], actions = [], occurrence_accepted = False\<rparr>"
  obtain accepted r1 where r1: "apply_occurrence ports occurrence r0 = (accepted, r1)"
    by (cases "apply_occurrence ports occurrence r0")
  have "definition_of (state r1) = definition_of st"
    using apply_occurrence_definition [OF _ _ r1] assms(1) False by (simp add: r0_def)
  then obtain r where "stabilize ports (r1\<lparr>occurrence_accepted := True\<rparr>) = Some r"
    using stabilize_total [of "r1\<lparr>occurrence_accepted := True\<rparr>" ports] assms by auto
  then show ?thesis
    using False r1 by (simp add: reduce_def r0_def)
qed (simp add: reduce_def)

theorem initialize_total:
  fixes ports :: "('p, 'c, 'o) runtime_ports" and cancellation :: "'d initial_cancellation option"
  assumes "definition_wf def" and "definition_references_ok def"
  shows "\<exists>r. initialize_seeded_definition ports def cancellation seed = Some r"
proof -
  define r0 :: "('p, 'c, 'o, 'd) reduction" where
    "r0 = \<lparr>state = initial_state def seed, events = [], actions = [], occurrence_accepted = True\<rparr>"
  define r1 where "r1 = (case cancellation of
       None \<Rightarrow> r0
     | Some (InitialGraceful request operation) \<Rightarrow> snd (apply_cancellation request operation r0)
     | Some (InitialForceAbort operation deadline) \<Rightarrow> snd (apply_force_abort operation deadline r0))"
  have def0: "definition_of (state r0) = def"
    by (simp add: r0_def initial_state_def)
  then have wf0: "definition_wf (definition_of (state r0))"
    using assms(1) by simp
  have "micros r0 r1"
    using apply_cancellation_refines [OF wf0] apply_force_abort_refines [OF wf0]
    by (auto simp: r1_def split: option.split initial_cancellation.split) (metis prod.collapse)+
  then have "definition_of (state r1) = def"
    using micros_definition def0 by metis
  then have "\<exists>r. stabilize ports r1 = Some r"
    using stabilize_total [of r1 ports] assms by simp
  then show ?thesis
    unfolding initialize_seeded_definition_def r1_def r0_def Let_def .
qed

end
