(* ===== verification/Runtime_Samples.thy ===== *)
theory Runtime_Samples
  imports Run_Capacity Runtime_Termination
begin

text \<open>
  A small workflow and its complete run, on which the properties of the reducer are exercised: two
  steps, the second controlled by the first, and a finalizer.  The artifacts of a step are not
  inspected by the reducer, so the ports answer trivially.
\<close>

section \<open>Replaying occurrences\<close>

fun reduce_all ::
  "('p, 'c, 'o) runtime_ports \<Rightarrow> ('p, 'c, 'o, 'd) reduction \<Rightarrow> ('p, 'c, 'o, 'd) occurrence list \<Rightarrow>
   ('p, 'c, 'o, 'd) reduction option" where
  "reduce_all ports r [] = Some r"
| "reduce_all ports r (occurrence # rest) =
     (case reduce ports (state r) occurrence of
        None \<Rightarrow> None
      | Some r' \<Rightarrow> reduce_all ports (prepend (events r) (actions r) r') rest)"

definition replay ::
  "('p, 'c, 'o) runtime_ports \<Rightarrow> runtime_definition \<Rightarrow> 'd initial_cancellation option \<Rightarrow>
   'o execution_seed \<Rightarrow> ('p, 'c, 'o, 'd) occurrence list \<Rightarrow> ('p, 'c, 'o, 'd) reduction option" where
  "replay ports def cancellation seed occurrences =
     (case initialize_seeded_definition ports def cancellation seed of
        None \<Rightarrow> None
      | Some r \<Rightarrow> reduce_all ports r occurrences)"

lemma reduce_all_run:
  "run ports def cancellation seed r \<Longrightarrow> reduce_all ports r occurrences = Some r' \<Longrightarrow>
   run ports def cancellation seed r'"
  by (induction ports r occurrences rule: reduce_all.induct)
    (auto split: option.splits intro: run.reduce)

lemma replay_run:
  "replay ports def cancellation seed occurrences = Some r \<Longrightarrow> run ports def cancellation seed r"
  by (auto simp: replay_def split: option.splits intro: reduce_all_run run.initialize)

section \<open>A sample workflow\<close>

definition sample_ports :: "(unit, unit, string) runtime_ports" where
  "sample_ports =
     \<lparr>requires_release = (\<lambda>_. False),
      node_failure_detail = (\<lambda>_ phase. Inr (failure_detail_code phase (RunCode FcCommandExit))),
      condition_text = Some, condition_json = (\<lambda>_. None),
      json_to_vec = (\<lambda>_. ''''), json_from_slice = (\<lambda>_. None)\<rparr>"

definition sample_step :: runtime_step where
  "sample_step =
     \<lparr>role = RoleStep, is_agent = False, failure_policy = Required, condition = None,
      condition_values = [], prerequisites = [], evidence_prerequisites = [], inputs = [],
      declared_outputs = [], step_recovery_policy = None, when_triggers = []\<rparr>"

definition after_step :: "string \<Rightarrow> resolved_direct_prerequisite" where
  "after_step s =
     \<lparr>producer = s, control = True, disposition_control = False, data = False,
      condition_data = False\<rparr>"

definition sample_definition :: runtime_definition where
  "sample_definition =
     \<lparr>def_steps =
        [(''a'', sample_step),
         (''b'', sample_step\<lparr>prerequisites := [after_step ''a'']\<rparr>),
         (''z'', sample_step\<lparr>role := RoleFinalizer, when_triggers := [FtSucceeded]\<rparr>)],
      ordinary_ids = [''a'', ''b''], finalizer_ids = [''z''],
      finalizer_presentation_order = [''z''], def_exports = [],
      maximum_parallel_steps = 1, maximum_transitions = 21, text_inputs = [], json_inputs = []\<rparr>"

definition sample_occurrences :: "(unit, unit, string, nat) occurrence list" where
  "sample_occurrences =
     [StepStarted ''a'' (ActionId 1), StepExecutionCompleted ''a'' (ActionId 1) (),
      StepStarted ''b'' (ActionId 5), StepExecutionCompleted ''b'' (ActionId 5) (),
      StepStarted ''z'' (ActionId 10), StepExecutionCompleted ''z'' (ActionId 10) ()]"

definition sample_run :: "(unit, unit, string, nat) reduction" where
  "sample_run =
     the (replay sample_ports sample_definition None execution_seed_empty sample_occurrences)"

text \<open>The state before the last occurrence, in which the finalizer runs.\<close>

definition sample_active :: "(unit, unit, string, nat) reduction" where
  "sample_active =
     the (replay sample_ports sample_definition None execution_seed_empty (take 5 sample_occurrences))"

lemma sample_wf: "definition_wf sample_definition"
  by (auto simp: definition_wf_def sample_definition_def sample_step_def)

lemma sample_references: "definition_references_ok sample_definition"
  by (simp add: definition_references_ok_def references_ok_def sample_definition_def sample_step_def)

lemma sample_limits [simp]:
  "maximum_parallel_steps sample_definition = 1" "maximum_transitions sample_definition = 21"
  by (simp_all add: sample_definition_def)

lemma sample_replay_ends:
  "case replay sample_ports sample_definition None execution_seed_empty sample_occurrences of
     None \<Rightarrow> False
   | Some r \<Rightarrow> workflow (state r) = WfSucceeded \<and> \<not> transition_capacity_exceeded (state r) \<and>
       length (events r) = 14 \<and> length (actions r) = 4 \<and>
       list_all (\<lambda>(_, n). srs_state n = Succeeded []) (steps (state r))"
  by code_simp

lemma sample_replay_active:
  "case replay sample_ports sample_definition None execution_seed_empty (take 5 sample_occurrences) of
     None \<Rightarrow> False
   | Some r \<Rightarrow> workflow (state r) = Finalizing FtSucceeded FgOpen None \<and>
       map (\<lambda>(s, n). (s, kind (srs_state n))) (steps (state r)) =
         [(''a'', KSucceeded), (''b'', KSucceeded), (''z'', KRunning)]"
  by code_simp

lemma sample_run_facts:
  "run sample_ports sample_definition None execution_seed_empty sample_run"
  "workflow (state sample_run) = WfSucceeded"
  "\<not> transition_capacity_exceeded (state sample_run)"
  "length (events sample_run) = 14"
  using sample_replay_ends replay_run
  by (force simp: sample_run_def split: option.splits)+

lemma sample_active_facts:
  "run sample_ports sample_definition None execution_seed_empty sample_active"
  "workflow (state sample_active) = Finalizing FtSucceeded FgOpen None"
  "map (\<lambda>(s, n). (s, kind (srs_state n))) (steps (state sample_active)) =
     [(''a'', KSucceeded), (''b'', KSucceeded), (''z'', KRunning)]"
  using sample_replay_active replay_run
  by (force simp: sample_active_def split: option.splits)+

section \<open>A validated workflow\<close>

definition sample_common :: validated_common_step where
  "sample_common =
     \<lparr>vc_failure_policy = Required, vc_condition = None, vc_condition_values = [],
      vc_prerequisites = [], vc_evidence_prerequisites = [], vc_cwd = None, vc_outputs = []\<rparr>"

definition sample_workflow :: "(string, validated_output) btree_map \<Rightarrow> validated_workflow" where
  "sample_workflow outputs =
     \<lparr>vw_schema_version = 1, vw_description = None,
      vw_steps = [(''a'', VCommand
        \<lparr>vcs_common = sample_common\<lparr>vc_outputs := outputs\<rparr>,
         vcs_inputs = [], vcs_argv = [''true'']\<rparr>)],
      vw_recoveries = [(''a'', None)], vw_source_order = [''a''], vw_presentation_order = [''a''],
      vw_finalizers = [], vw_finalizer_source_order = [], vw_finalizer_presentation_order = [],
      vw_exports = [], vw_required_inputs = [], vw_input_json_schema_paths = [],
      vw_input_file_media_types = []\<rparr>"

definition sample_digest :: workflow_content_digest where
  "sample_digest = \<lparr>cd_algorithm = Sha256, cd_value = ''00''\<rparr>"

end
