(* ===== verification/Runtime_Properties.thy ===== *)
theory Runtime_Properties
  imports Runtime_Samples
begin

text \<open>
  The properties of the workflow reducer and of the capacity of a run.  Each is stated of a whole run,
  that is of the initial reduction and any sequence of occurrences after it, or of one reduction.
\<close>

section \<open>Shared facts\<close>

text \<open>The invariants hold of every initial state.\<close>

lemma initial_node_ok: "node_ok (initial_step_state seed s d)"
  by (auto simp: initial_step_state_def Let_def node_ok_def recovery_ok_def rounds_shape_def
      recovery_shape_def split: option.splits)

lemma initial_lookup:
  "map_of (steps (initial_state def seed)) s = Some n \<Longrightarrow> \<exists>d. n = initial_step_state seed s d"
  by (auto simp: initial_state_def dest!: map_of_SomeD)

lemma initial_nodes_ok: "nodes_ok (fresh_reduction accepted (initial_state def seed))"
  by (auto simp: nodes_ok_def initial_node_ok dest!: initial_lookup)

lemma initial_inactive: "\<not> is_active (srs_state (initial_step_state seed s d))"
  by (auto simp: initial_step_state_def Let_def split: option.splits)

lemma initial_active_count: "active_count (initial_state def seed) = 0"
  by (auto simp: active_count_def bt_values_def initial_state_def filter_empty_conv initial_inactive)

lemma initial_parallelism: "parallelism_bounded (fresh_reduction accepted (initial_state def seed))"
  by (simp add: parallelism_bounded_def initial_active_count)

lemma initial_phases: "phases_ok (initial_state def seed)"
  by (simp add: phases_ok_def initial_state_def)

lemma initial_undispatched: "\<not> dispatched (srs_state (initial_step_state seed s d))"
  by (auto simp: initial_step_state_def Let_def split: option.splits)

lemma initial_dispatch: "dispatch_justified (fresh_reduction accepted (initial_state def seed))"
  by (auto simp: dispatch_justified_def initial_phases initial_undispatched dest!: initial_lookup)

lemma run_state_wf: "definition_wf def \<Longrightarrow> run ports def cancellation seed r \<Longrightarrow> state_wf (state r)"
  using micros_wf [OF run_micros] by (fastforce simp: initial_state_def state_wf_def split_beta comp_def)

lemma all_terminal_nodes:
  assumes "state_wf st" and "all_terminal st (ordinary_ids (definition_of st))"
    and "all_terminal st (finalizer_ids (definition_of st))" and "map_of (steps st) s = Some n"
  shows "is_terminal (srs_state n)"
proof -
  obtain d where "map_of (def_steps (definition_of st)) s = Some d"
    using state_wf_lookup [OF assms(1), of s] assms(4) by auto
  then have "s \<in> set (ordinary_ids (definition_of st)) \<or> s \<in> set (finalizer_ids (definition_of st))"
    using assms(1) by (cases "role d") (auto simp: state_wf_def definition_wf_def)
  then show ?thesis
    using assms(2-4) by (auto simp: all_terminal_def list_all_iff state_in_def)
qed

section \<open>Refinement\<close>

text \<open>
  C1: Every run of the reducer is a sequence of steps of the transition system \<open>micro\<close>: each write,
  event and action of \<open>initialize_seeded_definition\<close> and of \<open>reduce\<close> belongs to a node transition, a
  workflow transition or a bookkeeping step whose guard holds.
\<close>

theorem run_refines:
  assumes "definition_wf def" and "run ports def cancellation seed r"
  shows "micros (fresh_reduction True (initial_state def seed)) r"
  by (rule run_micros [OF assms])

theorem run_refines_witness:
  "micros (fresh_reduction True (initial_state sample_definition execution_seed_empty)) sample_run \<and>
   workflow (state sample_run) = WfSucceeded"
  using run_refines [OF sample_wf sample_run_facts(1)] sample_run_facts(2) by simp

section \<open>Termination\<close>

text \<open>
  C4: The reducer returns for every occurrence and every state, whatever the capacity, of a well-formed
  definition whose body references are output references that a blocked detail can list.  Without
  that, the loop that blocks finalizers on unavailable inputs can repeat forever.
\<close>

theorem reduce_returns:
  assumes "definition_wf (definition_of st)" and "definition_references_ok (definition_of st)"
  shows "\<exists>r. reduce ports st occurrence = Some r"
  by (rule reduce_total [OF assms])

theorem reduce_returns_witness:
  "\<exists>r. reduce sample_ports (initial_state sample_definition execution_seed_empty)
     (StepStarted ''a'' (ActionId 1) :: (unit, unit, string, nat) occurrence) = Some r"
  by (rule reduce_returns) (simp_all add: initial_state_def sample_wf sample_references)

section \<open>Nodes\<close>

text \<open>
  C23: A node that is terminal keeps its state through every later reduction: no occurrence, however
  late, changes what has been decided.
\<close>

theorem terminal_nodes_final:
  assumes "definition_wf (definition_of st)" and "reduce ports st occurrence = Some r"
    and "map_of (steps st) s = Some n" and "is_terminal (srs_state n)"
  shows "\<exists>n'. map_of (steps (state r)) s = Some n' \<and> srs_state n' = srs_state n"
  using terminal.reduce_keeps [of st ports occurrence r st] assms terminal_kept_refl
  by (auto simp: terminal_kept_def)

theorem terminal_nodes_final_witness:
  "\<exists>r n. reduce sample_ports (state sample_active) (StepQuiesced ''a'' (ActionId 1)) = Some r \<and>
     map_of (steps (state r)) ''a'' = Some n \<and> kind (srs_state n) = KSucceeded"
proof -
  have wf: "definition_of (state sample_active) = sample_definition"
    using run_definition [OF sample_wf sample_active_facts(1)] .
  obtain n where n: "map_of (steps (state sample_active)) ''a'' = Some n" "kind (srs_state n) = KSucceeded"
    using sample_active_facts(3) by (auto simp: map_eq_Cons_conv)
  then have "is_terminal (srs_state n)"
    by (cases "srs_state n") auto
  moreover obtain r where r: "reduce sample_ports (state sample_active) (StepQuiesced ''a'' (ActionId 1)) = Some r"
    using reduce_total [of "state sample_active"] wf sample_wf sample_references by auto
  ultimately show ?thesis
    using terminal_nodes_final [OF _ r n(1)] wf sample_wf n(2) by auto
qed

text \<open>
  C24: Every event of a run records a legal transition: a node only moves along the edges of
  \<open>legal_transition\<close>, and the workflow leaves no terminal state.
\<close>

theorem run_events_legal:
  assumes "definition_wf def" and "run ports def cancellation seed r"
  shows "list_all legal_event (events r)"
  using legal.run_keeps [OF assms] by (simp add: events_legal_def)

theorem run_events_legal_witness:
  "list_all legal_event (events sample_run) \<and> length (events sample_run) = 14"
  using run_events_legal [OF sample_wf sample_run_facts(1)] sample_run_facts(4) by simp

text \<open>
  C8: Every node of every run is consistent: a node has a current action and an active invocation
  exactly while it is active, the execution under way is one more than the recovery rounds spent, the
  rounds are numbered from one without a gap, and there are never more than were configured.
\<close>

theorem run_nodes_consistent:
  assumes "definition_wf def" and "run ports def cancellation seed r"
    and "map_of (steps (state r)) s = Some n"
  shows "node_ok n"
  using nodes.run_keeps [OF assms(1,2) initial_nodes_ok] assms(3) by (simp add: nodes_ok_def)

theorem run_nodes_consistent_witness:
  "case map_of (steps (state sample_active)) ''z'' of
     None \<Rightarrow> False | Some n \<Rightarrow> node_ok n \<and> srs_state n = Running"
proof -
  obtain n where "map_of (steps (state sample_active)) ''z'' = Some n" "srs_state n = Running"
    using sample_active_facts(3) by (auto simp: map_eq_Cons_conv)
  then show ?thesis
    using run_nodes_consistent [OF sample_wf sample_active_facts(1)] by auto
qed

text \<open>
  C7: The nodes that occupy a slot never outnumber the parallelism of the definition.
\<close>

theorem run_parallelism:
  assumes "definition_wf def" and "run ports def cancellation seed r"
  shows "active_count (state r) \<le> maximum_parallel_steps def"
  using parallelism.run_keeps [OF assms initial_parallelism] run_definition [OF assms]
  by (simp add: parallelism_bounded_def)

theorem run_parallelism_witness:
  "active_count (state sample_active) \<le> maximum_parallel_steps sample_definition \<and>
   maximum_parallel_steps sample_definition = 1"
  using run_parallelism [OF sample_wf sample_active_facts(1)]
  by simp

section \<open>Events and actions\<close>

text \<open>
  C10: While a run has not exceeded its capacity, which lies below the last 64-bit number, its events are
  numbered from one without a gap or a repetition, and the last number is the one the state carries.
\<close>

theorem run_events_numbered:
  assumes "definition_wf def" and "run ports def cancellation seed r"
    and "unat (maximum_transitions def) < 2 ^ 64 - 1"
    and "\<not> transition_capacity_exceeded (state r)"
  shows "map (unat \<circ> ev_sequence) (events r) = [1 ..< Suc (length (events r))] \<and>
    unat (last_transition_sequence (state r)) = length (events r)"
  using numbers.run_keeps [OF assms(1,2), of 0] assms(3,4)
  by (simp_all add: events_numbered_def initial_state_def)

theorem run_events_numbered_witness:
  "map (unat \<circ> ev_sequence) (events sample_run) = [1 ..< 15] \<and>
   unat (last_transition_sequence (state sample_run)) = 14"
  using run_events_numbered [OF sample_wf sample_run_facts(1) _ sample_run_facts(3)]
    sample_run_facts(4)
  by simp

text \<open>
  C11: While a run has not exceeded its capacity, which lies below the last 64-bit number, the actions that
  a transition identifies, which are all but the release of resources and the actions of a force abort,
  are requested in strictly ascending order of that transition.
\<close>

theorem run_requests_ordered:
  assumes "definition_wf def" and "run ports def cancellation seed r"
    and "unat (maximum_transitions def) < 2 ^ 64 - 1"
    and "\<not> transition_capacity_exceeded (state r)"
  shows "sorted_wrt (<) (request_numbers (actions r))"
  using requests.run_keeps [OF assms(1,2)] assms(3,4)
  by (simp add: requests_ordered_def initial_state_def)

theorem run_requests_ordered_witness: "sorted_wrt (<) (request_numbers (actions sample_run))"
  using run_requests_ordered [OF sample_wf sample_run_facts(1) _ sample_run_facts(3)]
  by simp

section \<open>Completion\<close>

text \<open>
  C5: A run that has ended left nothing behind: every node is terminal, and exactly one final action
  was requested; a run that has not ended requested none.
\<close>

theorem run_finishes_once:
  assumes "definition_wf def" and "run ports def cancellation seed r"
  shows "finishes (actions r) = (if workflow_terminal (workflow (state r)) then 1 else 0) \<and>
    (workflow_terminal (workflow (state r)) \<longrightarrow>
       (\<forall>s n. map_of (steps (state r)) s = Some n \<longrightarrow> is_terminal (srs_state n)))"
proof (intro conjI impI allI)
  show "finishes (actions r) = (if workflow_terminal (workflow (state r)) then 1 else 0)"
    using finished.run_keeps [OF assms]
    by (simp add: finished_once_def initial_state_def workflow_terminal_def)
  fix s n
  assume "workflow_terminal (workflow (state r))" and n: "map_of (steps (state r)) s = Some n"
  moreover have "phases_ok (state r)"
    using phases.run_keeps [OF assms] by (simp add: initial_phases)
  ultimately show "is_terminal (srs_state n)"
    by - (rule all_terminal_nodes [OF run_state_wf [OF assms] _ _ n],
        auto simp: phases_ok_def elim!: workflow_terminal_cases)
qed

theorem run_finishes_once_witness:
  "finishes (actions sample_run) = 1 \<and> finishes (actions sample_active) = 0"
  using run_finishes_once [OF sample_wf sample_run_facts(1)]
    run_finishes_once [OF sample_wf sample_active_facts(1)]
    sample_run_facts(2) sample_active_facts(2)
  by (simp add: workflow_terminal_def)

section \<open>Dispatch\<close>

text \<open>
  C6: Whatever a run has dispatched, its prerequisites hold, and keep holding: an ordinary node had
  every control, data and disposition prerequisite satisfied, and a finalizer had its prerequisites
  settled, its inputs available and its trigger selected.
\<close>

theorem run_dispatch_justified:
  assumes "definition_wf def" and "run ports def cancellation seed r"
    and "map_of (steps (state r)) s = Some n" and "dispatched (srs_state n)"
  shows "justified (state r) s"
  using dispatch.run_keeps [OF assms(1,2) initial_dispatch] assms(3,4)
  by (auto simp: dispatch_justified_def)

theorem run_dispatch_justified_witness: "justified (state sample_active) ''z''"
proof -
  obtain n where "map_of (steps (state sample_active)) ''z'' = Some n" "srs_state n = Running"
    using sample_active_facts(3) by (auto simp: map_eq_Cons_conv)
  then show ?thesis
    using run_dispatch_justified [OF sample_wf sample_active_facts(1)] by auto
qed

text \<open>
  When a gate is closed for good, as the phases of a workflow say it: the ordinary gate by a failure, a
  cancellation or the end of the ordinary phase; the gate of the finalizers by any cancellation of the
  finalization, by the end of the run, or by a force abort before the finalization began.
\<close>

definition gate_closed :: "workflow_node_role \<Rightarrow> ('c, 'o, 'd) runtime_state \<Rightarrow> bool" where
  "gate_closed the_role st \<longleftrightarrow>
     (case the_role of
        RoleStep \<Rightarrow> (case workflow st of Executing gate \<Rightarrow> gate \<noteq> GateOpen | _ \<Rightarrow> True)
      | RoleFinalizer \<Rightarrow>
          (case workflow st of
             Executing _ \<Rightarrow> map_option fae_phase (force_abort st) = Some CancelOrdinary
           | Finalizing _ gate _ \<Rightarrow> gate \<noteq> FgOpen
           | _ \<Rightarrow> True))"

lemma gate_closed_stays: "gate_closed the_role st \<Longrightarrow> gate_stays the_role st"
  by (cases the_role)
    (auto simp: gate_closed_def gate_stays_def selection_gate_open_def ordinary_force_abort_def
      split: workflow_state.splits scheduling_gate.splits finalization_gate.splits)

text \<open>
  C9: Once the gate of a phase has closed, no reduction starts a pending node of the phase: steps after
  a failure, a cancellation or an abort of the ordinary phase, finalizers after a graceful or forced
  cancellation of the finalization, or after a force abort that came before it.
\<close>

theorem closed_gate_stops_starts:
  assumes "definition_wf (definition_of st)" and "gate_closed the_role st"
    and "reduce ports st occurrence = Some r"
    and "s \<in> set (condition_ids st the_role)" and "map_of (steps st) s = Some n"
    and "srs_state n = Pending"
  shows "\<not> state_in (state r) s dispatched"
proof -
  have base: "starts_stopped the_role st (fresh_reduction False st)"
    using assms(1) gate_closed_stays [OF assms(2)] by (auto simp: starts_stopped_def state_in_def)
  have "definition_of (state r) = definition_of st"
    using micros_definition [OF reduce_micros [OF assms(1,3)]] by simp
  then have "s \<in> set (condition_ids (state r) the_role)"
    using assms(4) condition_ids_cong by metis
  then show ?thesis
    using stopped.reduce_keeps [OF assms(1,3) base] assms(5,6)
    by (auto simp: starts_stopped_def)
qed

text \<open>The sample workflow, cancelled before it starts.\<close>

lemma cancelled_sample:
  fixes st :: "(unit, string, nat) runtime_state"
  assumes "st = (initial_state sample_definition execution_seed_empty)
    \<lparr>workflow := Executing (GateCancelling UserRequest None)\<rparr>"
  shows "definition_of st = sample_definition" "gate_closed RoleStep st"
    "''a'' \<in> set (condition_ids st RoleStep)"
    "\<exists>n. map_of (steps st) ''a'' = Some n \<and> srs_state n = Pending"
  by (simp_all add: assms initial_state_def gate_closed_def
      condition_ids_def sample_definition_def initial_step_state_def execution_seed_empty_def Let_def)

theorem closed_gate_stops_starts_witness:
  "\<exists>r. reduce sample_ports ((initial_state sample_definition execution_seed_empty)
       \<lparr>workflow := Executing (GateCancelling UserRequest None)\<rparr>)
       (StepStarted ''a'' (ActionId 1) :: (unit, unit, string, nat) occurrence) = Some r \<and>
     \<not> state_in (state r) ''a'' dispatched"
proof -
  let ?st = "(initial_state sample_definition execution_seed_empty :: (unit, string, nat) runtime_state)
    \<lparr>workflow := Executing (GateCancelling UserRequest None)\<rparr>"
  note facts = cancelled_sample [OF refl]
  obtain r where r: "reduce sample_ports ?st (StepStarted ''a'' (ActionId 1)) = Some r"
    using reduce_total [of ?st] facts(1) sample_wf sample_references by metis
  then show ?thesis
    using closed_gate_stops_starts [OF _ facts(2) r facts(3)] facts(1,4) sample_wf by auto
qed

section \<open>Capacity\<close>

lemma sample_workflow_wf: "workflow_wf (sample_workflow outs)"
  by (simp add: workflow_wf_def sample_workflow_def bt_wf_def bt_keys_def bt_contains_key_def)

lemma sample_workflow_capacity:
  "case resolve_workflow_capacity (sample_workflow []) sample_digest 100 of
     Inl _ \<Rightarrow> False
   | Inr cap \<Rightarrow> general_maximum_transitions (requirements cap) = 8 \<and>
       admit_capacity (Some sample_digest) sample_digest cap supported_maximum General =
         Inr \<lparr>ac_resolved = cap, ac_execution_contract = General, ac_maximum_transitions = 8\<rparr>"
  by code_simp

lemma sample_workflow_references:
  "definition_references_ok (from_admitted (sample_workflow outs) parallel transitions vs)"
  by (simp add: definition_references_ok_def references_ok_def from_admitted_def from_workflow_def
      sample_workflow_def bt_collect_def runtime_step_def Let_def common_step_def sample_common_def)

text \<open>
  C2: A workflow admitted under the general contract never exceeds the transitions it was admitted
  with: the computed capacity covers every run, with any recovery, cancellation and abort.
\<close>

theorem admitted_run_within_capacity:
  assumes "workflow_wf vw" and "resolve_workflow_capacity vw digest bytes = Inr cap"
    and "admit_capacity digested content_digest cap budget General = Inr admitted"
    and "run ports (from_admitted vw parallel (ac_maximum_transitions admitted) vs)
      cancellation seed r"
  shows "\<not> transition_capacity_exceeded (state r) \<and>
    length (events r) \<le> unat (ac_maximum_transitions admitted)"
proof -
  let ?def = "from_admitted vw parallel (ac_maximum_transitions admitted) vs"
  note def_wf = from_admitted_wf [OF assms(1), of parallel "ac_maximum_transitions admitted" vs]
  have "unat (ac_maximum_transitions admitted) < 2 ^ 64 - 1"
    using admit_capacity_selects [OF assms(3)] resolved_capacity_bounds(1,2) [OF assms(2)]
    by (simp split: if_splits)
  moreover have left: "capacity_left r"
    by (rule capacity.run_keeps [OF def_wf assms(4) admitted_capacity_left [OF assms(1-3) refl]])
  ultimately show ?thesis
    using numbers.run_keeps [OF def_wf assms(4), of 0] run_definition [OF def_wf assms(4)]
    by (simp add: capacity_left_def events_numbered_def initial_state_def)
qed

theorem admitted_run_within_capacity_witness:
  "\<exists>r :: (unit, unit, string, nat) reduction.
     run sample_ports (from_admitted (sample_workflow []) 1 8 []) None execution_seed_empty r \<and>
     \<not> transition_capacity_exceeded (state r) \<and> length (events r) \<le> 8"
proof -
  let ?def = "from_admitted (sample_workflow []) 1 8 []"
  obtain cap where cap: "resolve_workflow_capacity (sample_workflow []) sample_digest 100 = Inr cap"
    and admitted: "admit_capacity (Some sample_digest) sample_digest cap supported_maximum General =
         Inr \<lparr>ac_resolved = cap, ac_execution_contract = General, ac_maximum_transitions = 8\<rparr>"
    using sample_workflow_capacity by (auto split: sum.splits)
  obtain r :: "(unit, unit, string, nat) reduction" where
    "initialize_seeded_definition sample_ports ?def None execution_seed_empty = Some r"
    using initialize_total [OF from_admitted_wf [OF sample_workflow_wf] sample_workflow_references]
    by metis
  then have "run sample_ports ?def None execution_seed_empty r"
    by (rule run.initialize)
  then show ?thesis
    using admitted_run_within_capacity [OF sample_workflow_wf cap admitted,
        of sample_ports 1 "[]" None execution_seed_empty r]
    by auto
qed

text \<open>
  C25: The budget every executor supports covers every workflow whose capacity can be computed, under
  the general contract.
\<close>

theorem supported_budget_suffices:
  assumes "resolve_workflow_capacity vw digest bytes = Inr cap"
  shows "\<exists>admitted. admit_capacity (Some digest) digest cap supported_maximum General = Inr admitted \<and>
    ac_maximum_transitions admitted = general_maximum_transitions (requirements cap)"
  using supported_maximum_admits [OF assms] by simp

theorem supported_budget_suffices_witness:
  "\<exists>cap admitted. resolve_workflow_capacity (sample_workflow []) sample_digest 100 = Inr cap \<and>
     admit_capacity (Some sample_digest) sample_digest cap supported_maximum General = Inr admitted \<and>
     ac_maximum_transitions admitted = 8"
proof -
  obtain cap where "resolve_workflow_capacity (sample_workflow []) sample_digest 100 = Inr cap"
    "general_maximum_transitions (requirements cap) = 8"
    using sample_workflow_capacity by (auto split: sum.splits)
  then show ?thesis
    using supported_budget_suffices [of "sample_workflow []" sample_digest 100 cap] by auto
qed

text \<open>
  C26: A computed capacity satisfies the contract that the replay of results checks, unless the
  workflow has conditions and its outbox reservation exceeds the limit of the contract.
\<close>

theorem resolved_capacity_valid:
  assumes "resolve_workflow_capacity vw digest bytes = Inr cap"
  shows "valid_condition_capacity (capacity_bounds_of cap) \<longleftrightarrow>
    conditional_nodes vw = 0 \<or>
    encoded_outbox_bytes (requirements cap) \<le> MAXIMUM_ENCODED_OUTBOX_BYTES"
  using resolved_plain_valid [OF assms] resolved_conditional_valid [OF assms] by blast

theorem resolved_capacity_valid_witness:
  "\<exists>cap. resolve_workflow_capacity (sample_workflow []) sample_digest 100 = Inr cap \<and>
     valid_condition_capacity (capacity_bounds_of cap)"
proof -
  obtain cap where "resolve_workflow_capacity (sample_workflow []) sample_digest 100 = Inr cap"
    using sample_workflow_capacity by (auto split: sum.splits)
  moreover have "conditional_nodes (sample_workflow []) = 0"
    by code_simp
  ultimately show ?thesis
    using resolved_capacity_valid [of "sample_workflow []" sample_digest 100 cap] by auto
qed

end
