(* ===== verification/Validation.thy ===== *)
theory Validation
  imports Workflow_Types
begin

text \<open>
  Validation of a workflow document (\<^verbatim>\<open>crates/execution/src/workflow/validation.rs\<close>): namespaces,
  condition bounds, the dependency graphs of steps and finalizers, output rules, and the resolution of
  every reference into the validated workflow the engine compiles.
\<close>

section \<open>Limits and failures\<close>

definition MAXIMUM_WORKFLOW_NODES :: nat where
  "MAXIMUM_WORKFLOW_NODES = 256"

definition MAXIMUM_CONDITION_DEPTH :: nat where
  "MAXIMUM_CONDITION_DEPTH = 16"

definition MAXIMUM_CONDITION_NODES :: nat where
  "MAXIMUM_CONDITION_NODES = 256"

definition MAXIMUM_CONDITION_CHILDREN :: nat where
  "MAXIMUM_CONDITION_CHILDREN = 64"

definition MAXIMUM_WORKFLOW_CONDITION_NODES :: nat where
  "MAXIMUM_WORKFLOW_CONDITION_NODES = 4096"

datatype validation_failure_kind =
    MissingDependency | SelfDependency | DuplicateDependency | DependencyCycle
  | InvalidAgentProfileConfig | UnknownAgentProfile | UnknownInput | UnknownOutputStep
  | UnknownOutput | MessageTypeMismatch | TerminalOutputReference | IllegalCommandOutput
  | ExcessAgentResponseOutput | ExcessAgentResultOutput | ConflictingAgentValueOutputs
  | ExcessWorkspaceOutput | DuplicateOutputPath | AdvisoryDataDependency | InvalidExportTarget
  | AdvisoryExportTarget | TooManyNodes | DuplicateNodeId | InvalidSourceOrder
  | CrossPhaseOutputReference | InvalidFinalizerAfterTarget | InvalidFinalizerTrigger
  | IncompatibleFinalizerTriggers | InvalidFinalizationContext | FinalizerExportTrigger
  | TooManyPrerequisites | InvalidCondition | InvalidConditionReference | InvalidConditionType
  | InvalidPointer | ConditionDepthExceeded | ConditionNodeLimitExceeded
  | ConditionChildLimitExceeded | WorkflowConditionNodeLimitExceeded

datatype validation_location =
    LocWorkflowGraph
  | LocWorkflowNamespace
  | LocAgentProfile string
  | LocAgentProfileReference string
  | LocRecoveryAgentProfileReference string
  | LocFinalizerAgentProfileReference string
  | LocStepDependency string nat
  | LocStepInput string string
  | LocMessageText string nat
  | LocMessageAttachment string nat
  | LocStepOutput string string
  | LocStepCondition string
  | LocFinalizerAfter string nat
  | LocFinalizerInput string string
  | LocFinalizerMessageText string nat
  | LocFinalizerMessageAttachment string nat
  | LocFinalizerOutput string string
  | LocFinalizerCondition string
  | LocExport string

datatype validation_failure =
  ValidationFailure (vf_kind: validation_failure_kind) (vf_location: validation_location)

type_synonym 'a checked = "validation_failure + 'a"

text \<open>A prerequisite table under construction, keyed by producer.\<close>

type_synonym prerequisite_table = "(string, resolved_direct_prerequisite) btree_map"

definition reject :: "validation_failure_kind \<Rightarrow> validation_location \<Rightarrow> 'a checked" where
  "reject failure location = Inl (ValidationFailure failure location)"

definition namespace_failure :: "validation_failure_kind \<Rightarrow> validation_failure" where
  "namespace_failure failure = ValidationFailure failure LocWorkflowNamespace"

section \<open>Nodes of a document\<close>

definition body_common :: "node_body \<Rightarrow> common_node" where
  "body_common body =
     (case body of CommandBody command \<Rightarrow> cmd_common command | AgentBody agent \<Rightarrow> agn_common agent)"

definition node_body_named ::
  "workflow_document \<Rightarrow> string \<Rightarrow> (workflow_node_role \<times> node_body) option" where
  "node_body_named document name =
     (case map_of (doc_steps document) name of
        Some step \<Rightarrow> Some (RoleStep, sdef_body step)
      | None \<Rightarrow>
          map_option (\<lambda>finalizer. (RoleFinalizer, fdef_body finalizer))
            (map_of (doc_finalizers document) name))"

text \<open>Indexing a table with a name it holds.\<close>

definition node_common :: "workflow_document \<Rightarrow> string \<Rightarrow> workflow_node_role \<Rightarrow> common_node" where
  "node_common document name the_role =
     (case the_role of
        RoleStep \<Rightarrow> body_common (sdef_body (the (map_of (doc_steps document) name)))
      | RoleFinalizer \<Rightarrow> body_common (fdef_body (the (map_of (doc_finalizers document) name))))"

definition condition_location :: "string \<Rightarrow> workflow_node_role \<Rightarrow> validation_location" where
  "condition_location name the_role =
     (case the_role of
        RoleStep \<Rightarrow> LocStepCondition name | RoleFinalizer \<Rightarrow> LocFinalizerCondition name)"

definition node_input_location ::
  "string \<Rightarrow> workflow_node_role \<Rightarrow> string \<Rightarrow> validation_location" where
  "node_input_location name the_role input =
     (case the_role of
        RoleStep \<Rightarrow> LocStepInput name input | RoleFinalizer \<Rightarrow> LocFinalizerInput name input)"

definition node_message_location ::
  "string \<Rightarrow> workflow_node_role \<Rightarrow> nat \<Rightarrow> bool \<Rightarrow> validation_location" where
  "node_message_location name the_role index attachment =
     (case (the_role, attachment) of
        (RoleStep, False) \<Rightarrow> LocMessageText name index
      | (RoleStep, True) \<Rightarrow> LocMessageAttachment name index
      | (RoleFinalizer, False) \<Rightarrow> LocFinalizerMessageText name index
      | (RoleFinalizer, True) \<Rightarrow> LocFinalizerMessageAttachment name index)"

definition node_output_location ::
  "string \<Rightarrow> workflow_node_role \<Rightarrow> string \<Rightarrow> validation_location" where
  "node_output_location name the_role out =
     (case the_role of
        RoleStep \<Rightarrow> LocStepOutput name out | RoleFinalizer \<Rightarrow> LocFinalizerOutput name out)"

definition output_value_type :: "output_definition \<Rightarrow> workflow_value_type" where
  "output_value_type out =
     (case out of
        TextPath _ \<Rightarrow> VtText | TextAgentResponse \<Rightarrow> VtText
      | JsonPath _ _ \<Rightarrow> VtJson | JsonAgentResult _ \<Rightarrow> VtJson
      | FilePath _ _ \<Rightarrow> VtFile | GitBranchWorkspace \<Rightarrow> VtGitBranch)"

definition declared_output ::
  "workflow_document \<Rightarrow> output_ref \<Rightarrow> validation_location \<Rightarrow>
   (workflow_node_role \<times> node_body \<times> output_definition) checked" where
  "declared_output document reference location =
     (case node_body_named document (or_node reference) of
        None \<Rightarrow> reject UnknownOutputStep location
      | Some (the_role, body) \<Rightarrow>
          (case map_of (cn_outputs (body_common body)) (or_output reference) of
             None \<Rightarrow> reject UnknownOutput location
           | Some out \<Rightarrow> Inr (the_role, body, out)))"

section \<open>The namespace\<close>

definition validate_source_order ::
  "(string, 'a) btree_map \<Rightarrow> string list \<Rightarrow> unit checked" where
  "validate_source_order nodes source_order =
     (if length source_order \<noteq> length nodes \<or>
        length (remdups source_order) \<noteq> length source_order \<or>
        list_ex (\<lambda>node. \<not> bt_contains_key nodes node) source_order
      then Inl (namespace_failure InvalidSourceOrder) else Inr ())"

text \<open>The number of nodes is far below the end of \<^verbatim>\<open>usize\<close>, so its checked sum is a sum.\<close>

definition validate_node_namespace :: "workflow_document \<Rightarrow> unit checked" where
  "validate_node_namespace document =
     (if length (doc_steps document) + length (doc_finalizers document) > MAXIMUM_WORKFLOW_NODES
      then Inl (namespace_failure TooManyNodes)
      else if list_ex (\<lambda>node. bt_contains_key (doc_finalizers document) node)
          (bt_keys (doc_steps document))
      then Inl (namespace_failure DuplicateNodeId)
      else
        try_in (validate_source_order (doc_steps document) (doc_step_order document)) (\<lambda>_.
          validate_source_order (doc_finalizers document) (doc_finalizer_order document)))"

section \<open>Condition bounds\<close>

fun condition_node_count ::
  "condition_predicate \<Rightarrow> nat \<Rightarrow> validation_location \<Rightarrow> nat checked"
and condition_children_count ::
  "condition_predicate list \<Rightarrow> nat \<Rightarrow> nat \<Rightarrow> validation_location \<Rightarrow> nat checked" where
  "condition_node_count predicate depth location =
     (if depth > MAXIMUM_CONDITION_DEPTH then reject ConditionDepthExceeded location
      else
        (case predicate of
           CAll children \<Rightarrow>
             if children = [] \<or> length children > MAXIMUM_CONDITION_CHILDREN
             then reject ConditionChildLimitExceeded location
             else condition_children_count children depth 1 location
         | CAny children \<Rightarrow>
             if children = [] \<or> length children > MAXIMUM_CONDITION_CHILDREN
             then reject ConditionChildLimitExceeded location
             else condition_children_count children depth 1 location
         | CNot child \<Rightarrow> condition_children_count [child] depth 1 location
         | _ \<Rightarrow> Inr 1))"
| "condition_children_count [] depth count location = Inr count"
| "condition_children_count (child # children) depth count location =
     try_in (condition_node_count child (depth + 1) location) (\<lambda>nodes.
       if count + nodes > MAXIMUM_CONDITION_NODES then reject ConditionNodeLimitExceeded location
       else condition_children_count children depth (count + nodes) location)"

definition document_conditions ::
  "workflow_document \<Rightarrow> (string \<times> workflow_node_role \<times> condition_predicate option) list" where
  "document_conditions document =
     map (\<lambda>(name, step). (name, RoleStep, cn_condition (body_common (sdef_body step))))
       (doc_steps document) @
     map (\<lambda>(name, finalizer). (name, RoleFinalizer, cn_condition (body_common (fdef_body finalizer))))
       (doc_finalizers document)"

definition validate_workflow_condition_bounds :: "workflow_document \<Rightarrow> unit checked" where
  "validate_workflow_condition_bounds document =
     try_in (try_fold (\<lambda>(name, the_role, guard) total.
         (case guard of
            None \<Rightarrow> Inr total
          | Some predicate \<Rightarrow>
              try_in (condition_node_count predicate 1 (condition_location name the_role)) (\<lambda>count.
                if total + count > MAXIMUM_WORKFLOW_CONDITION_NODES
                then reject WorkflowConditionNodeLimitExceeded LocWorkflowGraph
                else Inr (total + count))))
       (document_conditions document) 0) (\<lambda>_. Inr ())"

section \<open>Prerequisites\<close>

definition mark_data_prerequisite :: "string \<Rightarrow> bool \<Rightarrow> prerequisite_table \<Rightarrow> prerequisite_table" where
  "mark_data_prerequisite name for_condition table =
     (case map_of table name of
        Some _ \<Rightarrow>
          bt_modify name (\<lambda>p. p\<lparr>data := True, condition_data := condition_data p \<or> for_condition\<rparr>) table
      | None \<Rightarrow>
          bt_insert name
            \<lparr>producer = name, control = False, disposition_control = False, data = True,
             condition_data = for_condition\<rparr> table)"

definition mark_disposition_prerequisite :: "string \<Rightarrow> prerequisite_table \<Rightarrow> prerequisite_table" where
  "mark_disposition_prerequisite name table =
     (case map_of table name of
        Some _ \<Rightarrow> bt_modify name (\<lambda>p. p\<lparr>disposition_control := True\<rparr>) table
      | None \<Rightarrow>
          bt_insert name
            \<lparr>producer = name, control = False, disposition_control = True, data = False,
             condition_data = False\<rparr> table)"

definition insert_control_prerequisite ::
  "string \<Rightarrow> string \<Rightarrow> bool \<Rightarrow> validation_failure_kind \<Rightarrow> validation_location \<Rightarrow>
   string btree_set \<times> prerequisite_table \<Rightarrow> (string btree_set \<times> prerequisite_table) checked" where
  "insert_control_prerequisite consumer dependency target_exists missing_kind location tables =
     (case tables of (seen, table) \<Rightarrow>
        if dependency = consumer then reject SelfDependency location
        else if bs_contains seen dependency then reject DuplicateDependency location
        else if \<not> target_exists then reject missing_kind location
        else Inr (dependency # seen,
          bt_insert dependency
            \<lparr>producer = dependency, control = True, disposition_control = False, data = False,
             condition_data = False\<rparr> table))"

definition condition_target_role ::
  "workflow_document \<Rightarrow> string \<Rightarrow> validation_location \<Rightarrow> workflow_node_role checked" where
  "condition_target_role document node location =
     (if bt_contains_key (doc_steps document) node then Inr RoleStep
      else if bt_contains_key (doc_finalizers document) node then Inr RoleFinalizer
      else reject InvalidConditionReference location)"

definition validate_finalizer_trigger_compatibility ::
  "workflow_document \<Rightarrow> string \<Rightarrow> string \<Rightarrow> workflow_node_role \<Rightarrow> workflow_node_role \<Rightarrow>
   validation_location \<Rightarrow> unit checked" where
  "validate_finalizer_trigger_compatibility document consumer producer_name consumer_role producer_role
     location =
     (if consumer_role = RoleFinalizer \<and> producer_role = RoleFinalizer \<and>
        \<not> list_all (bs_contains (fdef_when (the (map_of (doc_finalizers document) producer_name))))
            (fdef_when (the (map_of (doc_finalizers document) consumer)))
      then reject IncompatibleFinalizerTriggers location else Inr ())"

definition validate_data_dependency_authority ::
  "workflow_document \<Rightarrow> string \<Rightarrow> string \<Rightarrow> workflow_node_role \<Rightarrow> workflow_node_role \<Rightarrow>
   failure_policy \<Rightarrow> validation_location \<Rightarrow> unit checked" where
  "validate_data_dependency_authority document consumer producer_name consumer_role producer_role
     producer_policy location =
     (if producer_policy = Advisory \<and>
        cn_failure_policy (node_common document consumer consumer_role) = Required
      then reject AdvisoryDataDependency location
      else validate_finalizer_trigger_compatibility document consumer producer_name consumer_role
        producer_role location)"

definition infer_condition_value_reference ::
  "string \<Rightarrow> workflow_node_role \<Rightarrow> workflow_document \<Rightarrow> value_reference \<Rightarrow>
   prerequisite_table \<Rightarrow> prerequisite_table checked" where
  "infer_condition_value_reference consumer consumer_role document reference table =
     (let location = condition_location consumer consumer_role
      in case reference of
           InputReference name \<Rightarrow>
             (case map_of (doc_inputs document) name of
                Some InText \<Rightarrow> Inr table
              | Some (InJson _) \<Rightarrow> Inr table
              | _ \<Rightarrow> reject InvalidConditionReference location)
         | FinalizationContextReference \<Rightarrow>
             if consumer_role = RoleFinalizer then Inr table
             else reject InvalidConditionReference location
         | OutputReference reference \<Rightarrow>
             try_in (declared_output document reference location) (\<lambda>(producer_role, producer_body, out).
               if \<not> (case out of
                       TextPath _ \<Rightarrow> True | TextAgentResponse \<Rightarrow> True
                     | JsonPath _ _ \<Rightarrow> True | JsonAgentResult _ \<Rightarrow> True | _ \<Rightarrow> False) \<or>
                 or_node reference = consumer \<and> producer_role = consumer_role \<or>
                 consumer_role = RoleStep \<and> producer_role = RoleFinalizer
               then reject InvalidConditionReference location
               else
                 try_in (validate_data_dependency_authority document consumer (or_node reference)
                     consumer_role producer_role
                     (cn_failure_policy (body_common producer_body)) location) (\<lambda>_.
                   Inr (if consumer_role = producer_role
                        then mark_data_prerequisite (or_node reference) True table else table))))"

definition infer_disposition_prerequisite ::
  "string \<Rightarrow> workflow_node_role \<Rightarrow> workflow_document \<Rightarrow> string \<Rightarrow>
   prerequisite_table \<Rightarrow> prerequisite_table checked" where
  "infer_disposition_prerequisite consumer consumer_role document node table =
     try_in (condition_target_role document node (condition_location consumer consumer_role))
       (\<lambda>target_role.
         if node = consumer \<and> target_role = consumer_role \<or>
           consumer_role = RoleStep \<and> target_role \<noteq> RoleStep
         then reject InvalidConditionReference (condition_location consumer consumer_role)
         else Inr (if consumer_role = target_role then mark_disposition_prerequisite node table
                   else table))"

fun infer_condition_prerequisites ::
  "string \<Rightarrow> workflow_node_role \<Rightarrow> workflow_document \<Rightarrow> condition_predicate \<Rightarrow>
   prerequisite_table \<Rightarrow> prerequisite_table checked"
and infer_conditions_prerequisites ::
  "string \<Rightarrow> workflow_node_role \<Rightarrow> workflow_document \<Rightarrow> condition_predicate list \<Rightarrow>
   prerequisite_table \<Rightarrow> prerequisite_table checked" where
  "infer_condition_prerequisites consumer consumer_role document (CAll children) table =
     infer_conditions_prerequisites consumer consumer_role document children table"
| "infer_condition_prerequisites consumer consumer_role document (CAny children) table =
     infer_conditions_prerequisites consumer consumer_role document children table"
| "infer_condition_prerequisites consumer consumer_role document (CNot child) table =
     infer_condition_prerequisites consumer consumer_role document child table"
| "infer_condition_prerequisites consumer consumer_role document (CEquals left right) table =
     try_fold (\<lambda>operand table.
       (case operand of
          CondReference reference _ \<Rightarrow>
            infer_condition_value_reference consumer consumer_role document reference table
        | CondLiteral _ \<Rightarrow> Inr table)) [left, right] table"
| "infer_condition_prerequisites consumer consumer_role document (CExists selector) table =
     infer_condition_value_reference consumer consumer_role document (cs_reference selector) table"
| "infer_condition_prerequisites consumer consumer_role document (CDisposition node _) table =
     infer_disposition_prerequisite consumer consumer_role document node table"
| "infer_conditions_prerequisites consumer consumer_role document [] table = Inr table"
| "infer_conditions_prerequisites consumer consumer_role document (child # children) table =
     try_in (infer_condition_prerequisites consumer consumer_role document child table)
       (infer_conditions_prerequisites consumer consumer_role document children)"

definition infer_reference_prerequisite ::
  "string \<Rightarrow> workflow_node_role \<Rightarrow> workflow_document \<Rightarrow> value_reference \<Rightarrow> validation_location \<Rightarrow>
   bool \<Rightarrow> prerequisite_table \<Rightarrow> prerequisite_table checked" where
  "infer_reference_prerequisite consumer consumer_role document reference location context_allowed
     table =
     (case reference of
        InputReference _ \<Rightarrow> Inr table
      | FinalizationContextReference \<Rightarrow>
          if context_allowed then Inr table else reject InvalidFinalizationContext location
      | OutputReference reference \<Rightarrow>
          try_in (declared_output document reference location) (\<lambda>(producer_role, producer_body, out).
            if out = GitBranchWorkspace then reject TerminalOutputReference location
            else if or_node reference = consumer \<and> producer_role = consumer_role
            then reject SelfDependency location
            else if consumer_role = RoleStep \<and> producer_role = RoleFinalizer
            then reject CrossPhaseOutputReference location
            else
              try_in (validate_data_dependency_authority document consumer (or_node reference)
                  consumer_role producer_role
                  (cn_failure_policy (body_common producer_body)) location) (\<lambda>_.
                Inr (if consumer_role = producer_role
                     then mark_data_prerequisite (or_node reference) False table else table))))"

definition infer_message_prerequisite ::
  "string \<Rightarrow> workflow_node_role \<Rightarrow> workflow_document \<Rightarrow> message_source \<Rightarrow> validation_location \<Rightarrow>
   bool \<Rightarrow> prerequisite_table \<Rightarrow> prerequisite_table checked" where
  "infer_message_prerequisite consumer consumer_role document source location context_allowed table =
     (case source of
        MsgReference reference \<Rightarrow>
          infer_reference_prerequisite consumer consumer_role document reference location
            context_allowed table
      | MsgFile _ \<Rightarrow> Inr table)"

definition infer_body_prerequisites ::
  "string \<Rightarrow> workflow_node_role \<Rightarrow> node_body \<Rightarrow> workflow_document \<Rightarrow>
   prerequisite_table \<Rightarrow> prerequisite_table checked" where
  "infer_body_prerequisites consumer consumer_role body document table =
     (case body of
        CommandBody command \<Rightarrow>
          try_fold (\<lambda>(input, reference).
            infer_reference_prerequisite consumer consumer_role document reference
              (node_input_location consumer consumer_role input) (consumer_role = RoleFinalizer))
            (cmd_inputs command) table
      | AgentBody agent \<Rightarrow>
          try_in (try_fold (\<lambda>(index, source).
              infer_message_prerequisite consumer consumer_role document source
                (node_message_location consumer consumer_role index False) False)
              (enumerate 0 (am_text (ad_message (agn_agent agent)))) table)
            (try_fold (\<lambda>(index, source).
              infer_message_prerequisite consumer consumer_role document source
                (node_message_location consumer consumer_role index True)
                (consumer_role = RoleFinalizer))
              (enumerate 0 (am_attachments (ad_message (agn_agent agent))))))"

definition infer_node_prerequisites ::
  "string \<Rightarrow> workflow_node_role \<Rightarrow> node_body \<Rightarrow> workflow_document \<Rightarrow>
   prerequisite_table \<Rightarrow> resolved_direct_prerequisite list checked" where
  "infer_node_prerequisites name the_role body document table =
     try_in (case cn_condition (body_common body) of
               None \<Rightarrow> Inr table
             | Some predicate \<Rightarrow>
                 infer_condition_prerequisites name the_role document predicate table) (\<lambda>table.
     try_in (infer_body_prerequisites name the_role body document table) (\<lambda>table.
       Inr (bt_values table)))"

definition resolve_step_prerequisites ::
  "string \<Rightarrow> step_definition \<Rightarrow> workflow_document \<Rightarrow> resolved_direct_prerequisite list checked" where
  "resolve_step_prerequisites name step document =
     try_in (try_fold (\<lambda>(index, dependency).
         insert_control_prerequisite name dependency
           (bt_contains_key (doc_steps document) dependency) MissingDependency
           (LocStepDependency name index))
         (enumerate 0 (sdef_control_dependencies step)) ([], [])) (\<lambda>(_, table).
       infer_node_prerequisites name RoleStep (sdef_body step) document table)"

definition resolve_finalizer_prerequisites ::
  "string \<Rightarrow> finalizer_definition \<Rightarrow> workflow_document \<Rightarrow>
   resolved_direct_prerequisite list checked" where
  "resolve_finalizer_prerequisites name finalizer document =
     (if fdef_when finalizer = [] then reject InvalidFinalizerTrigger LocWorkflowGraph
      else
        try_in (try_fold (\<lambda>(index, dependency).
            insert_control_prerequisite name dependency
              (bt_contains_key (doc_finalizers document) dependency) InvalidFinalizerAfterTarget
              (LocFinalizerAfter name index))
            (enumerate 0 (fdef_after finalizer)) ([], [])) (\<lambda>(_, table).
          infer_node_prerequisites name RoleFinalizer (fdef_body finalizer) document table))"

section \<open>Dependency graphs\<close>

record validated_graph =
  vg_direct_prerequisites :: "(string, resolved_direct_prerequisite list) btree_map"
  vg_presentation_order :: "string list"

definition graph_dependents ::
  "(string, resolved_direct_prerequisite list) btree_map \<Rightarrow> (string, string list) btree_map" where
  "graph_dependents direct =
     fold (\<lambda>(node, ps). fold (\<lambda>p dependents.
         bt_insert (producer p)
           ((case map_of dependents (producer p) of None \<Rightarrow> [] | Some nodes \<Rightarrow> nodes) @ [node])
           dependents) ps) direct []"

text \<open>
  One dependent of a node that has been ordered.  The count of a dependent is its prerequisites that
  have not been ordered, so the subtraction never underflows; \<open>None\<close> is the panic of an underflow.
\<close>

definition release_dependent ::
  "(string, nat) btree_map \<Rightarrow> string \<Rightarrow>
   (nat \<times> string) btree_set \<times> (string, nat) btree_map \<Rightarrow>
   ((nat \<times> string) btree_set \<times> (string, nat) btree_map) option" where
  "release_dependent source_indices dependent pending =
     (case pending of (ready, remaining) \<Rightarrow>
        (case map_of remaining dependent of
           None \<Rightarrow> Some (ready, remaining)
         | Some 0 \<Rightarrow> None
         | Some (Suc count) \<Rightarrow>
             (let remaining = bt_modify dependent (\<lambda>_. count) remaining in
              if count = 0
              then (case map_of source_indices dependent of
                      Some index \<Rightarrow> Some (bs_insert (index, dependent) ready, remaining)
                    | None \<Rightarrow> Some (ready, remaining))
              else Some (ready, remaining))))"

fun release_dependents ::
  "(string, nat) btree_map \<Rightarrow> string list \<Rightarrow>
   (nat \<times> string) btree_set \<times> (string, nat) btree_map \<Rightarrow>
   ((nat \<times> string) btree_set \<times> (string, nat) btree_map) option" where
  "release_dependents source_indices [] pending = Some pending"
| "release_dependents source_indices (dependent # rest) pending =
     (case release_dependent source_indices dependent pending of
        None \<Rightarrow> None
      | Some pending \<Rightarrow> release_dependents source_indices rest pending)"

lemma release_dependent_measure:
  assumes "release_dependent source_indices dependent (ready, remaining) = Some (ready', remaining')"
  shows "length ready' + (\<Sum>e \<leftarrow> remaining'. snd e) \<le> length ready + (\<Sum>e \<leftarrow> remaining. snd e)"
proof (cases "map_of remaining dependent")
  case (Some k)
  then obtain c where c: "k = Suc c"
    using assms by (cases k) (auto simp: release_dependent_def)
  have "(\<Sum>e \<leftarrow> bt_modify dependent (\<lambda>_. c) remaining. snd e) + Suc c = (\<Sum>e \<leftarrow> remaining. snd e) + c"
    using sum_bt_modify [of remaining dependent "Suc c" "\<lambda>_ v. v" "\<lambda>_. c"] Some c by simp
  then show ?thesis
    using assms Some c length_bs_insert [of "(the (map_of source_indices dependent), dependent)" ready]
    by (auto simp: release_dependent_def Let_def split: if_splits option.splits)
qed (use assms in \<open>simp add: release_dependent_def\<close>)

lemma release_dependents_measure:
  "release_dependents source_indices nodes (ready, remaining) = Some (ready', remaining') \<Longrightarrow>
   length ready' + (\<Sum>e \<leftarrow> remaining'. snd e) \<le> length ready + (\<Sum>e \<leftarrow> remaining. snd e)"
proof (induction nodes arbitrary: ready remaining)
  case (Cons node nodes)
  then obtain ready1 remaining1 where
    one: "release_dependent source_indices node (ready, remaining) = Some (ready1, remaining1)"
    and rest: "release_dependents source_indices nodes (ready1, remaining1) = Some (ready', remaining')"
    by (auto split: option.splits)
  then show ?case
    using Cons.IH [OF rest] release_dependent_measure [OF one] by simp
qed simp

function order_nodes ::
  "(string, nat) btree_map \<Rightarrow> (string, string list) btree_map \<Rightarrow> (nat \<times> string) btree_set \<Rightarrow>
   (string, nat) btree_map \<Rightarrow> string list \<Rightarrow> string list option" where
  "order_nodes source_indices dependents [] remaining order = Some order"
| "order_nodes source_indices dependents (first # ready) remaining order =
     (case release_dependents source_indices
         (case map_of dependents (snd first) of None \<Rightarrow> [] | Some nodes \<Rightarrow> nodes)
         (ready, remaining) of
        None \<Rightarrow> None
      | Some (ready, remaining) \<Rightarrow>
          order_nodes source_indices dependents ready remaining (order @ [snd first]))"
  by pat_completeness auto
termination
  by (relation "measure (\<lambda>(_, _, ready, remaining, _). length ready + (\<Sum>e \<leftarrow> remaining. snd e))")
    (auto dest!: release_dependents_measure)

definition graph_order ::
  "(string, resolved_direct_prerequisite list) btree_map \<Rightarrow> string list \<Rightarrow> string list option" where
  "graph_order direct source_order =
     (let source_indices = bt_collect (map (\<lambda>(index, node). (node, index)) (enumerate 0 source_order));
          remaining = map (\<lambda>(node, ps). (node, length ps)) direct;
          ready = fold bs_insert (List.map_filter (\<lambda>(node, count).
            if count = 0
            then map_option (\<lambda>index. (index, node)) (map_of source_indices node) else None)
            remaining) []
      in order_nodes source_indices (graph_dependents direct) ready remaining [])"

definition validate_graph ::
  "(string, resolved_direct_prerequisite list) btree_map \<Rightarrow> string list \<Rightarrow> nat \<Rightarrow>
   validated_graph checked" where
  "validate_graph direct source_order node_count =
     (let order = the (graph_order direct source_order)
      in if length order \<noteq> node_count then reject DependencyCycle LocWorkflowGraph
         else Inr \<lparr>vg_direct_prerequisites = direct, vg_presentation_order = order\<rparr>)"

definition validate_step_graph :: "workflow_document \<Rightarrow> validated_graph checked" where
  "validate_step_graph document =
     try_in (try_map (\<lambda>(name, step).
         try_in (resolve_step_prerequisites name step document) (\<lambda>ps. Inr (name, ps)))
         (doc_steps document)) (\<lambda>direct.
       validate_graph direct (doc_step_order document) (length (doc_steps document)))"

definition validate_finalizer_graph :: "workflow_document \<Rightarrow> validated_graph checked" where
  "validate_finalizer_graph document =
     try_in (try_map (\<lambda>(name, finalizer).
         try_in (resolve_finalizer_prerequisites name finalizer document) (\<lambda>ps. Inr (name, ps)))
         (doc_finalizers document)) (\<lambda>direct.
       validate_graph direct (doc_finalizer_order document) (length (doc_finalizers document)))"

section \<open>Outputs\<close>

definition output_path :: "output_definition \<Rightarrow> string option" where
  "output_path out =
     (case out of
        TextPath path \<Rightarrow> Some path | JsonPath path _ \<Rightarrow> Some path | FilePath path _ \<Rightarrow> Some path
      | _ \<Rightarrow> None)"

definition output_failure ::
  "validation_failure_kind \<Rightarrow> string \<Rightarrow> workflow_node_role \<Rightarrow> string \<Rightarrow> validation_failure" where
  "output_failure failure name the_role out =
     ValidationFailure failure (node_output_location name the_role out)"

definition check_shared_output ::
  "string \<Rightarrow> workflow_node_role \<Rightarrow> string \<times> output_definition \<Rightarrow> string btree_set \<times> nat \<Rightarrow>
   (string btree_set \<times> nat) checked" where
  "check_shared_output name the_role entry seen =
     (case (entry, seen) of ((output_name, out), (paths, workspace_count)) \<Rightarrow>
        (case output_path out of
           Some path \<Rightarrow>
             if bs_contains paths path
             then Inl (output_failure DuplicateOutputPath name the_role output_name)
             else Inr (path # paths, workspace_count)
         | None \<Rightarrow>
             if out = GitBranchWorkspace
             then (if workspace_count + 1 > 1
                   then Inl (output_failure ExcessWorkspaceOutput name the_role output_name)
                   else Inr (paths, workspace_count + 1))
             else Inr (paths, workspace_count)))"

definition check_agent_output ::
  "string \<Rightarrow> workflow_node_role \<Rightarrow> string \<times> output_definition \<Rightarrow> nat \<times> nat \<Rightarrow> (nat \<times> nat) checked"
  where
  "check_agent_output name the_role entry counts =
     (case (entry, counts) of ((output_name, out), (response_count, result_count)) \<Rightarrow>
        (case out of
           TextAgentResponse \<Rightarrow>
             if response_count + 1 > 1
             then Inl (output_failure ExcessAgentResponseOutput name the_role output_name)
             else if result_count > 0
             then Inl (output_failure ConflictingAgentValueOutputs name the_role output_name)
             else Inr (response_count + 1, result_count)
         | JsonAgentResult _ \<Rightarrow>
             if result_count + 1 > 1
             then Inl (output_failure ExcessAgentResultOutput name the_role output_name)
             else if response_count > 0
             then Inl (output_failure ConflictingAgentValueOutputs name the_role output_name)
             else Inr (response_count, result_count + 1)
         | _ \<Rightarrow> Inr (response_count, result_count)))"

definition validate_node_outputs ::
  "string \<Rightarrow> workflow_node_role \<Rightarrow> node_body \<Rightarrow> unit checked" where
  "validate_node_outputs name the_role body =
     try_in (try_fold (check_shared_output name the_role) (cn_outputs (body_common body)) ([], 0)) (\<lambda>_.
       (case body of
          CommandBody command \<Rightarrow>
            (case find (\<lambda>(_, out).
                case out of TextAgentResponse \<Rightarrow> True | JsonAgentResult _ \<Rightarrow> True | _ \<Rightarrow> False)
                (cn_outputs (cmd_common command)) of
               Some (output_name, _) \<Rightarrow>
                 Inl (output_failure IllegalCommandOutput name the_role output_name)
             | None \<Rightarrow> Inr ())
        | AgentBody agent \<Rightarrow>
            try_in (try_fold (check_agent_output name the_role) (cn_outputs (agn_common agent)) (0, 0))
              (\<lambda>_. Inr ())))"

definition validate_output_rules :: "workflow_document \<Rightarrow> unit checked" where
  "validate_output_rules document =
     try_in (try_fold (\<lambda>(name, step) _. validate_node_outputs name RoleStep (sdef_body step))
         (doc_steps document) ()) (\<lambda>_.
       try_fold (\<lambda>(name, finalizer) _. validate_node_outputs name RoleFinalizer (fdef_body finalizer))
         (doc_finalizers document) ())"

section \<open>Agent profiles and recovery\<close>

definition validate_agent_profiles ::
  "workflow_document \<Rightarrow> (string, validated_harness) btree_map checked" where
  "validate_agent_profiles document =
     try_map (\<lambda>(name, profile).
       try_in (ok_or (ValidationFailure InvalidAgentProfileConfig (LocAgentProfile name))
         (case ap_harness profile of
            HarnessPi config \<Rightarrow> map_option ValidatedPi (pi_resolve_config config)
          | HarnessClaudeCode config \<Rightarrow>
              map_option ValidatedClaudeCode (claude_code_resolve_config config)
          | HarnessCodex config \<Rightarrow> map_option ValidatedCodex (codex_resolve_config config)))
         (\<lambda>harness. Inr (name, harness)))
       (doc_agent_profiles document)"

definition resolve_agent_profile ::
  "string \<Rightarrow> workflow_node_role \<Rightarrow> agent_definition \<Rightarrow> (string, validated_harness) btree_map \<Rightarrow>
   validated_harness checked" where
  "resolve_agent_profile name the_role agent profiles =
     ok_or (ValidationFailure UnknownAgentProfile
         (case the_role of
            RoleStep \<Rightarrow> LocAgentProfileReference name
          | RoleFinalizer \<Rightarrow> LocFinalizerAgentProfileReference name))
       (map_of profiles (ad_profile agent))"

definition validate_recovery ::
  "string \<Rightarrow> step_recovery option \<Rightarrow> (string, validated_harness) btree_map \<Rightarrow>
   validated_step_recovery option checked" where
  "validate_recovery step_name the_recovery agent_profiles =
     (case the_recovery of
        None \<Rightarrow> Inr None
      | Some rec \<Rightarrow>
          try_in (case sr_handler rec of
                    None \<Rightarrow> Inr None
                  | Some (CommandHandler argv cwd) \<Rightarrow> Inr (Some (VCommandHandler argv cwd))
                  | Some (AgentHandler profile prompt cwd) \<Rightarrow>
                      try_in (ok_or (ValidationFailure UnknownAgentProfile
                            (LocRecoveryAgentProfileReference step_name))
                          (map_of agent_profiles profile)) (\<lambda>harness.
                        Inr (Some (VAgentHandler profile prompt cwd harness)))) (\<lambda>handler.
            Inr (Some \<lparr>vr_retries = sr_retries rec, vr_handler = handler\<rparr>)))"

section \<open>Resolved references and conditions\<close>

text \<open>\<^verbatim>\<open>required_inputs\<close> is only read here, so it is an argument and not threaded state.\<close>

definition resolve_value_reference ::
  "value_reference \<Rightarrow> workflow_document \<Rightarrow> (string, workflow_value_type) btree_map \<Rightarrow>
   validation_location \<Rightarrow> bool \<Rightarrow> resolved_value_reference checked" where
  "resolve_value_reference reference document required_inputs location context_allowed =
     (case reference of
        InputReference name \<Rightarrow>
          (case map_of required_inputs name of
             None \<Rightarrow> reject UnknownInput location
           | Some vt \<Rightarrow> Inr \<lparr>rvr_source = SourceInput name, rvr_value_type = vt\<rparr>)
      | OutputReference out_ref \<Rightarrow>
          try_in (declared_output document out_ref location) (\<lambda>(the_role, _, out).
            let vt = output_value_type out in
            Inr \<lparr>rvr_source = SourceOutput (ResolvedOutputSource
                   (WorkflowNode (or_node out_ref) the_role) (or_output out_ref) vt),
                 rvr_value_type = vt\<rparr>)
      | FinalizationContextReference \<Rightarrow>
          if context_allowed
          then Inr \<lparr>rvr_source = SourceFinalizationContext, rvr_value_type = VtJson\<rparr>
          else reject InvalidFinalizationContext location)"

definition resolve_condition_reference ::
  "value_reference \<Rightarrow> string \<Rightarrow> workflow_node_role \<Rightarrow> workflow_document \<Rightarrow>
   (string, workflow_value_type) btree_map \<Rightarrow>
   (string \<times> resolved_value_source \<times> condition_value_kind) checked" where
  "resolve_condition_reference reference name the_role document required_inputs =
     try_in (resolve_value_reference reference document required_inputs
         (condition_location name the_role) (the_role = RoleFinalizer)) (\<lambda>resolved.
     try_in (case rvr_value_type resolved of
               VtText \<Rightarrow> Inr KindText
             | VtJson \<Rightarrow> Inr KindJson
             | _ \<Rightarrow> reject InvalidConditionType (condition_location name the_role)) (\<lambda>vk.
       Inr (case rvr_source resolved of
              SourceInput input \<Rightarrow> ''inputs.'' @ input
            | SourceOutput out \<Rightarrow> output_reference out
            | SourceFinalizationContext \<Rightarrow> ''finalization.context'',
            rvr_source resolved, vk)))"

record reference_resolution =
  rr_canonical :: string
  rr_source :: resolved_value_source
  rr_kind :: condition_value_kind
  rr_pointer :: "json_pointer option"

text \<open>The first pass over the operands of an equality: references only.\<close>

definition resolve_operand_reference ::
  "condition_operand \<Rightarrow> string \<Rightarrow> workflow_node_role \<Rightarrow> workflow_document \<Rightarrow>
   (string, workflow_value_type) btree_map \<Rightarrow> reference_resolution option checked" where
  "resolve_operand_reference operand name the_role document required_inputs =
     (case operand of
        CondLiteral _ \<Rightarrow> Inr None
      | CondReference reference pointer_text \<Rightarrow>
          try_in (resolve_condition_reference reference name the_role document required_inputs)
            (\<lambda>(canonical, source, vk).
              if vk = KindText \<and> pointer_text \<noteq> None
              then reject InvalidConditionType (condition_location name the_role)
              else
                try_in (case pointer_text of
                          None \<Rightarrow> Inr None
                        | Some pt \<Rightarrow>
                            (case json_pointer_parse pt of
                               Inl _ \<Rightarrow> reject InvalidPointer (condition_location name the_role)
                             | Inr pointer \<Rightarrow> Inr (Some pointer))) (\<lambda>pointer.
                  Inr (Some \<lparr>rr_canonical = canonical, rr_source = source, rr_kind = vk,
                    rr_pointer = pointer\<rparr>))))"

text \<open>The second pass: an operand with its resolved reference, given the kind compared at.\<close>

definition resolve_condition_operand ::
  "condition_operand \<Rightarrow> reference_resolution option \<Rightarrow> condition_value_kind \<Rightarrow> string \<Rightarrow>
   workflow_node_role \<Rightarrow> (string, resolved_value_source) btree_map \<Rightarrow>
   (resolved_operand \<times> (string, resolved_value_source) btree_map) checked" where
  "resolve_condition_operand operand resolution vk name the_role condition_vs =
     (case operand of
        CondReference _ _ \<Rightarrow>
          (case resolution of
             None \<Rightarrow> reject InvalidConditionReference (condition_location name the_role)
           | Some r \<Rightarrow>
               Inr (case rr_kind r of
                      KindText \<Rightarrow> text_reference (rr_canonical r)
                    | KindJson \<Rightarrow> json_reference (rr_canonical r) (rr_pointer r),
                    bt_insert (rr_canonical r) (rr_source r) condition_vs))
      | CondLiteral literal \<Rightarrow>
          (case vk of
             KindText \<Rightarrow>
               (case literal of
                  JString s \<Rightarrow> Inr (text_literal s, condition_vs)
                | _ \<Rightarrow> reject InvalidConditionType (condition_location name the_role))
           | KindJson \<Rightarrow> Inr (json_literal literal, condition_vs)))"

definition resolve_condition_equals ::
  "condition_operand \<Rightarrow> condition_operand \<Rightarrow> string \<Rightarrow> workflow_node_role \<Rightarrow> workflow_document \<Rightarrow>
   (string, workflow_value_type) btree_map \<Rightarrow> (string, resolved_value_source) btree_map \<Rightarrow>
   (resolved_predicate \<times> (string, resolved_value_source) btree_map) checked" where
  "resolve_condition_equals left right name the_role document required_inputs condition_vs =
     try_in (resolve_operand_reference left name the_role document required_inputs) (\<lambda>l.
     try_in (resolve_operand_reference right name the_role document required_inputs) (\<lambda>r.
     try_in (case (l, r) of
               (None, None) \<Rightarrow> reject InvalidCondition (condition_location name the_role)
             | (Some a, Some b) \<Rightarrow>
                 if rr_kind a \<noteq> rr_kind b
                 then reject InvalidConditionType (condition_location name the_role)
                 else Inr (rr_kind a)
             | (Some a, None) \<Rightarrow> Inr (rr_kind a)
             | (None, Some b) \<Rightarrow> Inr (rr_kind b)) (\<lambda>vk.
     try_in (resolve_condition_operand left l vk name the_role condition_vs) (\<lambda>(left', condition_vs).
     try_in (resolve_condition_operand right r vk name the_role condition_vs) (\<lambda>(right', condition_vs).
       Inr (Equals left' right', condition_vs))))))"

fun resolve_condition_predicate ::
  "condition_predicate \<Rightarrow> string \<Rightarrow> workflow_node_role \<Rightarrow> workflow_document \<Rightarrow>
   (string, workflow_value_type) btree_map \<Rightarrow> (string, resolved_value_source) btree_map \<Rightarrow>
   (resolved_predicate \<times> (string, resolved_value_source) btree_map) checked"
and resolve_condition_predicates ::
  "condition_predicate list \<Rightarrow> string \<Rightarrow> workflow_node_role \<Rightarrow> workflow_document \<Rightarrow>
   (string, workflow_value_type) btree_map \<Rightarrow> (string, resolved_value_source) btree_map \<Rightarrow>
   (resolved_predicate list \<times> (string, resolved_value_source) btree_map) checked" where
  "resolve_condition_predicate (CAll children) name the_role document required_inputs condition_vs =
     try_in (resolve_condition_predicates children name the_role document required_inputs condition_vs)
       (\<lambda>(ps, condition_vs). Inr (All ps, condition_vs))"
| "resolve_condition_predicate (CAny children) name the_role document required_inputs condition_vs =
     try_in (resolve_condition_predicates children name the_role document required_inputs condition_vs)
       (\<lambda>(ps, condition_vs). Inr (Any ps, condition_vs))"
| "resolve_condition_predicate (CNot child) name the_role document required_inputs condition_vs =
     try_in (resolve_condition_predicate child name the_role document required_inputs condition_vs)
       (\<lambda>(p, condition_vs). Inr (Not p, condition_vs))"
| "resolve_condition_predicate (CEquals left right) name the_role document required_inputs condition_vs =
     resolve_condition_equals left right name the_role document required_inputs condition_vs"
| "resolve_condition_predicate (CExists selector) name the_role document required_inputs condition_vs =
     try_in (resolve_condition_reference (cs_reference selector) name the_role document required_inputs)
       (\<lambda>(canonical, source, vk).
         if vk \<noteq> KindJson then reject InvalidConditionType (condition_location name the_role)
         else
           (case json_pointer_parse (cs_pointer selector) of
              Inl _ \<Rightarrow> reject InvalidPointer (condition_location name the_role)
            | Inr pointer \<Rightarrow>
                Inr (Exists (ResolvedSelector canonical pointer),
                  bt_insert canonical source condition_vs)))"
| "resolve_condition_predicate (CDisposition node is) name the_role document required_inputs condition_vs =
     try_in (condition_target_role document node (condition_location name the_role)) (\<lambda>target_role.
       Inr (Disposition (WorkflowNode node target_role) is, condition_vs))"
| "resolve_condition_predicates [] name the_role document required_inputs condition_vs =
     Inr ([], condition_vs)"
| "resolve_condition_predicates (child # children) name the_role document required_inputs condition_vs =
     try_in (resolve_condition_predicate child name the_role document required_inputs condition_vs)
       (\<lambda>(p, condition_vs).
         try_in (resolve_condition_predicates children name the_role document required_inputs condition_vs)
           (\<lambda>(ps, condition_vs). Inr (p # ps, condition_vs)))"

section \<open>Prerequisite descriptors\<close>

definition result_ok :: "'e + 'a \<Rightarrow> 'a list" where
  "result_ok r = (case r of Inl _ \<Rightarrow> [] | Inr x \<Rightarrow> [x])"

definition document_output_reference :: "output_ref \<Rightarrow> string" where
  "document_output_reference reference = ''outputs.'' @ or_node reference @ ''.'' @ or_output reference"

definition condition_reference_descriptors :: "value_reference \<Rightarrow> prerequisite list" where
  "condition_reference_descriptors reference =
     (case reference of
        OutputReference out \<Rightarrow> result_ok (prerequisite_condition (document_output_reference out))
      | _ \<Rightarrow> [])"

fun retain_condition_descriptors :: "condition_predicate \<Rightarrow> prerequisite list" where
  "retain_condition_descriptors (CAll children) =
     concat (map retain_condition_descriptors children)"
| "retain_condition_descriptors (CAny children) =
     concat (map retain_condition_descriptors children)"
| "retain_condition_descriptors (CNot child) = retain_condition_descriptors child"
| "retain_condition_descriptors (CEquals left right) =
     concat (map (\<lambda>operand.
       case operand of
         CondReference reference _ \<Rightarrow> condition_reference_descriptors reference
       | CondLiteral _ \<Rightarrow> []) [left, right])"
| "retain_condition_descriptors (CExists selector) =
     condition_reference_descriptors (cs_reference selector)"
| "retain_condition_descriptors (CDisposition node _) = result_ok (prerequisite_control node)"

definition body_references :: "node_body \<Rightarrow> value_reference list" where
  "body_references body =
     (case body of
        CommandBody command \<Rightarrow> bt_values (cmd_inputs command)
      | AgentBody agent \<Rightarrow>
          List.map_filter (\<lambda>source.
              case source of MsgReference reference \<Rightarrow> Some reference | MsgFile _ \<Rightarrow> None)
            (am_text (ad_message (agn_agent agent)) @ am_attachments (ad_message (agn_agent agent))))"

definition evidence_prerequisites_of ::
  "node_body \<Rightarrow> resolved_direct_prerequisite list \<Rightarrow> prerequisite list checked" where
  "evidence_prerequisites_of body direct =
     (let descriptors =
            concat (map (\<lambda>p. result_ok (prerequisite_control (producer p))) (filter control direct)) @
            (case cn_condition (body_common body) of
               None \<Rightarrow> [] | Some predicate \<Rightarrow> retain_condition_descriptors predicate) @
            concat (map (\<lambda>reference.
              case reference of
                OutputReference out \<Rightarrow> result_ok (prerequisite_body (document_output_reference out))
              | _ \<Rightarrow> []) (body_references body));
          descriptors = dedup (sort descriptors)
      in if length descriptors > maximum_prerequisites
         then reject TooManyPrerequisites LocWorkflowGraph else Inr descriptors)"

section \<open>Bodies\<close>

definition validate_common ::
  "common_node \<Rightarrow> resolved_predicate option \<Rightarrow> (string, resolved_value_source) btree_map \<Rightarrow>
   resolved_direct_prerequisite list \<Rightarrow> prerequisite list \<Rightarrow> validated_common_step" where
  "validate_common common guard condition_vs direct evidence =
     \<lparr>vc_failure_policy = cn_failure_policy common, vc_condition = guard,
      vc_condition_values = condition_vs, vc_prerequisites = direct,
      vc_evidence_prerequisites = evidence, vc_cwd = cn_cwd common,
      vc_outputs = map (\<lambda>(name, out).
        (name, \<lparr>vo_definition = out, vo_value_type = output_value_type out\<rparr>)) (cn_outputs common)\<rparr>"

definition validate_command_inputs ::
  "string \<Rightarrow> workflow_node_role \<Rightarrow> (string, value_reference) btree_map \<Rightarrow> workflow_document \<Rightarrow>
   (string, workflow_value_type) btree_map \<Rightarrow> (string, resolved_value_reference) btree_map checked" where
  "validate_command_inputs name the_role command_inputs document required_inputs =
     try_map (\<lambda>(input_name, reference).
       try_in (resolve_value_reference reference document required_inputs
           (node_input_location name the_role input_name) (the_role = RoleFinalizer)) (\<lambda>input.
         Inr (input_name, input))) command_inputs"

datatype message_destination = DestinationText | DestinationAttachment

definition validate_message_source ::
  "string \<Rightarrow> workflow_node_role \<Rightarrow> nat \<Rightarrow> message_source \<Rightarrow> workflow_document \<Rightarrow>
   (string, workflow_value_type) btree_map \<Rightarrow> message_destination \<Rightarrow>
   validated_message_source checked" where
  "validate_message_source name the_role index source document required_inputs destination =
     (let attachment = (destination = DestinationAttachment);
          location = node_message_location name the_role index attachment
      in case source of
           MsgFile path \<Rightarrow> Inr (VmFile path)
         | MsgReference reference \<Rightarrow>
             try_in (resolve_value_reference reference document required_inputs location
                 (the_role = RoleFinalizer \<and> attachment)) (\<lambda>resolved.
               if (case destination of
                     DestinationText \<Rightarrow> rvr_value_type resolved = VtText
                   | DestinationAttachment \<Rightarrow>
                       rvr_value_type resolved \<in> {VtAttachmentCollection, VtJson, VtFile})
               then Inr (VmReference (rvr_source resolved) (rvr_value_type resolved))
               else reject MessageTypeMismatch location))"

definition validate_agent ::
  "string \<Rightarrow> workflow_node_role \<Rightarrow> agent_definition \<Rightarrow> workflow_document \<Rightarrow>
   (string, workflow_value_type) btree_map \<Rightarrow> validated_harness \<Rightarrow> validated_agent checked" where
  "validate_agent name the_role agent document required_inputs harness =
     try_in (try_map (\<lambda>(index, source).
         validate_message_source name the_role index source document required_inputs DestinationText)
         (enumerate 0 (am_text (ad_message agent)))) (\<lambda>texts.
     try_in (try_map (\<lambda>(index, source).
         validate_message_source name the_role index source document required_inputs
           DestinationAttachment)
         (enumerate 0 (am_attachments (ad_message agent)))) (\<lambda>attachments.
       Inr \<lparr>va_profile = ad_profile agent, va_system_prompt = ad_system_prompt agent,
            va_message = \<lparr>vam_text = texts, vam_attachments = attachments\<rparr>, va_harness = harness\<rparr>))"

definition validate_body ::
  "string \<Rightarrow> workflow_node_role \<Rightarrow> node_body \<Rightarrow> resolved_direct_prerequisite list \<Rightarrow>
   workflow_document \<Rightarrow> (string, validated_harness) btree_map \<Rightarrow>
   (string, workflow_value_type) btree_map \<Rightarrow> validated_step checked" where
  "validate_body name the_role body direct document agent_profiles required_inputs =
     try_in (case cn_condition (body_common body) of
               None \<Rightarrow> Inr (None, [])
             | Some predicate \<Rightarrow>
                 try_in (resolve_condition_predicate predicate name the_role document required_inputs [])
                   (\<lambda>(p, condition_vs). Inr (Some p, condition_vs))) (\<lambda>(guard, condition_vs).
     try_in (evidence_prerequisites_of body direct) (\<lambda>evidence.
       (case body of
          CommandBody command \<Rightarrow>
            try_in (validate_command_inputs name the_role (cmd_inputs command) document required_inputs)
              (\<lambda>resolved.
                Inr (VCommand
                  \<lparr>vcs_common = validate_common (cmd_common command) guard condition_vs direct evidence,
                   vcs_inputs = resolved, vcs_argv = cmd_argv command\<rparr>))
        | AgentBody agent \<Rightarrow>
            try_in (resolve_agent_profile name the_role (agn_agent agent) agent_profiles) (\<lambda>harness.
            try_in (validate_agent name the_role (agn_agent agent) document required_inputs harness)
              (\<lambda>validated.
                Inr (VAgent
                  \<lparr>vas_common = validate_common (agn_common agent) guard condition_vs direct evidence,
                   vas_agent = validated\<rparr>))))))"

section \<open>Exports and the whole document\<close>

definition invalid_export :: "string \<Rightarrow> validation_failure" where
  "invalid_export name = ValidationFailure InvalidExportTarget (LocExport name)"

definition resolve_export ::
  "string \<Rightarrow> output_ref \<Rightarrow> workflow_document \<Rightarrow> resolved_output_source checked" where
  "resolve_export name reference document =
     (case node_body_named document (or_node reference) of
        None \<Rightarrow> Inl (invalid_export name)
      | Some (the_role, body) \<Rightarrow>
          (case map_of (cn_outputs (body_common body)) (or_output reference) of
             None \<Rightarrow> Inl (invalid_export name)
           | Some out \<Rightarrow>
               if cn_failure_policy (body_common body) = Advisory
               then reject AdvisoryExportTarget (LocExport name)
               else if the_role = RoleFinalizer \<and>
                 \<not> bs_contains (fdef_when (the (map_of (doc_finalizers document) (or_node reference))))
                     FtSucceeded
               then reject FinalizerExportTrigger (LocExport name)
               else Inr (ResolvedOutputSource (WorkflowNode (or_node reference) the_role)
                 (or_output reference) (output_value_type out))))"

definition declared_input_type :: "input_declaration \<Rightarrow> workflow_value_type" where
  "declared_input_type declaration =
     (case declaration of
        InText \<Rightarrow> VtText | InJson _ \<Rightarrow> VtJson | InFile _ \<Rightarrow> VtFile | InAttachments \<Rightarrow> VtAttachmentCollection)"

definition validate :: "workflow_document \<Rightarrow> validated_workflow checked" where
  "validate document =
     try_in (validate_node_namespace document) (\<lambda>_.
     try_in (validate_workflow_condition_bounds document) (\<lambda>_.
     try_in (validate_agent_profiles document) (\<lambda>agent_profiles.
     try_in (validate_step_graph document) (\<lambda>step_graph.
     try_in (validate_finalizer_graph document) (\<lambda>finalizer_graph.
     try_in (validate_output_rules document) (\<lambda>_.
     let required_inputs =
           map (\<lambda>(name, declaration). (name, declared_input_type declaration)) (doc_inputs document) in
     try_in (try_map (\<lambda>(step_name, step).
         try_in (validate_body step_name RoleStep (sdef_body step)
             (the (map_of (vg_direct_prerequisites step_graph) step_name))
             document agent_profiles required_inputs) (\<lambda>body.
         try_in (validate_recovery step_name (sdef_recovery step) agent_profiles) (\<lambda>rec.
           Inr (step_name, body, rec)))) (doc_steps document)) (\<lambda>validated_steps.
     try_in (try_map (\<lambda>(finalizer_name, finalizer).
         try_in (validate_body finalizer_name RoleFinalizer (fdef_body finalizer)
             (the (map_of (vg_direct_prerequisites finalizer_graph) finalizer_name))
             document agent_profiles required_inputs) (\<lambda>body.
           Inr (finalizer_name, \<lparr>vf_body = body, vf_when = fdef_when finalizer\<rparr>)))
         (doc_finalizers document)) (\<lambda>finalizers.
     try_in (try_map (\<lambda>(name, reference).
         try_in (resolve_export name reference document) (\<lambda>source. Inr (name, source)))
         (doc_exports document)) (\<lambda>resolved_exports.
       Inr \<lparr>vw_schema_version = doc_schema_version document,
            vw_description = doc_description document,
            vw_steps = map (\<lambda>(name, body, _). (name, body)) validated_steps,
            vw_recoveries = map (\<lambda>(name, _, rec). (name, rec)) validated_steps,
            vw_source_order = doc_step_order document,
            vw_presentation_order = vg_presentation_order step_graph,
            vw_finalizers = finalizers,
            vw_finalizer_source_order = doc_finalizer_order document,
            vw_finalizer_presentation_order = vg_presentation_order finalizer_graph,
            vw_exports = resolved_exports,
            vw_required_inputs = required_inputs,
            vw_input_json_schema_paths = List.map_filter (\<lambda>(name, declaration).
              case declaration of InJson (Some schema) \<Rightarrow> Some (name, schema) | _ \<Rightarrow> None)
              (doc_inputs document),
            vw_input_file_media_types = List.map_filter (\<lambda>(name, declaration).
              case declaration of InFile (Some media_type) \<Rightarrow> Some (name, media_type) | _ \<Rightarrow> None)
              (doc_inputs document)\<rparr>)))))))))"

end
