(* ===== verification/Validation_Graph.thy ===== *)
theory Validation_Graph
  imports Validation
begin

text \<open>
  The ordering of a dependency graph: the worklist loop never underflows, computes the greedy order
  that always takes the first node of the source order whose producers are all ordered, and orders
  every node exactly when the graph is acyclic.
\<close>

section \<open>A reference order\<close>

definition node_producers ::
  "(string, resolved_direct_prerequisite list) btree_map \<Rightarrow> string \<Rightarrow> string list" where
  "node_producers direct node =
     (case map_of direct node of None \<Rightarrow> [] | Some ps \<Rightarrow> map producer ps)"

definition first_ready ::
  "(string, resolved_direct_prerequisite list) btree_map \<Rightarrow> string list \<Rightarrow> string list \<Rightarrow>
   string option" where
  "first_ready direct source_order order =
     find (\<lambda>node. node \<notin> set order \<and> set (node_producers direct node) \<subseteq> set order) source_order"

text \<open>The order that takes the first ready node of the source, at most as many times as given.\<close>

primrec greedy_order ::
  "nat \<Rightarrow> (string, resolved_direct_prerequisite list) btree_map \<Rightarrow> string list \<Rightarrow> string list \<Rightarrow>
   string list" where
  "greedy_order 0 direct source_order order = order"
| "greedy_order (Suc k) direct source_order order =
     (case first_ready direct source_order order of
        None \<Rightarrow> order
      | Some node \<Rightarrow> greedy_order k direct source_order (order @ [node]))"

text \<open>The tables a graph is built from: each node of the source order has one entry.\<close>

definition graph_wf ::
  "(string, resolved_direct_prerequisite list) btree_map \<Rightarrow> string list \<Rightarrow> bool" where
  "graph_wf direct source_order \<longleftrightarrow>
     distinct (map fst direct) \<and> distinct source_order \<and> set source_order = fst ` set direct"

section \<open>Tables of the loop\<close>

definition dependents_of ::
  "(string, resolved_direct_prerequisite list) btree_map \<Rightarrow> string \<Rightarrow> string list" where
  "dependents_of direct x =
     concat (map (\<lambda>(node, ps). map (\<lambda>_. node) (filter (\<lambda>p. producer p = x) ps)) direct)"

definition table_get :: "(string, string list) btree_map \<Rightarrow> string \<Rightarrow> string list" where
  "table_get m x = (case map_of m x of None \<Rightarrow> [] | Some nodes \<Rightarrow> nodes)"

lemma push_dependents:
  "table_get (fold (\<lambda>p dependents. bt_insert (producer p)
       ((case map_of dependents (producer p) of None \<Rightarrow> [] | Some nodes \<Rightarrow> nodes) @ [node])
       dependents) ps m) x =
   table_get m x @ map (\<lambda>_. node) (filter (\<lambda>p. producer p = x) ps)"
  by (induction ps arbitrary: m) (auto simp: table_get_def)

lemma graph_dependents_get: "table_get (graph_dependents direct) x = dependents_of direct x"
proof -
  have "table_get (fold (\<lambda>(node, ps). fold (\<lambda>p dependents. bt_insert (producer p)
       ((case map_of dependents (producer p) of None \<Rightarrow> [] | Some nodes \<Rightarrow> nodes) @ [node])
       dependents) ps) direct m) x = table_get m x @ dependents_of direct x" for m
    by (induction direct arbitrary: m) (auto simp: dependents_of_def push_dependents split: prod.splits)
  from this [of "[]"] show ?thesis
    by (simp add: graph_dependents_def table_get_def)
qed

lemma count_replicate: "count_list (replicate k y) n = (if y = n then k else 0)"
  by (induction k) auto

lemma dependents_of_Nil [simp]: "dependents_of [] x = []"
  by (simp add: dependents_of_def)

lemma dependents_of_Cons [simp]:
  "dependents_of ((node, ps) # direct) x =
   replicate (length (filter (\<lambda>p. producer p = x) ps)) node @ dependents_of direct x"
  by (simp add: dependents_of_def map_replicate_const)

lemma count_dependents_absent: "n \<notin> fst ` set direct \<Longrightarrow> count_list (dependents_of direct x) n = 0"
  by (induction direct) (auto simp: count_list_append count_replicate)

lemma count_dependents:
  "distinct (map fst direct) \<Longrightarrow>
   count_list (dependents_of direct x) n = length (filter (\<lambda>p. p = x) (node_producers direct n))"
proof (induction direct)
  case (Cons e direct)
  obtain node ps where e: "e = (node, ps)"
    by (cases e)
  have "count_list (dependents_of (e # direct) x) n =
      (if node = n then length (filter (\<lambda>p. producer p = x) ps) else 0) +
      count_list (dependents_of direct x) n"
    by (simp add: e count_replicate count_list_append)
  moreover have "count_list (dependents_of direct x) n = 0" if "node = n"
    using Cons.prems e that by (intro count_dependents_absent) auto
  ultimately show ?case
    using Cons e by (cases "node = n") (simp_all add: node_producers_def filter_map comp_def)
qed (simp add: node_producers_def)

lemma set_dependents:
  "distinct (map fst direct) \<Longrightarrow> n \<in> set (dependents_of direct x) \<longleftrightarrow> x \<in> set (node_producers direct n)"
  using count_dependents [of direct x n] count_list_0_iff [of "dependents_of direct x" n]
    filter_empty_conv [of "\<lambda>p. p = x" "node_producers direct n"]
  by (metis length_0_conv)

section \<open>Releasing dependents\<close>

text \<open>What releasing a list of dependents does to the counts and to the ready set.\<close>

definition released ::
  "(string, nat) btree_map \<Rightarrow> string list \<Rightarrow>
   (nat \<times> string) btree_set \<times> (string, nat) btree_map \<Rightarrow>
   (nat \<times> string) btree_set \<times> (string, nat) btree_map \<Rightarrow> bool" where
  "released indices ds before after \<longleftrightarrow>
     (\<forall>n. map_of (snd after) n = map_option (\<lambda>c. c - count_list ds n) (map_of (snd before) n)) \<and>
     set (fst after) = set (fst before) \<union>
       {(i, n). n \<in> set ds \<and> map_of (snd after) n = Some 0 \<and> map_of indices n = Some i} \<and>
     (sorted_wrt (<) (fst before) \<longrightarrow> sorted_wrt (<) (fst after))"

definition covers :: "string list \<Rightarrow> (string, nat) btree_map \<Rightarrow> bool" where
  "covers ds remaining \<longleftrightarrow> (\<forall>n c. map_of remaining n = Some c \<longrightarrow> count_list ds n \<le> c)"

lemma released_absent:
  "released indices ds before after \<Longrightarrow> map_of (snd before) d = None \<Longrightarrow>
   released indices (d # ds) before after"
  unfolding released_def by (auto simp: option.map_comp)

lemma released_count:
  assumes after: "released indices ds (ready1, bt_modify d (\<lambda>_. c) remaining) after"
    and d: "map_of remaining d = Some (Suc c)"
    and ready1: "ready1 = (if c = 0 then (case map_of indices d of Some i \<Rightarrow> bs_insert (i, d) ready
        | None \<Rightarrow> ready) else ready)"
  shows "released indices (d # ds) (ready, remaining) after"
proof -
  have counts: "map_of (snd after) n = map_option (\<lambda>c. c - count_list (d # ds) n) (map_of remaining n)" for n
    using after d by (cases "n = d") (simp_all add: released_def)
  have "map_of (snd after) d = Some (c - count_list ds d)"
    using after d by (simp add: released_def)
  then have zero: "map_of (snd after) d = Some 0 \<longleftrightarrow> c = 0 \<or> d \<in> set ds \<and> map_of (snd after) d = Some 0"
    using count_list_0_iff [of ds d] by auto
  have ready: "set ready1 = set ready \<union> {(i, n). n = d \<and> c = 0 \<and> map_of indices n = Some i}"
    by (auto simp: ready1 split: option.splits)
  have "set (fst after) = set ready \<union>
      {(i, n). n \<in> set (d # ds) \<and> map_of (snd after) n = Some 0 \<and> map_of indices n = Some i}"
  proof -
    have "set (fst after) = set ready1 \<union>
      {(i, n). n \<in> set ds \<and> map_of (snd after) n = Some 0 \<and> map_of indices n = Some i}"
      using after by (simp add: released_def)
    then show ?thesis
      using zero unfolding ready by auto
  qed
  moreover have "sorted_wrt (<) ready \<longrightarrow> sorted_wrt (<) (fst after)"
    using after by (auto simp: released_def ready1 split: option.splits if_splits)
  ultimately show ?thesis
    using counts by (simp add: released_def)
qed

lemma release_dependents_total:
  "covers ds remaining \<Longrightarrow>
   \<exists>after. release_dependents indices ds (ready, remaining) = Some after \<and>
     released indices ds (ready, remaining) after"
proof (induction ds arbitrary: ready remaining)
  case Nil
  then show ?case
    by (simp add: released_def option.map_ident)
next
  case (Cons d ds)
  show ?case
  proof (cases "map_of remaining d")
    case None
    have "covers ds remaining"
      using Cons.prems unfolding covers_def by (metis add_leD1 count_list.simps(2) Suc_eq_plus1)
    from Cons.IH [OF this, of ready] obtain after where
      "release_dependents indices ds (ready, remaining) = Some after"
      "released indices ds (ready, remaining) after"
      by blast
    then show ?thesis
      using None released_absent [of indices ds "(ready, remaining)" after d]
      by (simp add: release_dependent_def)
  next
    case (Some k)
    then obtain c where c: "map_of remaining d = Some (Suc c)"
      using Cons.prems unfolding covers_def by (cases k) force+
    let ?ready = "if c = 0 then (case map_of indices d of Some i \<Rightarrow> bs_insert (i, d) ready | None \<Rightarrow> ready)
      else ready"
    have one: "release_dependent indices d (ready, remaining) =
        Some (?ready, bt_modify d (\<lambda>_. c) remaining)"
      using c by (simp add: release_dependent_def Let_def split: option.splits)
    have "covers ds (bt_modify d (\<lambda>_. c) remaining)"
      unfolding covers_def
    proof (intro allI impI)
      fix n m
      assume "map_of (bt_modify d (\<lambda>_. c) remaining) n = Some m"
      then show "count_list ds n \<le> m"
        using Cons.prems [unfolded covers_def, rule_format, of n "if n = d then Suc c else m"] c
        by (cases "n = d") simp_all
    qed
    from Cons.IH [OF this, of ?ready] obtain after where
      "release_dependents indices ds (?ready, bt_modify d (\<lambda>_. c) remaining) = Some after"
      and after: "released indices ds (?ready, bt_modify d (\<lambda>_. c) remaining) after"
      by blast
    then show ?thesis
      using one released_count [OF after c refl] by simp
  qed
qed

section \<open>The loop\<close>

definition loop_inv ::
  "(string, resolved_direct_prerequisite list) btree_map \<Rightarrow> string list \<Rightarrow>
   (nat \<times> string) btree_set \<Rightarrow> (string, nat) btree_map \<Rightarrow> string list \<Rightarrow> bool" where
  "loop_inv direct source_order ready remaining order \<longleftrightarrow>
     distinct order \<and> set order \<subseteq> set source_order \<and>
     (\<forall>n\<in>set order. set (node_producers direct n) \<subseteq> set order) \<and>
     sorted_wrt (<) ready \<and>
     set ready = {(i, n). i < length source_order \<and> source_order ! i = n \<and> n \<notin> set order \<and>
       set (node_producers direct n) \<subseteq> set order} \<and>
     (\<forall>n. map_of remaining n =
       (if n \<in> fst ` set direct
        then Some (length (filter (\<lambda>p. p \<notin> set order) (node_producers direct n))) else None))"

lemma first_ready_of_ready:
  assumes "loop_inv direct source_order ready remaining order"
  shows "first_ready direct source_order order = (case ready of [] \<Rightarrow> None | x # _ \<Rightarrow> Some (snd x))"
proof (cases ready)
  case Nil
  then have "{(i, n). i < length source_order \<and> source_order ! i = n \<and> n \<notin> set order \<and>
       set (node_producers direct n) \<subseteq> set order} = {}"
    using assms by (simp add: loop_inv_def)
  then have "\<not> (\<exists>n\<in>set source_order. n \<notin> set order \<and> set (node_producers direct n) \<subseteq> set order)"
    by (fastforce simp: in_set_conv_nth [of _ source_order])
  then show ?thesis
    using Nil by (auto simp: first_ready_def find_None_iff)
next
  case (Cons x rest)
  obtain i n where x: "x = (i, n)"
    by (cases x)
  have "sorted_wrt (<) (x # rest)"
    using assms Cons by (simp add: loop_inv_def)
  then have min: "y = (i, n) \<or> (i, n) < y" if "y \<in> set ready" for y
    using that Cons x by auto
  have head: "(i, n) \<in> set ready"
    using Cons x by simp
  have "\<not> (source_order ! j \<notin> set order \<and> set (node_producers direct (source_order ! j)) \<subseteq> set order)"
    if "j < i" for j
  proof
    assume "source_order ! j \<notin> set order \<and> set (node_producers direct (source_order ! j)) \<subseteq> set order"
    then have "(j, source_order ! j) \<in> set ready"
      using assms head that by (auto simp: loop_inv_def)
    then show False
      using min that by fastforce
  qed
  then show ?thesis
    using assms head Cons x by (auto simp: loop_inv_def first_ready_def find_Some_iff intro!: exI [of _ i])
qed

lemma length_filter_new:
  "x \<notin> A \<Longrightarrow> length (filter (\<lambda>p. p \<notin> insert x A) ps) + length (filter (\<lambda>p. p = x) ps) =
   length (filter (\<lambda>p. p \<notin> A) ps)"
  by (induction ps) auto

lemma ready_tail:
  fixes x :: string
  assumes "insert (i, x) (set ready) = {(i, n). i < length source_order \<and> source_order ! i = n \<and> Q n}"
    and "sorted_wrt (<) ((i, x) # ready)" and "distinct source_order"
  shows "(j, n) \<in> set ready \<longleftrightarrow> j < length source_order \<and> source_order ! j = n \<and> n \<noteq> x \<and> Q n"
proof -
  have both: "(j, n) = (i, x) \<or> (j, n) \<in> set ready \<longleftrightarrow> j < length source_order \<and> source_order ! j = n \<and> Q n"
    for j n
    using eqset_imp_iff [OF assms(1), of "(j, n)"] by simp
  have "(i, x) \<notin> set ready"
  proof
    assume "(i, x) \<in> set ready"
    then have "(i, x) < (i, x)"
      using assms(2) unfolding sorted_wrt.simps by blast
    then show False
      by simp
  qed
  moreover have "j = i" if "j < length source_order" "source_order ! j = x"
    using that both [of i x] assms(3) nth_eq_iff_index_eq [of source_order j i] by simp
  ultimately show ?thesis
    using both [of j n] by (cases "n = x") blast+
qed

lemma loop_step:
  assumes wf: "graph_wf direct source_order"
    and inv: "loop_inv direct source_order ((i, x) # ready) remaining order"
    and indices: "\<And>n i. map_of indices n = Some i \<longleftrightarrow> i < length source_order \<and> source_order ! i = n"
  shows "\<exists>ready' remaining'.
    release_dependents indices (dependents_of direct x) (ready, remaining) = Some (ready', remaining') \<and>
    loop_inv direct source_order ready' remaining' (order @ [x])"
proof -
  let ?np = "node_producers direct"
  have dist: "distinct (map fst direct)" and keys: "set source_order = fst ` set direct"
    and dsrc: "distinct source_order"
    using wf by (simp_all add: graph_wf_def)
  have set_ready: "insert (i, x) (set ready) = {(i, n). i < length source_order \<and> source_order ! i = n \<and>
      n \<notin> set order \<and> set (?np n) \<subseteq> set order}"
    and sorted: "sorted_wrt (<) ((i, x) # ready)"
    and counts: "\<And>n. map_of remaining n = (if n \<in> fst ` set direct
      then Some (length (filter (\<lambda>p. p \<notin> set order) (?np n))) else None)"
    and closed: "\<forall>n\<in>set order. set (?np n) \<subseteq> set order"
    and order: "distinct order" "set order \<subseteq> set source_order"
    using inv by (simp_all add: loop_inv_def)
  have x: "i < length source_order" "source_order ! i = x" "x \<notin> set order" "set (?np x) \<subseteq> set order"
    using eqset_imp_iff [OF set_ready, of "(i, x)"] by simp_all
  note ready = ready_tail [OF set_ready sorted dsrc]
  have split: "length (filter (\<lambda>p. p \<notin> insert x (set order)) (?np n)) +
      count_list (dependents_of direct x) n = length (filter (\<lambda>p. p \<notin> set order) (?np n))" for n
    using length_filter_new [OF x(3)] count_dependents [OF dist] by simp
  have bound: "covers (dependents_of direct x) remaining"
    unfolding covers_def using counts split by (metis le_add2 option.distinct(1) option.inject)
  obtain ready' remaining' where
    run: "release_dependents indices (dependents_of direct x) (ready, remaining) = Some (ready', remaining')"
    and released: "released indices (dependents_of direct x) (ready, remaining) (ready', remaining')"
    using release_dependents_total [OF bound, of indices ready] by (metis surj_pair)
  have counts': "map_of remaining' n = (if n \<in> fst ` set direct
      then Some (length (filter (\<lambda>p. p \<notin> insert x (set order)) (?np n))) else None)" for n
  proof -
    have "length (filter (\<lambda>p. p \<notin> set order) (?np n)) - count_list (dependents_of direct x) n =
        length (filter (\<lambda>p. p \<notin> insert x (set order)) (?np n))"
      using split [of n] by linarith
    then show ?thesis
      using released counts [of n] unfolding released_def by (simp del: insert_iff)
  qed
  have zero: "map_of remaining' n = Some 0 \<longleftrightarrow> n \<in> fst ` set direct \<and> set (?np n) \<subseteq> insert x (set order)"
    for n
    unfolding counts' by (auto simp: filter_empty_conv)
  have fresh: "n \<notin> set order \<and> n \<noteq> x" if "x \<in> set (?np n)" for n
    using that closed x by blast
  have "(j, n) \<in> set ready' \<longleftrightarrow> j < length source_order \<and> source_order ! j = n \<and>
      n \<notin> insert x (set order) \<and> set (?np n) \<subseteq> insert x (set order)" for j n
  proof -
    have "(j, n) \<in> set ready' \<longleftrightarrow> (j, n) \<in> set ready \<or>
        x \<in> set (?np n) \<and> map_of remaining' n = Some 0 \<and> map_of indices n = Some j"
      using released set_dependents [OF dist] by (simp add: released_def)
    also have "\<dots> \<longleftrightarrow> j < length source_order \<and> source_order ! j = n \<and>
        n \<notin> insert x (set order) \<and> set (?np n) \<subseteq> insert x (set order)"
      unfolding ready zero indices using fresh [of n] keys nth_mem [of j source_order] by blast
    finally show ?thesis .
  qed
  then have "set ready' = {(j, n). j < length source_order \<and> source_order ! j = n \<and>
      n \<notin> set (order @ [x]) \<and> set (?np n) \<subseteq> set (order @ [x])}"
    by auto
  moreover have "sorted_wrt (<) ready'"
    using released sorted by (simp add: released_def)
  moreover have "\<forall>n\<in>set (order @ [x]). set (?np n) \<subseteq> set (order @ [x])"
    using closed x by auto
  ultimately have "loop_inv direct source_order ready' remaining' (order @ [x])"
    unfolding loop_inv_def using counts' order x by auto
  then show ?thesis
    using run by blast
qed

lemma loop_inv_length: "loop_inv direct source_order ready remaining order \<Longrightarrow>
   length order + card (set source_order - set order) = card (set source_order)"
  using card_Diff_subset [of "set order" "set source_order"] card_mono [of "set source_order" "set order"]
  by (simp add: loop_inv_def distinct_card)

lemma order_nodes_greedy:
  assumes "graph_wf direct source_order"
    and "loop_inv direct source_order ready remaining order"
    and "\<And>n i. map_of indices n = Some i \<longleftrightarrow> i < length source_order \<and> source_order ! i = n"
    and "length source_order \<le> k + length order"
  shows "order_nodes indices (graph_dependents direct) ready remaining order =
    Some (greedy_order k direct source_order order)"
  using assms(2,4)
proof (induction k arbitrary: ready remaining order)
  case 0
  have "card (set source_order - set order) = 0"
    using loop_inv_length [OF 0(1)] 0(2) card_length [of source_order] by linarith
  then have "set source_order \<subseteq> set order"
    by simp
  then have "first_ready direct source_order order = None"
    by (auto simp: first_ready_def find_None_iff)
  then have "ready = []"
    using first_ready_of_ready [OF 0(1)] by (simp split: list.splits)
  then show ?case
    by simp
next
  case (Suc k)
  show ?case
  proof (cases ready)
    case Nil
    then show ?thesis
      using first_ready_of_ready [OF Suc.prems(1)] by simp
  next
    case (Cons e rest)
    obtain i x where e: "e = (i, x)"
      by (cases e)
    obtain ready' remaining' where
      run: "release_dependents indices (dependents_of direct x) (rest, remaining) = Some (ready', remaining')"
      and inv: "loop_inv direct source_order ready' remaining' (order @ [x])"
      using loop_step [OF assms(1) _ assms(3)] Suc.prems(1) Cons e by metis
    have "first_ready direct source_order order = Some x"
      using first_ready_of_ready [OF Suc.prems(1)] Cons e by simp
    then show ?thesis
      using Suc.IH [OF inv] Suc.prems(2) run Cons e graph_dependents_get [of direct x]
      by (simp add: table_get_def)
  qed
qed

text \<open>The tables the loop starts from satisfy its invariant.\<close>

lemma source_indices:
  assumes "distinct source_order"
  shows "map_of (bt_collect (map (\<lambda>(index, node). (node, index)) (enumerate 0 source_order))) n = Some i \<longleftrightarrow>
    i < length source_order \<and> source_order ! i = n"
proof -
  let ?xs = "map (\<lambda>(index, node). (node, index)) (enumerate 0 source_order)"
  have keys: "map fst ?xs = source_order"
    by (simp add: comp_def split_def)
  then have "map_of (bt_collect ?xs) n = Some i \<longleftrightarrow> (n, i) \<in> set ?xs"
    using assms by (simp only: map_of_bt_collect map_of_eq_Some_iff)
  also have "\<dots> \<longleftrightarrow> i < length source_order \<and> source_order ! i = n"
  proof -
    have "(n, i) \<in> set ?xs \<longleftrightarrow> (i, n) \<in> set (enumerate 0 source_order)"
      by (auto simp: image_iff intro: bexI [of _ "(i, n)"])
    then show ?thesis
      by (simp add: in_set_enumerate_eq)
  qed
  finally show ?thesis .
qed

lemma graph_order_greedy:
  assumes wf: "graph_wf direct source_order"
  shows "graph_order direct source_order =
    Some (greedy_order (length source_order) direct source_order [])"
proof -
  let ?indices = "bt_collect (map (\<lambda>(index, node). (node, index)) (enumerate 0 source_order))"
  let ?remaining = "map (\<lambda>(node, ps). (node, length ps)) direct"
  let ?ready = "fold bs_insert (List.map_filter (\<lambda>(node, count).
      if count = 0 then map_option (\<lambda>index. (index, node)) (map_of ?indices node) else None)
      ?remaining) []"
  have dist: "distinct (map fst direct)" and keys: "set source_order = fst ` set direct"
    and dsrc: "distinct source_order"
    using wf by (simp_all add: graph_wf_def)
  note indices = source_indices [OF dsrc]
  have counts: "map_of ?remaining n = map_option length (map_of direct n)" for n
    by (induction direct) auto
  have producers: "map_of direct n = Some ps \<Longrightarrow> node_producers direct n = map producer ps" for n ps
    by (simp add: node_producers_def)
  have initial: "(j, n) \<in> set (fold bs_insert (List.map_filter (\<lambda>(node, count).
      if count = 0 then map_option (\<lambda>index. (index, node)) (map_of ix node) else None) xs) []) \<longleftrightarrow>
      (n, 0) \<in> set xs \<and> map_of ix n = Some j" for j n ix and xs :: "(string \<times> nat) list"
    by (force simp: List.map_filter_def split: if_splits)
  have empty: "(n, 0) \<in> set ?remaining \<longleftrightarrow> n \<in> fst ` set direct \<and> node_producers direct n = []" for n
    using dist producers [of n] by (force simp: image_iff)
  have "(j, n) \<in> set ?ready \<longleftrightarrow> j < length source_order \<and> source_order ! j = n \<and>
      node_producers direct n = []" for j n
    unfolding initial empty indices using keys nth_mem [of j source_order] by blast
  then have "set ?ready = {(j, n). j < length source_order \<and> source_order ! j = n \<and>
      n \<notin> set [] \<and> set (node_producers direct n) \<subseteq> set []}"
    by auto
  moreover have "sorted_wrt (<) ?ready"
    by (rule strict_sorted_fold_bs_insert) simp
  moreover have "map_of ?remaining n = (if n \<in> fst ` set direct
      then Some (length (filter (\<lambda>p. p \<notin> set []) (node_producers direct n))) else None)" for n
    using counts [of n] by (auto simp: node_producers_def map_of_eq_None_iff split: option.splits)
  ultimately have "loop_inv direct source_order ?ready ?remaining []"
    unfolding loop_inv_def by simp
  from order_nodes_greedy [OF wf this indices, of "length source_order"] show ?thesis
    by (simp add: graph_order_def Let_def)
qed

section \<open>Acceptance\<close>

definition graph_edges ::
  "(string, resolved_direct_prerequisite list) btree_map \<Rightarrow> (string \<times> string) set" where
  "graph_edges direct = {(p, n). n \<in> fst ` set direct \<and> p \<in> set (node_producers direct n)}"

text \<open>Every greedy order lists distinct nodes of the source, each after its producers.\<close>

definition producers_first ::
  "(string, resolved_direct_prerequisite list) btree_map \<Rightarrow> string list \<Rightarrow> bool" where
  "producers_first direct order \<longleftrightarrow>
     (\<forall>i<length order. set (node_producers direct (order ! i)) \<subseteq> set (take i order))"

lemma greedy_order_sound:
  "distinct order \<Longrightarrow> set order \<subseteq> set source_order \<Longrightarrow> producers_first direct order \<Longrightarrow>
   order' = greedy_order k direct source_order order \<Longrightarrow>
   distinct order' \<and> set order' \<subseteq> set source_order \<and> producers_first direct order' \<and>
   (first_ready direct source_order order' = None \<or> length order' = length order + k)"
proof (induction k arbitrary: order)
  case (Suc k)
  show ?case
  proof (cases "first_ready direct source_order order")
    case (Some node)
    then have node: "node \<in> set source_order" "node \<notin> set order"
      "set (node_producers direct node) \<subseteq> set order"
      using find_SomeD unfolding first_ready_def by fast+
    then have "producers_first direct (order @ [node])"
      using Suc.prems(3) by (auto simp: producers_first_def nth_append less_Suc_eq)
    then show ?thesis
      using Suc.IH [of "order @ [node]"] Suc.prems node Some by auto
  qed (use Suc.prems in simp)
qed simp

lemma greedy_order_complete:
  assumes "graph_wf direct source_order"
    and "order = greedy_order (length source_order) direct source_order []"
  shows "distinct order \<and> set order \<subseteq> set source_order \<and> producers_first direct order \<and>
    first_ready direct source_order order = None"
proof -
  have sound: "distinct order \<and> set order \<subseteq> set source_order \<and> producers_first direct order \<and>
      (first_ready direct source_order order = None \<or> length order = length source_order)"
    using greedy_order_sound [of "[]" source_order direct order "length source_order"] assms(2)
    by (simp add: producers_first_def)
  moreover have "first_ready direct source_order order = None" if len: "length order = length source_order"
  proof -
    have "card (set order) = card (set source_order)"
      using sound len assms(1) by (metis distinct_card graph_wf_def)
    then have "set order = set source_order"
      using sound card_subset_eq [of "set source_order" "set order"] by blast
    then show ?thesis
      by (auto simp: first_ready_def find_None_iff)
  qed
  ultimately show ?thesis
    by blast
qed

lemma graph_order_accepts:
  assumes wf: "graph_wf direct source_order" and inside: "fst ` graph_edges direct \<subseteq> set source_order"
    and order: "graph_order direct source_order = Some order"
  shows "length order = length direct \<longleftrightarrow> acyclic (graph_edges direct)"
proof -
  have facts: "distinct order" "set order \<subseteq> set source_order" "producers_first direct order"
    "first_ready direct source_order order = None"
    using greedy_order_complete [OF wf, of order] order graph_order_greedy [OF wf] by simp_all
  have keys: "set source_order = fst ` set direct" and len: "length direct = card (set source_order)"
    using wf by (simp_all add: graph_wf_def flip: distinct_card)
      (metis distinct_card length_map list.set_map)
  show ?thesis
  proof
    assume "length order = length direct"
    then have all: "set order = set source_order"
      using facts len card_subset_eq [of "set source_order" "set order"] by (simp add: distinct_card)
    define pos where "pos n = (LEAST i. i < length order \<and> order ! i = n)" for n
    have pos: "pos (order ! i) = i" if "i < length order" for i
      unfolding pos_def using that facts(1) by (intro Least_equality) (auto simp: nth_eq_iff_index_eq)
    have "graph_edges direct \<subseteq> measure pos"
    proof (rule subrelI)
      fix p n
      assume "(p, n) \<in> graph_edges direct"
      then have n: "n \<in> set order" "p \<in> set (node_producers direct n)"
        using all keys by (auto simp: graph_edges_def)
      then obtain i where i: "i < length order" "order ! i = n"
        by (auto simp: in_set_conv_nth)
      then have "p \<in> set (take i order)"
        using facts(3) n by (auto simp: producers_first_def)
      then obtain j where "j < i" "order ! j = p"
        using i by (auto simp: in_set_conv_nth)
      then show "(p, n) \<in> measure pos"
        using i pos [of i] pos [of j] by auto
    qed
    then show "acyclic (graph_edges direct)"
      by (meson acyclic_subset wf_acyclic wf_measure)
  next
    assume acyclic: "acyclic (graph_edges direct)"
    have "finite (graph_edges direct)"
      by (rule finite_subset [of _ "set source_order \<times> set source_order"])
        (use inside keys in \<open>auto simp: graph_edges_def image_subset_iff\<close>)
    then have "wf (graph_edges direct)"
      using acyclic finite_acyclic_wf by blast
    have "set source_order \<subseteq> set order"
    proof (rule ccontr)
      assume "\<not> set source_order \<subseteq> set order"
      then obtain n where n: "n \<in> set source_order - set order"
        and least: "\<And>p. (p, n) \<in> graph_edges direct \<Longrightarrow> p \<notin> set source_order - set order"
        using wfE_min [OF \<open>wf (graph_edges direct)\<close>, of _ "set source_order - set order"] by blast
      have "set (node_producers direct n) \<subseteq> set order"
      proof
        fix p
        assume "p \<in> set (node_producers direct n)"
        then have "(p, n) \<in> graph_edges direct"
          using n keys by (simp add: graph_edges_def)
        then show "p \<in> set order"
          using least inside by (auto simp: image_subset_iff)
      qed
      then show False
        using facts(4) n by (auto simp: first_ready_def find_None_iff)
    qed
    then show "length order = length direct"
      using facts len by (simp add: antisym distinct_card)
  qed
qed

end
