(* ===== verification/Validation_Checks.thy ===== *)
theory Validation_Checks
  imports Validation_Graph Condition_Semantics
begin

text \<open>
  What a successful validation guarantees: prerequisites stay inside the table of their role and never
  name their own node, both presentation orders list every node once and after its producers, the
  descriptors of a node fit a blocked detail, and conditions keep their bounds.
\<close>

section \<open>Documents\<close>

text \<open>The tables of a parsed document are maps.\<close>

definition document_wf :: "workflow_document \<Rightarrow> bool" where
  "document_wf document \<longleftrightarrow> bt_wf (doc_steps document) \<and> bt_wf (doc_finalizers document)"

definition role_keys :: "workflow_document \<Rightarrow> workflow_node_role \<Rightarrow> string list" where
  "role_keys document the_role =
     (case the_role of
        RoleStep \<Rightarrow> bt_keys (doc_steps document) | RoleFinalizer \<Rightarrow> bt_keys (doc_finalizers document))"

lemma map_of_in_keys: "map_of m k = Some v \<Longrightarrow> k \<in> set (bt_keys m)"
  by (force simp: bt_keys_def dest: map_of_SomeD)

lemma declared_output_role:
  "declared_output document reference location = Inr (the_role, body, out) \<Longrightarrow>
   or_node reference \<in> set (role_keys document the_role)"
  by (auto simp: declared_output_def node_body_named_def reject_def role_keys_def map_of_in_keys
      split: option.splits)

lemma condition_target_role_keys:
  "condition_target_role document node location = Inr the_role \<Longrightarrow>
   node \<in> set (role_keys document the_role)"
  by (auto simp: condition_target_role_def reject_def role_keys_def bt_contains_key_def map_of_in_keys
      split: if_splits)

section \<open>Prerequisite tables\<close>

text \<open>
  Each prerequisite is filed under its producer, which is another node of the same role, and a
  required node takes data only from required producers.
\<close>

definition policy_of :: "workflow_document \<Rightarrow> workflow_node_role \<Rightarrow> string \<Rightarrow> failure_policy" where
  "policy_of document the_role name = cn_failure_policy (node_common document name the_role)"

definition prerequisite_ok ::
  "workflow_document \<Rightarrow> workflow_node_role \<Rightarrow> string \<Rightarrow> resolved_direct_prerequisite \<Rightarrow> bool" where
  "prerequisite_ok document the_role consumer p \<longleftrightarrow>
     producer p \<in> set (role_keys document the_role) \<and> producer p \<noteq> consumer \<and>
     (data p \<and> policy_of document the_role consumer = Required \<longrightarrow>
      policy_of document the_role (producer p) = Required)"

definition table_ok ::
  "workflow_document \<Rightarrow> workflow_node_role \<Rightarrow> string \<Rightarrow> prerequisite_table \<Rightarrow> bool" where
  "table_ok document the_role consumer table \<longleftrightarrow>
     bt_wf table \<and>
     (\<forall>k p. map_of table k = Some p \<longrightarrow> producer p = k \<and> prerequisite_ok document the_role consumer p)"

lemma table_ok_Nil [simp]: "table_ok document the_role consumer []"
  by (simp add: table_ok_def)

lemma table_ok_insert:
  "table_ok document the_role consumer table \<Longrightarrow> producer p = k \<Longrightarrow>
   prerequisite_ok document the_role consumer p \<Longrightarrow>
   table_ok document the_role consumer (bt_insert k p table)"
  by (auto simp: table_ok_def bt_wf_insert)

lemma table_ok_modify:
  assumes "table_ok document the_role consumer table"
    and "\<And>p. map_of table k = Some p \<Longrightarrow> producer p = k \<Longrightarrow> prerequisite_ok document the_role consumer p \<Longrightarrow>
      producer (f p) = k \<and> prerequisite_ok document the_role consumer (f p)"
  shows "table_ok document the_role consumer (bt_modify k f table)"
  using assms by (auto simp: table_ok_def map_of_bt_modify split: if_splits)

lemma mark_data_ok:
  assumes "table_ok document the_role consumer table"
    and "name \<in> set (role_keys document the_role)" and "name \<noteq> consumer"
    and "policy_of document the_role consumer = Required \<Longrightarrow> policy_of document the_role name = Required"
  shows "table_ok document the_role consumer (mark_data_prerequisite name for_condition table)"
  using assms
  by (auto simp: mark_data_prerequisite_def prerequisite_ok_def intro!: table_ok_insert table_ok_modify
      split: option.splits)

lemma mark_disposition_ok:
  assumes "table_ok document the_role consumer table"
    and "name \<in> set (role_keys document the_role)" and "name \<noteq> consumer"
  shows "table_ok document the_role consumer (mark_disposition_prerequisite name table)"
  using assms
  by (auto simp: mark_disposition_prerequisite_def prerequisite_ok_def
      intro!: table_ok_insert table_ok_modify split: option.splits)

lemma control_ok:
  assumes "insert_control_prerequisite consumer dependency
      (dependency \<in> set (role_keys document the_role)) failure location (seen, table) = Inr (seen', table')"
    and "table_ok document the_role consumer table"
  shows "table_ok document the_role consumer table'"
  using assms
  by (auto simp: insert_control_prerequisite_def prerequisite_ok_def reject_def intro!: table_ok_insert
      split: if_splits)

lemma authority_policy:
  assumes "validate_data_dependency_authority document consumer name the_role the_role
      (cn_failure_policy (body_common body)) location = Inr u"
    and "declared_output document reference location' = Inr (the_role, body, out)" "or_node reference = name"
    and "policy_of document the_role consumer = Required"
  shows "policy_of document the_role name = Required"
  using assms
  by (cases "cn_failure_policy (body_common body)")
    (auto simp: validate_data_dependency_authority_def declared_output_def node_body_named_def reject_def
      policy_of_def node_common_def split: option.splits if_splits)

lemma condition_value_ok:
  assumes "infer_condition_value_reference consumer the_role document reference table = Inr table'"
    and "table_ok document the_role consumer table"
  shows "table_ok document the_role consumer table'"
  using assms
  by (auto simp: infer_condition_value_reference_def reject_def Let_def
      split: value_reference.splits option.splits input_declaration.splits if_splits
      dest: declared_output_role authority_policy intro!: mark_data_ok)

lemma disposition_ok:
  assumes "infer_disposition_prerequisite consumer the_role document node table = Inr table'"
    and "table_ok document the_role consumer table"
  shows "table_ok document the_role consumer table'"
  using assms
  by (auto simp: infer_disposition_prerequisite_def reject_def split: if_splits
      dest!: condition_target_role_keys intro!: mark_disposition_ok)

lemma operand_ok:
  assumes "(case operand of
        CondReference reference _ \<Rightarrow>
          infer_condition_value_reference consumer the_role document reference table
      | CondLiteral _ \<Rightarrow> Inr table) = Inr table'"
    and "table_ok document the_role consumer table"
  shows "table_ok document the_role consumer table'"
  using assms by (auto split: condition_operand.splits dest: condition_value_ok)

lemma condition_prerequisites_ok:
  "infer_condition_prerequisites consumer the_role document predicate table = Inr table' \<Longrightarrow>
   table_ok document the_role consumer table \<Longrightarrow>
   table_ok document the_role consumer table'"
  "infer_conditions_prerequisites consumer the_role document predicates table = Inr table' \<Longrightarrow>
   table_ok document the_role consumer table \<Longrightarrow>
   table_ok document the_role consumer table'"
proof (induction consumer the_role document predicate table
    and consumer the_role document predicates table arbitrary: table' and table'
    rule: infer_condition_prerequisites_infer_conditions_prerequisites.induct)
  case (4 consumer the_role document left right table)
  then show ?case
    by (auto dest!: operand_ok)
qed (auto dest: condition_value_ok disposition_ok)

lemma reference_ok:
  assumes "infer_reference_prerequisite consumer the_role document reference location allowed table =
      Inr table'"
    and "table_ok document the_role consumer table"
  shows "table_ok document the_role consumer table'"
  using assms
  by (auto simp: infer_reference_prerequisite_def reject_def
      split: value_reference.splits if_splits dest: declared_output_role authority_policy
      intro!: mark_data_ok)

lemma message_ok:
  assumes "infer_message_prerequisite consumer the_role document source location allowed table = Inr table'"
    and "table_ok document the_role consumer table"
  shows "table_ok document the_role consumer table'"
  using assms by (auto simp: infer_message_prerequisite_def split: message_source.splits dest: reference_ok)

lemma body_ok:
  assumes "infer_body_prerequisites consumer the_role body document table = Inr table'"
    and "table_ok document the_role consumer table"
  shows "table_ok document the_role consumer table'"
proof (cases body)
  case (CommandBody command)
  then show ?thesis
    using assms by (auto simp: infer_body_prerequisites_def dest: reference_ok
        elim!: try_fold_keeps split: prod.splits)
next
  case (AgentBody agent)
  then obtain middle where texts:
    "try_fold (\<lambda>(index, source). infer_message_prerequisite consumer the_role document source
       (node_message_location consumer the_role index False) False)
       (enumerate 0 (am_text (ad_message (agn_agent agent)))) table = Inr middle"
    and attachments: "try_fold (\<lambda>(index, source). infer_message_prerequisite consumer the_role document source
       (node_message_location consumer the_role index True) (the_role = RoleFinalizer))
       (enumerate 0 (am_attachments (ad_message (agn_agent agent)))) middle = Inr table'"
    using assms(1) by (auto simp: infer_body_prerequisites_def)
  let ?ok = "table_ok document the_role consumer"
  have "?ok middle"
    by (rule try_fold_keeps [OF texts, where P = ?ok]) (auto simp: assms(2) dest: message_ok)
  then show ?thesis
    by - (rule try_fold_keeps [OF attachments, where P = ?ok], auto dest: message_ok)
qed

lemma node_prerequisites_ok:
  assumes "infer_node_prerequisites name the_role body document table = Inr ps"
    and "table_ok document the_role name table"
  shows "\<exists>table'. ps = bt_values table' \<and> table_ok document the_role name table'"
  using assms
  by (auto simp: infer_node_prerequisites_def split: option.splits
      dest: body_ok condition_prerequisites_ok(1))

lemma controls_ok:
  assumes "try_fold (\<lambda>(index, dependency). insert_control_prerequisite consumer dependency
      (bt_contains_key m dependency) failure (location index)) xs ([], []) = Inr (seen', table')"
    and "role_keys document the_role = bt_keys m"
  shows "table_ok document the_role consumer table'"
proof -
  have keys: "bt_contains_key m d \<longleftrightarrow> d \<in> set (role_keys document the_role)" for d
    by (auto simp: assms(2) bt_contains_key_def bt_keys_def map_of_eq_None_iff)
  show ?thesis
    using try_fold_keeps [OF assms(1) [unfolded keys], of "\<lambda>(_, t). table_ok document the_role consumer t"]
      control_ok by (auto split: prod.splits)
qed

lemma step_prerequisites_ok:
  assumes "resolve_step_prerequisites name step document = Inr ps"
  shows "\<exists>table. ps = bt_values table \<and> table_ok document RoleStep name table"
proof -
  obtain seen table where
    "try_fold (\<lambda>(index, dependency). insert_control_prerequisite name dependency
       (bt_contains_key (doc_steps document) dependency) MissingDependency (LocStepDependency name index))
       (enumerate 0 (sdef_control_dependencies step)) ([], []) = Inr (seen, table)"
    and ps: "infer_node_prerequisites name RoleStep (sdef_body step) document table = Inr ps"
    using assms by (auto simp: resolve_step_prerequisites_def)
  from controls_ok [OF this(1), of document RoleStep] show ?thesis
    using node_prerequisites_ok [OF ps] by (simp add: role_keys_def)
qed

lemma finalizer_prerequisites_ok:
  assumes "resolve_finalizer_prerequisites name finalizer document = Inr ps"
  shows "\<exists>table. ps = bt_values table \<and> table_ok document RoleFinalizer name table"
proof -
  obtain seen table where
    "try_fold (\<lambda>(index, dependency). insert_control_prerequisite name dependency
       (bt_contains_key (doc_finalizers document) dependency) InvalidFinalizerAfterTarget
       (LocFinalizerAfter name index))
       (enumerate 0 (fdef_after finalizer)) ([], []) = Inr (seen, table)"
    and ps: "infer_node_prerequisites name RoleFinalizer (fdef_body finalizer) document table = Inr ps"
    using assms by (auto simp: resolve_finalizer_prerequisites_def reject_def split: if_splits)
  from controls_ok [OF this(1), of document RoleFinalizer] show ?thesis
    using node_prerequisites_ok [OF ps] by (simp add: role_keys_def)
qed

lemma table_ok_values:
  "table_ok document the_role consumer table \<Longrightarrow> p \<in> set (bt_values table) \<Longrightarrow>
   prerequisite_ok document the_role consumer p"
  by (auto simp: table_ok_def bt_values_def dest!: bt_wf_distinct)

section \<open>Validated graphs\<close>

lemma source_order_ok:
  assumes "validate_source_order nodes source_order = Inr ()"
  shows "distinct source_order \<and> set source_order \<subseteq> set (bt_keys nodes) \<and>
    length source_order = length nodes"
  using assms card_distinct [of source_order]
  by (auto simp: validate_source_order_def list_ex_iff bt_contains_key_def length_remdups_card_conv
      dest: map_of_in_keys split: if_splits)

text \<open>A validated graph on the nodes of a table, with the order it gives them.\<close>

definition ordered_graph :: "(string, 'a) btree_map \<Rightarrow> validated_graph \<Rightarrow> bool" where
  "ordered_graph nodes graph \<longleftrightarrow>
     map fst (vg_direct_prerequisites graph) = map fst nodes \<and>
     distinct (vg_presentation_order graph) \<and>
     set (vg_presentation_order graph) = fst ` set nodes \<and>
     producers_first (vg_direct_prerequisites graph) (vg_presentation_order graph)"

lemma validate_graph_ordered:
  assumes "bt_wf nodes" and "map fst direct = map fst nodes"
    and "validate_source_order nodes source_order = Inr ()"
    and "validate_graph direct source_order (length nodes) = Inr graph"
  shows "ordered_graph nodes graph"
proof -
  let ?order = "greedy_order (length source_order) direct source_order []"
  note source = source_order_ok [OF assms(3)]
  have keys: "fst ` set direct = fst ` set nodes"
    using assms(2) by (metis list.set_map)
  have "card (fst ` set nodes) = length nodes"
    using bt_wf_distinct [OF assms(1)] distinct_card by fastforce
  then have all: "set source_order = fst ` set nodes"
    using source card_subset_eq [of "fst ` set nodes" "set source_order"]
    by (auto simp: bt_keys_def distinct_card)
  then have wf: "graph_wf direct source_order"
    using source keys bt_wf_distinct [OF assms(1)] assms(2) by (simp add: graph_wf_def)
  have graph: "length ?order = length nodes"
    "graph = \<lparr>vg_direct_prerequisites = direct, vg_presentation_order = ?order\<rparr>"
    using assms(4) graph_order_greedy [OF wf]
    by (auto simp: validate_graph_def reject_def Let_def split: if_splits)
  have order: "distinct ?order" "set ?order \<subseteq> set source_order" "producers_first direct ?order"
    using greedy_order_complete [OF wf refl] by simp_all
  then have "set ?order = set source_order"
    using graph(1) source card_subset_eq [of "set source_order" "set ?order"]
    by (metis List.finite_set card_subset_eq distinct_card)
  then show ?thesis
    using order graph(2) all assms(2) by (simp add: ordered_graph_def)
qed

lemma resolved_keys:
  assumes "list_all2 (\<lambda>e d. (case e of (name, x) \<Rightarrow> try_in (f name x) (\<lambda>ps. Inr (name, ps))) = Inr d) xs ys"
  shows "map fst ys = map fst xs"
  using assms by (induction rule: list_all2_induct) auto

lemma step_graph_ordered:
  assumes "document_wf document" and "validate_source_order (doc_steps document) (doc_step_order document) = Inr ()"
    and "validate_step_graph document = Inr graph"
  shows "ordered_graph (doc_steps document) graph"
  using assms
  by (auto simp: validate_step_graph_def document_wf_def try_map_Inr dest!: resolved_keys
      intro!: validate_graph_ordered)

lemma finalizer_graph_ordered:
  assumes "document_wf document"
    and "validate_source_order (doc_finalizers document) (doc_finalizer_order document) = Inr ()"
    and "validate_finalizer_graph document = Inr graph"
  shows "ordered_graph (doc_finalizers document) graph"
  using assms
  by (auto simp: validate_finalizer_graph_def document_wf_def try_map_Inr dest!: resolved_keys
      intro!: validate_graph_ordered)

section \<open>Descriptors\<close>

lemma condition_reference_no_body: "PBody r \<notin> set (condition_reference_descriptors reference)"
  by (auto simp: condition_reference_descriptors_def result_ok_def prerequisite_condition_def
      split: value_reference.splits)

lemma condition_descriptors_no_body: "PBody r \<notin> set (retain_condition_descriptors predicate)"
  by (induction predicate rule: retain_condition_descriptors.induct)
    (auto simp: condition_reference_no_body result_ok_def prerequisite_control_def
      split: condition_operand.splits if_splits)

lemma evidence_prerequisites_ok:
  assumes "evidence_prerequisites_of body direct = Inr descriptors"
  shows "length descriptors \<le> maximum_prerequisites \<and>
    (\<forall>r. PBody r \<in> set descriptors \<longrightarrow> is_output_reference r)"
  using assms condition_descriptors_no_body
  by (auto simp: evidence_prerequisites_of_def reject_def Let_def result_ok_def prerequisite_control_def
      prerequisite_body_def split: if_splits option.splits value_reference.splits)

lemma validate_body_common:
  assumes "validate_body name the_role body direct document profiles required_inputs = Inr validated"
  shows "vc_prerequisites (common_step validated) = direct"
    and "evidence_prerequisites_of body direct = Inr (vc_evidence_prerequisites (common_step validated))"
    and "vc_failure_policy (common_step validated) = cn_failure_policy (body_common body)"
  using assms
  by (auto simp: validate_body_def common_step_def validate_common_def body_common_def
      split: node_body.splits)

lemma validate_body_condition:
  assumes "validate_body name the_role body direct document profiles required_inputs = Inr validated"
    and "vc_condition (common_step validated) = Some q"
  shows "\<exists>predicate vs. cn_condition (body_common body) = Some predicate \<and>
    resolve_condition_predicate predicate name the_role document required_inputs [] = Inr (q, vs)"
proof (cases "cn_condition (body_common body)")
  case None
  then show ?thesis
    using assms by (cases body) (auto simp: validate_body_def common_step_def validate_common_def)
next
  case (Some predicate)
  then show ?thesis
    using assms by (cases body) (auto simp: validate_body_def common_step_def validate_common_def)
qed

section \<open>The whole document\<close>

lemma validate_unpacked:
  assumes "validate document = Inr vw"
  obtains profiles step_graph finalizer_graph where
    "validate_node_namespace document = Inr ()"
    "validate_workflow_condition_bounds document = Inr ()"
    "validate_step_graph document = Inr step_graph"
    "validate_finalizer_graph document = Inr finalizer_graph"
    "vw_presentation_order vw = vg_presentation_order step_graph"
    "vw_finalizer_presentation_order vw = vg_presentation_order finalizer_graph"
    "list_all2 (\<lambda>(name, step) (name', body). name' = name \<and>
       validate_body name RoleStep (sdef_body step) (the (map_of (vg_direct_prerequisites step_graph) name))
         document profiles (vw_required_inputs vw) = Inr body) (doc_steps document) (vw_steps vw)"
    "list_all2 (\<lambda>(name, finalizer) (name', validated). name' = name \<and>
       validate_body name RoleFinalizer (fdef_body finalizer)
         (the (map_of (vg_direct_prerequisites finalizer_graph) name))
         document profiles (vw_required_inputs vw) = Inr (vf_body validated) \<and>
       vf_when validated = fdef_when finalizer) (doc_finalizers document) (vw_finalizers vw)"
    "map fst (vw_recoveries vw) = map fst (vw_steps vw)"
  using assms
  by (fastforce simp: validate_def Let_def try_map_Inr list_all2_map2 split_beta comp_def
      elim!: list_all2_mono intro: that)

lemma list_all2_fst: "list_all2 P xs ys \<Longrightarrow> (\<And>x y. P x y \<Longrightarrow> fst y = fst x) \<Longrightarrow> map fst ys = map fst xs"
  by (induction rule: list_all2_induct) auto

lemma list_all2_map_of:
  assumes "list_all2 P xs ys" and "\<And>x y. P x y \<Longrightarrow> fst y = fst x" and "map_of ys k = Some v"
  shows "\<exists>w. map_of xs k = Some w \<and> P (k, w) (k, v)"
  using assms by (induction rule: list_all2_induct) (auto split: if_splits, (metis prod.collapse)+)

text \<open>The direct prerequisites of a graph are what the resolution of its nodes gave.\<close>

lemma step_graph_direct:
  assumes "validate_step_graph document = Inr graph"
    and "map_of (vg_direct_prerequisites graph) name = Some ps"
  shows "\<forall>p\<in>set ps. prerequisite_ok document RoleStep name p"
proof -
  have "list_all2 (\<lambda>(name, step) d. (\<exists>ps. resolve_step_prerequisites name step document = Inr ps \<and> d = (name, ps)))
      (doc_steps document) (vg_direct_prerequisites graph)"
    using assms(1) by (auto simp: validate_step_graph_def try_map_Inr validate_graph_def reject_def Let_def
        split_beta split: if_splits elim!: list_all2_mono)
  from list_all2_map_of [OF this _ assms(2)] obtain step where
    "resolve_step_prerequisites name step document = Inr ps"
    by auto
  then show ?thesis
    using step_prerequisites_ok table_ok_values by blast
qed

lemma finalizer_graph_direct:
  assumes "validate_finalizer_graph document = Inr graph"
    and "map_of (vg_direct_prerequisites graph) name = Some ps"
  shows "\<forall>p\<in>set ps. prerequisite_ok document RoleFinalizer name p"
proof -
  have "list_all2 (\<lambda>(name, finalizer) d.
        (\<exists>ps. resolve_finalizer_prerequisites name finalizer document = Inr ps \<and> d = (name, ps)))
      (doc_finalizers document) (vg_direct_prerequisites graph)"
    using assms(1) by (auto simp: validate_finalizer_graph_def try_map_Inr validate_graph_def reject_def
        Let_def split_beta split: if_splits elim!: list_all2_mono)
  from list_all2_map_of [OF this _ assms(2)] obtain finalizer where
    "resolve_finalizer_prerequisites name finalizer document = Inr ps"
    by auto
  then show ?thesis
    using finalizer_prerequisites_ok table_ok_values by blast
qed

section \<open>Condition bounds\<close>

fun predicate_depth :: "resolved_predicate \<Rightarrow> nat" where
  "predicate_depth (All children) = Suc (fold max (map predicate_depth children) 0)"
| "predicate_depth (Any children) = Suc (fold max (map predicate_depth children) 0)"
| "predicate_depth (Not child) = Suc (predicate_depth child)"
| "predicate_depth _ = 1"

lemma fold_max_le: "fold max xs (a::nat) \<le> n \<longleftrightarrow> a \<le> n \<and> (\<forall>x\<in>set xs. x \<le> n)"
  by (induction xs arbitrary: a) auto

lemma max_predicate_depth:
  "depth \<le> n \<Longrightarrow> \<forall>q\<in>set qs. Suc (depth + predicate_depth q) \<le> Suc n \<Longrightarrow>
   depth + fold max (map predicate_depth qs) 0 \<le> n"
  using fold_max_le [of "map predicate_depth qs" 0 "n - depth"] by fastforce

lemma equals_leaf:
  "resolve_condition_equals left right name the_role document required_inputs vs = Inr (q, vs') \<Longrightarrow>
   predicate_nodes q = 1 \<and> predicate_depth q = 1"
  by (auto simp: resolve_condition_equals_def)

declare condition_node_count.simps [simp del]

lemma condition_node_count_Inr [simp]:
  "condition_node_count (CAll children) depth location = Inr count \<longleftrightarrow>
     depth \<le> MAXIMUM_CONDITION_DEPTH \<and> children \<noteq> [] \<and> length children \<le> MAXIMUM_CONDITION_CHILDREN \<and>
     condition_children_count children depth 1 location = Inr count"
  "condition_node_count (CAny children) depth location = Inr count \<longleftrightarrow>
     depth \<le> MAXIMUM_CONDITION_DEPTH \<and> children \<noteq> [] \<and> length children \<le> MAXIMUM_CONDITION_CHILDREN \<and>
     condition_children_count children depth 1 location = Inr count"
  "condition_node_count (CNot child) depth location = Inr count \<longleftrightarrow>
     depth \<le> MAXIMUM_CONDITION_DEPTH \<and> condition_children_count [child] depth 1 location = Inr count"
  "condition_node_count (CEquals left right) depth location = Inr count \<longleftrightarrow>
     depth \<le> MAXIMUM_CONDITION_DEPTH \<and> count = 1"
  "condition_node_count (CExists selector) depth location = Inr count \<longleftrightarrow>
     depth \<le> MAXIMUM_CONDITION_DEPTH \<and> count = 1"
  "condition_node_count (CDisposition node is) depth location = Inr count \<longleftrightarrow>
     depth \<le> MAXIMUM_CONDITION_DEPTH \<and> count = 1"
  by (auto simp: condition_node_count.simps reject_def)

lemma condition_children_count_le:
  "condition_children_count predicates depth acc location = Inr count \<Longrightarrow> acc \<le> MAXIMUM_CONDITION_NODES \<Longrightarrow>
   count \<le> MAXIMUM_CONDITION_NODES"
  by (induction predicates arbitrary: acc) (auto simp: reject_def split: if_splits)

lemma condition_node_count_le:
  "condition_node_count predicate depth location = Inr count \<Longrightarrow> count \<le> MAXIMUM_CONDITION_NODES"
  by (cases predicate)
    (auto simp: MAXIMUM_CONDITION_NODES_def simp del: condition_children_count.simps
      dest!: condition_children_count_le)

lemma resolved_count:
  "resolve_condition_predicate predicate name the_role document required_inputs vs = Inr (q, vs') \<Longrightarrow>
   condition_node_count predicate depth location = Inr count \<Longrightarrow>
   predicate_nodes q = count \<and> depth + predicate_depth q \<le> Suc MAXIMUM_CONDITION_DEPTH"
  "resolve_condition_predicates predicates name the_role document required_inputs vs = Inr (qs, vs') \<Longrightarrow>
   condition_children_count predicates depth acc location = Inr count \<Longrightarrow>
   count = acc + sum_list (map predicate_nodes qs) \<and>
   (\<forall>q\<in>set qs. Suc (depth + predicate_depth q) \<le> Suc MAXIMUM_CONDITION_DEPTH)"
proof (induction predicate name the_role document required_inputs vs
    and predicates name the_role document required_inputs vs
    arbitrary: q vs' depth count and qs vs' depth acc count
    rule: resolve_condition_predicate_resolve_condition_predicates.induct)
  case (1 children name the_role document required_inputs vs)
  obtain qs where qs:
    "resolve_condition_predicates children name the_role document required_inputs vs = Inr (qs, vs')"
    "q = All qs"
    using "1.prems"(1) by auto
  have "condition_children_count children depth 1 location = Inr count" "depth \<le> MAXIMUM_CONDITION_DEPTH"
    using "1.prems"(2) by simp_all
  then show ?case
    using "1.IH" [OF qs(1), of depth 1 count] qs(2) max_predicate_depth by simp
next
  case (2 children name the_role document required_inputs vs)
  obtain qs where qs:
    "resolve_condition_predicates children name the_role document required_inputs vs = Inr (qs, vs')"
    "q = Any qs"
    using "2.prems"(1) by auto
  have "condition_children_count children depth 1 location = Inr count" "depth \<le> MAXIMUM_CONDITION_DEPTH"
    using "2.prems"(2) by simp_all
  then show ?case
    using "2.IH" [OF qs(1), of depth 1 count] qs(2) max_predicate_depth by simp
next
  case (3 child name the_role document required_inputs vs)
  obtain p where p: "resolve_condition_predicate child name the_role document required_inputs vs = Inr (p, vs')"
    "q = Not p"
    using "3.prems"(1) by auto
  obtain nodes where "condition_node_count child (depth + 1) location = Inr nodes" "count = 1 + nodes"
    using "3.prems"(2) by (auto simp: reject_def split: if_splits)
  then show ?case
    using "3.IH" [OF p(1), of "depth + 1" nodes] p(2) by simp
next
  case (4 left right name the_role document required_inputs vs)
  then show ?case
    using equals_leaf by auto
next
  case (5 selector name the_role document required_inputs vs)
  then show ?case
    by (auto simp: reject_def split: if_splits sum.splits)
next
  case (8 child children name the_role document required_inputs vs)
  obtain p ps vs1 where
    p: "resolve_condition_predicate child name the_role document required_inputs vs = Inr (p, vs1)"
    and ps: "resolve_condition_predicates children name the_role document required_inputs vs1 = Inr (ps, vs')"
    and qs: "qs = p # ps"
    using "8.prems"(1) by auto
  obtain nodes where n: "condition_node_count child (depth + 1) location = Inr nodes"
    and rest: "condition_children_count children depth (acc + nodes) location = Inr count"
    using "8.prems"(2) by (auto simp: reject_def split: if_splits)
  show ?case
    using "8.IH"(1) [OF p n] "8.IH"(2) [OF ps rest] qs by simp
qed auto

lemma condition_bounds_counted:
  assumes "validate_workflow_condition_bounds document = Inr ()"
    and "(name, the_role, Some predicate) \<in> set (document_conditions document)"
  shows "\<exists>count. condition_node_count predicate 1 (condition_location name the_role) = Inr count"
proof -
  have "\<exists>count. condition_node_count predicate 1 (condition_location name the_role) = Inr count"
    if "try_fold (\<lambda>(name, the_role, guard) total.
         (case guard of
            None \<Rightarrow> Inr total
          | Some predicate \<Rightarrow>
              try_in (condition_node_count predicate 1 (condition_location name the_role)) (\<lambda>count.
                if total + count > MAXIMUM_WORKFLOW_CONDITION_NODES
                then reject WorkflowConditionNodeLimitExceeded LocWorkflowGraph
                else Inr (total + count)))) xs total = Inr total'"
      "(name, the_role, Some predicate) \<in> set xs" for xs total total'
    using that by (induction xs arbitrary: total) auto
  then show ?thesis
    using assms by (auto simp: validate_workflow_condition_bounds_def)
qed

section \<open>The nodes of a validated workflow\<close>

definition document_body :: "workflow_document \<Rightarrow> workflow_node_role \<Rightarrow> string \<Rightarrow> node_body option" where
  "document_body document the_role name =
     (case the_role of
        RoleStep \<Rightarrow> map_option sdef_body (map_of (doc_steps document) name)
      | RoleFinalizer \<Rightarrow> map_option fdef_body (map_of (doc_finalizers document) name))"

definition validated_node ::
  "validated_workflow \<Rightarrow> workflow_node_role \<Rightarrow> string \<Rightarrow> validated_common_step option" where
  "validated_node vw the_role name =
     (case the_role of
        RoleStep \<Rightarrow> map_option common_step (map_of (vw_steps vw) name)
      | RoleFinalizer \<Rightarrow> map_option (\<lambda>f. common_step (vf_body f)) (map_of (vw_finalizers vw) name))"

definition validated_order :: "validated_workflow \<Rightarrow> workflow_node_role \<Rightarrow> string list" where
  "validated_order vw the_role =
     (case the_role of
        RoleStep \<Rightarrow> vw_presentation_order vw | RoleFinalizer \<Rightarrow> vw_finalizer_presentation_order vw)"

text \<open>How a validated node comes from the body of the document and from the graph of its role.\<close>

definition node_validated ::
  "workflow_document \<Rightarrow> validated_workflow \<Rightarrow> workflow_node_role \<Rightarrow> validated_graph \<Rightarrow> bool" where
  "node_validated document vw the_role graph \<longleftrightarrow>
     (\<forall>name common. validated_node vw the_role name = Some common \<longrightarrow>
       (\<exists>body profiles validated ps. document_body document the_role name = Some body \<and>
          map_of (vg_direct_prerequisites graph) name = Some ps \<and>
          validate_body name the_role body ps document profiles (vw_required_inputs vw) = Inr validated \<and>
          common = common_step validated))"

lemma same_keys_get: "map fst xs = map fst ys \<Longrightarrow> map_of xs k = Some v \<Longrightarrow> \<exists>w. map_of ys k = Some w"
  by (metis map_of_eq_None_iff list.set_map not_None_eq)

lemma step_nodes_validated:
  assumes steps: "list_all2 (\<lambda>(name, step) (name', body). name' = name \<and>
       validate_body name RoleStep (sdef_body step) (the (map_of (vg_direct_prerequisites graph) name))
         document profiles (vw_required_inputs vw) = Inr body) (doc_steps document) (vw_steps vw)"
    and keys: "map fst (vg_direct_prerequisites graph) = map fst (doc_steps document)"
  shows "node_validated document vw RoleStep graph"
  unfolding node_validated_def
proof (intro allI impI)
  fix name common
  assume "validated_node vw RoleStep name = Some common"
  then obtain body where body: "map_of (vw_steps vw) name = Some body" "common = common_step body"
    by (auto simp: validated_node_def)
  from list_all2_map_of [OF steps _ body(1)] obtain step where
    step: "map_of (doc_steps document) name = Some step"
    "validate_body name RoleStep (sdef_body step) (the (map_of (vg_direct_prerequisites graph) name))
      document profiles (vw_required_inputs vw) = Inr body"
    by auto
  obtain ps where "map_of (vg_direct_prerequisites graph) name = Some ps"
    using same_keys_get [OF keys [symmetric] step(1)] by blast
  then show "\<exists>body profiles validated ps. document_body document RoleStep name = Some body \<and>
      map_of (vg_direct_prerequisites graph) name = Some ps \<and>
      validate_body name RoleStep body ps document profiles (vw_required_inputs vw) = Inr validated \<and>
      common = common_step validated"
    using step body(2) by (auto simp: document_body_def)
qed

lemma finalizer_nodes_validated:
  assumes finalizers: "list_all2 (\<lambda>(name, finalizer) (name', validated). name' = name \<and>
       validate_body name RoleFinalizer (fdef_body finalizer)
         (the (map_of (vg_direct_prerequisites graph) name))
         document profiles (vw_required_inputs vw) = Inr (vf_body validated) \<and>
       vf_when validated = fdef_when finalizer) (doc_finalizers document) (vw_finalizers vw)"
    and keys: "map fst (vg_direct_prerequisites graph) = map fst (doc_finalizers document)"
  shows "node_validated document vw RoleFinalizer graph"
  unfolding node_validated_def
proof (intro allI impI)
  fix name common
  assume "validated_node vw RoleFinalizer name = Some common"
  then obtain f where f: "map_of (vw_finalizers vw) name = Some f" "common = common_step (vf_body f)"
    by (auto simp: validated_node_def)
  from list_all2_map_of [OF finalizers _ f(1)] obtain finalizer where
    finalizer: "map_of (doc_finalizers document) name = Some finalizer"
    "validate_body name RoleFinalizer (fdef_body finalizer)
      (the (map_of (vg_direct_prerequisites graph) name))
      document profiles (vw_required_inputs vw) = Inr (vf_body f)"
    by auto
  obtain ps where "map_of (vg_direct_prerequisites graph) name = Some ps"
    using same_keys_get [OF keys [symmetric] finalizer(1)] by blast
  then show "\<exists>body profiles validated ps. document_body document RoleFinalizer name = Some body \<and>
      map_of (vg_direct_prerequisites graph) name = Some ps \<and>
      validate_body name RoleFinalizer body ps document profiles (vw_required_inputs vw) = Inr validated \<and>
      common = common_step validated"
    using finalizer f(2) by (auto simp: document_body_def)
qed

text \<open>What the graph of a role provides in a validated workflow.\<close>

definition role_graph ::
  "workflow_document \<Rightarrow> validated_workflow \<Rightarrow> workflow_node_role \<Rightarrow> validated_graph \<Rightarrow> bool" where
  "role_graph document vw the_role graph \<longleftrightarrow>
     validated_order vw the_role = vg_presentation_order graph \<and>
     set (vg_presentation_order graph) = set (role_keys document the_role) \<and>
     distinct (vg_presentation_order graph) \<and>
     producers_first (vg_direct_prerequisites graph) (vg_presentation_order graph) \<and>
     (\<forall>name ps. map_of (vg_direct_prerequisites graph) name = Some ps \<longrightarrow>
       (\<forall>p\<in>set ps. prerequisite_ok document the_role name p)) \<and>
     node_validated document vw the_role graph \<and>
     (\<forall>name. validated_node vw the_role name = None \<longleftrightarrow> name \<notin> set (role_keys document the_role))"

lemma validated_keys:
  "map fst (vw_steps vw) = map fst (doc_steps document) \<Longrightarrow>
   validated_node vw RoleStep name = None \<longleftrightarrow> name \<notin> set (role_keys document RoleStep)"
  "map fst (vw_finalizers vw) = map fst (doc_finalizers document) \<Longrightarrow>
   validated_node vw RoleFinalizer name = None \<longleftrightarrow> name \<notin> set (role_keys document RoleFinalizer)"
  by (simp_all add: validated_node_def role_keys_def bt_keys_def map_of_eq_None_iff)
    (metis list.set_map)+

lemma validated_role_graphs:
  assumes "document_wf document" and "validate document = Inr vw"
  shows "(\<exists>graph. role_graph document vw RoleStep graph) \<and>
    (\<exists>graph. role_graph document vw RoleFinalizer graph) \<and>
    map fst (vw_steps vw) = map fst (doc_steps document) \<and>
    map fst (vw_finalizers vw) = map fst (doc_finalizers document) \<and>
    map fst (vw_recoveries vw) = map fst (vw_steps vw)"
  using assms(2)
proof (rule validate_unpacked)
  fix profiles sg fg
  assume v: "validate_node_namespace document = Inr ()"
    "validate_step_graph document = Inr sg" "validate_finalizer_graph document = Inr fg"
    "vw_presentation_order vw = vg_presentation_order sg"
    "vw_finalizer_presentation_order vw = vg_presentation_order fg"
    and steps: "list_all2 (\<lambda>(name, step) (name', body). name' = name \<and>
       validate_body name RoleStep (sdef_body step) (the (map_of (vg_direct_prerequisites sg) name))
         document profiles (vw_required_inputs vw) = Inr body) (doc_steps document) (vw_steps vw)"
    and finalizers: "list_all2 (\<lambda>(name, finalizer) (name', validated). name' = name \<and>
       validate_body name RoleFinalizer (fdef_body finalizer)
         (the (map_of (vg_direct_prerequisites fg) name))
         document profiles (vw_required_inputs vw) = Inr (vf_body validated) \<and>
       vf_when validated = fdef_when finalizer) (doc_finalizers document) (vw_finalizers vw)"
    and recoveries: "map fst (vw_recoveries vw) = map fst (vw_steps vw)"
  have sources: "validate_source_order (doc_steps document) (doc_step_order document) = Inr ()"
    "validate_source_order (doc_finalizers document) (doc_finalizer_order document) = Inr ()"
    using v(1) by (auto simp: validate_node_namespace_def split: if_splits)
  note step_order = step_graph_ordered [OF assms(1) sources(1) v(2), unfolded ordered_graph_def]
  note finalizer_order = finalizer_graph_ordered [OF assms(1) sources(2) v(3), unfolded ordered_graph_def]
  have step_keys: "map fst (vw_steps vw) = map fst (doc_steps document)"
    by (rule list_all2_fst [OF steps]) auto
  have finalizer_keys: "map fst (vw_finalizers vw) = map fst (doc_finalizers document)"
    by (rule list_all2_fst [OF finalizers]) auto
  have "role_graph document vw RoleStep sg"
    using step_order v(4) step_graph_direct [OF v(2)] validated_keys(1) [OF step_keys]
      step_nodes_validated [OF steps]
    by (simp add: role_graph_def validated_order_def role_keys_def bt_keys_def)
  moreover have "role_graph document vw RoleFinalizer fg"
    using finalizer_order v(5) finalizer_graph_direct [OF v(3)] validated_keys(2) [OF finalizer_keys]
      finalizer_nodes_validated [OF finalizers]
    by (simp add: role_graph_def validated_order_def role_keys_def bt_keys_def)
  ultimately show ?thesis
    using step_keys finalizer_keys recoveries by blast
qed

lemma validated_role_graph:
  assumes "document_wf document" and "validate document = Inr vw"
  obtains graph where "role_graph document vw the_role graph"
  using validated_role_graphs [OF assms] by (cases the_role) blast+

lemma role_graph_node:
  assumes graph: "role_graph document vw the_role graph"
    and node: "validated_node vw the_role name = Some common"
  shows "vc_prerequisites common = the (map_of (vg_direct_prerequisites graph) name)"
    and "set (map producer (vc_prerequisites common)) =
      set (node_producers (vg_direct_prerequisites graph) name)"
    and "\<forall>p\<in>set (vc_prerequisites common). prerequisite_ok document the_role name p"
    and "vc_failure_policy common = policy_of document the_role name"
    and "length (vc_evidence_prerequisites common) \<le> maximum_prerequisites \<and>
      (\<forall>r. PBody r \<in> set (vc_evidence_prerequisites common) \<longrightarrow> is_output_reference r)"
proof -
  obtain body profiles validated ps where body: "document_body document the_role name = Some body"
    and ps: "map_of (vg_direct_prerequisites graph) name = Some ps"
    and valid: "validate_body name the_role body ps document profiles (vw_required_inputs vw) = Inr validated"
    and common: "common = common_step validated"
    using graph node unfolding role_graph_def node_validated_def by metis
  note facts = validate_body_common [OF valid, folded common]
  show "vc_prerequisites common = the (map_of (vg_direct_prerequisites graph) name)"
    "set (map producer (vc_prerequisites common)) =
      set (node_producers (vg_direct_prerequisites graph) name)"
    using facts(1) ps by (simp_all add: node_producers_def)
  show "\<forall>p\<in>set (vc_prerequisites common). prerequisite_ok document the_role name p"
    using graph facts(1) ps by (simp add: role_graph_def)
  show "vc_failure_policy common = policy_of document the_role name"
    using facts(3) body
    by (auto simp: policy_of_def node_common_def document_body_def split: workflow_node_role.splits)
  show "length (vc_evidence_prerequisites common) \<le> maximum_prerequisites \<and>
      (\<forall>r. PBody r \<in> set (vc_evidence_prerequisites common) \<longrightarrow> is_output_reference r)"
    using evidence_prerequisites_ok [OF facts(2)] .
qed

lemma validated_condition_counted:
  assumes "document_wf document" and "validate document = Inr vw"
    and "validated_node vw the_role name = Some common" and "vc_condition common = Some q"
  shows "predicate_nodes q \<le> MAXIMUM_CONDITION_NODES \<and> predicate_depth q \<le> MAXIMUM_CONDITION_DEPTH"
proof -
  obtain graph where "role_graph document vw the_role graph"
    using validated_role_graph [OF assms(1,2)] .
  then obtain body profiles validated ps where body: "document_body document the_role name = Some body"
    and valid: "validate_body name the_role body ps document profiles (vw_required_inputs vw) = Inr validated"
    and common: "common = common_step validated"
    using assms(3) unfolding role_graph_def node_validated_def by metis
  obtain predicate vs where p: "cn_condition (body_common body) = Some predicate"
    "resolve_condition_predicate predicate name the_role document (vw_required_inputs vw) [] = Inr (q, vs)"
    using validate_body_condition [OF valid] assms(4) common by blast
  have "(name, the_role, Some predicate) \<in> set (document_conditions document)"
    using body p(1)
    by (force simp: document_conditions_def document_body_def dest!: map_of_SomeD
        split: workflow_node_role.splits)
  moreover have "validate_workflow_condition_bounds document = Inr ()"
    using assms(2) by (rule validate_unpacked)
  ultimately obtain count where
    count: "condition_node_count predicate 1 (condition_location name the_role) = Inr count"
    using condition_bounds_counted by blast
  show ?thesis
    using resolved_count(1) [OF p(2) count] condition_node_count_le [OF count] by simp
qed

lemma validated_exports_resolved:
  assumes "validate document = Inr vw" and "map_of (vw_exports vw) name = Some source"
  shows "\<exists>reference. map_of (doc_exports document) name = Some reference \<and>
    resolve_export name reference document = Inr source"
proof -
  have "list_all2 (\<lambda>(name, reference) e. \<exists>source. resolve_export name reference document = Inr source \<and>
      e = (name, source)) (doc_exports document) (vw_exports vw)"
    using assms(1)
    by (auto simp: validate_def Let_def try_map_Inr split_beta elim!: list_all2_mono)
  from list_all2_map_of [OF this _ assms(2)] show ?thesis
    by auto
qed

lemma not_advisory: "policy \<noteq> Advisory \<longleftrightarrow> policy = Required"
  by (cases policy) simp_all

lemma resolve_export_facts:
  assumes "resolve_export name reference document = Inr source"
  shows "document_body document (node_role (ros_node source)) (node_id (ros_node source)) \<noteq> None"
    and "policy_of document (node_role (ros_node source)) (node_id (ros_node source)) = Required"
    and "node_role (ros_node source) = RoleFinalizer \<Longrightarrow>
      \<exists>f. map_of (doc_finalizers document) (node_id (ros_node source)) = Some f \<and>
        FtSucceeded \<in> set (fdef_when f)"
  using assms
  by (auto simp: not_advisory resolve_export_def node_body_named_def reject_def document_body_def policy_of_def
      node_common_def bs_contains_def split: option.splits if_splits)

end
