(* ===== verification/Validation_Data.thy ===== *)
theory Validation_Data
  imports Validation_Checks
begin

text \<open>
  The data that validated nodes read: the outputs that the inputs, messages and conditions of a node
  refer to, in its own phase or, from a finalizer, in the ordinary phase, and what the inference of
  prerequisites has checked of each of them.
\<close>

section \<open>Sources\<close>

definition body_sources :: "validated_step \<Rightarrow> resolved_output_source set" where
  "body_sources step =
     (case step of
        VCommand command \<Rightarrow> {out. \<exists>r\<in>set (bt_values (vcs_inputs command)). rvr_source r = SourceOutput out}
      | VAgent agent \<Rightarrow>
          {out. \<exists>vt. VmReference (SourceOutput out) vt \<in>
            set (vam_text (va_message (vas_agent agent)) @ vam_attachments (va_message (vas_agent agent)))})"

definition step_sources :: "validated_step \<Rightarrow> resolved_output_source set" where
  "step_sources step =
     body_sources step \<union> {out. SourceOutput out \<in> set (bt_values (vc_condition_values (common_step step)))}"

text \<open>The body of a validated node of either role.\<close>

definition validated_body :: "validated_workflow \<Rightarrow> workflow_node_role \<Rightarrow> string \<Rightarrow> validated_step option" where
  "validated_body vw the_role name =
     (case the_role of
        RoleStep \<Rightarrow> map_of (vw_steps vw) name
      | RoleFinalizer \<Rightarrow> map_option vf_body (map_of (vw_finalizers vw) name))"

lemma validated_body_node: "validated_node vw the_role name = map_option common_step (validated_body vw the_role name)"
  by (cases the_role) (simp_all add: validated_node_def validated_body_def option.map_comp comp_def)

section \<open>What a node may read\<close>

definition triggers_of :: "workflow_document \<Rightarrow> string \<Rightarrow> finalization_trigger set" where
  "triggers_of document name = set (fdef_when (the (map_of (doc_finalizers document) name)))"

definition readable :: "workflow_document \<Rightarrow> workflow_node_role \<Rightarrow> string \<Rightarrow> resolved_output_source \<Rightarrow> bool" where
  "readable document the_role consumer out \<longleftrightarrow>
     (\<exists>body declared. node_body_named document (node_id (ros_node out)) = Some (node_role (ros_node out), body) \<and>
        map_of (cn_outputs (body_common body)) (ros_output out) = Some declared \<and>
        ros_value_type out = output_value_type declared \<and>
        ros_node out \<noteq> WorkflowNode consumer the_role \<and>
        (the_role = RoleStep \<longrightarrow> node_role (ros_node out) = RoleStep) \<and>
        (policy_of document the_role consumer = Required \<longrightarrow> cn_failure_policy (body_common body) = Required) \<and>
        (the_role = RoleFinalizer \<and> node_role (ros_node out) = RoleFinalizer \<longrightarrow>
           triggers_of document consumer \<subseteq> triggers_of document (node_id (ros_node out))))"

definition source_readable :: "workflow_document \<Rightarrow> workflow_node_role \<Rightarrow> string \<Rightarrow> resolved_value_source \<Rightarrow> bool" where
  "source_readable document the_role consumer source \<longleftrightarrow>
     (\<forall>out. source = SourceOutput out \<longrightarrow> readable document the_role consumer out)"

lemma declared_output_Inr:
  "declared_output document reference location = Inr (the_role, body, out) \<longleftrightarrow>
   node_body_named document (or_node reference) = Some (the_role, body) \<and>
   map_of (cn_outputs (body_common body)) (or_output reference) = Some out"
  by (auto simp: declared_output_def reject_def split: option.splits)

lemma authority_Inr:
  "validate_data_dependency_authority document consumer name the_role source_role policy location = Inr u \<longleftrightarrow>
   (policy_of document the_role consumer = Required \<longrightarrow> policy = Required) \<and>
   (the_role = RoleFinalizer \<and> source_role = RoleFinalizer \<longrightarrow>
      triggers_of document consumer \<subseteq> triggers_of document name)"
  by (cases policy)
    (auto simp: validate_data_dependency_authority_def validate_finalizer_trigger_compatibility_def reject_def
      policy_of_def triggers_of_def list_all_iff bs_contains_def)

lemma workflow_role_exhaust: "the_role \<noteq> RoleFinalizer \<longleftrightarrow> the_role = RoleStep"
  by (cases the_role) auto

lemma resolved_output:
  assumes "resolve_value_reference reference document required_inputs location allowed = Inr resolved"
    and "rvr_source resolved = SourceOutput out"
  obtains out_ref body declared where "reference = OutputReference out_ref"
    "or_node out_ref = node_id (ros_node out)" "or_output out_ref = ros_output out"
    "node_body_named document (node_id (ros_node out)) = Some (node_role (ros_node out), body)"
    "map_of (cn_outputs (body_common body)) (ros_output out) = Some declared"
    "ros_value_type out = output_value_type declared"
  using assms
  by (auto simp: resolve_value_reference_def reject_def declared_output_Inr Let_def
      split: value_reference.splits option.splits if_splits)

lemma reference_readable:
  assumes "infer_reference_prerequisite consumer the_role document reference location allowed table = Inr table'"
    and "resolve_value_reference reference document required_inputs location' allowed' = Inr resolved"
  shows "source_readable document the_role consumer (rvr_source resolved)"
  unfolding source_readable_def
proof (intro allI impI)
  fix out
  assume "rvr_source resolved = SourceOutput out"
  from resolved_output [OF assms(2) this] obtain out_ref body declared where
    ref: "reference = OutputReference out_ref" "or_node out_ref = node_id (ros_node out)"
    "or_output out_ref = ros_output out"
    and body: "node_body_named document (node_id (ros_node out)) = Some (node_role (ros_node out), body)"
    "map_of (cn_outputs (body_common body)) (ros_output out) = Some declared"
    "ros_value_type out = output_value_type declared" .
  show "readable document the_role consumer out"
    using assms(1) body unfolding readable_def ref(1) infer_reference_prerequisite_def
    by (cases "ros_node out") (auto simp: declared_output_Inr ref(2,3) authority_Inr reject_def
        workflow_role_exhaust split: if_splits)
qed

lemma condition_reference_readable:
  assumes "infer_condition_value_reference consumer the_role document reference table = Inr table'"
    and "resolve_condition_reference reference name the_role document required_inputs = Inr (canonical, source, vk)"
  shows "source_readable document the_role consumer source"
  unfolding source_readable_def
proof (intro allI impI)
  fix out
  assume "source = SourceOutput out"
  then obtain resolved where "resolve_value_reference reference document required_inputs
      (condition_location name the_role) (the_role = RoleFinalizer) = Inr resolved"
    "rvr_source resolved = SourceOutput out"
    using assms(2) by (auto simp: resolve_condition_reference_def)
  from resolved_output [OF this] obtain out_ref body declared where
    ref: "reference = OutputReference out_ref" "or_node out_ref = node_id (ros_node out)"
    "or_output out_ref = ros_output out"
    and body: "node_body_named document (node_id (ros_node out)) = Some (node_role (ros_node out), body)"
    "map_of (cn_outputs (body_common body)) (ros_output out) = Some declared"
    "ros_value_type out = output_value_type declared" .
  show "readable document the_role consumer out"
    using assms(1) body unfolding readable_def ref(1) infer_condition_value_reference_def
    by (cases "ros_node out") (auto simp: declared_output_Inr ref(2,3) authority_Inr reject_def Let_def
        workflow_role_exhaust split: if_splits)
qed

section \<open>Conditions\<close>

definition values_readable ::
  "workflow_document \<Rightarrow> workflow_node_role \<Rightarrow> string \<Rightarrow> (string, resolved_value_source) btree_map \<Rightarrow> bool" where
  "values_readable document the_role consumer vs \<longleftrightarrow>
     (\<forall>source\<in>set (bt_values vs). source_readable document the_role consumer source)"

lemma bt_values_insert: "set (bt_values (bt_insert k v m)) \<subseteq> insert v (set (bt_values m))"
  by (induction m) (auto simp: bt_values_def)

lemma values_readable_insert:
  "values_readable document the_role consumer vs \<Longrightarrow> source_readable document the_role consumer source \<Longrightarrow>
   values_readable document the_role consumer (bt_insert canonical source vs)"
  using bt_values_insert [of canonical source vs] by (auto simp: values_readable_def)

lemma operand_readable:
  assumes "(case operand of
        CondReference reference _ \<Rightarrow> infer_condition_value_reference name the_role document reference table
      | CondLiteral _ \<Rightarrow> Inr table) = Inr table'"
    and "resolve_operand_reference operand name the_role document required_inputs = Inr resolution"
    and "resolve_condition_operand operand resolution vk name the_role vs = Inr (operand', vs')"
    and "values_readable document the_role name vs"
  shows "values_readable document the_role name vs'"
proof (cases operand)
  case (CondReference reference pointer_text)
  with assms(2) obtain canonical source kind pointer where
    r: "resolve_condition_reference reference name the_role document required_inputs = Inr (canonical, source, kind)"
    and resolution: "resolution = Some \<lparr>rr_canonical = canonical, rr_source = source, rr_kind = kind, rr_pointer = pointer\<rparr>"
    by (auto simp: resolve_operand_reference_def reject_def split: if_splits)
  have "source_readable document the_role name source"
    using condition_reference_readable [OF _ r] assms(1) CondReference by simp
  then show ?thesis
    using assms(3,4) CondReference resolution by (auto simp: resolve_condition_operand_def values_readable_insert)
next
  case (CondLiteral literal)
  then show ?thesis
    using assms(3,4)
    by (auto simp: resolve_condition_operand_def reject_def split: condition_value_kind.splits json.splits)
qed

lemma equals_readable:
  assumes "infer_condition_prerequisites name the_role document (CEquals left right) table = Inr table'"
    and "resolve_condition_equals left right name the_role document required_inputs vs = Inr (q, vs')"
    and "values_readable document the_role name vs"
  shows "values_readable document the_role name vs'"
proof -
  let ?infer = "\<lambda>operand table. case operand of
        CondReference reference _ \<Rightarrow> infer_condition_value_reference name the_role document reference table
      | CondLiteral _ \<Rightarrow> Inr table"
  obtain middle where infer: "?infer left table = Inr middle" "?infer right middle = Inr table'"
    using assms(1) by auto
  obtain l r vk left' vs1 right' where
    "resolve_operand_reference left name the_role document required_inputs = Inr l"
    "resolve_operand_reference right name the_role document required_inputs = Inr r"
    "resolve_condition_operand left l vk name the_role vs = Inr (left', vs1)"
    "resolve_condition_operand right r vk name the_role vs1 = Inr (right', vs')"
    using assms(2) by (auto simp: resolve_condition_equals_def)
  then show ?thesis
    using operand_readable infer assms(3) by metis
qed

lemma condition_readable:
  "resolve_condition_predicate predicate name the_role document required_inputs vs = Inr (q, vs') \<Longrightarrow>
   infer_condition_prerequisites name the_role document predicate table = Inr table' \<Longrightarrow>
   values_readable document the_role name vs \<Longrightarrow> values_readable document the_role name vs'"
  "resolve_condition_predicates predicates name the_role document required_inputs vs = Inr (qs, vs') \<Longrightarrow>
   infer_conditions_prerequisites name the_role document predicates table = Inr table' \<Longrightarrow>
   values_readable document the_role name vs \<Longrightarrow> values_readable document the_role name vs'"
proof (induction predicate name the_role document required_inputs vs
    and predicates name the_role document required_inputs vs
    arbitrary: q vs' table table' and qs vs' table table'
    rule: resolve_condition_predicate_resolve_condition_predicates.induct)
  case (4 left right name the_role document required_inputs vs)
  then show ?case
    using equals_readable by (metis resolve_condition_predicate.simps(4))
next
  case (5 selector name the_role document required_inputs vs)
  then obtain canonical source vk where
    "resolve_condition_reference (cs_reference selector) name the_role document required_inputs =
      Inr (canonical, source, vk)" "vs' = bt_insert canonical source vs"
    by (auto simp: reject_def split: if_splits sum.splits)
  then show ?case
    using condition_reference_readable "5.prems"(2,3) by (simp add: values_readable_insert)
next
  case (8 child children name the_role document required_inputs vs)
  obtain p ps vs1 where
    p: "resolve_condition_predicate child name the_role document required_inputs vs = Inr (p, vs1)"
    and ps: "resolve_condition_predicates children name the_role document required_inputs vs1 = Inr (ps, vs')"
    using "8.prems"(1) by auto
  obtain middle where "infer_condition_prerequisites name the_role document child table = Inr middle"
    "infer_conditions_prerequisites name the_role document children middle = Inr table'"
    using "8.prems"(2) by auto
  then show ?case
    using "8.IH"(1) [OF p] "8.IH"(2) [OF ps] "8.prems"(3) by blast
qed auto

section \<open>Bodies\<close>

lemma try_fold_each: "try_fold f xs s = Inr t \<Longrightarrow> x \<in> set xs \<Longrightarrow> \<exists>s t. f x s = Inr t"
  by (induction xs arbitrary: s) auto

lemma list_all2_right: "list_all2 P xs ys \<Longrightarrow> y \<in> set ys \<Longrightarrow> \<exists>x\<in>set xs. P x y"
  by (induction rule: list_all2_induct) auto

lemma message_readable:
  assumes "try_map (\<lambda>(index, source).
      validate_message_source name the_role index source document required_inputs destination) sources = Inr validated"
    and "try_fold (\<lambda>(index, source).
      infer_message_prerequisite name the_role document source (location index) allowed) sources table = Inr table'"
    and "VmReference (SourceOutput out) vt \<in> set validated"
  shows "readable document the_role name out"
proof -
  obtain index source where member: "(index, source) \<in> set sources"
    and "validate_message_source name the_role index source document required_inputs destination =
      Inr (VmReference (SourceOutput out) vt)"
    using list_all2_right [OF assms(1) [unfolded try_map_Inr] assms(3)] by auto
  then obtain reference resolved where source: "source = MsgReference reference"
    and resolved: "resolve_value_reference reference document required_inputs
        (node_message_location name the_role index (destination = DestinationAttachment))
        (the_role = RoleFinalizer \<and> destination = DestinationAttachment) = Inr resolved"
      "rvr_source resolved = SourceOutput out"
    by (auto simp: validate_message_source_def reject_def Let_def split: message_source.splits if_splits)
  obtain s t where "infer_message_prerequisite name the_role document source (location index) allowed s = Inr t"
    using try_fold_each [OF assms(2) member] by auto
  then show ?thesis
    using reference_readable [OF _ resolved(1)] resolved(2) source
    by (simp add: infer_message_prerequisite_def source_readable_def)
qed

lemma body_readable:
  assumes "validate_body name the_role body direct document profiles required_inputs = Inr validated"
    and "infer_body_prerequisites name the_role body document table = Inr table'"
    and "out \<in> body_sources validated"
  shows "readable document the_role name out"
proof (cases body)
  case (CommandBody command)
  with assms(1) obtain resolved common where
    inputs: "validate_command_inputs name the_role (cmd_inputs command) document required_inputs = Inr resolved"
    and validated: "validated = VCommand \<lparr>vcs_common = common, vcs_inputs = resolved, vcs_argv = cmd_argv command\<rparr>"
    by (auto simp: validate_body_def)
  obtain input r where r: "(input, r) \<in> set resolved" "rvr_source r = SourceOutput out"
    using assms(3) validated by (auto simp: body_sources_def bt_values_def)
  obtain reference where member: "(input, reference) \<in> set (cmd_inputs command)"
    and resolution: "resolve_value_reference reference document required_inputs
      (node_input_location name the_role input) (the_role = RoleFinalizer) = Inr r"
    using list_all2_right [OF inputs [unfolded validate_command_inputs_def try_map_Inr] r(1)] by auto
  have fold: "try_fold (\<lambda>(input, reference). infer_reference_prerequisite name the_role document reference
      (node_input_location name the_role input) (the_role = RoleFinalizer)) (cmd_inputs command) table = Inr table'"
    using assms(2) CommandBody by (simp add: infer_body_prerequisites_def)
  obtain s t where "infer_reference_prerequisite name the_role document reference
      (node_input_location name the_role input) (the_role = RoleFinalizer) s = Inr t"
    using try_fold_each [OF fold member] by auto
  then show ?thesis
    using reference_readable [OF _ resolution] r(2) by (simp add: source_readable_def)
next
  case (AgentBody agent)
  obtain middle where texts: "try_fold (\<lambda>(index, source). infer_message_prerequisite name the_role document source
       (node_message_location name the_role index False) False)
       (enumerate 0 (am_text (ad_message (agn_agent agent)))) table = Inr middle"
    and attachments: "try_fold (\<lambda>(index, source). infer_message_prerequisite name the_role document source
       (node_message_location name the_role index True) (the_role = RoleFinalizer))
       (enumerate 0 (am_attachments (ad_message (agn_agent agent)))) middle = Inr table'"
    using assms(2) AgentBody by (auto simp: infer_body_prerequisites_def)
  obtain common harness va where
    "validate_agent name the_role (agn_agent agent) document required_inputs harness = Inr va"
    and validated: "validated = VAgent \<lparr>vas_common = common, vas_agent = va\<rparr>"
    using assms(1) AgentBody by (auto simp: validate_body_def)
  then have parts: "try_map (\<lambda>(index, source).
        validate_message_source name the_role index source document required_inputs DestinationText)
        (enumerate 0 (am_text (ad_message (agn_agent agent)))) = Inr (vam_text (va_message va))"
    "try_map (\<lambda>(index, source).
        validate_message_source name the_role index source document required_inputs DestinationAttachment)
        (enumerate 0 (am_attachments (ad_message (agn_agent agent)))) = Inr (vam_attachments (va_message va))"
    by (auto simp: validate_agent_def)
  then show ?thesis
    using message_readable [OF parts(1) texts] message_readable [OF parts(2) attachments] assms(3) validated
    by (auto simp: body_sources_def)
qed

lemma validate_body_values:
  assumes "validate_body name the_role body direct document profiles required_inputs = Inr validated"
  shows "(case cn_condition (body_common body) of
      None \<Rightarrow> vc_condition_values (common_step validated) = []
    | Some predicate \<Rightarrow> \<exists>q. resolve_condition_predicate predicate name the_role document required_inputs [] =
        Inr (q, vc_condition_values (common_step validated)))"
proof (cases "cn_condition (body_common body)")
  case None
  then show ?thesis
    using assms by (cases body) (auto simp: validate_body_def common_step_def validate_common_def)
next
  case (Some predicate)
  then show ?thesis
    using assms by (cases body) (auto simp: validate_body_def common_step_def validate_common_def)
qed

lemma node_readable:
  assumes "validate_body name the_role body direct document profiles required_inputs = Inr validated"
    and "infer_node_prerequisites name the_role body document table = Inr ps"
    and "out \<in> step_sources validated"
  shows "readable document the_role name out"
proof -
  obtain middle table' where
    conditions: "(case cn_condition (body_common body) of
        None \<Rightarrow> Inr table
      | Some predicate \<Rightarrow> infer_condition_prerequisites name the_role document predicate table) = Inr middle"
    and bodies: "infer_body_prerequisites name the_role body document middle = Inr table'"
    using assms(2) by (auto simp: infer_node_prerequisites_def)
  have "values_readable document the_role name (vc_condition_values (common_step validated))"
    using validate_body_values [OF assms(1)] conditions condition_readable(1)
    by (fastforce simp: values_readable_def bt_values_def split: option.splits)
  then show ?thesis
    using assms(3) body_readable [OF assms(1) bodies]
    by (auto simp: step_sources_def values_readable_def source_readable_def)
qed

section \<open>Validated workflows\<close>

lemma list_all2_left: "list_all2 P xs ys \<Longrightarrow> x \<in> set xs \<Longrightarrow> \<exists>y\<in>set ys. P x y"
  by (induction rule: list_all2_induct) auto

lemma step_graph_infers:
  assumes "validate_step_graph document = Inr graph" and "(name, step) \<in> set (doc_steps document)"
  shows "\<exists>table ps. infer_node_prerequisites name RoleStep (sdef_body step) document table = Inr ps"
  using assms(1) list_all2_left [OF _ assms(2)]
  by (fastforce simp: validate_step_graph_def try_map_Inr resolve_step_prerequisites_def)

lemma finalizer_graph_infers:
  assumes "validate_finalizer_graph document = Inr graph" and "(name, finalizer) \<in> set (doc_finalizers document)"
  shows "\<exists>table ps. infer_node_prerequisites name RoleFinalizer (fdef_body finalizer) document table = Inr ps"
  using assms(1) list_all2_left [OF _ assms(2)]
  by (fastforce simp: validate_finalizer_graph_def try_map_Inr resolve_finalizer_prerequisites_def reject_def
      split: if_splits)

lemma validated_sources_readable:
  assumes "validate document = Inr vw" and "validated_body vw the_role name = Some step"
    and "out \<in> step_sources step"
  shows "readable document the_role name out"
  using assms(1)
proof (rule validate_unpacked)
  fix profiles step_graph finalizer_graph
  assume graphs: "validate_step_graph document = Inr step_graph"
    "validate_finalizer_graph document = Inr finalizer_graph"
    and steps: "list_all2 (\<lambda>(name, step) (name', body). name' = name \<and>
       validate_body name RoleStep (sdef_body step) (the (map_of (vg_direct_prerequisites step_graph) name))
         document profiles (vw_required_inputs vw) = Inr body) (doc_steps document) (vw_steps vw)"
    and finalizers: "list_all2 (\<lambda>(name, finalizer) (name', validated). name' = name \<and>
       validate_body name RoleFinalizer (fdef_body finalizer)
         (the (map_of (vg_direct_prerequisites finalizer_graph) name))
         document profiles (vw_required_inputs vw) = Inr (vf_body validated) \<and>
       vf_when validated = fdef_when finalizer) (doc_finalizers document) (vw_finalizers vw)"
  show ?thesis
  proof (cases the_role)
    case RoleStep
    then have "map_of (vw_steps vw) name = Some step"
      using assms(2) by (simp add: validated_body_def)
    from list_all2_map_of [OF steps _ this] obtain d where "map_of (doc_steps document) name = Some d"
      "validate_body name RoleStep (sdef_body d) (the (map_of (vg_direct_prerequisites step_graph) name))
         document profiles (vw_required_inputs vw) = Inr step"
      by auto
    then show ?thesis
      using step_graph_infers [OF graphs(1)] node_readable assms(3) RoleStep by (metis map_of_SomeD)
  next
    case RoleFinalizer
    then obtain f where f: "map_of (vw_finalizers vw) name = Some f" "vf_body f = step"
      using assms(2) by (auto simp: validated_body_def)
    from list_all2_map_of [OF finalizers _ f(1)] obtain d where "map_of (doc_finalizers document) name = Some d"
      "validate_body name RoleFinalizer (fdef_body d) (the (map_of (vg_direct_prerequisites finalizer_graph) name))
         document profiles (vw_required_inputs vw) = Inr step"
      using f(2) by auto
    then show ?thesis
      using finalizer_graph_infers [OF graphs(2)] node_readable assms(3) RoleFinalizer by (metis map_of_SomeD)
  qed
qed

lemma validated_triggers:
  assumes "validate document = Inr vw" and "map_of (vw_finalizers vw) name = Some f"
  shows "set (vf_when f) = triggers_of document name"
  using assms(1)
proof (rule validate_unpacked)
  fix profiles finalizer_graph
  assume "list_all2 (\<lambda>(name, finalizer) (name', validated). name' = name \<and>
       validate_body name RoleFinalizer (fdef_body finalizer)
         (the (map_of (vg_direct_prerequisites finalizer_graph) name))
         document profiles (vw_required_inputs vw) = Inr (vf_body validated) \<and>
       vf_when validated = fdef_when finalizer) (doc_finalizers document) (vw_finalizers vw)"
  from list_all2_map_of [OF this _ assms(2)] show ?thesis
    by (auto simp: triggers_of_def)
qed

lemma node_body_document:
  assumes "node_body_named document name = Some (the_role, body)"
  shows "document_body document the_role name = Some body" and "name \<in> set (role_keys document the_role)"
  using assms by (auto simp: node_body_named_def document_body_def role_keys_def map_of_in_keys split: option.splits)

lemma validate_body_outputs:
  assumes "validate_body name the_role body direct document profiles required_inputs = Inr validated"
  shows "map_option vo_value_type (map_of (vc_outputs (common_step validated)) out) =
    map_option output_value_type (map_of (cn_outputs (body_common body)) out)"
proof -
  have "map_option vo_value_type (map_of (map (\<lambda>(name, out).
      (name, \<lparr>vo_definition = out, vo_value_type = output_value_type out\<rparr>)) outputs) out) =
    map_option output_value_type (map_of outputs out)" for outputs
    by (induction outputs) auto
  then show ?thesis
    using assms
    by (auto simp: validate_body_def common_step_def validate_common_def body_common_def split: node_body.splits)
qed

text \<open>The node that an output is read from, as it is validated.\<close>

lemma validated_producer:
  assumes "document_wf document" and "validate document = Inr vw"
    and "node_body_named document name = Some (the_role, body)"
  obtains source where "validated_node vw the_role name = Some source"
    "vc_failure_policy source = cn_failure_policy (body_common body)"
    "\<forall>out. map_option vo_value_type (map_of (vc_outputs source) out) =
      map_option output_value_type (map_of (cn_outputs (body_common body)) out)"
proof -
  note named = node_body_document [OF assms(3)]
  obtain graph where graph: "role_graph document vw the_role graph"
    using validated_role_graph [OF assms(1,2)] .
  then obtain source where source: "validated_node vw the_role name = Some source"
    using named(2) unfolding role_graph_def by fastforce
  then obtain profiles validated ps where
    valid: "validate_body name the_role body ps document profiles (vw_required_inputs vw) = Inr validated"
    and "source = common_step validated"
    using graph named(1) unfolding role_graph_def node_validated_def by (metis option.inject)
  then show thesis
    using that [OF source] validate_body_common(3) [OF valid] validate_body_outputs [OF valid] by simp
qed

lemma validated_reads:
  assumes "document_wf document" and "validate document = Inr vw"
    and "validated_body vw the_role name = Some step" and "out \<in> step_sources step"
  shows "ros_node out \<noteq> WorkflowNode name the_role \<and>
    (the_role = RoleStep \<longrightarrow> node_role (ros_node out) = RoleStep) \<and>
    (\<exists>source. validated_node vw (node_role (ros_node out)) (node_id (ros_node out)) = Some source \<and>
       map_option vo_value_type (map_of (vc_outputs source) (ros_output out)) = Some (ros_value_type out) \<and>
       (vc_failure_policy (common_step step) = Required \<longrightarrow> vc_failure_policy source = Required))"
proof -
  obtain body declared where
    body: "node_body_named document (node_id (ros_node out)) = Some (node_role (ros_node out), body)"
    and declared: "map_of (cn_outputs (body_common body)) (ros_output out) = Some declared"
      "ros_value_type out = output_value_type declared"
    and other: "ros_node out \<noteq> WorkflowNode name the_role"
    and phase: "the_role = RoleStep \<longrightarrow> node_role (ros_node out) = RoleStep"
    and policy: "policy_of document the_role name = Required \<longrightarrow> cn_failure_policy (body_common body) = Required"
    using validated_sources_readable [OF assms(2-4)] by (auto simp: readable_def)
  obtain graph where "role_graph document vw the_role graph"
    using validated_role_graph [OF assms(1,2)] .
  from role_graph_node(4) [OF this, of name "common_step step"]
  have reader: "vc_failure_policy (common_step step) = policy_of document the_role name"
    using assms(3) by (simp add: validated_body_node)
  obtain source where source: "validated_node vw (node_role (ros_node out)) (node_id (ros_node out)) = Some source"
    "vc_failure_policy source = cn_failure_policy (body_common body)"
    and outputs: "\<forall>out. map_option vo_value_type (map_of (vc_outputs source) out) =
      map_option output_value_type (map_of (cn_outputs (body_common body)) out)"
    using validated_producer [OF assms(1,2) body] .
  have "map_option vo_value_type (map_of (vc_outputs source) (ros_output out)) = Some (ros_value_type out)"
    using outputs declared by simp
  then show ?thesis
    using other phase policy reader source by simp
qed

lemma validated_finalizer_reads:
  assumes "validate document = Inr vw" and "map_of (vw_finalizers vw) name = Some reader"
    and "out \<in> step_sources (vf_body reader)" and "node_role (ros_node out) = RoleFinalizer"
    and "map_of (vw_finalizers vw) (node_id (ros_node out)) = Some source"
  shows "set (vf_when reader) \<subseteq> set (vf_when source)"
proof -
  have "validated_body vw RoleFinalizer name = Some (vf_body reader)"
    using assms(2) by (simp add: validated_body_def)
  then have "triggers_of document name \<subseteq> triggers_of document (node_id (ros_node out))"
    using validated_sources_readable [OF assms(1) _ assms(3)] assms(4) by (auto simp: readable_def)
  then show ?thesis
    using validated_triggers [OF assms(1,2)] validated_triggers [OF assms(1,5)] by simp
qed

end
