(* ===== verification/Validation_Samples.thy ===== *)
theory Validation_Samples
  imports Validation_Data Runtime_Samples
begin

text \<open>
  A small document and the workflow it validates to, on which the properties of validation and of
  continuation are exercised.
\<close>

section \<open>A sample document\<close>

definition sample_node :: "condition_predicate option \<Rightarrow> (string, output_definition) btree_map \<Rightarrow> common_node" where
  "sample_node guard outputs =
     \<lparr>cn_failure_policy = Required, cn_condition = guard, cn_cwd = None, cn_outputs = outputs\<rparr>"

text \<open>
  Two steps in an order that the dependency of the first on the second reverses, and a finalizer that reads the
  output of the second.
\<close>

definition sample_document :: workflow_document where
  "sample_document =
     \<lparr>doc_schema_version = 1, doc_description = None, doc_inputs = [], doc_agent_profiles = [],
      doc_steps =
        [(''a'', \<lparr>sdef_body = CommandBody
            \<lparr>cmd_common = sample_node None [(''t'', TextPath ''out.txt'')], cmd_inputs = [],
             cmd_argv = [''true'']\<rparr>,
            sdef_control_dependencies = [], sdef_recovery = None\<rparr>),
         (''b'', \<lparr>sdef_body = CommandBody
            \<lparr>cmd_common = sample_node
               (Some (CEquals (CondReference
                  (OutputReference \<lparr>or_node = ''a'', or_output = ''t''\<rparr>) None) (CondLiteral (JString ''x'')))) [],
             cmd_inputs = [(''i'', OutputReference \<lparr>or_node = ''a'', or_output = ''t''\<rparr>)],
             cmd_argv = [''true'']\<rparr>,
            sdef_control_dependencies = [''a''], sdef_recovery = None\<rparr>)],
      doc_step_order = [''b'', ''a''],
      doc_finalizers =
        [(''z'', \<lparr>fdef_body = CommandBody
            \<lparr>cmd_common = sample_node None [],
             cmd_inputs = [(''i'', OutputReference \<lparr>or_node = ''a'', or_output = ''t''\<rparr>)],
             cmd_argv = [''true'']\<rparr>,
            fdef_after = [], fdef_when = [FtSucceeded]\<rparr>)],
      doc_finalizer_order = [''z''],
      doc_exports = [(''e'', \<lparr>or_node = ''a'', or_output = ''t''\<rparr>)]\<rparr>"

definition sample_direct :: "(string, resolved_direct_prerequisite list) btree_map" where
  "sample_direct = [(''a'', []), (''b'', [after_step ''a''])]"

text \<open>The output of \<^verbatim>\<open>a\<close> that both its readers refer to.\<close>

definition sample_source :: resolved_output_source where
  "sample_source = ResolvedOutputSource (WorkflowNode ''a'' RoleStep) ''t'' VtText"

definition sample_validated :: validated_workflow where
  "sample_validated = projr (validate sample_document)"

lemma sample_document_wf: "document_wf sample_document"
  by (simp add: document_wf_def sample_document_def bt_wf_def)

lemma sample_validates_facts:
  "case validate sample_document of
     Inl _ \<Rightarrow> False
   | Inr vw \<Rightarrow> vw_presentation_order vw = [''a'', ''b''] \<and>
       vw_finalizer_presentation_order vw = [''z''] \<and>
       map_option (\<lambda>common. (map producer (vc_prerequisites common), vc_condition common \<noteq> None))
         (validated_node vw RoleStep ''b'') = Some ([''a''], True) \<and>
       map_option (\<lambda>source. node_id (ros_node source)) (map_of (vw_exports vw) ''e'') = Some ''a'' \<and>
       (case validated_body vw RoleFinalizer ''z'' of
          Some (VCommand command) \<Rightarrow> map (\<lambda>(_, r). rvr_source r) (vcs_inputs command) = [SourceOutput sample_source]
        | _ \<Rightarrow> False)"
  by code_simp

lemma sample_validates: "validate sample_document = Inr sample_validated"
  using sample_validates_facts by (auto simp: sample_validated_def split: sum.splits)

lemma sample_validated_facts:
  "vw_presentation_order sample_validated = [''a'', ''b'']"
  "\<exists>common. validated_node sample_validated RoleStep ''b'' = Some common \<and>
     map producer (vc_prerequisites common) = [''a''] \<and> vc_condition common \<noteq> None"
  "\<exists>source. map_of (vw_exports sample_validated) ''e'' = Some source \<and> node_id (ros_node source) = ''a''"
  using sample_validates_facts unfolding sample_validates by auto

lemma sample_finalizer_reads:
  "\<exists>step. validated_body sample_validated RoleFinalizer ''z'' = Some step \<and> sample_source \<in> step_sources step"
  using sample_validates_facts unfolding sample_validates
  by (force simp: step_sources_def body_sources_def bt_values_def
      split: option.splits validated_step.splits)

end
