(* ===== verification/Validation_Properties.thy ===== *)
theory Validation_Properties
  imports Validation_Samples
begin

text \<open>
  The properties of validation: its graph loop against a reference order, the graphs it accepts, and
  what a validated workflow guarantees to the reducer that runs it.
\<close>

section \<open>Dependency graphs\<close>

lemma sample_graph: "graph_wf sample_direct [''b'', ''a'']" "fst ` graph_edges sample_direct \<subseteq> {''b'', ''a''}"
  by (auto simp: graph_wf_def sample_direct_def graph_edges_def node_producers_def after_step_def
      split: if_splits)

text \<open>
  C14: The worklist loop that orders a dependency graph never subtracts below zero, and returns the order
  that repeatedly takes the first node of the source order whose producers have all been taken.
\<close>

theorem presentation_order_greedy:
  assumes "graph_wf direct source_order"
  shows "graph_order direct source_order =
    Some (greedy_order (length source_order) direct source_order [])"
  by (rule graph_order_greedy [OF assms])

theorem presentation_order_greedy_witness:
  "graph_order sample_direct [''b'', ''a''] = Some [''a'', ''b'']"
  using presentation_order_greedy [OF sample_graph(1)]
  by (simp add: first_ready_def sample_direct_def node_producers_def after_step_def)

text \<open>
  C13: A graph whose producers are all nodes of the graph is accepted exactly when it is acyclic, and is
  otherwise rejected as a dependency cycle.
\<close>

theorem graph_accepted_iff_acyclic:
  assumes "graph_wf direct source_order" and "fst ` graph_edges direct \<subseteq> set source_order"
  shows "validate_graph direct source_order (length direct) =
    (if acyclic (graph_edges direct)
     then Inr \<lparr>vg_direct_prerequisites = direct,
       vg_presentation_order = greedy_order (length source_order) direct source_order []\<rparr>
     else Inl (ValidationFailure DependencyCycle LocWorkflowGraph))"
  using graph_order_accepts [OF assms graph_order_greedy [OF assms(1)]] graph_order_greedy [OF assms(1)]
  by (simp add: validate_graph_def reject_def)

theorem graph_accepted_iff_acyclic_witness:
  "acyclic (graph_edges sample_direct) \<and>
   validate_graph sample_direct [''b'', ''a''] 2 =
     Inr \<lparr>vg_direct_prerequisites = sample_direct, vg_presentation_order = [''a'', ''b'']\<rparr>"
proof -
  have "validate_graph sample_direct [''b'', ''a''] 2 =
      Inr \<lparr>vg_direct_prerequisites = sample_direct, vg_presentation_order = [''a'', ''b'']\<rparr>"
    by code_simp
  moreover have "length sample_direct = 2"
    by (simp add: sample_direct_def)
  ultimately show ?thesis
    using graph_accepted_iff_acyclic [OF sample_graph(1)] sample_graph(2) by (auto split: if_splits)
qed

section \<open>Validated workflows\<close>

text \<open>
  C15: In a validated workflow the presentation orders of the steps and of the finalizers list every
  node exactly once, and every node after the producers of its prerequisites.
\<close>

theorem validated_orders:
  assumes "document_wf document" and "validate document = Inr vw"
  shows "distinct (validated_order vw the_role) \<and>
    (\<forall>name. name \<in> set (validated_order vw the_role) \<longleftrightarrow> validated_node vw the_role name \<noteq> None) \<and>
    (\<forall>i common. i < length (validated_order vw the_role) \<longrightarrow>
       validated_node vw the_role (validated_order vw the_role ! i) = Some common \<longrightarrow>
       producer ` set (vc_prerequisites common) \<subseteq> set (take i (validated_order vw the_role)))"
proof -
  obtain graph where graph: "role_graph document vw the_role graph"
    using validated_role_graph [OF assms] .
  have "producer ` set (vc_prerequisites common) \<subseteq> set (take i (validated_order vw the_role))"
    if "i < length (validated_order vw the_role)"
      "validated_node vw the_role (validated_order vw the_role ! i) = Some common" for i common
    using graph that role_graph_node(2) [OF graph that(2)]
    by (auto simp: role_graph_def producers_first_def)
  then show ?thesis
    using graph by (simp add: role_graph_def)
qed

theorem validated_orders_witness:
  "vw_presentation_order sample_validated = [''a'', ''b''] \<and>
   (\<exists>common. validated_node sample_validated RoleStep ''b'' = Some common \<and>
     producer ` set (vc_prerequisites common) \<subseteq> {''a''})"
proof -
  obtain common where b: "validated_node sample_validated RoleStep ''b'' = Some common"
    using sample_validated_facts(2) by blast
  have "validated_order sample_validated RoleStep = [''a'', ''b'']"
    using sample_validated_facts(1) by (simp add: validated_order_def)
  then have "producer ` set (vc_prerequisites common) \<subseteq> {''a''}"
    using conjunct2 [OF conjunct2 [OF validated_orders [OF sample_document_wf sample_validates]],
        rule_format, of 1 RoleStep common] b
    by simp
  then show ?thesis
    using b sample_validated_facts(1) by blast
qed

text \<open>
  C16: A prerequisite of a validated node is another node of the same phase.  Every output that its inputs,
  its messages or its condition read, in its own phase or from a finalizer in the ordinary phase, is
  declared by another node with the type it is read at; a step reads steps only, a finalizer reads a
  finalizer only when that one is triggered whenever it is itself, and a required node reads required
  nodes only, so an advisory failure never starves required work of its data in any phase.
\<close>

theorem validated_prerequisites:
  assumes "document_wf document" and "validate document = Inr vw"
    and "validated_body vw the_role name = Some step"
  shows "(\<forall>p\<in>set (vc_prerequisites (common_step step)). producer p \<noteq> name \<and>
      (\<exists>source. validated_node vw the_role (producer p) = Some source \<and>
         (data p \<and> vc_failure_policy (common_step step) = Required \<longrightarrow> vc_failure_policy source = Required))) \<and>
    (\<forall>out\<in>step_sources step. ros_node out \<noteq> WorkflowNode name the_role \<and>
      (the_role = RoleStep \<longrightarrow> node_role (ros_node out) = RoleStep) \<and>
      (\<exists>source. validated_node vw (node_role (ros_node out)) (node_id (ros_node out)) = Some source \<and>
         map_option vo_value_type (map_of (vc_outputs source) (ros_output out)) = Some (ros_value_type out) \<and>
         (vc_failure_policy (common_step step) = Required \<longrightarrow> vc_failure_policy source = Required))) \<and>
    (\<forall>reader source out. map_of (vw_finalizers vw) name = Some reader \<and> out \<in> step_sources (vf_body reader) \<and>
       node_role (ros_node out) = RoleFinalizer \<and>
       map_of (vw_finalizers vw) (node_id (ros_node out)) = Some source \<longrightarrow>
       set (vf_when reader) \<subseteq> set (vf_when source))"
proof (intro conjI ballI allI impI)
  obtain graph where graph: "role_graph document vw the_role graph"
    using validated_role_graph [OF assms(1,2)] .
  have node: "validated_node vw the_role name = Some (common_step step)"
    using assms(3) by (simp add: validated_body_node)
  fix p
  assume "p \<in> set (vc_prerequisites (common_step step))"
  note p = bspec [OF role_graph_node(3) [OF graph node] this, unfolded prerequisite_ok_def]
  then obtain source where source: "validated_node vw the_role (producer p) = Some source"
    using graph unfolding role_graph_def by fastforce
  show "producer p \<noteq> name" and "\<exists>source. validated_node vw the_role (producer p) = Some source \<and>
      (data p \<and> vc_failure_policy (common_step step) = Required \<longrightarrow> vc_failure_policy source = Required)"
    using p source role_graph_node(4) [OF graph node] role_graph_node(4) [OF graph source] by simp_all
next
  fix reader source out
  assume "map_of (vw_finalizers vw) name = Some reader \<and> out \<in> step_sources (vf_body reader) \<and>
      node_role (ros_node out) = RoleFinalizer \<and> map_of (vw_finalizers vw) (node_id (ros_node out)) = Some source"
  then show "set (vf_when reader) \<subseteq> set (vf_when source)"
    using validated_finalizer_reads [OF assms(2)] by blast
qed (use validated_reads [OF assms] in blast)+

theorem validated_prerequisites_witness:
  "\<exists>step. validated_body sample_validated RoleFinalizer ''z'' = Some step \<and> sample_source \<in> step_sources step \<and>
     (\<exists>source. validated_node sample_validated RoleStep ''a'' = Some source \<and>
        map_option vo_value_type (map_of (vc_outputs source) ''t'') = Some VtText)"
proof -
  obtain step where z: "validated_body sample_validated RoleFinalizer ''z'' = Some step"
    and reads: "sample_source \<in> step_sources step"
    using sample_finalizer_reads by blast
  from validated_prerequisites [OF sample_document_wf sample_validates z] reads
  have "\<exists>source. validated_node sample_validated (node_role (ros_node sample_source)) (node_id (ros_node sample_source)) =
      Some source \<and> map_option vo_value_type (map_of (vc_outputs source) (ros_output sample_source)) =
      Some (ros_value_type sample_source)"
    by blast
  then show ?thesis
    using z reads by (auto simp: sample_source_def)
qed

text \<open>
  C18: Every condition of a validated workflow has at most 256 predicate nodes and 16 levels, the bounds
  the capacity of its evidence is computed with.
\<close>

theorem validated_conditions_bounded:
  assumes "document_wf document" and "validate document = Inr vw"
    and "validated_node vw the_role name = Some common" and "vc_condition common = Some predicate"
  shows "predicate_nodes predicate \<le> 256 \<and> predicate_depth predicate \<le> 16"
  using validated_condition_counted [OF assms]
  by (simp add: MAXIMUM_CONDITION_NODES_def MAXIMUM_CONDITION_DEPTH_def)

theorem validated_conditions_bounded_witness:
  "\<exists>common predicate. validated_node sample_validated RoleStep ''b'' = Some common \<and>
     vc_condition common = Some predicate \<and> predicate_nodes predicate \<le> 256"
  using sample_validated_facts(2) validated_conditions_bounded [OF sample_document_wf sample_validates]
  by blast

lemma workflow_node_validated:
  assumes "(name, d) \<in> set (workflow_nodes vw)" and "workflow_wf vw"
  shows "\<exists>the_role common. validated_node vw the_role name = Some common \<and>
    evidence_prerequisites d = vc_evidence_prerequisites common"
proof -
  have dist: "distinct (map fst (vw_steps vw))" "distinct (map fst (vw_finalizers vw))"
    using assms(2) by (simp_all add: workflow_wf_def bt_wf_distinct)
  consider step where "(name, step) \<in> set (vw_steps vw)"
      "evidence_prerequisites d = vc_evidence_prerequisites (common_step step)"
    | f where "(name, f) \<in> set (vw_finalizers vw)"
      "evidence_prerequisites d = vc_evidence_prerequisites (common_step (vf_body f))"
    using assms(1)
    by (auto simp: workflow_nodes_def runtime_finalizer_def runtime_step_def Let_def)
  then show ?thesis
  proof cases
    case 1
    then show ?thesis
      using dist by (intro exI [of _ RoleStep]) (simp add: validated_node_def)
  next
    case 2
    then show ?thesis
      using dist by (intro exI [of _ RoleFinalizer]) (simp add: validated_node_def)
  qed
qed

lemma validated_references:
  assumes "document_wf document" and "validate document = Inr vw"
  shows "workflow_wf vw" and "definition_references_ok (from_admitted vw parallel transitions vs)"
proof -
  note keys = validated_role_graphs [OF assms]
  have "list_all (\<lambda>s. \<not> bt_contains_key (doc_finalizers document) s) (bt_keys (doc_steps document))"
    using assms(2) by (rule validate_unpacked)
      (auto simp: validate_node_namespace_def list_ex_iff list_all_iff split: if_splits)
  moreover have "bt_contains_key (vw_finalizers vw) s = bt_contains_key (doc_finalizers document) s" for s
    using keys by (metis bt_contains_key_def map_of_eq_None_iff list.set_map)
  ultimately show wf: "workflow_wf vw"
    using assms(1) keys by (simp add: workflow_wf_def document_wf_def bt_wf_def bt_keys_def)
  have "references_ok d" if node: "(name, d) \<in> set (workflow_nodes vw)" for name d
  proof -
    have "\<exists>the_role common. validated_node vw the_role name = Some common \<and>
        evidence_prerequisites d = vc_evidence_prerequisites common"
      using node wf workflow_node_validated by blast
    then obtain the_role common where common: "validated_node vw the_role name = Some common"
      and d: "evidence_prerequisites d = vc_evidence_prerequisites common"
      by blast
    obtain graph where "role_graph document vw the_role graph"
      using validated_role_graph [OF assms] .
    from role_graph_node(5) [OF this common] show ?thesis
      by (auto simp: references_ok_def list_all_iff d split: prerequisite.splits)
  qed
  moreover have "set (bt_collect (workflow_nodes vw)) = set (workflow_nodes vw)"
    using map_of_bt_collect [OF workflow_nodes_distinct [OF wf]] workflow_nodes_distinct [OF wf]
      bt_wf_distinct [OF bt_wf_collect, of "workflow_nodes vw"] by (metis map_of_inject_set)
  ultimately show "definition_references_ok (from_admitted vw parallel transitions vs)"
    by (auto simp: definition_references_ok_def list_all_iff)
qed

text \<open>
  C12: A validated workflow has the well-formed tables its capacity relies on, and the reducer returns
  on it: from initialization and after every occurrence of every run.
\<close>

theorem validated_workflow_runs:
  fixes ports :: "('p, 'c, 'o) runtime_ports" and cancellation :: "'d initial_cancellation option"
  assumes "document_wf document" and "validate document = Inr vw"
  shows "workflow_wf vw \<and>
    (\<exists>r. initialize_seeded_definition ports (from_admitted vw parallel transitions vs) cancellation seed =
       Some r) \<and>
    (\<forall>r occurrence. run ports (from_admitted vw parallel transitions vs) cancellation seed r \<longrightarrow>
       (\<exists>r'. reduce ports (state r) occurrence = Some r'))"
proof -
  note wf = validated_references(1) [OF assms]
  note def_wf = from_admitted_wf [OF wf, of parallel transitions vs]
  note references = validated_references(2) [OF assms, of parallel transitions vs]
  have "\<exists>r'. reduce ports (state r) occurrence = Some r'"
    if "run ports (from_admitted vw parallel transitions vs) cancellation seed r" for r occurrence
    using reduce_total [of "state r" ports occurrence] run_definition [OF def_wf that] def_wf references
    by simp
  then show ?thesis
    using wf initialize_total [OF def_wf references] by blast
qed

theorem validated_workflow_runs_witness:
  "\<exists>r :: (unit, unit, string, nat) reduction.
     initialize_seeded_definition sample_ports (from_admitted sample_validated 1 20 []) None
       execution_seed_empty = Some r \<and>
     (\<exists>r'. reduce sample_ports (state r) (StepStarted ''a'' (ActionId 1)) = Some r')"
proof -
  note runs = validated_workflow_runs [OF sample_document_wf sample_validates, of sample_ports 1 20 "[]"
      "None :: nat initial_cancellation option" execution_seed_empty]
  then obtain r :: "(unit, unit, string, nat) reduction" where
    r: "initialize_seeded_definition sample_ports (from_admitted sample_validated 1 20 []) None
       execution_seed_empty = Some r"
    by blast
  then show ?thesis
    using runs run.initialize [OF r] by blast
qed

text \<open>
  C17: An exported value of a validated workflow comes from a required node of the workflow, and if that
  node is a finalizer it runs when the steps succeeded.
\<close>

theorem validated_exports:
  assumes "document_wf document" and "validate document = Inr vw"
    and "map_of (vw_exports vw) name = Some source"
  shows "(\<exists>common. validated_node vw (node_role (ros_node source)) (node_id (ros_node source)) = Some common \<and>
       vc_failure_policy common = Required) \<and>
    (node_role (ros_node source) = RoleFinalizer \<longrightarrow>
       (\<exists>f. map_of (doc_finalizers document) (node_id (ros_node source)) = Some f \<and>
         FtSucceeded \<in> set (fdef_when f)))"
proof -
  obtain reference where "resolve_export name reference document = Inr source"
    using validated_exports_resolved [OF assms(2,3)] by blast
  note facts = resolve_export_facts [OF this]
  obtain graph where graph: "role_graph document vw (node_role (ros_node source)) graph"
    using validated_role_graph [OF assms(1,2)] .
  have "node_id (ros_node source) \<in> set (role_keys document (node_role (ros_node source)))"
    using facts(1)
    by (auto simp: document_body_def role_keys_def map_of_in_keys split: workflow_node_role.splits)
  then obtain common where
    "validated_node vw (node_role (ros_node source)) (node_id (ros_node source)) = Some common"
    using graph unfolding role_graph_def by fastforce
  then show ?thesis
    using role_graph_node(4) [OF graph] facts(2,3) by auto
qed

theorem validated_exports_witness:
  "\<exists>source common. map_of (vw_exports sample_validated) ''e'' = Some source \<and>
     validated_node sample_validated (node_role (ros_node source)) (node_id (ros_node source)) = Some common \<and>
     vc_failure_policy common = Required"
proof -
  obtain source where e: "map_of (vw_exports sample_validated) ''e'' = Some source"
    using sample_validated_facts(3) by blast
  then show ?thesis
    using conjunct1 [OF validated_exports [OF sample_document_wf sample_validates e]] by blast
qed

end
