(* ===== verification/Continuation.thy ===== *)
theory Continuation
  imports Runtime_Types
begin

text \<open>
  Continuing a run with a replacement definition (\<^verbatim>\<open>crates/execution/src/workflow/continuation.rs\<close>): which
  steps run again, which are inherited from the prior attempt, which inputs carry over, and what
  forbids the inheritance.
\<close>

section \<open>Partitions\<close>

record partition =
  part_reexecuted :: "string list"
  part_inherited :: "string list"

fun invalid_selections :: "validated_workflow \<Rightarrow> string btree_set \<Rightarrow> string list \<Rightarrow> string list" where
  "invalid_selections vw seen [] = []"
| "invalid_selections vw seen (selected # rest) =
     (if bs_contains seen selected \<or> \<not> bt_contains_key (vw_steps vw) selected
      then selected # invalid_selections vw (bs_insert selected seen) rest
      else invalid_selections vw (bs_insert selected seen) rest)"

definition step_dependents ::
  "validated_workflow \<Rightarrow> string list + (string, string list) btree_map" where
  "step_dependents vw =
     try_fold (\<lambda>name dependents.
       (case map_of (vw_steps vw) name of
          None \<Rightarrow> Inl [name]
        | Some step \<Rightarrow>
            Inr (fold (\<lambda>p dependents.
              bt_insert (producer p)
                ((case map_of dependents (producer p) of None \<Rightarrow> [] | Some nodes \<Rightarrow> nodes) @ [name])
                dependents) (vc_prerequisites (common_step step)) dependents)))
       (vw_presentation_order vw) []"

text \<open>The dependents of one node: the new ones join the set and the end of the queue.\<close>

fun enqueue_dependents ::
  "string list \<Rightarrow> string btree_set \<times> string list \<Rightarrow> string btree_set \<times> string list" where
  "enqueue_dependents [] pending = pending"
| "enqueue_dependents (dependent # rest) (reexecuted, queue) =
     (if bs_contains reexecuted dependent then enqueue_dependents rest (reexecuted, queue)
      else enqueue_dependents rest (bs_insert dependent reexecuted, queue @ [dependent]))"

definition all_dependents :: "(string, string list) btree_map \<Rightarrow> string set" where
  "all_dependents dependents = (\<Union>(_, nodes)\<in>set dependents. set nodes)"

lemma enqueue_dependents_set:
  "enqueue_dependents nodes (reexecuted, queue) = (reexecuted', queue') \<Longrightarrow>
   set reexecuted' = set reexecuted \<union> set nodes \<and> set queue' = set queue \<union> (set nodes - set reexecuted)"
  by (induction nodes "(reexecuted, queue)" arbitrary: reexecuted queue rule: enqueue_dependents.induct)
    (auto simp: bs_contains_def split: if_splits)

lemma enqueue_dependents_none:
  "enqueue_dependents nodes (reexecuted, queue) = (reexecuted', queue') \<Longrightarrow> set nodes \<subseteq> set reexecuted \<Longrightarrow>
   queue' = queue"
  by (induction nodes "(reexecuted, queue)" arbitrary: reexecuted queue rule: enqueue_dependents.induct)
    (auto simp: bs_contains_def split: if_splits)

lemma enqueue_dependents_less:
  assumes "enqueue_dependents nodes (reexecuted, queue) = (reexecuted', queue')" and "set nodes \<subseteq> U"
    and "finite U"
  shows "card (U - set reexecuted') < card (U - set reexecuted) \<or>
    card (U - set reexecuted') = card (U - set reexecuted) \<and> queue' = queue"
proof (cases "set nodes \<subseteq> set reexecuted")
  case True
  then have "set reexecuted' = set reexecuted"
    using enqueue_dependents_set [OF assms(1)] by blast
  then show ?thesis
    using enqueue_dependents_none [OF assms(1) True] by simp
next
  case False
  then have "U - set reexecuted' \<subset> U - set reexecuted"
    using enqueue_dependents_set [OF assms(1)] assms(2) by blast
  then show ?thesis
    using assms(3) by (simp add: psubset_card_mono)
qed

lemma finite_all_dependents: "finite (all_dependents dependents)"
  by (auto simp: all_dependents_def)

lemma dependents_included:
  "(case map_of dependents node of None \<Rightarrow> [] | Some nodes \<Rightarrow> nodes) = nodes \<Longrightarrow>
   set nodes \<subseteq> all_dependents dependents"
  by (auto simp: all_dependents_def split: option.splits dest!: map_of_SomeD)

lemma enqueue_known_less:
  "(reexecuted', queue') =
     enqueue_dependents (case map_of dependents node of None \<Rightarrow> [] | Some nodes \<Rightarrow> nodes)
       (reexecuted, queue) \<Longrightarrow>
   card (all_dependents dependents - set reexecuted') < card (all_dependents dependents - set reexecuted) \<or>
   card (all_dependents dependents - set reexecuted') = card (all_dependents dependents - set reexecuted) \<and>
   queue' = queue"
  by (rule enqueue_dependents_less [OF sym dependents_included [OF refl] finite_all_dependents])

function close_dependents ::
  "(string, string list) btree_map \<Rightarrow> string list \<Rightarrow> string btree_set \<Rightarrow> string btree_set" where
  "close_dependents dependents [] reexecuted = reexecuted"
| "close_dependents dependents (node # queue) reexecuted =
     (case enqueue_dependents
         (case map_of dependents node of None \<Rightarrow> [] | Some nodes \<Rightarrow> nodes) (reexecuted, queue) of
        (reexecuted, queue) \<Rightarrow> close_dependents dependents queue reexecuted)"
  by pat_completeness auto
termination
  by (relation "measures
      [\<lambda>(dependents, _, reexecuted). card (all_dependents dependents - set reexecuted),
       \<lambda>(_, queue, _). length queue]")
    (simp, force dest: enqueue_known_less)

definition partition_of :: "validated_workflow \<Rightarrow> string list \<Rightarrow> string list + partition" where
  "partition_of vw from_ids =
     (let invalid = invalid_selections vw [] from_ids in
      if from_ids = [] \<or> invalid \<noteq> [] then Inl invalid
      else
        try_in (step_dependents vw) (\<lambda>dependents.
          let reexecuted = close_dependents dependents from_ids (fold bs_insert from_ids []) in
          Inr \<lparr>part_reexecuted = filter (bs_contains reexecuted) (vw_presentation_order vw),
               part_inherited = filter (\<lambda>name. \<not> bs_contains reexecuted name)
                 (vw_presentation_order vw)\<rparr>))"

section \<open>Inputs\<close>

definition input_has_kind :: "workflow_value_type \<Rightarrow> resolved_input option \<Rightarrow> bool" where
  "input_has_kind vt retained =
     (case (vt, retained) of
        (VtText, Some (RiText _)) \<Rightarrow> True
      | (VtJson, Some (RiJson _)) \<Rightarrow> True
      | (VtFile, Some (RiFile _)) \<Rightarrow> True
      | (VtAttachmentCollection, Some (RiAttachments _)) \<Rightarrow> True
      | _ \<Rightarrow> False)"

definition project_input_candidates ::
  "validated_workflow \<Rightarrow> validated_workflow \<Rightarrow> (string, resolved_input) btree_map \<Rightarrow>
   (string, resolved_input) btree_map \<times> string list" where
  "project_input_candidates vw prior vs =
     fold (\<lambda>(name, vt) (projected, unsatisfied).
       (let retained = map_of vs name in
        if map_of (vw_required_inputs prior) name \<noteq> Some vt \<or> \<not> input_has_kind vt retained
        then (projected, unsatisfied @ [name])
        else
          (case retained of
             Some entry \<Rightarrow> (bt_insert name entry projected, unsatisfied)
           | None \<Rightarrow> (projected, unsatisfied))))
       (vw_required_inputs vw) ([], [])"

definition project_inputs ::
  "validated_workflow \<Rightarrow> validated_workflow \<Rightarrow> (string, resolved_input) btree_map \<Rightarrow>
   string list + (string, resolved_input) btree_map" where
  "project_inputs vw prior vs =
     (case project_input_candidates vw prior vs of
        (projected, unsatisfied) \<Rightarrow> if unsatisfied = [] then Inr projected else Inl unsatisfied)"

section \<open>References\<close>

text \<open>The derived order of \<^verbatim>\<open>ResolvedOutputSource\<close> compares its fields in declaration order.\<close>

fun role_rank :: "workflow_node_role \<Rightarrow> nat" where
  "role_rank RoleStep = 0"
| "role_rank RoleFinalizer = 1"

fun value_type_rank :: "workflow_value_type \<Rightarrow> nat" where
  "value_type_rank VtText = 0"
| "value_type_rank VtAttachmentCollection = 1"
| "value_type_rank VtJson = 2"
| "value_type_rank VtFile = 3"
| "value_type_rank VtGitBranch = 4"

definition output_source_key :: "resolved_output_source \<Rightarrow> string \<times> nat \<times> string \<times> nat" where
  "output_source_key source =
     (node_id (ros_node source), role_rank (node_role (ros_node source)), ros_output source,
      value_type_rank (ros_value_type source))"

lemma role_rank_inj: "role_rank a = role_rank b \<Longrightarrow> a = b"
  by (cases a; cases b) simp_all

lemma value_type_rank_inj: "value_type_rank a = value_type_rank b \<Longrightarrow> a = b"
  by (cases a; cases b) simp_all

lemma output_source_key_inj: "output_source_key a = output_source_key b \<Longrightarrow> a = b"
  by (cases a; cases b; cases "ros_node a"; cases "ros_node b")
    (auto simp: output_source_key_def dest: role_rank_inj value_type_rank_inj)

instantiation resolved_output_source :: linorder
begin

definition less_eq_resolved_output_source :: "resolved_output_source \<Rightarrow> resolved_output_source \<Rightarrow> bool" where
  "a \<le> b \<longleftrightarrow> output_source_key a \<le> output_source_key b"

definition less_resolved_output_source :: "resolved_output_source \<Rightarrow> resolved_output_source \<Rightarrow> bool" where
  "a < b \<longleftrightarrow> output_source_key a < output_source_key b"

instance
  by standard
    (auto simp: less_eq_resolved_output_source_def less_resolved_output_source_def
      intro: output_source_key_inj)

end

definition add_reference ::
  "resolved_value_source \<Rightarrow> resolved_output_source btree_set \<Rightarrow> resolved_output_source btree_set" where
  "add_reference source references =
     (case source of SourceOutput out \<Rightarrow> bs_insert out references | _ \<Rightarrow> references)"

definition check_body_references ::
  "validated_step \<Rightarrow> resolved_output_source btree_set \<Rightarrow> resolved_output_source btree_set" where
  "check_body_references step references =
     (case step of
        VCommand command \<Rightarrow>
          fold (\<lambda>reference. add_reference (rvr_source reference)) (bt_values (vcs_inputs command)) references
      | VAgent agent \<Rightarrow>
          fold (\<lambda>message.
              case message of VmReference source _ \<Rightarrow> add_reference source | VmFile _ \<Rightarrow> (\<lambda>refs. refs))
            (vam_text (va_message (vas_agent agent)) @ vam_attachments (va_message (vas_agent agent)))
            references)"

definition check_step_references ::
  "validated_step \<Rightarrow> resolved_output_source btree_set \<Rightarrow> resolved_output_source btree_set" where
  "check_step_references step references =
     check_body_references step
       (fold add_reference (bt_values (vc_condition_values (common_step step))) references)"

definition referenced_outputs ::
  "validated_workflow \<Rightarrow> string list \<Rightarrow> resolved_output_source btree_set" where
  "referenced_outputs vw reexecuted =
     (let references = fold (\<lambda>name references.
            case map_of (vw_steps vw) name of
              Some step \<Rightarrow> check_step_references step references
            | None \<Rightarrow> references) reexecuted [];
          references = fold (\<lambda>finalizer. check_step_references (vf_body finalizer))
            (bt_values (vw_finalizers vw)) references
      in fold bs_insert (bt_values (vw_exports vw)) references)"

text \<open>
  The position of a node in the presentation order, \<^verbatim>\<open>usize::MAX\<close> of a 64-bit target for any other.
\<close>

definition presentation_index :: "validated_workflow \<Rightarrow> string \<Rightarrow> int" where
  "presentation_index vw name =
     (case map_of (bt_collect (map (\<lambda>(index, node). (node, index))
         (enumerate 0 (vw_presentation_order vw)))) name of
        Some index \<Rightarrow> int index
      | None \<Rightarrow> 2 ^ 64 - 1)"

definition ordered_references ::
  "validated_workflow \<Rightarrow> resolved_output_source btree_set \<Rightarrow> resolved_output_source list" where
  "ordered_references vw references =
     sort_key (\<lambda>source. (presentation_index vw (node_id (ros_node source)), output_reference source))
       references"

section \<open>Admission of a continuation\<close>

datatype prior_state = StateSucceeded | StateSkipped | StateInherited | StateUnsatisfied

datatype admission_violation =
    InvalidFrom string
  | ViolatedNode string "prior_state option"
  | RequiredSkipped string string
  | ViolatedReference string

definition same_output_contract :: "output_definition \<Rightarrow> output_definition \<Rightarrow> bool" where
  "same_output_contract current previous =
     (case (current, previous) of
        (TextPath _, TextPath _) \<Rightarrow> True
      | (TextPath _, TextAgentResponse) \<Rightarrow> True
      | (TextAgentResponse, TextPath _) \<Rightarrow> True
      | (TextAgentResponse, TextAgentResponse) \<Rightarrow> True
      | (JsonPath _ _, JsonPath _ _) \<Rightarrow> True
      | (JsonPath _ _, JsonAgentResult _) \<Rightarrow> True
      | (JsonAgentResult _, JsonPath _ _) \<Rightarrow> True
      | (JsonAgentResult _, JsonAgentResult _) \<Rightarrow> True
      | (GitBranchWorkspace, GitBranchWorkspace) \<Rightarrow> True
      | (FilePath _ a, FilePath _ b) \<Rightarrow> a = b
      | _ \<Rightarrow> False)"

definition step_output :: "validated_workflow \<Rightarrow> string \<Rightarrow> string \<Rightarrow> validated_output option" where
  "step_output vw name out =
     (case map_of (vw_steps vw) name of
        None \<Rightarrow> None
      | Some step \<Rightarrow> map_of (vc_outputs (common_step step)) out)"

definition skipped_producers ::
  "validated_workflow \<Rightarrow> partition \<Rightarrow> string btree_set \<Rightarrow> string \<Rightarrow> admission_violation list" where
  "skipped_producers vw parts effectively_skipped name =
     (case map_of (vw_steps vw) name of
        None \<Rightarrow> []
      | Some step \<Rightarrow>
          if vc_failure_policy (common_step step) = Required
          then map (RequiredSkipped name)
            (filter (\<lambda>p. p \<in> set (part_inherited parts) \<and> bs_contains effectively_skipped p)
              (fold bs_insert (map (\<lambda>source. node_id (ros_node source)) (check_body_references step [])) []))
          else [])"

definition check_inheritance ::
  "validated_workflow \<Rightarrow> validated_workflow \<Rightarrow> partition \<Rightarrow> (string, prior_state) btree_map \<Rightarrow>
   string btree_set \<Rightarrow> admission_violation list" where
  "check_inheritance vw previous parts states effectively_skipped =
     map (\<lambda>name. ViolatedNode name (map_of states name))
       (filter (\<lambda>name. map_of states name \<notin>
           {Some StateSucceeded, Some StateSkipped, Some StateInherited}) (part_inherited parts)) @
     concat (map (skipped_producers vw parts effectively_skipped) (part_reexecuted parts)) @
     map (\<lambda>source. ViolatedReference (output_reference source))
       (filter (\<lambda>source.
           node_role (ros_node source) = RoleStep \<and>
           node_id (ros_node source) \<in> set (part_inherited parts) \<and>
           \<not> (case (step_output vw (node_id (ros_node source)) (ros_output source),
                  step_output previous (node_id (ros_node source)) (ros_output source)) of
               (Some expected, Some prior) \<Rightarrow>
                 same_output_contract (vo_definition expected) (vo_definition prior)
             | _ \<Rightarrow> False))
         (ordered_references vw (referenced_outputs vw (part_reexecuted parts))))"

definition violation_key :: "validated_workflow \<Rightarrow> admission_violation \<Rightarrow> nat \<times> int \<times> string" where
  "violation_key vw violation =
     (case violation of
        InvalidFrom name \<Rightarrow> (0, presentation_index vw name, name)
      | ViolatedNode name _ \<Rightarrow> (1, presentation_index vw name, [])
      | RequiredSkipped consumer source \<Rightarrow> (1, presentation_index vw consumer, source)
      | ViolatedReference reference \<Rightarrow>
          (2, presentation_index vw
             (case str_split CHR ''.'' reference of _ # node # _ \<Rightarrow> node | _ \<Rightarrow> []), reference))"

definition sort_violations ::
  "validated_workflow \<Rightarrow> admission_violation list \<Rightarrow> admission_violation list" where
  "sort_violations vw violations = sort_key (violation_key vw) violations"

section \<open>Changed definitions\<close>

text \<open>
  The static files a step reads.  A resolved workflow holds its definition and the bytes of its
  source closure; both are arguments.
\<close>

definition step_paths :: "validated_workflow \<Rightarrow> string \<Rightarrow> validated_step \<Rightarrow> string btree_set" where
  "step_paths vw name step =
     (let paths = fold (\<lambda>out paths.
            case vo_definition out of
              JsonPath _ schema \<Rightarrow> bs_insert schema paths
            | JsonAgentResult schema \<Rightarrow> bs_insert schema paths
            | _ \<Rightarrow> paths) (bt_values (vc_outputs (common_step step))) [];
          paths =
            (case map_of (vw_recoveries vw) name of
               Some (Some r) \<Rightarrow>
                 (case vr_handler r of
                    Some (VAgentHandler _ prompt _ _) \<Rightarrow> bs_insert prompt paths
                  | _ \<Rightarrow> paths)
             | _ \<Rightarrow> paths)
      in case step of
           VCommand _ \<Rightarrow> paths
         | VAgent agent \<Rightarrow>
             fold (\<lambda>message paths.
                 case message of VmFile path \<Rightarrow> bs_insert path paths | VmReference _ _ \<Rightarrow> paths)
               (vam_text (va_message (vas_agent agent)) @ vam_attachments (va_message (vas_agent agent)))
               (bs_insert (va_system_prompt (vas_agent agent)) paths))"

definition definition_changed ::
  "validated_workflow \<Rightarrow> (string, string) btree_map \<Rightarrow>
   validated_workflow \<Rightarrow> (string, string) btree_map \<Rightarrow> string \<Rightarrow> bool" where
  "definition_changed current current_closure previous previous_closure name =
     (if map_of (vw_steps current) name \<noteq> map_of (vw_steps previous) name \<or>
        map_of (vw_recoveries current) name \<noteq> map_of (vw_recoveries previous) name
      then True
      else
        (case map_of (vw_steps current) name of
           None \<Rightarrow> True
         | Some step \<Rightarrow>
             list_ex (\<lambda>path. map_of current_closure path \<noteq> map_of previous_closure path)
               (step_paths current name step)))"

end
