(* ===== verification/Continuation_Checks.thy ===== *)
theory Continuation_Checks
  imports Continuation Validation_Data
begin

text \<open>
  The queue that closes a selection over its dependents computes a reflexive transitive closure; the
  partition of a validated workflow follows from it.  The checks of inputs and of inherited nodes are
  characterised by what they accept.
\<close>

section \<open>Dependents\<close>

definition step_producers :: "validated_workflow \<Rightarrow> string \<Rightarrow> string list" where
  "step_producers vw name =
     (case map_of (vw_steps vw) name of
        None \<Rightarrow> [] | Some step \<Rightarrow> map producer (vc_prerequisites (common_step step)))"

definition dependency :: "validated_workflow \<Rightarrow> (string \<times> string) set" where
  "dependency vw = {(p, n). n \<in> set (vw_presentation_order vw) \<and> p \<in> set (step_producers vw n)}"

lemma push_step:
  assumes "map_of (vw_steps vw) name = Some step"
  shows "set (table_get (fold (\<lambda>p dependents. bt_insert (producer p)
       ((case map_of dependents (producer p) of None \<Rightarrow> [] | Some nodes \<Rightarrow> nodes) @ [name])
       dependents) (vc_prerequisites (common_step step)) m) x) =
    set (table_get m x) \<union> {n. n = name \<and> x \<in> set (step_producers vw n)}"
  by (auto simp: push_dependents step_producers_def assms)

lemma step_dependents_fold:
  "set order \<subseteq> set (bt_keys (vw_steps vw)) \<Longrightarrow>
   \<exists>m'. try_fold (\<lambda>name dependents.
       (case map_of (vw_steps vw) name of
          None \<Rightarrow> Inl [name]
        | Some step \<Rightarrow>
            Inr (fold (\<lambda>p dependents.
              bt_insert (producer p)
                ((case map_of dependents (producer p) of None \<Rightarrow> [] | Some nodes \<Rightarrow> nodes) @ [name])
                dependents) (vc_prerequisites (common_step step)) dependents))) order m = Inr m' \<and>
     (\<forall>x. set (table_get m' x) = set (table_get m x) \<union> {n \<in> set order. x \<in> set (step_producers vw n)})"
proof (induction order arbitrary: m)
  case (Cons name order)
  then obtain step where step: "map_of (vw_steps vw) name = Some step"
    by (cases "map_of (vw_steps vw) name") (auto simp: map_of_eq_None_iff bt_keys_def)
  let ?m = "fold (\<lambda>p dependents. bt_insert (producer p)
      ((case map_of dependents (producer p) of None \<Rightarrow> [] | Some nodes \<Rightarrow> nodes) @ [name])
      dependents) (vc_prerequisites (common_step step)) m"
  obtain m' where run: "try_fold (\<lambda>name dependents.
       (case map_of (vw_steps vw) name of
          None \<Rightarrow> Inl [name]
        | Some step \<Rightarrow>
            Inr (fold (\<lambda>p dependents.
              bt_insert (producer p)
                ((case map_of dependents (producer p) of None \<Rightarrow> [] | Some nodes \<Rightarrow> nodes) @ [name])
                dependents) (vc_prerequisites (common_step step)) dependents))) order ?m = Inr m'"
    and sets: "\<And>x. set (table_get m' x) =
      set (table_get ?m x) \<union> {n \<in> set order. x \<in> set (step_producers vw n)}"
    using Cons.IH [of ?m] Cons.prems by auto
  have "set (table_get m' x) =
      set (table_get m x) \<union> {n \<in> set (name # order). x \<in> set (step_producers vw n)}" for x
    unfolding sets push_step [OF step] by auto
  then show ?case
    using run step by (auto simp: try_in_def)
qed simp

lemma step_dependents_edges:
  assumes "set (vw_presentation_order vw) \<subseteq> set (bt_keys (vw_steps vw))"
  obtains dependents where "step_dependents vw = Inr dependents"
    and "\<And>x. set (table_get dependents x) = dependency vw `` {x}"
  using step_dependents_fold [OF assms, of "[]"]
  by (auto simp: step_dependents_def table_get_def dependency_def Image_def)

section \<open>The closure\<close>

lemma Image_rtrancl_closed: "E `` A \<subseteq> A \<Longrightarrow> E\<^sup>* `` A = A"
  by (rule Image_closed_trancl)

lemma Image_rtrancl_extend:
  assumes "x \<in> A"
  shows "E\<^sup>* `` (A \<union> E `` {x}) = E\<^sup>* `` A"
  using assms by (auto intro: converse_rtrancl_into_rtrancl)

lemma close_dependents_closure:
  assumes "\<And>x. set (table_get dependents x) = E `` {x}"
  shows "set queue \<subseteq> set reexecuted \<Longrightarrow>
    (\<forall>x\<in>set reexecuted - set queue. E `` {x} \<subseteq> set reexecuted) \<Longrightarrow>
    set (close_dependents dependents queue reexecuted) = E\<^sup>* `` set reexecuted"
  using assms
proof (induction dependents queue reexecuted rule: close_dependents.induct)
  case (1 dependents reexecuted)
  then have "E `` set reexecuted \<subseteq> set reexecuted"
    by auto
  then show ?case
    by (simp add: Image_rtrancl_closed)
next
  case (2 dependents node queue reexecuted)
  obtain reexecuted' queue' where step:
    "enqueue_dependents (table_get dependents node) (reexecuted, queue) = (reexecuted', queue')"
    by fastforce
  note sets = enqueue_dependents_set [OF step, unfolded 2(4)]
  have "set queue' \<subseteq> set reexecuted'"
    using sets 2(2) by auto
  moreover have "\<forall>x\<in>set reexecuted' - set queue'. E `` {x} \<subseteq> set reexecuted'"
    using sets 2(3) by auto
  ultimately have "set (close_dependents dependents queue' reexecuted') = E\<^sup>* `` set reexecuted'"
    using 2(1) [OF step [unfolded table_get_def, symmetric]] 2(4) by blast
  also have "\<dots> = E\<^sup>* `` set reexecuted"
    using sets Image_rtrancl_extend [of node "set reexecuted" E] 2(2) by simp
  finally show ?case
    using step by (simp add: table_get_def)
qed

lemma invalid_selections_Nil:
  "invalid_selections vw seen xs = [] \<longleftrightarrow>
   distinct xs \<and> set xs \<inter> set seen = {} \<and> set xs \<subseteq> set (bt_keys (vw_steps vw))"
proof (induction xs arbitrary: seen)
  case (Cons x xs)
  have "bt_contains_key (vw_steps vw) x \<longleftrightarrow> x \<in> set (bt_keys (vw_steps vw))"
    by (auto simp: bt_contains_key_def bt_keys_def map_of_eq_None_iff)
  then show ?case
    using Cons by (auto simp: bs_contains_def)
qed simp

lemma partition_spec:
  assumes "set (vw_presentation_order vw) \<subseteq> set (bt_keys (vw_steps vw))"
    and "from_ids \<noteq> []" and "distinct from_ids" and "set from_ids \<subseteq> set (bt_keys (vw_steps vw))"
  shows "partition_of vw from_ids = Inr
    \<lparr>part_reexecuted = filter (\<lambda>n. n \<in> (dependency vw)\<^sup>* `` set from_ids) (vw_presentation_order vw),
     part_inherited = filter (\<lambda>n. n \<notin> (dependency vw)\<^sup>* `` set from_ids) (vw_presentation_order vw)\<rparr>"
proof -
  obtain dependents where deps: "step_dependents vw = Inr dependents"
    and edges: "\<And>x. set (table_get dependents x) = dependency vw `` {x}"
    using step_dependents_edges [OF assms(1)] by blast
  have "invalid_selections vw [] from_ids = []"
    using assms(3,4) by (simp add: invalid_selections_Nil)
  moreover have "set (close_dependents dependents from_ids (fold bs_insert from_ids [])) =
      (dependency vw)\<^sup>* `` set from_ids"
    using close_dependents_closure [OF edges, of from_ids "fold bs_insert from_ids []"] by simp
  ultimately show ?thesis
    using assms(2) deps by (simp add: partition_of_def try_in_def bs_contains_def cong: filter_cong)
qed

lemma validated_steps_order:
  assumes "document_wf document" and "validate document = Inr vw"
  shows "set (vw_presentation_order vw) = set (bt_keys (vw_steps vw))"
    and "distinct (vw_presentation_order vw)"
proof -
  obtain graph where graph: "role_graph document vw RoleStep graph"
    using validated_role_graph [OF assms] .
  then have "set (vw_presentation_order vw) = set (bt_keys (doc_steps document))"
    by (simp add: role_graph_def validated_order_def role_keys_def)
  also have "\<dots> = set (bt_keys (vw_steps vw))"
    using validated_role_graphs [OF assms] unfolding bt_keys_def by metis
  finally show "set (vw_presentation_order vw) = set (bt_keys (vw_steps vw))" .
  show "distinct (vw_presentation_order vw)"
    using graph by (simp add: role_graph_def validated_order_def)
qed

lemma step_producers_known:
  assumes "document_wf document" and "validate document = Inr vw" and "p \<in> set (step_producers vw n)"
  shows "p \<in> set (bt_keys (vw_steps vw))"
proof -
  obtain step where step: "map_of (vw_steps vw) n = Some step"
    and p: "p \<in> producer ` set (vc_prerequisites (common_step step))"
    using assms(3) by (cases "map_of (vw_steps vw) n") (auto simp: step_producers_def)
  obtain graph where graph: "role_graph document vw RoleStep graph"
    using validated_role_graph [OF assms(1,2)] .
  have "validated_node vw RoleStep n = Some (common_step step)"
    using step by (simp add: validated_node_def)
  from role_graph_node(3) [OF graph this] have "p \<in> set (bt_keys (doc_steps document))"
    using p by (auto simp: prerequisite_ok_def role_keys_def)
  then show ?thesis
    using validated_role_graphs [OF assms(1,2)] unfolding bt_keys_def by metis
qed

lemma partition_InrD:
  assumes "partition_of vw from_ids = Inr parts"
  shows "from_ids \<noteq> [] \<and> distinct from_ids \<and> set from_ids \<subseteq> set (bt_keys (vw_steps vw))"
  using assms invalid_selections_Nil [of vw "[]" from_ids]
  by (auto simp: partition_of_def Let_def split: if_splits)

section \<open>Inputs\<close>

text \<open>The type that a value has by its form.\<close>

fun input_type :: "resolved_input \<Rightarrow> workflow_value_type" where
  "input_type (RiText t) = VtText"
| "input_type (RiJson j) = VtJson"
| "input_type (RiFile f) = VtFile"
| "input_type (RiAttachments xs) = VtAttachmentCollection"

text \<open>An input carries over when its old declaration and its value both have the type it now requires.\<close>

definition input_carries ::
  "validated_workflow \<Rightarrow> (string, resolved_input) btree_map \<Rightarrow> string \<times> workflow_value_type \<Rightarrow> bool" where
  "input_carries prior vs required \<longleftrightarrow>
     map_of (vw_required_inputs prior) (fst required) = Some (snd required) \<and>
     map_option input_type (map_of vs (fst required)) = Some (snd required)"

lemma input_has_kind_type: "input_has_kind vt retained \<longleftrightarrow> map_option input_type retained = Some vt"
proof (cases retained)
  case (Some entry)
  then show ?thesis
    by (cases entry; cases vt) (simp_all add: input_has_kind_def)
qed (simp add: input_has_kind_def split: workflow_value_type.split)

lemma project_fold:
  "fold (\<lambda>(name, vt) (projected, unsatisfied).
       (let retained = map_of vs name in
        if map_of (vw_required_inputs prior) name \<noteq> Some vt \<or> \<not> input_has_kind vt retained
        then (projected, unsatisfied @ [name])
        else
          (case retained of
             Some entry \<Rightarrow> (bt_insert name entry projected, unsatisfied)
           | None \<Rightarrow> (projected, unsatisfied)))) required (projected, unsatisfied) =
     (fold (\<lambda>(name, _) m. bt_insert name (the (map_of vs name)) m)
        (filter (input_carries prior vs) required) projected,
      unsatisfied @ map fst (filter (\<lambda>e. \<not> input_carries prior vs e) required))"
proof (induction required arbitrary: projected unsatisfied)
  case (Cons e required)
  obtain name vt where e: "e = (name, vt)"
    by (cases e)
  show ?case
  proof (cases "input_carries prior vs e")
    case True
    then obtain entry where "map_of vs name = Some entry"
      by (auto simp: input_carries_def e)
    then show ?thesis
      using True Cons.IH by (simp add: e input_carries_def input_has_kind_type Let_def)
  next
    case False
    then show ?thesis
      using False Cons.IH by (auto simp: e input_carries_def input_has_kind_type Let_def)
  qed
qed simp

lemma project_inputs_spec:
  "project_inputs vw prior vs =
     (if list_all (input_carries prior vs) (vw_required_inputs vw)
      then Inr (fold (\<lambda>(name, _) m. bt_insert name (the (map_of vs name)) m) (vw_required_inputs vw) [])
      else Inl (map fst (filter (\<lambda>e. \<not> input_carries prior vs e) (vw_required_inputs vw))))"
proof (cases "list_all (input_carries prior vs) (vw_required_inputs vw)")
  case True
  then have "filter (input_carries prior vs) (vw_required_inputs vw) = vw_required_inputs vw"
    "filter (\<lambda>e. \<not> input_carries prior vs e) (vw_required_inputs vw) = []"
    by (simp_all add: list_all_iff filter_id_conv filter_empty_conv)
  then show ?thesis
    using True unfolding project_inputs_def project_input_candidates_def project_fold by simp
next
  case False
  then have "filter (\<lambda>e. \<not> input_carries prior vs e) (vw_required_inputs vw) \<noteq> []"
    by (auto simp: list_all_iff filter_empty_conv)
  then show ?thesis
    using False unfolding project_inputs_def project_input_candidates_def project_fold by simp
qed

lemma map_of_fold_names:
  "map_of (fold (\<lambda>(name, _) m. bt_insert name (f name) m) xs m) k =
   (if k \<in> fst ` set xs then Some (f k) else map_of m k)"
  by (induction xs arbitrary: m) (auto simp: split_beta)

section \<open>Inherited nodes\<close>

lemma set_add_reference [simp]:
  "set (add_reference source refs) = set refs \<union> {out. source = SourceOutput out}"
  by (cases source) (auto simp: add_reference_def)

lemma fold_add_references:
  "set (fold add_reference sources refs) = set refs \<union> {out. SourceOutput out \<in> set sources}"
  by (induction sources arbitrary: refs) auto

lemma fold_inputs:
  "set (fold (\<lambda>reference. add_reference (rvr_source reference)) resolved refs) =
   set refs \<union> {out. \<exists>r\<in>set resolved. rvr_source r = SourceOutput out}"
  by (induction resolved arbitrary: refs) auto

lemma fold_messages:
  "set (fold (\<lambda>message.
      case message of VmReference source _ \<Rightarrow> add_reference source | VmFile _ \<Rightarrow> (\<lambda>refs. refs)) messages refs) =
   set refs \<union> {out. \<exists>vt. VmReference (SourceOutput out) vt \<in> set messages}"
  by (induction messages arbitrary: refs) (auto split: validated_message_source.splits)

lemma set_check_body_references: "set (check_body_references step refs) = set refs \<union> body_sources step"
  by (cases step)
    (simp_all only: check_body_references_def body_sources_def validated_step.case fold_inputs fold_messages)

lemma set_check_step_references: "set (check_step_references step refs) = set refs \<union> step_sources step"
  by (auto simp: check_step_references_def set_check_body_references fold_add_references step_sources_def)

text \<open>The outputs that the steps run again, the finalizers and the exports read.\<close>

definition read_sources :: "validated_workflow \<Rightarrow> string list \<Rightarrow> resolved_output_source set" where
  "read_sources vw reexecuted =
     (\<Union>n\<in>set reexecuted. \<Union>(step_sources ` set_option (map_of (vw_steps vw) n))) \<union>
     (\<Union>f\<in>set (bt_values (vw_finalizers vw)). step_sources (vf_body f)) \<union>
     set (bt_values (vw_exports vw))"

lemma set_referenced_outputs: "set (referenced_outputs vw reexecuted) = read_sources vw reexecuted"
proof -
  have "set (fold (\<lambda>name references. case map_of (vw_steps vw) name of
        Some step \<Rightarrow> check_step_references step references | None \<Rightarrow> references) names refs) =
      set refs \<union> (\<Union>n\<in>set names. \<Union>(step_sources ` set_option (map_of (vw_steps vw) n)))" for names refs
    by (induction names arbitrary: refs) (auto simp: set_check_step_references split: option.splits)
  moreover have "set (fold (\<lambda>finalizer. check_step_references (vf_body finalizer)) fs refs) =
      set refs \<union> (\<Union>f\<in>set fs. step_sources (vf_body f))" for fs :: "validated_finalizer list" and refs
    by (induction fs arbitrary: refs) (auto simp: set_check_step_references)
  ultimately show ?thesis
    by (simp only: referenced_outputs_def read_sources_def Let_def set_fold_bs_insert) auto
qed

text \<open>
  The contract of an output is what its readers rely on: the type of the value and, of a file, its
  media type.  Where the value comes from is not part of it.
\<close>

fun output_contract :: "output_definition \<Rightarrow> workflow_value_type \<times> string option" where
  "output_contract (TextPath path) = (VtText, None)"
| "output_contract TextAgentResponse = (VtText, None)"
| "output_contract (JsonPath path schema) = (VtJson, None)"
| "output_contract (JsonAgentResult schema) = (VtJson, None)"
| "output_contract (FilePath path media) = (VtFile, Some media)"
| "output_contract GitBranchWorkspace = (VtGitBranch, None)"

definition contract_of :: "validated_workflow \<Rightarrow> string \<Rightarrow> string \<Rightarrow> (workflow_value_type \<times> string option) option" where
  "contract_of vw name out =
     Option.bind (map_of (vw_steps vw) name) (\<lambda>step.
       map_option (\<lambda>declared. output_contract (vo_definition declared)) (map_of (vc_outputs (common_step step)) out))"

text \<open>What makes a partition admissible, written without the traversal.\<close>

definition inheritable ::
  "validated_workflow \<Rightarrow> validated_workflow \<Rightarrow> partition \<Rightarrow> (string, prior_state) btree_map \<Rightarrow>
   string btree_set \<Rightarrow> bool" where
  "inheritable vw previous parts states skipped \<longleftrightarrow>
     (\<forall>n\<in>set (part_inherited parts). \<exists>s. map_of states n = Some s \<and> s \<noteq> StateUnsatisfied) \<and>
     (\<forall>n\<in>set (part_reexecuted parts). \<forall>step. map_of (vw_steps vw) n = Some step \<longrightarrow>
        vc_failure_policy (common_step step) = Required \<longrightarrow>
        (\<forall>out\<in>body_sources step. node_id (ros_node out) \<in> set (part_inherited parts) \<longrightarrow>
           node_id (ros_node out) \<notin> set skipped)) \<and>
     (\<forall>out\<in>read_sources vw (part_reexecuted parts).
        node_role (ros_node out) = RoleStep \<longrightarrow> node_id (ros_node out) \<in> set (part_inherited parts) \<longrightarrow>
        contract_of vw (node_id (ros_node out)) (ros_output out) \<noteq> None \<and>
        contract_of previous (node_id (ros_node out)) (ros_output out) =
          contract_of vw (node_id (ros_node out)) (ros_output out))"

lemma same_contract: "same_output_contract current previous \<longleftrightarrow> output_contract current = output_contract previous"
  by (cases current; cases previous) (simp_all add: same_output_contract_def)

lemma same_contracts:
  "(case (step_output vw name out, step_output previous name out) of
      (Some expected, Some prior) \<Rightarrow> same_output_contract (vo_definition expected) (vo_definition prior)
    | _ \<Rightarrow> False) \<longleftrightarrow>
   contract_of vw name out \<noteq> None \<and> contract_of previous name out = contract_of vw name out"
  by (auto simp: step_output_def contract_of_def same_contract split: option.splits)

lemma satisfied_states:
  "s \<notin> {Some StateSucceeded, Some StateSkipped, Some StateInherited} \<longleftrightarrow>
   \<not> (\<exists>known. s = Some known \<and> known \<noteq> StateUnsatisfied)"
proof (cases s)
  case (Some known)
  then show ?thesis
    by (cases known) simp_all
qed simp

lemma skipped_producers_Nil:
  "skipped_producers vw parts skipped name = [] \<longleftrightarrow>
   (\<forall>step. map_of (vw_steps vw) name = Some step \<longrightarrow> vc_failure_policy (common_step step) = Required \<longrightarrow>
     (\<forall>out\<in>body_sources step. node_id (ros_node out) \<in> set (part_inherited parts) \<longrightarrow>
        node_id (ros_node out) \<notin> set skipped))"
  by (auto simp: skipped_producers_def filter_empty_conv bs_contains_def set_check_body_references
      split: option.splits)

lemma check_inheritance_Nil:
  "check_inheritance vw previous parts states skipped = [] \<longleftrightarrow>
   inheritable vw previous parts states skipped"
proof -
  show ?thesis
    unfolding check_inheritance_def inheritable_def append_is_Nil_conv map_is_Nil_conv filter_empty_conv
      concat_eq_Nil_conv same_contracts satisfied_states
    by (simp add: skipped_producers_Nil ordered_references_def set_referenced_outputs) blast
qed

end
