(* ===== verification/Continuation_Properties.thy ===== *)
theory Continuation_Properties
  imports Continuation_Checks Validation_Samples
begin

text \<open>
  The properties of a continuation: what it runs again, what it inherits, which inputs carry over, and
  which inheritance it admits.
\<close>

section \<open>Partitions\<close>

text \<open>
  C19: For a validated workflow the steps that run again are exactly those that the selected steps reach
  through prerequisites, in presentation order, and all others are inherited; a selection that is
  empty, repeats a step or names an unknown one is refused.
\<close>

theorem partition_is_closure:
  assumes "document_wf document" and "validate document = Inr vw"
  shows "partition_of vw from_ids =
    (if from_ids \<noteq> [] \<and> distinct from_ids \<and> set from_ids \<subseteq> set (bt_keys (vw_steps vw))
     then Inr
       \<lparr>part_reexecuted = filter (\<lambda>n. n \<in> (dependency vw)\<^sup>* `` set from_ids) (vw_presentation_order vw),
        part_inherited = filter (\<lambda>n. n \<notin> (dependency vw)\<^sup>* `` set from_ids) (vw_presentation_order vw)\<rparr>
     else Inl (invalid_selections vw [] from_ids))"
  using partition_spec [of vw from_ids] validated_steps_order(1) [OF assms]
    invalid_selections_Nil [of vw "[]" from_ids]
  by (auto simp: partition_of_def)

theorem partition_is_closure_witness:
  "\<exists>parts. partition_of sample_validated [''b''] = Inr parts \<and>
     part_reexecuted parts @ part_inherited parts \<noteq> [] \<and>
     ''b'' \<in> set (part_reexecuted parts)"
proof -
  have keys: "set (bt_keys (vw_steps sample_validated)) = {''a'', ''b''}"
    using validated_steps_order(1) [OF sample_document_wf sample_validates] sample_validated_facts(1) by simp
  then show ?thesis
    using partition_is_closure [OF sample_document_wf sample_validates, of "[''b'']"]
      sample_validated_facts(1) by auto
qed

text \<open>
  C20: An inherited step of a validated workflow depends only on inherited steps, the selected steps
  all run again, and every step is either run again or inherited, never both.
\<close>

theorem inherited_closed:
  assumes "document_wf document" and "validate document = Inr vw"
    and "partition_of vw from_ids = Inr parts"
  shows "set from_ids \<subseteq> set (part_reexecuted parts) \<and>
    set (part_reexecuted parts) \<inter> set (part_inherited parts) = {} \<and>
    set (part_reexecuted parts) \<union> set (part_inherited parts) = set (bt_keys (vw_steps vw)) \<and>
    (\<forall>n\<in>set (part_inherited parts). set (step_producers vw n) \<subseteq> set (part_inherited parts))"
proof -
  note order = validated_steps_order [OF assms(1,2)]
  note selected = partition_InrD [OF assms(3)]
  have parts: "parts =
      \<lparr>part_reexecuted = filter (\<lambda>n. n \<in> (dependency vw)\<^sup>* `` set from_ids) (vw_presentation_order vw),
       part_inherited = filter (\<lambda>n. n \<notin> (dependency vw)\<^sup>* `` set from_ids) (vw_presentation_order vw)\<rparr>"
    using partition_spec [of vw from_ids] order(1) selected assms(3) by simp
  have "p \<in> set (part_inherited parts)"
    if n: "n \<in> set (part_inherited parts)" and p: "p \<in> set (step_producers vw n)" for n p
  proof -
    have edge: "(p, n) \<in> dependency vw"
      using n p by (simp add: parts dependency_def)
    have "n \<in> (dependency vw)\<^sup>* `` set from_ids" if "p \<in> (dependency vw)\<^sup>* `` set from_ids"
      using that edge by (meson Image_iff rtrancl_into_rtrancl)
    then show ?thesis
      using n step_producers_known [OF assms(1,2) p] order(1) by (simp add: parts) blast
  qed
  then have "\<forall>n\<in>set (part_inherited parts). set (step_producers vw n) \<subseteq> set (part_inherited parts)"
    by blast
  moreover have "set from_ids \<subseteq> set (part_reexecuted parts)"
    using selected order(1) by (auto simp: parts)
  moreover have "set (part_reexecuted parts) \<inter> set (part_inherited parts) = {} \<and>
      set (part_reexecuted parts) \<union> set (part_inherited parts) = set (bt_keys (vw_steps vw))"
    using order(1) by (auto simp: parts)
  ultimately show ?thesis
    by blast
qed

theorem inherited_closed_witness:
  "\<exists>parts. partition_of sample_validated [''b''] = Inr parts \<and>
     (\<forall>n\<in>set (part_inherited parts). set (step_producers sample_validated n) \<subseteq> set (part_inherited parts))"
proof -
  have "set (bt_keys (vw_steps sample_validated)) = {''a'', ''b''}"
    using validated_steps_order(1) [OF sample_document_wf sample_validates] sample_validated_facts(1) by simp
  then obtain parts where "partition_of sample_validated [''b''] = Inr parts"
    using partition_spec [of sample_validated "[''b'']"] sample_validated_facts(1) by auto
  then show ?thesis
    using inherited_closed [OF sample_document_wf sample_validates] by blast
qed

section \<open>Inputs and inherited nodes\<close>

text \<open>
  C22: Inputs carry over exactly when every input the new definition requires was required with the same
  type before and has a value of the form of that type; then the projection holds these values and no
  others, and otherwise the refusal lists the inputs that do not carry over, in order.
\<close>

theorem project_inputs_exact:
  "case project_inputs vw prior vs of
     Inr projected \<Rightarrow> list_all (input_carries prior vs) (vw_required_inputs vw) \<and>
       (\<forall>name. map_of projected name =
          (if name \<in> fst ` set (vw_required_inputs vw) then map_of vs name else None))
   | Inl unsatisfied \<Rightarrow> unsatisfied \<noteq> [] \<and>
       unsatisfied = map fst (filter (\<lambda>e. \<not> input_carries prior vs e) (vw_required_inputs vw))"
proof (cases "list_all (input_carries prior vs) (vw_required_inputs vw)")
  case True
  then have "Some (the (map_of vs name)) = map_of vs name"
    if "name \<in> fst ` set (vw_required_inputs vw)" for name
    using that by (fastforce simp: list_all_iff input_carries_def)
  then show ?thesis
    using True by (auto simp: project_inputs_spec map_of_fold_names)
next
  case False
  then show ?thesis
    by (auto simp: project_inputs_spec list_all_iff filter_empty_conv)
qed


end
