(* ===== verification/Runtime_Findings.thy ===== *)
theory Runtime_Findings
  imports Validation_Samples
begin

text \<open>
  Runs of the model that depart from what the documentation of the workflow language and the
  admission of a run promise, each on a document that validation accepts or on a workflow that
  admission accepts.
\<close>

definition command_step ::
  "condition_predicate option \<Rightarrow> failure_policy \<Rightarrow> (string, output_definition) btree_map \<Rightarrow>
   (string, value_reference) btree_map \<Rightarrow> step_definition" where
  "command_step guard policy outs ins =
     \<lparr>sdef_body = CommandBody
        \<lparr>cmd_common =
           \<lparr>cn_failure_policy = policy, cn_condition = guard, cn_cwd = None, cn_outputs = outs\<rparr>,
         cmd_inputs = ins, cmd_argv = [''true'']\<rparr>,
      sdef_control_dependencies = [], sdef_recovery = None\<rparr>"

definition steps_document ::
  "(string, input_declaration) btree_map \<Rightarrow> (string, step_definition) btree_map \<Rightarrow> workflow_document" where
  "steps_document declared nodes =
     \<lparr>doc_schema_version = 1, doc_description = None, doc_inputs = declared, doc_agent_profiles = [],
      doc_steps = nodes, doc_step_order = bt_keys nodes, doc_finalizers = [], doc_finalizer_order = [],
      doc_exports = []\<rparr>"

text \<open>The run of a document, two steps at a time, after its initialization and some occurrences.\<close>

definition document_run ::
  "workflow_document \<Rightarrow> (string, resolved_input) btree_map \<Rightarrow> (unit, unit, string, nat) occurrence list \<Rightarrow>
   (unit, unit, string, nat) reduction option" where
  "document_run document vs occurrences =
     (case validate document of
        Inl _ \<Rightarrow> None
      | Inr vw \<Rightarrow> replay sample_ports (from_admitted vw 2 100 vs) None execution_seed_empty occurrences)"

definition node_kinds :: "(unit, unit, string, nat) reduction \<Rightarrow> (string \<times> step_state_kind) list" where
  "node_kinds r = map (\<lambda>(s, n). (s, kind (srs_state n))) (steps (state r))"

section \<open>Conditions that are not evaluated before a step starts\<close>

text \<open>
  The condition of \<open>z\<close> is false, so \<open>z\<close> is skipped; \<open>y\<close>, which reads an output of \<open>z\<close>, is blocked by the
  propagation that follows the evaluation of conditions; \<open>x\<close> requires that \<open>y\<close> succeeded.
\<close>

definition late_block_document :: workflow_document where
  "late_block_document =
     steps_document [(''i'', InText)]
       [(''x'', command_step (Some (CDisposition ''y'' TdSucceeded)) Required [] []),
        (''y'', command_step None Advisory []
           [(''v'', OutputReference \<lparr>or_node = ''z'', or_output = ''t''\<rparr>)]),
        (''z'', command_step
           (Some (CEquals (CondReference (InputReference ''i'') None) (CondLiteral (JString ''yes''))))
           Required [(''t'', TextPath ''o'')] [])]"

text \<open>
  A pointer that is missing from a workflow input cannot be recorded as the failure of the condition,
  whose evidence only admits outputs and the finalization context.
\<close>

definition missing_pointer_document :: workflow_document where
  "missing_pointer_document =
     steps_document [(''j'', InJson None)]
       [(''x'', command_step
           (Some (CEquals (CondReference (InputReference ''j'') (Some ''/b''))
              (CondLiteral (JString ''yes'')))) Required [] [])]"

text \<open>
  The condition of \<open>x\<close> waits for \<open>q\<close> and its body reads \<open>p\<close>.  When \<open>p\<close> fails first, the gate closes
  and conditions are no longer evaluated; when \<open>q\<close> then succeeds, nothing blocks the condition of \<open>x\<close>,
  and the missing output of \<open>p\<close> is only examined after the condition.
\<close>

definition stalling_document :: workflow_document where
  "stalling_document =
     steps_document []
       [(''p'', command_step None Required [(''t'', TextPath ''o'')] []),
        (''q'', command_step None Required [] []),
        (''x'', command_step (Some (CDisposition ''q'' TdSucceeded)) Required []
           [(''v'', OutputReference \<lparr>or_node = ''p'', or_output = ''t''\<rparr>)])]"

definition stalling_occurrences :: "(unit, unit, string, nat) occurrence list" where
  "stalling_occurrences =
     [StepStarted ''p'' (ActionId 1), StepStarted ''q'' (ActionId 2),
      StepExecutionFailed ''p'' (ActionId 1) (), StepExecutionCompleted ''q'' (ActionId 2) ()]"

text \<open>
  A step with a declared output that is cancelled while its outputs are captured and then aborted
  makes eight transitions; the cloud contract admits the workflow with seven.
\<close>

definition cloud_workflow :: validated_workflow where
  "cloud_workflow =
     sample_workflow [(''t'', \<lparr>vo_definition = TextPath ''out.txt'', vo_value_type = VtText\<rparr>)]"

definition aborted_occurrences :: "(unit, unit, string, nat) occurrence list" where
  "aborted_occurrences =
     [StepStarted ''a'' (ActionId 1), StepExecutionCompleted ''a'' (ActionId 1) (),
      CancellationOperationRequested 1 UserRequest 0, ForceAbortRequested 2 0,
      StepQuiesced ''a'' (for_force_abort 2 1)]"

text \<open>
  C37: A run can stall: of a validated document, one required step has failed, another has succeeded, a
  third stays pending because its condition is no longer evaluated, no node is active, and the run
  has not ended.
\<close>

theorem conditional_step_stalls:
  "case document_run stalling_document [] stalling_occurrences of
     None \<Rightarrow> False
   | Some r \<Rightarrow> node_kinds r = [(''p'', KFailed), (''q'', KSucceeded), (''x'', KPending)] \<and>
       active_count (state r) = 0 \<and> \<not> workflow_terminal (workflow (state r)) \<and>
       \<not> transition_capacity_exceeded (state r)"
  by code_simp

text \<open>
  C38: A step can be started although its condition is false: the initialization of a validated document
  starts a step whose condition requires the success of a step that is blocked.
\<close>

theorem false_condition_started:
  "map_option node_kinds (document_run late_block_document [(''i'', RiText ''no'')] []) =
     Some [(''x'', KStarting), (''y'', KBlocked), (''z'', KSkipped)]"
  by code_simp

text \<open>
  C39: A step can be started although its condition reads a pointer that is missing from a JSON input: the
  initialization of a validated document starts such a step, where the documentation has it fail in the
  condition phase.
\<close>

theorem missing_pointer_started:
  "map_option node_kinds (document_run missing_pointer_document
       [(''j'', RiJson (JObject [(''a'', JString ''yes'')]))] []) = Some [(''x'', KStarting)]"
  by code_simp

text \<open>
  C40: A workflow admitted under the cloud contract can exceed its transition capacity.
\<close>

theorem cloud_capacity_exceeded:
  "case resolve_workflow_capacity cloud_workflow sample_digest 100 of
     Inl _ \<Rightarrow> False
   | Inr cap \<Rightarrow>
       (case admit_capacity (Some sample_digest) sample_digest cap supported_maximum
           WorkflowV1CloudInputsArtifactsV1 of
          Inl _ \<Rightarrow> False
        | Inr admitted \<Rightarrow>
            ac_maximum_transitions admitted = 7 \<and>
            (case replay sample_ports
                (from_admitted cloud_workflow 1 (ac_maximum_transitions admitted) []) None
                execution_seed_empty aborted_occurrences of
               None \<Rightarrow> False
             | Some r \<Rightarrow> transition_capacity_exceeded (state r)))"
  by code_simp

end
