(* ===== verification/Runtime_Progress.thy ===== *)
theory Runtime_Progress
  imports Runtime_Termination Runtime_Capacity
begin

text \<open>
  Progress of a run: a definition whose nodes have no condition, whose prerequisites are acyclic and
  can be recorded, and whose exports are declared never stalls.  After every reduction some node is
  active or the run has ended, and the outcome of an active node is accepted.
\<close>

section \<open>Live definitions\<close>

definition producers_ranked :: "runtime_definition \<Rightarrow> (string \<Rightarrow> nat) \<Rightarrow> bool" where
  "producers_ranked def rank \<longleftrightarrow>
     (\<forall>s d p. map_of (def_steps def) s = Some d \<and> p \<in> set (prerequisites d) \<longrightarrow>
        (\<exists>d'. map_of (def_steps def) (producer p) = Some d' \<and> role d' = role d) \<and>
        rank (producer p) < rank s)"

definition settles :: "runtime_step \<Rightarrow> bool" where
  "settles d \<longleftrightarrow>
     condition d = None \<and> references_ok d \<and>
     (\<forall>p\<in>set (prerequisites d).
        (control p \<longrightarrow> producer p \<noteq> [] \<and> PControl (producer p) \<in> set (evidence_prerequisites d)) \<and>
        (data p \<longrightarrow> (\<exists>r. PBody r \<in> set (evidence_prerequisites d) \<and>
           output_reference_producer r = Some (producer p))))"

definition exports_declared :: "runtime_definition \<Rightarrow> bool" where
  "exports_declared def \<longleftrightarrow>
     (\<forall>(_, e)\<in>set (def_exports def).
        \<exists>d. map_of (def_steps def) (re_step e) = Some d \<and> re_output e \<in> set (declared_outputs d))"

definition definition_live :: "runtime_definition \<Rightarrow> bool" where
  "definition_live def \<longleftrightarrow>
     definition_wf def \<and> (\<exists>rank. producers_ranked def rank) \<and>
     (\<forall>s d. map_of (def_steps def) s = Some d \<longrightarrow> settles d) \<and> exports_declared def \<and>
     0 < maximum_parallel_steps def"

section \<open>Blockers can be recorded\<close>

fun recordable :: "prerequisite \<Rightarrow> bool" where
  "recordable (PControl s) \<longleftrightarrow> s \<noteq> []"
| "recordable (PCondition r) \<longleftrightarrow> is_output_reference r"
| "recordable (PBody r) \<longleftrightarrow> is_output_reference r"

lemma blocked_detail_recorded:
  assumes "items \<noteq> []" and "set items \<subseteq> set evidence" and "length evidence \<le> maximum_prerequisites"
    and "list_all recordable items"
  shows "\<exists>detail. blocked_detail_new items = Inr detail"
proof -
  let ?ps = "dedup (sort items)"
  have "?ps \<noteq> []"
    using assms(1) by (metis dedup_eq_Nil set_empty set_sort)
  moreover have "length ?ps \<le> maximum_prerequisites"
  proof -
    have "length ?ps = card (set items)"
      using sorted_dedup [of "sort items"] distinct_card [of ?ps] by (simp add: strict_sorted_iff)
    also have "\<dots> \<le> length evidence"
      using assms(2) card_mono card_length order_trans by (metis finite_set)
    finally show ?thesis
      using assms(3) by simp
  qed
  moreover have "\<not> list_ex (\<lambda>p. prerequisite_target p = [] \<or>
      (kind_of p \<noteq> PkControl \<and> \<not> is_output_reference (prerequisite_target p))) ?ps"
  proof -
    have "prerequisite_target p \<noteq> [] \<and> (kind_of p \<noteq> PkControl \<longrightarrow> is_output_reference (prerequisite_target p))"
      if "recordable p" for p
      using that is_output_reference_nonempty by (cases p) auto
    then show ?thesis
      using assms(4) by (auto simp: list_ex_iff list_all_iff)
  qed
  ultimately show ?thesis
    by (simp add: blocked_detail_new_def Let_def)
qed

lemma control_blocker_member:
  "b \<in> set (control_blocker st p) \<longleftrightarrow>
     control p \<and> \<not> ordinary_control_satisfied st p \<and> producer p \<noteq> [] \<and> b = PControl (producer p)"
proof (cases "control p \<and> \<not> ordinary_control_satisfied st p \<and> producer p \<noteq> []")
  case True
  then have "control_blocker st p = [PControl (producer p)]"
    by (simp add: control_blocker_def prerequisite_control_def)
  then show ?thesis
    using True by simp
next
  case False
  then have "control_blocker st p = []"
    by (auto simp: control_blocker_def prerequisite_control_def)
  then show ?thesis
    using False by auto
qed

lemma body_blocker_recorded:
  assumes "settles d" and "p \<in> set (prerequisites d)" and "b \<in> set (body_prerequisite_blockers st d p)"
  shows "b \<in> set (evidence_prerequisites d) \<and> recordable b"
proof -
  have controls: "producer p \<noteq> [] \<and> PControl (producer p) \<in> set (evidence_prerequisites d)" if "control p"
    using assms(1,2) that by (auto simp: settles_def)
  have bodies: "is_output_reference r" if "PBody r \<in> set (evidence_prerequisites d)" for r
    using assms(1) that unfolding settles_def references_ok_def list_all_iff by fastforce
  obtain n where n: "map_of (steps st) (producer p) = Some n"
    by (cases "map_of (steps st) (producer p)")
      (use assms(3) in \<open>simp_all add: body_prerequisite_blockers_def\<close>)
  have terminal: "is_terminal (srs_state n)"
    using assms(3) n by (rule_tac ccontr) (simp add: body_prerequisite_blockers_def)
  have "b \<in> set (control_blocker st p) \<or>
    (b \<in> set (evidence_prerequisites d) \<and> (\<exists>r. b = PBody r))"
  proof (cases "data p \<and> \<not> step_data_available (srs_state n)")
    case True
    then show ?thesis
      using assms(3) n terminal
      by (simp add: body_prerequisite_blockers_def) (auto split: prerequisite.splits)
  next
    case False
    then show ?thesis
      using assms(3) n terminal by (auto simp: body_prerequisite_blockers_def)
  qed
  moreover have "control p \<and> b = PControl (producer p)" if "b \<in> set (control_blocker st p)"
    using that by (simp add: control_blocker_member)
  ultimately show ?thesis
    using controls bodies by auto
qed

text \<open>A prerequisite that blocks nothing although its producer is terminal is satisfied.\<close>

lemma unblocked_satisfied:
  assumes "settles d" and "p \<in> set (prerequisites d)" and "body_prerequisite_blockers st d p = []"
    and "state_in st (producer p) is_terminal"
  shows "ordinary_prerequisite_satisfied st p"
proof -
  obtain n where n: "map_of (steps st) (producer p) = Some n" "is_terminal (srs_state n)"
    using assms(4) by (rule state_inE)
  have none: "control_blocker st p = []"
    "data p \<Longrightarrow> \<not> step_data_available (srs_state n) \<Longrightarrow>
       filter (\<lambda>descriptor. case descriptor of
           PBody r \<Rightarrow> output_reference_producer r = Some (producer p) | _ \<Rightarrow> False)
         (evidence_prerequisites d) = []"
    using assms(3) n by (auto simp: body_prerequisite_blockers_def split: if_splits)
  have "control p \<longrightarrow> ordinary_control_satisfied st p"
    using none(1) assms(1,2)
    by (auto simp: control_blocker_def prerequisite_control_def settles_def split: if_splits)
  moreover have "data p \<longrightarrow> step_data_available (srs_state n)"
  proof (intro impI, rule ccontr)
    assume "data p" and unavailable: "\<not> step_data_available (srs_state n)"
    moreover from this obtain r where "PBody r \<in> set (evidence_prerequisites d)"
      "output_reference_producer r = Some (producer p)"
      using assms(1,2) by (auto simp: settles_def)
    ultimately show False
      using none(2) by (auto simp: filter_empty_conv dest!: bspec)
  qed
  ultimately show ?thesis
    using n by (simp add: ordinary_prerequisite_satisfied_def state_in_def)
qed

section \<open>Stalled states\<close>

text \<open>The nodes of a phase are settled when the first one that is not could still be.\<close>

lemma settled_by_rank:
  assumes "producers_ranked (definition_of st) rank" and "definition_wf (definition_of st)"
    and "\<And>s d. s \<in> set (condition_ids st the_role) \<Longrightarrow> map_of (def_steps (definition_of st)) s = Some d \<Longrightarrow>
      \<forall>p\<in>set (prerequisites d). state_in st (producer p) is_terminal \<Longrightarrow> state_in st s is_terminal"
  shows "all_terminal st (condition_ids st the_role)"
proof -
  have ids: "s \<in> set (condition_ids st the_role) \<longleftrightarrow>
      (\<exists>d. map_of (def_steps (definition_of st)) s = Some d \<and> role d = the_role)" for s
    using assms(2) by (cases the_role) (simp_all add: definition_wf_def condition_ids_def)
  have "s \<in> set (condition_ids st the_role) \<Longrightarrow> state_in st s is_terminal" for s
  proof (induction "rank s" arbitrary: s rule: less_induct)
    case less
    obtain d where d: "map_of (def_steps (definition_of st)) s = Some d" "role d = the_role"
      using less.prems ids by blast
    have "state_in st (producer p) is_terminal" if "p \<in> set (prerequisites d)" for p
      using assms(1) d that less.hyps [of "producer p"] ids by (auto simp: producers_ranked_def)
    then show ?case
      using assms(3) [OF less.prems d(1)] by blast
  qed
  then show ?thesis
    by (simp add: all_terminal_def list_all_iff)
qed

lemma inactive_cases:
  assumes "active_count st = 0" and "state_wf st" and "map_of (def_steps (definition_of st)) s = Some d"
  shows "state_in st s is_terminal \<or> state_in st s is_pending"
proof -
  obtain n where n: "map_of (steps st) s = Some n"
    using assms(2,3) state_wf_lookup [of st s] by (cases "map_of (steps st) s") auto
  have "n \<in> snd ` set (steps st)"
    using map_of_SomeD [OF n] by force
  then have "\<not> is_active (srs_state n)"
    using assms(1) by (auto simp: active_count_def bt_values_def filter_empty_conv)
  then show ?thesis
    using n by (cases "srs_state n") (auto simp: state_in_def)
qed

text \<open>No slot is offered although all are free: nothing is ready.\<close>

definition idle :: "('c, 'o, 'd) runtime_state \<Rightarrow> workflow_node_role \<Rightarrow> bool" where
  "idle st the_role \<longleftrightarrow>
     (selection_gate_open st the_role \<longrightarrow>
        take (maximum_parallel_steps (definition_of st) - active_count st)
          (List.map_filter (ready_node st the_role) (condition_ids st the_role)) = [])"

lemma idle_not_ready:
  assumes "idle st the_role" and "selection_gate_open st the_role" and "active_count st = 0"
    and "0 < maximum_parallel_steps (definition_of st)" and "s \<in> set (condition_ids st the_role)"
  shows "ready_node st the_role s = None"
proof -
  have "List.map_filter (ready_node st the_role) (condition_ids st the_role) = []"
    using assms by (auto simp: idle_def)
  then show ?thesis
    using assms(5) by (cases "ready_node st the_role s") (auto simp: List.map_filter_def filter_empty_conv)
qed

lemma ordinary_settled:
  assumes live: "definition_live (definition_of st)" and wf: "state_wf st"
    and w: "workflow st = Executing gate" and none: "active_count st = 0"
    and quiet: "next_ordinary_pending_disposition st = None" and idle: "idle st RoleStep"
    and cancelled: "\<And>reason prior s. gate = GateCancelling reason prior \<Longrightarrow>
      s \<in> set (ordinary_ids (definition_of st)) \<Longrightarrow> \<not> state_in st s is_pending"
  shows "all_terminal st (ordinary_ids (definition_of st))"
proof -
  obtain rank where rank: "producers_ranked (definition_of st) rank"
    using live by (auto simp: definition_live_def)
  have "state_in st s is_terminal"
    if s: "s \<in> set (condition_ids st RoleStep)" and d: "map_of (def_steps (definition_of st)) s = Some d"
      and producers: "\<forall>p\<in>set (prerequisites d). state_in st (producer p) is_terminal" for s d
  proof (rule ccontr)
    assume "\<not> state_in st s is_terminal"
    then have pending: "state_in st s is_pending"
      using inactive_cases [OF none wf d] by blast
    have settles: "settles d"
      using live d by (auto simp: definition_live_def)
    have id: "s \<in> set (ordinary_ids (definition_of st))"
      using s by (simp add: condition_ids_def)
    have disposition: "ordinary_pending_disposition st s = None"
      using quiet id unfolding next_ordinary_pending_disposition_def by (rule find_map_NoneD)
    define blockers where "blockers = concat (map (body_prerequisite_blockers st d) (prerequisites d))"
    have blockers: "ordinary_unsatisfied_prerequisites st s d = blockers"
      using settles by (simp add: ordinary_unsatisfied_prerequisites_def settles_def blockers_def)
    have "blockers = []"
    proof (rule ccontr)
      assume "blockers \<noteq> []"
      then obtain detail where "blocked_detail_new blockers = Inr detail"
        using blocked_detail_recorded [of blockers "evidence_prerequisites d"] settles
          body_blocker_recorded [OF settles]
        by (auto simp: blockers_def list_all_iff settles_def references_ok_def)
      then show False
        using disposition d pending blockers \<open>blockers \<noteq> []\<close>
        by (simp add: ordinary_pending_disposition_def)
    qed
    then have satisfied: "list_all (ordinary_prerequisite_satisfied st) (prerequisites d)"
      using unblocked_satisfied [OF settles] producers by (auto simp: list_all_iff blockers_def)
    show False
    proof (cases gate)
      case GateOpen
      then have "ready_node st RoleStep s = None"
        using idle_not_ready [OF idle _ none _ s] w live
        by (simp add: selection_gate_open_def definition_live_def)
      then show False
        using d pending satisfied by (simp add: ready_node_def ordinary_ready_def)
    next
      case (GateFailureStopped issue)
      then show False
        using disposition d pending blockers \<open>blockers = []\<close> w satisfied
        by (simp add: ordinary_pending_disposition_def)
    next
      case (GateCancelling reason prior)
      then show False
        using cancelled id pending by blast
    qed
  qed
  then have "all_terminal st (condition_ids st RoleStep)"
    using live by (intro settled_by_rank [OF rank]) (auto simp: definition_live_def)
  then show ?thesis
    by (simp add: condition_ids_def)
qed

lemma finalizers_settled:
  assumes live: "definition_live (definition_of st)" and wf: "state_wf st"
    and w: "workflow st = Finalizing trigger gate issue" and none: "active_count st = 0"
    and fin: "finalization st = Some fin"
    and selected: "\<And>s d. s \<in> set (finalizer_ids (definition_of st)) \<Longrightarrow> state_in st s is_pending \<Longrightarrow>
      map_of (def_steps (definition_of st)) s = Some d \<Longrightarrow> gate = FgOpen \<and> bs_contains (when_triggers d) (fin_trigger fin)"
    and quiet: "gate = FgOpen \<Longrightarrow> next_input_unavailable st = None" and idle: "idle st RoleFinalizer"
  shows "all_terminal st (finalizer_ids (definition_of st))"
proof -
  obtain rank where rank: "producers_ranked (definition_of st) rank"
    using live by (auto simp: definition_live_def)
  have "state_in st s is_terminal"
    if s: "s \<in> set (condition_ids st RoleFinalizer)" and d: "map_of (def_steps (definition_of st)) s = Some d"
      and producers: "\<forall>p\<in>set (prerequisites d). state_in st (producer p) is_terminal" for s d
  proof (rule ccontr)
    assume "\<not> state_in st s is_terminal"
    then have pending: "state_in st s is_pending"
      using inactive_cases [OF none wf d] by blast
    have id: "s \<in> set (finalizer_ids (definition_of st))"
      using s by (simp add: condition_ids_def)
    have "condition d = None"
      using live d by (auto simp: definition_live_def settles_def)
    have gate: "gate = FgOpen" and trigger: "bs_contains (when_triggers d) (fin_trigger fin)"
      using selected [OF id pending d] by blast+
    have ready: "finalizer_ready st s d"
      using fin pending trigger producers by (simp add: finalizer_ready_def list_all_iff)
    have "finalizer_input_unavailable st s = None"
      using quiet [OF gate] id unfolding next_input_unavailable_def by (rule find_map_NoneD)
    then have "unavailable_references st d = []"
      using d ready pending \<open>condition d = None\<close>
      by (auto simp: finalizer_input_unavailable_def Let_def elim!: state_inE split: if_splits)
    moreover have "ready_node st RoleFinalizer s = None"
      using idle_not_ready [OF idle _ none _ s] w gate live
      by (simp add: selection_gate_open_def definition_live_def)
    ultimately show False
      using d ready by (simp add: ready_node_def)
  qed
  then have "all_terminal st (condition_ids st RoleFinalizer)"
    using live by (intro settled_by_rank [OF rank]) (auto simp: definition_live_def)
  then show ?thesis
    by (simp add: condition_ids_def)
qed

end
