(* ===== verification/Runtime_Calm.thy ===== *)
theory Runtime_Calm
  imports Runtime_Progress
begin

text \<open>
  What reductions leave alone: steps that record no event change no node state and no phase, nodes
  never become pending again, succeeded nodes hold their declared outputs, and only an accepted
  cancellation closes a gate for cancellation, after which nothing of its phase is pending.
\<close>

section \<open>Reductions without events\<close>

definition node_states :: "('c, 'o, 'd) runtime_state \<Rightarrow> (string \<times> 'o step_state) list" where
  "node_states st = map (\<lambda>(s, n). (s, srs_state n)) (steps st)"

definition same_view :: "('c, 'o, 'd) runtime_state \<Rightarrow> ('c, 'o, 'd) runtime_state \<Rightarrow> bool" where
  "same_view st st' \<longleftrightarrow>
     definition_of st' = definition_of st \<and> node_states st' = node_states st \<and>
     workflow st' = workflow st \<and> finalization st' = finalization st \<and>
     force_abort st' = force_abort st \<and>
     last_transition_sequence st' = last_transition_sequence st \<and>
     transition_capacity_exceeded st' = transition_capacity_exceeded st"

lemma same_view_refl [simp]: "same_view st st"
  by (simp add: same_view_def)

lemma same_view_trans: "same_view st st' \<Longrightarrow> same_view st' st'' \<Longrightarrow> same_view st st''"
  by (simp add: same_view_def)

lemma map_of_node_states: "map_of (node_states st) s = map_option srs_state (map_of (steps st) s)"
  by (simp add: node_states_def map_of_map)

lemma same_view_state_in:
  assumes "same_view st st'"
  shows "state_in st' s P = state_in st s P"
proof -
  have "map_option srs_state (map_of (steps st') s) = map_option srs_state (map_of (steps st) s)"
    using assms map_of_node_states by (metis same_view_def)
  then show ?thesis
    by (cases "map_of (steps st) s"; cases "map_of (steps st') s") (simp_all add: state_in_def)
qed

lemma active_count_states: "active_count st = length (filter (\<lambda>e. is_active (snd e)) (node_states st))"
  by (simp add: active_count_def node_states_def bt_values_def filter_map comp_def split_beta)

lemma same_view_active_count: "same_view st st' \<Longrightarrow> active_count st' = active_count st"
  by (simp add: active_count_states same_view_def)

lemma node_states_modify:
  assumes "map_of (steps st) step = Some n" and "srs_state n' = srs_state n"
    and "steps st' = bt_modify step (\<lambda>_. n') (steps st)"
  shows "node_states st' = node_states st"
proof -
  have "map_of m step = Some n \<Longrightarrow>
      map (\<lambda>(s, n). (s, srs_state n)) (bt_modify step (\<lambda>_. n') m) = map (\<lambda>(s, n). (s, srs_state n)) m" for m
    using assms(2) by (induction m) (auto split: if_splits)
  then show ?thesis
    using assms(1,3) by (simp add: node_states_def)
qed

lemma micro_events:
  "micro r r' \<Longrightarrow> length (events r) < length (events r') \<or>
     length (events r') = length (events r) \<and> same_view (state r) (state r')"
proof (induction rule: micro.induct)
  case (touch r step n n' acts)
  have "node_states (state (touch_node step n' acts r)) = node_states (state r)"
    by (rule node_states_modify [OF touch(1) node_touch_state [OF touch(2)]]) simp
  then show ?case
    by (simp add: same_view_def touch_node_def)
qed (simp_all add: commit_node_def same_view_def node_states_def)

lemma micros_events:
  "micros r r' \<Longrightarrow> length (events r) < length (events r') \<or>
     length (events r') = length (events r) \<and> same_view (state r) (state r')"
  by (induction rule: rtranclp_induct) (auto dest!: micro_events intro: same_view_trans)

lemma silent_view:
  "micros r r' \<Longrightarrow> length (events r') = length (events r) \<Longrightarrow> same_view (state r) (state r')"
  using micros_events by fastforce

lemma silent_between:
  assumes "micros r r1" and "micros r1 r'" and "length (events r') = length (events r)"
  shows "length (events r1) = length (events r)" and "length (events r') = length (events r1)"
  using micros_events [OF assms(1)] micros_events [OF assms(2)] assms(3) by auto

section \<open>Pending nodes\<close>

definition pending_within :: "('c, 'o, 'd) runtime_state \<Rightarrow> ('p, 'c, 'o, 'd) reduction \<Rightarrow> bool" where
  "pending_within base r \<longleftrightarrow> (\<forall>s. state_in (state r) s is_pending \<longrightarrow> state_in base s is_pending)"

lemma legal_not_pending: "legal_transition k KPending \<Longrightarrow> False"
  by (cases k) auto

lemma node_step_started: "node_step step sequence n n' acts \<Longrightarrow> srs_state n' \<noteq> Pending"
  using node_step_legal legal_not_pending by fastforce

lemma state_in_modify:
  "map_of (steps st) step = Some n \<Longrightarrow> steps st' = bt_modify step (\<lambda>_. n') (steps st) \<Longrightarrow>
   state_in st' s P = (if s = step then P (srs_state n') else state_in st s P)"
  by (simp add: state_in_def)

interpretation pending: reducer_invariant
  "pending_within base :: ('p, 'c, 'o, 'd) reduction \<Rightarrow> bool" for base :: "('c, 'o, 'd) runtime_state"
proof
  fix r r' :: "('p, 'c, 'o, 'd) reduction"
  assume "micro r r'" and "pending_within base r"
  then show "pending_within base r'"
  proof (induction rule: micro.induct)
    case (node r step n n' acts)
    then show ?case
      using node_step_started [OF node(2)]
      by (auto simp: pending_within_def state_in_modify [OF node(1)] split: if_splits)
  next
    case (complete r step n m n' outputs)
    then show ?case
      by (auto simp: pending_within_def state_in_def map_of_bt_modify split: if_splits)
  next
    case (touch r step n n' acts)
    then show ?case
      using node_touch_state [OF touch(2)]
      by (auto simp: pending_within_def state_in_modify [OF touch(1)] split: if_splits)
        (simp add: state_in_def)
  next
    case (workflow r sequence st st' ev acts)
    then show ?case
      using workflow_step_frame [OF workflow(2)] next_sequence_frame [OF workflow(1)]
      by (simp add: pending_within_def state_in_def)
  qed (simp_all add: pending_within_def state_in_def)
qed

lemma micros_pending: "micros r r' \<Longrightarrow> state_in (state r') s is_pending \<Longrightarrow> state_in (state r) s is_pending"
  using pending.micros_keep [of r r' "state r"] by (auto simp: pending_within_def)

section \<open>Declared outputs\<close>

definition outputs_ok :: "('p, 'c, 'o, 'd) reduction \<Rightarrow> bool" where
  "outputs_ok r \<longleftrightarrow>
     (\<forall>s n. map_of (steps (state r)) s = Some n \<longrightarrow>
        outputs_declared (state r) s (srs_state n) \<and> kind (srs_state n) \<noteq> KInherited)"

lemma legal_not_inherited: "legal_transition k KInherited \<Longrightarrow> False"
  by (cases k) auto

lemma outputs_declared_cong:
  "definition_of st' = definition_of st \<Longrightarrow> outputs_declared st' s x = outputs_declared st s x"
  by (cases x) (simp_all add: outputs_declared_def)

lemma outputs_ok_modify:
  assumes "outputs_ok r" and "outputs_declared (state r) step (srs_state n')"
    and "kind (srs_state n') \<noteq> KInherited"
    and "steps (state r') = bt_modify step (\<lambda>_. n') (steps (state r))"
    and "definition_of (state r') = definition_of (state r)"
  shows "outputs_ok r'"
  using assms by (auto simp: outputs_ok_def map_of_bt_modify outputs_declared_cong [OF assms(5)])

interpretation outputs: reducer_invariant "outputs_ok :: ('p, 'c, 'o, 'd) reduction \<Rightarrow> bool"
proof
  fix r r' :: "('p, 'c, 'o, 'd) reduction"
  assume "micro r r'" and "outputs_ok r"
  then show "outputs_ok r'"
  proof (induction rule: micro.induct)
    case (node r step n n' acts)
    have "kind (srs_state n') \<noteq> KInherited"
      using node_step_legal [OF node(2)] legal_not_inherited by fastforce
    then show ?case
      using node by - (rule outputs_ok_modify, auto)
  next
    case (complete r step n m n' outputs)
    then show ?case
      by - (rule outputs_ok_modify [of r step n'], auto simp: bt_modify_modify comp_def)
  next
    case (touch r step n n' acts)
    then show ?case
      using node_touch_state [OF touch(2)]
      by - (rule outputs_ok_modify, auto simp: outputs_ok_def)
  next
    case (workflow r sequence st st' ev acts)
    then show ?case
      using workflow_step_frame [OF workflow(2)] next_sequence_frame [OF workflow(1)]
        outputs_declared_cong [of st' "state r"]
      by (simp add: outputs_ok_def)
  next
    case (operation r op)
    then show ?case
      using outputs_declared_cong [of "(state r)\<lparr>last_cancellation_operation := op\<rparr>" "state r"]
      by (simp add: outputs_ok_def)
  qed (simp_all add: outputs_ok_def)
qed

lemma collect_exports_total:
  "\<forall>(name, e)\<in>set es. export_value st e \<noteq> None \<Longrightarrow> collect_exports st es \<noteq> None"
  by (induction es) auto

lemma derive_exports_total:
  assumes "exports_declared (definition_of (state r))" and "outputs_ok r"
    and "\<And>s d. map_of (def_steps (definition_of (state r))) s = Some d \<Longrightarrow> state_in (state r) s is_terminal"
  shows "derive_exports (state r) \<noteq> None"
  unfolding derive_exports_def
proof (rule collect_exports_total, clarify)
  fix name e
  assume "(name, e) \<in> set (def_exports (definition_of (state r)))"
  then obtain d where d: "map_of (def_steps (definition_of (state r))) (re_step e) = Some d"
    and out: "re_output e \<in> set (declared_outputs d)"
    using assms(1) by (auto simp: exports_declared_def)
  obtain n where n: "map_of (steps (state r)) (re_step e) = Some n" "is_terminal (srs_state n)"
    using assms(3) [OF d] by (rule state_inE)
  have ok: "outputs_declared (state r) (re_step e) (srs_state n)" "kind (srs_state n) \<noteq> KInherited"
    using assms(2) n by (auto simp: outputs_ok_def)
  have "export_value (state r) e \<noteq> None"
  proof (cases "srs_state n")
    case (Succeeded outputs)
    then have "re_output e \<in> fst ` set outputs"
      using ok(1) d out by (simp add: outputs_declared_def bt_keys_def) (metis list.set_map)
    then have "map_of outputs (re_output e) \<noteq> None"
      by (simp add: map_of_eq_None_iff)
    then show ?thesis
      using n Succeeded by (simp add: export_value_def)
  qed (use n ok in \<open>simp_all add: export_value_def\<close>)
  then show "\<exists>y. export_value (state r) e = Some y"
    by simp
qed

section \<open>Gates closed by a cancellation\<close>

definition cancel_phase :: "'d workflow_state \<Rightarrow> workflow_node_role option" where
  "cancel_phase w =
     (case w of
        Executing (GateCancelling _ _) \<Rightarrow> Some RoleStep
      | Finalizing _ (FgCancelling _ _ _) _ \<Rightarrow> Some RoleFinalizer
      | _ \<Rightarrow> None)"

definition calm :: "('p, 'c, 'o, 'd) reduction \<Rightarrow> ('p, 'c, 'o, 'd) reduction \<Rightarrow> bool" where
  "calm r r' \<longleftrightarrow>
     cancel_phase (workflow (state r')) = cancel_phase (workflow (state r)) \<and>
     force_abort (state r') = force_abort (state r)"

lemma calm_refl [simp]: "calm r r"
  by (simp add: calm_def)

lemma calm_trans: "calm r r' \<Longrightarrow> calm r' r'' \<Longrightarrow> calm r r''"
  by (simp add: calm_def)

lemma workflow_transition_step [simp]:
  "workflow (state (snd (transition_step step to a r))) = workflow (state r)"
  "force_abort (state (snd (transition_step step to a r))) = force_abort (state r)"
  by (auto simp: transition_step_def Let_def split_beta split: option.splits)

lemma workflow_push_action [simp]: "state (push_action i a r) = state r"
  by (simp add: push_action_def)

lemma workflow_writes [simp]:
  "workflow (modify_recovery step f st) = workflow st"
  "workflow (set_current_action step i st) = workflow st"
  "workflow (clear_active_invocation step st) = workflow st"
  "workflow (set_handler_outcome step round h st) = workflow st"
  "workflow (set_recovery_disposition step d st) = workflow st"
  "force_abort (modify_recovery step f st) = force_abort st"
  "force_abort (set_current_action step i st) = force_abort st"
  "force_abort (clear_active_invocation step st) = force_abort st"
  "force_abort (set_handler_outcome step round h st) = force_abort st"
  "force_abort (set_recovery_disposition step d st) = force_abort st"
  by (simp_all add: modify_recovery_def set_current_action_def clear_active_invocation_def
      set_handler_outcome_def set_recovery_disposition_def)

lemma workflow_marks [simp]:
  "workflow (mark_recovery_exhausted step st) = workflow st"
  "workflow (mark_handler_cancelled step active st) = workflow st"
  "workflow (mark_recovery_cancelled step active st) = workflow st"
  "force_abort (mark_recovery_exhausted step st) = force_abort st"
  "force_abort (mark_handler_cancelled step active st) = force_abort st"
  "force_abort (mark_recovery_cancelled step active st) = force_abort st"
  by (simp_all add: mark_recovery_exhausted_def mark_handler_cancelled_def mark_recovery_cancelled_def
      split: option.split active_step_invocation.split)

lemma workflow_mark_recovered [simp]:
  "workflow (state (mark_recovered step r)) = workflow (state r)"
  "force_abort (state (mark_recovered step r)) = force_abort (state r)"
  by (simp_all add: mark_recovered_def split: option.split)

lemma workflow_authorize_target [simp]:
  "workflow (state (authorize_target step number ins r)) = workflow (state r)"
  "force_abort (state (authorize_target step number ins r)) = force_abort (state r)"
  by (simp_all add: authorize_target_def Let_def split_beta)

lemma calm_issue: "calm r (commit_required_issue def issue r)"
  by (auto simp: calm_def commit_required_issue_def close_ordinary_gate_for_failure_def
      select_finalizer_primary_issue_def push_workflow_event_def Let_def split_beta cancel_phase_def
      split: workflow_node_role.splits workflow_state.splits scheduling_gate.splits
        finalization_gate.splits option.splits)

lemma calm_settle:
  "calm r (settle_target_failure step def detail r)"
  "calm r (settle_blocked step blocked r)"
  "calm r (settle_latest_target_failure step r)"
proof -
  show target: "calm r (settle_target_failure step def detail r)" for def detail
    unfolding settle_target_failure_def Let_def by (rule calm_trans [OF _ calm_issue]) (simp add: calm_def)
  show "calm r (settle_latest_target_failure step r)"
    using target by (simp add: settle_latest_target_failure_def split: option.split)
  have "calm r (commit_required_issue def issue (snd (transition_step step (Blocked blocked) None r)))"
    for def issue
    by (rule calm_trans [OF _ calm_issue]) (simp add: calm_def)
  then show "calm r (settle_blocked step blocked r)"
    by (simp add: settle_blocked_def Let_def split: option.split)
qed

lemma calm_state:
  "calm (r\<lparr>state := st\<rparr>) r' \<Longrightarrow> workflow st = workflow (state r) \<Longrightarrow> force_abort st = force_abort (state r) \<Longrightarrow>
   calm r r'"
  by (simp add: calm_def)

lemma workflow_start_recovery [simp]:
  "workflow (state (snd (start_recovery_handler step round hk r))) = workflow (state r)"
  "force_abort (state (snd (start_recovery_handler step round hk r))) = force_abort (state r)"
  by (simp_all add: start_recovery_handler_def Let_def split_beta)

lemma calm_activate_recovery: "calm r (snd (activate_recovery_round step phase detail cause r))"
  by (simp add: calm_def activate_recovery_round_def Let_def split: option.split)

lemma calm_settled:
  "calm r r' \<Longrightarrow> calm r (settle_target_failure step def detail r')"
  "calm r r' \<Longrightarrow>
   calm r (settle_target_failure step def detail (r'\<lparr>state := mark_recovery_exhausted step (state r')\<rparr>))"
  by (auto elim!: calm_trans intro: calm_settle calm_state [OF calm_settle(1)])

lemma calm_step_failure: "calm r (snd (apply_step_failure ports step action expected phase cause r))"
  by (auto simp: apply_step_failure_def Let_def split_beta calm_activate_recovery calm_settled
      split: option.split sum.split)

lemma calm_handler_failure: "calm r (snd (apply_handler_failure step round action expected phase cause r))"
  by (auto simp: apply_handler_failure_def Let_def intro: calm_state [OF calm_settle(3)])

lemma calm_handler_decision: "calm r (snd (apply_handler_decision step round action decision r))"
proof (cases "decision_kind decision")
  case Recheck
  then show ?thesis
    by (simp add: calm_def apply_handler_decision_def Let_def split: option.split)
next
  case GaveUp
  then show ?thesis
    by (auto simp: apply_handler_decision_def Let_def intro: calm_state [OF calm_settle(3)])
qed

lemma calm_node_occurrences:
  "calm r (snd (complete_execution ports step action resources r))"
  "calm r (snd (capture_outputs step action outs r))"
  "calm r (snd (start_handler step round action r))"
  "calm r (snd (quiesce_step step action r))"
  by (auto simp: calm_def complete_execution_def capture_outputs_def start_handler_def quiesce_step_def
      Let_def split_beta split: option.split)

section \<open>Cancelled phases\<close>

text \<open>
  Once a gate is closed by a cancellation nothing of its phase is pending, except that finalizers
  may be when the run was aborted before they were reached; these the next pass cancels.
\<close>

definition cancelled_settled :: "('c, 'o, 'd) runtime_state \<Rightarrow> bool" where
  "cancelled_settled st \<longleftrightarrow>
     (\<forall>the_role. cancel_phase (workflow st) = Some the_role \<longrightarrow>
        the_role = RoleFinalizer \<and> ordinary_force_abort st \<or>
        (\<forall>s\<in>set (condition_ids st the_role). \<not> state_in st s is_pending))"

lemma condition_ids_definition: "definition_of st' = definition_of st \<Longrightarrow> condition_ids st' the_role = condition_ids st the_role"
  by (cases the_role) (simp_all add: condition_ids_def)

lemma calm_keeps_settled:
  assumes "micros r r'" and "calm r r'" and "cancelled_settled (state r)"
  shows "cancelled_settled (state r')"
  using assms micros_pending [OF assms(1)] condition_ids_definition [OF micros_definition [OF assms(1)]]
  by (auto simp: cancelled_settled_def calm_def ordinary_force_abort_def)

lemma calm_writes:
  "calm r (snd (transition_step step to a r))"
  "calm r (r\<lparr>state := modify_step step f (state r)\<rparr>)"
  by (simp_all add: calm_def)

lemma calm_settle_pending: "calm r (settle_pending_disposition found r)"
  by (cases found; cases "snd found") (auto simp: settle_pending_disposition_def calm_settle calm_writes)

lemma calm_propagate: "calm r (propagate_ordinary_pending_dispositions r)"
proof (induction r rule: propagate_ordinary_pending_dispositions.induct)
  case (1 r)
  then show ?case
    by (subst propagate_ordinary_pending_dispositions.simps)
      (auto split: option.split intro: calm_trans [OF calm_settle_pending])
qed

lemma calm_evaluate_next: "evaluate_next_condition ports the_role r = Some r' \<Longrightarrow> calm r r'"
  by (auto simp: evaluate_next_condition_def settle_condition_failure_def calm_settle calm_writes
      split: option.splits condition_evaluation.splits sum.splits)

lemma calm_evaluate: "calm r (evaluate_ready_conditions ports the_role r)"
proof (induction ports the_role r rule: evaluate_ready_conditions.induct)
  case (1 ports the_role r)
  then show ?case
    by (subst evaluate_ready_conditions.simps)
      (auto split: option.split intro: calm_trans [OF calm_evaluate_next])
qed

lemma calm_dispose_fold: "calm r (fold (\<lambda>step r. snd (transition_step step to a r)) ids r)"
proof (induction ids arbitrary: r)
  case (Cons step ids)
  show ?case
    using calm_trans [OF calm_writes(1) Cons.IH] by simp
qed simp

lemma calm_select: "calm r (select_ready_nodes the_role r)"
proof -
  have "calm r (fold (\<lambda>(step, ins). authorize_target step first_execution ins) selected r)" for selected
  proof (induction selected arbitrary: r)
    case (Cons entry selected)
    obtain step ins where entry: "entry = (step, ins)"
      by (cases entry)
    have "calm r (authorize_target step first_execution ins r)"
      by (simp add: calm_def)
    from calm_trans [OF this Cons.IH] show ?case
      by (simp add: entry)
  qed simp
  then show ?thesis
    by (simp add: select_ready_nodes_def Let_def)
qed

lemma calm_block_conditions: "calm r (block_finalizer_conditions r)"
proof (induction r rule: block_finalizer_conditions.induct)
  case (1 r)
  show ?case
  proof (cases "next_finalizer_condition_block (state r)")
    case (Some found)
    then have "calm (settle_blocked (fst found) (snd found) r)
        (block_finalizer_conditions (settle_blocked (fst found) (snd found) r))"
      using 1 [of found "fst found" "snd found"] by simp
    from calm_trans [OF calm_settle(2) this] show ?thesis
      using Some by (subst block_finalizer_conditions.simps) (simp add: split_beta)
  qed (subst block_finalizer_conditions.simps, simp)
qed

lemma calm_block_inputs:
  fixes r :: "('p, 'c, 'o, 'd) reduction"
  assumes "block_finalizer_inputs r = Some r'"
  shows "calm r r'"
proof (rule block_finalizer_inputs.raw_induct [of calm, OF _ assms])
  fix f and r r' :: "('p, 'c, 'o, 'd) reduction"
  assume "\<And>r r'. f r = Some r' \<Longrightarrow> calm r r'"
    and "(case next_input_unavailable (state r) of
        None \<Rightarrow> Some r
      | Some found \<Rightarrow>
          (case blocked_detail_new (body_prerequisites (snd found)) of
             Inl _ \<Rightarrow> f r
           | Inr detail \<Rightarrow> f (settle_blocked (fst found) detail r))) = Some r'"
  then show "calm r r'"
    by (auto split: option.splits sum.splits intro: calm_trans [OF calm_settle(2)])
qed

lemma calm_triggers: "calm r (propagate_finalizer_trigger_dispositions r)"
  by (auto simp: propagate_finalizer_trigger_dispositions_def Let_def calm_dispose_fold split: option.split)

lemma calm_cancel_pending: "calm r (cancel_pending_nodes the_role reason r)"
  unfolding cancel_pending_nodes_def by (rule calm_dispose_fold)

lemma calm_propagate_finalizers: "propagate_finalizer_dispositions r = Some r' \<Longrightarrow> calm r r'"
  unfolding propagate_finalizer_dispositions_def
  by (rule calm_trans [OF calm_triggers calm_trans [OF calm_block_conditions calm_block_inputs]])

lemma finish_run_cases:
  "finish_run result summary r = r \<or> workflow_terminal (workflow (state (finish_run result summary r)))"
  by (cases result)
    (auto simp: finish_run_def Let_def split_beta push_workflow_event_def workflow_terminal_def split: option.split)

lemma terminal_cancel_phase: "workflow_terminal w \<Longrightarrow> cancel_phase w = None"
  by (auto simp: cancel_phase_def workflow_terminal_def split: workflow_state.splits)

lemma finish_run_settled: "cancelled_settled (state r) \<Longrightarrow> cancelled_settled (state (finish_run result summary r))"
  using finish_run_cases [of result summary r]
    terminal_cancel_phase [of "workflow (state (finish_run result summary r))"]
  by (elim disjE) (simp_all add: cancelled_settled_def)

lemma enter_finalization_settled: "cancelled_settled (state (enter_finalization ports outcome r))"
  by (auto simp: cancelled_settled_def enter_finalization_def Let_def split_beta push_workflow_event_def
      cancel_phase_def ordinary_force_abort_def split: if_splits)

lemma enter_or_finish_settled:
  "cancelled_settled (state r) \<Longrightarrow> cancelled_settled (state (enter_finalization_or_finish ports r))"
  by (simp add: enter_finalization_or_finish_def finish_run_settled enter_finalization_settled split: option.split)

lemma finish_finalization_settled:
  "cancelled_settled (state r) \<Longrightarrow> cancelled_settled (state (finish_finalization_if_terminal r))"
  by (simp add: finish_finalization_if_terminal_def finish_run_settled split: workflow_state.split option.split)

lemma stabilize_pass_settled:
  assumes wf: "definition_wf (definition_of (state r))" and "stabilize_pass ports r = Some r'"
    and settled: "cancelled_settled (state r)"
  shows "cancelled_settled (state r')"
proof (cases "workflow (state r)")
  case (Executing gate)
  define r1 where "r1 = select_ready_nodes RoleStep (propagate_ordinary_pending_dispositions
    (evaluate_ready_conditions ports RoleStep (propagate_ordinary_pending_dispositions r)))"
  have r': "r' = enter_finalization_or_finish ports r1"
    using assms(2) Executing by (simp add: stabilize_pass_def stabilize_ordinary_def r1_def)
  have "calm r r1"
    unfolding r1_def
    by (rule calm_trans [OF calm_propagate calm_trans [OF calm_evaluate calm_trans [OF calm_propagate calm_select]]])
  moreover have "micros r r1"
  proof -
    have "micros r (propagate_ordinary_pending_dispositions
        (evaluate_ready_conditions ports RoleStep (propagate_ordinary_pending_dispositions r)))"
      using propagate_ordinary_micros evaluate_ready_conditions_micros rtranclp_trans by metis
    then show ?thesis
      unfolding r1_def using select_ready_nodes_micros micros_definition_wf [OF _ wf] rtranclp_trans by metis
  qed
  ultimately have "cancelled_settled (state r1)"
    using calm_keeps_settled settled by blast
  then show ?thesis
    unfolding r' by (rule enter_or_finish_settled)
next
  case (Finalizing trigger gate issue)
  have tail: "cancelled_settled (state (finish_finalization_if_terminal (select_ready_nodes RoleFinalizer r1)))"
    if "micros r r1" "calm r r1" for r1
  proof -
    have "micros r (select_ready_nodes RoleFinalizer r1)"
      using that(1) select_ready_nodes_micros micros_definition_wf [OF _ wf] rtranclp_trans by metis
    moreover have "calm r (select_ready_nodes RoleFinalizer r1)"
      using that(2) calm_select calm_trans by blast
    ultimately have "cancelled_settled (state (select_ready_nodes RoleFinalizer r1))"
      using calm_keeps_settled settled by blast
    then show ?thesis
      by (rule finish_finalization_settled)
  qed
  show ?thesis
  proof (cases "ordinary_force_abort (state r)")
    case True
    define r1 where "r1 = cancel_pending_nodes RoleFinalizer ForceAbort (propagate_finalizer_trigger_dispositions r)"
    have "calm r (evaluate_ready_conditions ports RoleFinalizer r1)"
      unfolding r1_def by (rule calm_trans [OF calm_triggers calm_trans [OF calm_cancel_pending calm_evaluate]])
    moreover have "micros r (evaluate_ready_conditions ports RoleFinalizer r1)"
    proof -
      note triggers = propagate_triggers_micros [OF wf]
      have "micros r r1"
        unfolding r1_def
        by (rule rtranclp_trans [OF triggers cancel_pending_nodes_micros [OF micros_definition_wf [OF triggers wf]]])
      then show ?thesis
        by (rule rtranclp_trans [OF _ evaluate_ready_conditions_micros])
    qed
    ultimately show ?thesis
      using tail assms(2) Finalizing True
      by (auto simp: stabilize_pass_def stabilize_finalizers_def Let_def r1_def)
  next
    case False
    obtain r1 r2 where r1: "propagate_finalizer_dispositions r = Some r1"
      and r2: "propagate_finalizer_dispositions (evaluate_ready_conditions ports RoleFinalizer r1) = Some r2"
      and r': "r' = finish_finalization_if_terminal (select_ready_nodes RoleFinalizer r2)"
      using assms(2) Finalizing False
      by (auto simp: stabilize_pass_def stabilize_finalizers_def split: option.splits)
    have m1: "micros r (evaluate_ready_conditions ports RoleFinalizer r1)"
      using propagate_finalizer_micros [OF wf r1] evaluate_ready_conditions_micros rtranclp_trans by metis
    then have "micros r r2"
      using propagate_finalizer_micros [OF _ r2] micros_definition_wf [OF _ wf] rtranclp_trans by metis
    moreover have "calm r r2"
      by (rule calm_trans [OF calm_propagate_finalizers [OF r1]
          calm_trans [OF calm_evaluate calm_propagate_finalizers [OF r2]]])
    ultimately show ?thesis
      unfolding r' by (rule tail)
  qed
qed (use assms in \<open>auto simp: stabilize_pass_def\<close>)

end
