(* ===== verification/Runtime_Cancelled.thy ===== *)
theory Runtime_Cancelled
  imports Runtime_Calm
begin

text \<open>
  Cancellations and force aborts settle every pending node of their phase, so that along a whole run
  nothing of a cancelled phase stays pending; a rejected occurrence records no event.
\<close>

section \<open>Cancellations settle their phase\<close>

lemma cancel_node_workflow:
  "workflow (state (snd (cancel_node reason force graceful (step, k) (i, r)))) = workflow (state r)"
proof (cases "map_of (steps (state r)) step")
  case None
  then show ?thesis
    by (cases k) (simp_all add: cancel_node_def Let_def split_beta split: option.split)
next
  case (Some n)
  then show ?thesis
    by (cases k; cases "active_invocation n"; cases force; cases graceful)
      (simp_all add: cancel_node_def Let_def split_beta)
qed

lemma steps_mark_handler_cancelled:
  "\<exists>f. steps (mark_handler_cancelled step active st) = bt_modify step f (steps st) \<and>
     (\<forall>n. srs_state (f n) = srs_state n)"
  using books_marks(2) [of step st active] by (auto simp: books_def bookkept_def)

lemma cancel_node_writes:
  "\<exists>f. steps (state (snd (cancel_node reason force graceful (step, k) (i, r)))) = bt_modify step f (steps (state r)) \<and>
     (\<forall>n. srs_state (f n) = Pending \<longrightarrow> srs_state n = Pending \<and> k \<noteq> KPending)"
proof -
  have keep: ?thesis if "k \<noteq> KPending"
    "steps (state (snd (cancel_node reason force graceful (step, k) (i, r)))) = steps (state r)"
    using that by (intro exI [of _ "\<lambda>n. n"]) (simp add: bt_modify_ident)
  have change: ?thesis if "steps (state (snd (cancel_node reason force graceful (step, k) (i, r)))) =
      bt_modify step f (steps (state r))" "\<forall>n. srs_state (f n) = Pending \<longrightarrow> srs_state n = Pending \<and> k \<noteq> KPending" for f
    using that by blast
  show ?thesis
  proof (cases "k \<in> {KStarting, KRunning, KCapturingOutputs, KRecovering}")
    case True
    show ?thesis
    proof (cases "case map_of (steps (state r)) step of None \<Rightarrow> None | Some runtime \<Rightarrow> active_invocation runtime")
      case None
      show ?thesis
        by (rule keep) (use True None in \<open>auto simp: cancel_node_def Let_def\<close>)
    next
      case (Some active)
      obtain g where g: "steps (mark_handler_cancelled step active (state r)) = bt_modify step g (steps (state r))"
        using steps_mark_handler_cancelled [of step active "state r"] by blast
      show ?thesis
        by (rule change [of "\<lambda>n. (g n)\<lparr>srs_state := Cancelling (CancellationDetail reason), current_action := Some
            (case force of
               None \<Rightarrow> for_transition (fst (transition_step step (Cancelling (CancellationDetail reason)) None
                 (r\<lparr>state := mark_handler_cancelled step active (state r)\<rparr>)))
             | Some (operation, _) \<Rightarrow> for_force_abort operation i)\<rparr>"])
          (use True Some in \<open>auto simp: cancel_node_def Let_def split_beta set_current_action_def g
              bt_modify_modify comp_def split: option.split\<close>)
    qed
  next
    case False
    show ?thesis
    proof (cases k)
      case KPending
      show ?thesis
        by (rule change [of "\<lambda>n. n\<lparr>srs_state := Cancelled (CancellationDetail reason), current_action := None\<rparr>"])
          (simp_all add: KPending cancel_node_def Let_def)
    next
      case KCancelling
      show ?thesis
      proof (cases force)
        case None
        show ?thesis
          by (rule keep) (simp_all add: KCancelling None cancel_node_def Let_def)
      next
        case (Some f)
        show ?thesis
          by (rule change [of "\<lambda>n. n\<lparr>current_action := Some (for_force_abort (fst f) i)\<rparr>"])
            (auto simp: KCancelling Some cancel_node_def Let_def split_beta set_current_action_def split: option.split)
      qed
    qed ((rule keep; simp add: cancel_node_def Let_def) | (use False in simp))+
  qed
qed

lemma cancel_node_pending:
  assumes "state_in (state (snd (cancel_node reason force graceful (step, k) (i, r)))) s is_pending"
  shows "state_in (state r) s is_pending \<and> (s = step \<longrightarrow> k \<noteq> KPending)"
proof -
  obtain f where f: "steps (state (snd (cancel_node reason force graceful (step, k) (i, r)))) =
      bt_modify step f (steps (state r))" "\<forall>n. srs_state (f n) = Pending \<longrightarrow> srs_state n = Pending \<and> k \<noteq> KPending"
    using cancel_node_writes by blast
  then show ?thesis
    using assms by (cases "s = step") (auto simp: state_in_def split: option.splits)
qed

lemma cancel_fold_pending:
  "state_in (state (snd (fold (cancel_node reason force graceful) nodes acc))) s is_pending \<Longrightarrow>
   state_in (state (snd acc)) s is_pending \<and> (s, KPending) \<notin> set nodes"
proof (induction nodes arbitrary: acc)
  case (Cons node nodes)
  obtain step k where node: "node = (step, k)"
    by (cases node)
  have "state_in (state (snd (cancel_node reason force graceful (step, k) (fst acc, snd acc)))) s is_pending"
    and rest: "(s, KPending) \<notin> set nodes"
    using Cons.IH [of "cancel_node reason force graceful node acc"] Cons.prems by (simp_all add: node)
  from cancel_node_pending [OF this(1)] rest show ?case
    by (auto simp: node)
qed simp

lemma cancel_fold_workflow:
  "workflow (state (snd (fold (cancel_node reason force graceful) nodes acc))) = workflow (state (snd acc))"
proof (induction nodes arbitrary: acc)
  case (Cons node nodes)
  then show ?case
    using cancel_node_workflow [of reason force graceful "fst node" "snd node" "fst acc" "snd acc"] by simp
qed simp

lemma cancel_nodes_fold:
  assumes "is_force \<longrightarrow> operation \<noteq> None"
  shows "\<exists>force graceful. cancel_nodes the_role reason (Some deadline) is_force operation r =
    snd (fold (cancel_node reason force graceful)
      (List.map_filter (\<lambda>step. map_option (\<lambda>runtime. (step, kind (srs_state runtime)))
         (map_of (steps (state r)) step)) (nodes_with_role (state r) the_role)) (1, r))"
  using assms by (cases is_force; cases operation) (simp_all add: cancel_nodes_def Let_def, (intro exI, rule refl)+)

lemma cancel_nodes_settles:
  assumes "is_force \<longrightarrow> operation \<noteq> None" and "s \<in> set (nodes_with_role (state r) the_role)"
  shows "\<not> state_in (state (cancel_nodes the_role reason (Some deadline) is_force operation r)) s is_pending"
proof
  let ?nodes = "List.map_filter (\<lambda>step. map_option (\<lambda>runtime. (step, kind (srs_state runtime)))
         (map_of (steps (state r)) step)) (nodes_with_role (state r) the_role)"
  assume pending: "state_in (state (cancel_nodes the_role reason (Some deadline) is_force operation r)) s is_pending"
  from cancel_nodes_fold [OF assms(1), of the_role reason deadline r]
  obtain force graceful where eq: "cancel_nodes the_role reason (Some deadline) is_force operation r =
      snd (fold (cancel_node reason force graceful) ?nodes (1, r))"
    by (elim exE)
  have "state_in (state r) s is_pending" and "(s, KPending) \<notin> set ?nodes"
    using cancel_fold_pending [OF pending [unfolded eq]] by simp_all
  then show False
    using assms(2) by (auto simp: List.map_filter_def image_iff elim!: state_inE)
qed

lemma cancel_nodes_workflow:
  "is_force \<longrightarrow> operation \<noteq> None \<Longrightarrow>
   workflow (state (cancel_nodes the_role reason (Some deadline) is_force operation r)) = workflow (state r)"
  using cancel_nodes_fold [of is_force operation the_role reason deadline r] cancel_fold_workflow by fastforce

lemma nodes_with_role_ids:
  "definition_wf (definition_of st) \<Longrightarrow> set (nodes_with_role st the_role) = set (condition_ids st the_role)"
  by (cases the_role) (auto simp: nodes_with_role_def condition_ids_def definition_wf_def image_iff
      split: prod.splits intro: map_of_is_SomeI dest: map_of_SomeD)

lemma cancel_nodes_settled:
  assumes "definition_wf (definition_of (state r))" and "cancel_phase (workflow (state r)) = Some the_role"
    and "is_force \<longrightarrow> operation \<noteq> None"
  shows "cancelled_settled (state (cancel_nodes the_role reason (Some deadline) is_force operation r))"
proof -
  let ?st = "state (cancel_nodes the_role reason (Some deadline) is_force operation r)"
  have "set (condition_ids ?st the_role) = set (nodes_with_role (state r) the_role)"
    using nodes_with_role_ids [OF assms(1)]
      condition_ids_definition [OF micros_definition [OF cancel_nodes_micros [OF assms(1)]]] by metis
  then show ?thesis
    using assms(2)
    by (simp add: cancelled_settled_def cancel_nodes_workflow [OF assms(3)] cancel_nodes_settles [OF assms(3)])
qed

lemma ordinary_cancellation_settled:
  assumes "definition_wf (definition_of (state r))" and "cancelled_settled (state r)"
    and "apply_ordinary_cancellation request operation r = (accepted, r')"
  shows "cancelled_settled (state r')"
proof -
  define cancel where "cancel = (\<lambda>prior_issue.
        let st = set_cancellation_operation operation (state r);
            st = st\<lparr>workflow := Executing (GateCancelling (cr_reason request) prior_issue)\<rparr>;
            (sequence, st) = next_sequence st;
            r = r\<lparr>state := st,
              events := events r @
                [EvCancellationAccepted sequence (cr_reason request) (cr_deadline request)]\<rparr>
        in (True, cancel_nodes RoleStep (cr_reason request) (Some (cr_deadline request)) False
              operation r))"
  have "cancelled_settled (state (snd (cancel prior)))" for prior
    unfolding cancel_def Let_def split_beta snd_conv
    by (rule cancel_nodes_settled) (simp_all add: assms(1) set_cancellation_operation_alt cancel_phase_def)
  then have settled: "cancelled_settled (state r')" if "cancel prior = (accepted, r')" for prior
    using that by (metis snd_conv)
  have "(case workflow (state r) of
       Executing GateOpen \<Rightarrow> cancel None
     | Executing (GateFailureStopped issue) \<Rightarrow> cancel (Some issue)
     | _ \<Rightarrow> (False, r)) = (accepted, r')"
    using assms(3) by (simp only: apply_ordinary_cancellation_def cancel_def Let_def)
  then show ?thesis
    using assms(2) settled by (auto split: workflow_state.splits scheduling_gate.splits)
qed

lemma finalization_cancellation_settled:
  assumes "definition_wf (definition_of (state r))" and "workflow (state r) = Finalizing trigger gate issue"
    and "apply_finalization_cancellation request operation r = (accepted, r')"
  shows "cancelled_settled (state r')"
proof -
  have "cancelled_settled (state (snd (apply_finalization_cancellation request operation r)))"
    unfolding apply_finalization_cancellation_def Let_def split_beta
    by (simp add: assms(2) del: cancel_nodes_workflow)
      (rule cancel_nodes_settled; simp add: assms(1) set_cancellation_operation_alt cancel_phase_def)
  then show ?thesis
    by (simp add: assms(3))
qed

lemma accept_force_abort_settled:
  assumes "definition_wf (definition_of st)" and "cancel_phase (workflow st) = Some the_role"
  shows "cancelled_settled (state (accept_force_abort operation deadline phase the_role st r))"
  unfolding accept_force_abort_def Let_def split_beta
  by (rule cancel_nodes_settled) (simp_all add: assms)

lemma force_abort_phase:
  "cancel_phase (Executing (force_abort_gate gate)) = Some RoleStep"
  "cancel_phase (Finalizing trigger (force_abort_finalization_gate fgate) issue) = Some RoleFinalizer"
  by (simp_all add: cancel_phase_def force_abort_gate_def force_abort_finalization_gate_def
      split: scheduling_gate.split finalization_gate.split)

lemma force_abort_settled:
  assumes "definition_wf (definition_of (state r))" and "cancelled_settled (state r)"
    and "apply_force_abort operation deadline r = (accepted, r')"
  shows "cancelled_settled (state r')"
  using assms
  by (auto simp: apply_force_abort_def accept_force_abort_settled force_abort_phase
      split: if_splits workflow_state.splits)

lemma cancellation_settled:
  assumes "definition_wf (definition_of (state r))" and "cancelled_settled (state r)"
    and "apply_cancellation request operation r = (accepted, r')"
  shows "cancelled_settled (state r')"
  using assms ordinary_cancellation_settled [OF assms(1,2)] finalization_cancellation_settled [OF assms(1)]
  by (auto simp: apply_cancellation_def split: workflow_state.splits finalization_gate.splits)

lemma ordinary_only_settled:
  assumes "definition_wf (definition_of (state r))" and "cancelled_settled (state r)"
    and "apply_ordinary_only_cancellation request operation r = (accepted, r')"
  shows "cancelled_settled (state r')"
proof -
  have "cancelled_settled ((state r)\<lparr>last_cancellation_operation := Some operation\<rparr>)"
    using assms(2) condition_ids_definition [of "(state r)\<lparr>last_cancellation_operation := Some operation\<rparr>" "state r"]
    by (simp add: cancelled_settled_def state_in_def ordinary_force_abort_def)
  then show ?thesis
    using assms ordinary_cancellation_settled [OF assms(1,2)]
    by (auto simp: apply_ordinary_only_cancellation_def split: workflow_state.splits if_splits)
qed

lemma apply_occurrence_settled:
  assumes wf: "definition_wf (definition_of (state r))" and "\<not> workflow_terminal (workflow (state r))"
    and settled: "cancelled_settled (state r)" and r': "apply_occurrence ports occurrence r = (accepted, r')"
  shows "cancelled_settled (state r')"
proof -
  have calm: "cancelled_settled (state r')" if "calm r (snd (apply_occurrence ports occurrence r))"
    using calm_keeps_settled [OF apply_occurrence_micros [OF wf assms(2) r'] _ settled] that r' by simp
  show ?thesis
  proof (cases occurrence)
    case (StepStarted step action)
    then show ?thesis
      by (intro calm) (simp add: calm_def)
  next
    case (CancellationOperationRequested operation reason deadline)
    then show ?thesis
      using r' settled cancellation_settled [OF wf settled] by (auto split: if_splits)
  next
    case (OrdinaryCancellationOperationRequested operation reason deadline)
    then show ?thesis
      using r' ordinary_only_settled [OF wf settled] by simp
  next
    case (ForceAbortRequested operation deadline)
    then show ?thesis
      using r' settled force_abort_settled [OF wf settled] by (auto split: if_splits)
  qed (intro calm, simp add: calm_step_failure calm_handler_failure calm_handler_decision calm_node_occurrences)+
qed

lemma rejected_events:
  assumes wf: "definition_wf (definition_of (state r))" and "\<not> workflow_terminal (workflow (state r))"
    and r': "apply_occurrence ports occurrence r = (False, r')"
  shows "length (events r') = length (events r)"
proof (cases occurrence)
  case (RecoveryHandlerCompleted step round action decision)
  then show ?thesis
    using r' by (auto simp: apply_handler_decision_def Let_def split: if_splits option.splits recovery_decision_kind.splits)
next
  case (StepExecutionCompleted step action resources)
  then show ?thesis
    using r' complete_execution_refines [of ports step action resources r False r'] by simp
next
  case (CancellationOperationRequested operation reason deadline)
  then show ?thesis
    using r' apply_cancellation_refines [OF wf] by (auto split: if_splits)
next
  case (OrdinaryCancellationOperationRequested operation reason deadline)
  then show ?thesis
    using r' assms(2)
    by (auto simp: apply_ordinary_only_cancellation_def apply_ordinary_cancellation_def Let_def
        split: if_splits workflow_state.splits scheduling_gate.splits prod.splits)
next
  case (ForceAbortRequested operation deadline)
  then show ?thesis
    using r' apply_force_abort_refines [OF wf] by (auto split: if_splits)
qed (use r' in \<open>auto simp: apply_step_failure_def apply_handler_failure_def capture_outputs_def
    start_handler_def quiesce_step_def Let_def split: if_splits option.splits sum.splits prod.splits\<close>)

end
