(* ===== verification/Runtime_Liveness.thy ===== *)
theory Runtime_Liveness
  imports Runtime_Cancelled Runtime_Samples
begin

text \<open>
  Liveness of runs.  A run of a live definition with capacity left never stalls: as long as it has
  not ended some node is active, and the outcome of that node is accepted and recorded.  Since the
  capacity bounds the recorded transitions, every run can be completed by such outcomes.
\<close>

section \<open>The last pass of the stabilizing loop\<close>

lemma stabilize_last_pass:
  fixes r :: "('p, 'c, 'o, 'd) reduction"
  assumes "stabilize ports r = Some r'" and "P r"
    and "\<And>r r'. P r \<Longrightarrow> stabilize_pass ports r = Some r' \<Longrightarrow> P r'"
  shows "\<exists>r0. P r0 \<and> stabilize_pass ports r0 = Some r' \<and>
    last_transition_sequence (state r') = last_transition_sequence (state r0)"
proof -
  let ?Q = "\<lambda>p r r'. p = ports \<longrightarrow> P r \<longrightarrow> (\<exists>r0. P r0 \<and> stabilize_pass ports r0 = Some r' \<and>
    last_transition_sequence (state r') = last_transition_sequence (state r0))"
  have "?Q ports r r'"
  proof (rule stabilize.raw_induct [of ?Q, OF _ assms(1)])
    fix f and p :: "('p, 'c, 'o) runtime_ports" and r r' :: "('p, 'c, 'o, 'd) reduction"
    assume IH: "\<And>p r r'. f p r = Some r' \<Longrightarrow> ?Q p r r'"
      and body: "(case stabilize_pass p r of
          None \<Rightarrow> None
        | Some r' \<Rightarrow>
            if last_transition_sequence (state r') = last_transition_sequence (state r)
            then Some r' else f p r') = Some r'"
    show "?Q p r r'"
    proof (intro impI)
      assume p: "p = ports" and r: "P r"
      obtain r1 where r1: "stabilize_pass p r = Some r1"
        using body by (cases "stabilize_pass p r") auto
      show "\<exists>r0. P r0 \<and> stabilize_pass ports r0 = Some r' \<and>
          last_transition_sequence (state r') = last_transition_sequence (state r0)"
      proof (cases "last_transition_sequence (state r1) = last_transition_sequence (state r)")
        case True
        then show ?thesis
          using body r1 p r by auto
      next
        case False
        then show ?thesis
          using body r1 p IH [of p r1 r'] assms(3) [OF r] by simp
      qed
    qed
  qed
  then show ?thesis
    using assms(2) by blast
qed

section \<open>Operations that record nothing do nothing\<close>

lemma transition_events:
  "length (events (snd (transition_step step to a r))) =
     length (events r) + (if map_of (steps (state r)) step = None then 0 else 1)"
  by (auto simp: transition_step_def Let_def split_beta split: option.splits)

lemma dispose_events_le:
  "length (events r) \<le> length (events (fold (\<lambda>step r. snd (transition_step step to a r)) ids r))"
proof (induction ids arbitrary: r)
  case (Cons step ids)
  then show ?case
    using le_trans [OF _ Cons.IH [of "snd (transition_step step to a r)"]] by (simp add: transition_events)
qed simp

lemma dispose_silent:
  assumes "length (events (fold (\<lambda>step r. snd (transition_step step to a r)) ids r)) = length (events r)"
    and "\<And>s. s \<in> set ids \<Longrightarrow> map_of (steps (state r)) s \<noteq> None"
  shows "ids = []"
proof (cases ids)
  case (Cons step rest)
  then show ?thesis
    using assms(1) assms(2) [of step] dispose_events_le [of "snd (transition_step step to a r)" to a rest]
    by (auto simp: transition_events)
qed simp

lemma authorize_events:
  "length (events (authorize_target step number ins r)) =
     length (events r) + (if map_of (steps (state r)) step = None then 0 else 1)"
  by (simp add: authorize_target_def Let_def split_beta push_action_def transition_events)

lemma authorize_events_le:
  "length (events r) \<le>
     length (events (fold (\<lambda>(step, ins). authorize_target step first_execution ins) selected r))"
proof (induction selected arbitrary: r)
  case (Cons entry selected)
  then show ?case
    using le_trans [OF _ Cons.IH [of "authorize_target (fst entry) first_execution (snd entry) r"]]
    by (simp add: authorize_events split_beta)
qed simp

lemma select_silent:
  assumes "length (events (select_ready_nodes the_role r)) = length (events r)"
  shows "idle (state r) the_role" and "select_ready_nodes the_role r = r"
proof -
  define selected where "selected =
    take (maximum_parallel_steps (definition_of (state r)) - active_count (state r))
      (List.map_filter (ready_node (state r) the_role) (condition_ids (state r) the_role))"
  have "selected = []" if gate: "selection_gate_open (state r) the_role"
  proof (cases selected)
    case (Cons entry rest)
    have "entry \<in> set (List.map_filter (ready_node (state r) the_role) (condition_ids (state r) the_role))"
      using Cons in_set_takeD [of entry] unfolding selected_def by (metis list.set_intros(1))
    then obtain s where "ready_node (state r) the_role s = Some entry"
      by (auto simp: List.map_filter_def)
    then have "ready_node (state r) the_role (fst entry) \<noteq> None"
      using ready_node_fst by fastforce
    then have "map_of (steps (state r)) (fst entry) \<noteq> None"
      by (rule ready_node_pending) simp
    then show ?thesis
      using assms gate Cons
        authorize_events_le [of "authorize_target (fst entry) first_execution (snd entry) r" rest]
      by (auto simp: select_ready_nodes_def Let_def selected_def [symmetric] authorize_events split_beta)
  qed
  then show "idle (state r) the_role" and "select_ready_nodes the_role r = r"
    by (auto simp: idle_def select_ready_nodes_def selected_def Let_def)
qed

lemma finish_run_events:
  "length (events (finish_run result summary r)) =
     length (events r) + (if derive_exports (state r) = None then 0 else 1)"
  by (auto simp: finish_run_def Let_def split_beta push_workflow_event_def push_action_def split: option.split)

lemma finish_run_none: "derive_exports (state r) = None \<Longrightarrow> finish_run result summary r = r"
  by (simp add: finish_run_def)

lemma enter_silent:
  assumes "workflow (state r) = Executing gate"
    and "length (events (enter_finalization_or_finish ports r)) = length (events r)"
  shows "enter_finalization_or_finish ports r = r"
    and "\<not> (all_terminal (state r) (ordinary_ids (definition_of (state r))) \<and>
      (finalizer_ids (definition_of (state r)) = [] \<longrightarrow> derive_exports (state r) \<noteq> None))"
proof -
  have "ordinary_outcome (state r) \<noteq> None"
    using assms(1) by (simp add: ordinary_outcome_def split: scheduling_gate.split option.split)
  then obtain outcome where outcome: "ordinary_outcome (state r) = Some outcome"
    by blast
  have events: "length (events (enter_finalization ports outcome r)) = Suc (length (events r))"
    by (simp add: enter_finalization_def Let_def split_beta push_workflow_event_def)
  show "enter_finalization_or_finish ports r = r"
    using assms(2) events
    by (auto simp: enter_finalization_or_finish_def outcome finish_run_events finish_run_none split: if_splits)
  show "\<not> (all_terminal (state r) (ordinary_ids (definition_of (state r))) \<and>
      (finalizer_ids (definition_of (state r)) = [] \<longrightarrow> derive_exports (state r) \<noteq> None))"
    using assms events
    by (auto simp: enter_finalization_or_finish_def outcome finish_run_events split: if_splits)
qed

lemma finish_silent:
  assumes "workflow (state r) = Finalizing trigger gate issue" and "finalization (state r) = Some fin"
    and "length (events (finish_finalization_if_terminal r)) = length (events r)"
  shows "finish_finalization_if_terminal r = r"
    and "\<not> (all_terminal (state r) (finalizer_ids (definition_of (state r))) \<and> derive_exports (state r) \<noteq> None)"
  using assms
  by (auto simp: finish_finalization_if_terminal_def finish_run_events finish_run_none split: if_splits)

section \<open>Loops run until nothing is left\<close>

lemma propagate_exit: "next_ordinary_pending_disposition (state (propagate_ordinary_pending_dispositions r)) = None"
proof (induction r rule: propagate_ordinary_pending_dispositions.induct)
  case (1 r)
  then show ?case
    by (subst propagate_ordinary_pending_dispositions.simps) (simp split: option.split)
qed

lemma block_inputs_exit:
  fixes r :: "('p, 'c, 'o, 'd) reduction"
  assumes "block_finalizer_inputs r = Some r'"
  shows "next_input_unavailable (state r') = None"
proof (rule block_finalizer_inputs.raw_induct [of "\<lambda>r r'. next_input_unavailable (state r') = None", OF _ assms])
  fix f and r r' :: "('p, 'c, 'o, 'd) reduction"
  assume "\<And>r r'. f r = Some r' \<Longrightarrow> next_input_unavailable (state r') = None"
    and "(case next_input_unavailable (state r) of
        None \<Rightarrow> Some r
      | Some found \<Rightarrow>
          (case blocked_detail_new (body_prerequisites (snd found)) of
             Inl _ \<Rightarrow> f r
           | Inr detail \<Rightarrow> f (settle_blocked (fst found) detail r))) = Some r'"
  then show "next_input_unavailable (state r') = None"
    by (auto split: option.splits sum.splits)
qed

lemma live_no_condition:
  "definition_live def \<Longrightarrow> map_of (def_steps def) s = Some d \<Longrightarrow> condition d = None"
  by (auto simp: definition_live_def settles_def)

lemma evaluate_live:
  assumes "definition_live (definition_of (state r))"
  shows "evaluate_ready_conditions ports the_role r = r"
proof -
  have "find (condition_gate_ready (state r)) (condition_ids (state r) the_role) = None"
    using live_no_condition [OF assms] by (auto simp: find_None_iff elim!: condition_gate_readyD)
  then show ?thesis
    by (subst evaluate_ready_conditions.simps) (simp add: evaluate_next_condition_def)
qed

lemma block_conditions_live:
  assumes "definition_live (definition_of (state r))"
  shows "block_finalizer_conditions r = r"
proof -
  have "next_finalizer_condition_block (state r) = None"
    using live_no_condition [OF assms]
    by (auto simp: next_finalizer_condition_block_def find_map_None_iff finalizer_condition_block_def
        split: option.split)
  then show ?thesis
    by (subst block_finalizer_conditions.simps) simp
qed

section \<open>The state of a run that can go on\<close>

definition live :: "('p, 'c, 'o, 'd) reduction \<Rightarrow> bool" where
  "live r \<longleftrightarrow>
     definition_live (definition_of (state r)) \<and> state_wf (state r) \<and> capacity_left r \<and>
     phases_ok (state r) \<and> outputs_ok r \<and> nodes_ok r \<and> cancelled_settled (state r) \<and>
     unat (maximum_transitions (definition_of (state r))) < 2 ^ 64 - 1"

definition moving :: "('c, 'o, 'd) runtime_state \<Rightarrow> bool" where
  "moving st \<longleftrightarrow> workflow_terminal (workflow st) \<or> 0 < active_count st"

lemma live_cong: "live r \<Longrightarrow> state r' = state r \<Longrightarrow> live r'"
  by (simp add: live_def capacity_left_def outputs_ok_def nodes_ok_def)

lemma live_micros:
  assumes "live r" and "micros r r'" and "cancelled_settled (state r')"
  shows "live r'"
  using assms micros_definition [OF assms(2)] micros_wf [OF assms(2)] capacity.micros_keep [OF assms(2)]
    phases.micros_keep [OF assms(2)] outputs.micros_keep [OF assms(2)] nodes.micros_keep [OF assms(2)]
  by (simp add: live_def)

lemma live_wf: "live r \<Longrightarrow> definition_wf (definition_of (state r))"
  by (simp add: live_def state_wf_def)

lemma live_settled: "live r \<Longrightarrow> cancelled_settled (state r)"
  by (simp add: live_def)

lemma live_calm: "live r \<Longrightarrow> micros r r' \<Longrightarrow> calm r r' \<Longrightarrow> live r'"
  using live_micros calm_keeps_settled live_settled by blast

lemma numbered_length:
  assumes "events_numbered b r" and "live r" and "micros r r'"
  shows "unat (last_transition_sequence (state r')) + length (events r) =
    unat (last_transition_sequence (state r)) + length (events r')"
proof -
  have "events_numbered b r'" and "capacity_left r'"
    using assms numbers.micros_keep capacity.micros_keep by (auto simp: live_def)
  then show ?thesis
    using assms by (simp add: events_numbered_def capacity_left_def live_def)
qed

lemma all_nodes_terminal:
  assumes "definition_wf (definition_of st)" and "all_terminal st (ordinary_ids (definition_of st))"
    and "all_terminal st (finalizer_ids (definition_of st))"
    and "map_of (def_steps (definition_of st)) s = Some d"
  shows "state_in st s is_terminal"
  using assms by (cases "role d") (auto simp: definition_wf_def all_terminal_def list_all_iff)

lemma exports_ready:
  assumes "live r" and "all_terminal (state r) (ordinary_ids (definition_of (state r)))"
    and "all_terminal (state r) (finalizer_ids (definition_of (state r)))"
  shows "derive_exports (state r) \<noteq> None"
proof (rule derive_exports_total)
  show "exports_declared (definition_of (state r))" and "outputs_ok r"
    using assms(1) by (simp_all add: live_def definition_live_def)
qed (rule all_nodes_terminal [OF live_wf [OF assms(1)] assms(2,3)])

section \<open>A pass that records nothing leaves the run moving\<close>

lemma ordinary_pass_moving:
  assumes "live r" and "workflow (state r) = Executing gate"
    and "length (events (stabilize_ordinary ports r)) = length (events r)"
  shows "moving (state (stabilize_ordinary ports r))"
proof -
  define r1 where "r1 = propagate_ordinary_pending_dispositions r"
  define r2 where "r2 = propagate_ordinary_pending_dispositions r1"
  define r3 where "r3 = select_ready_nodes RoleStep r2"
  define r4 where "r4 = enter_finalization_or_finish ports r3"
  have m: "micros r r1" "micros r1 r2" "micros r3 r4"
    by (simp_all add: r1_def r2_def r4_def propagate_ordinary_micros enter_or_finish_micros)
  have l: "live r1" "live r2"
    using assms(1) m live_calm calm_propagate unfolding r1_def r2_def by blast+
  have m3: "micros r2 r3"
    unfolding r3_def by (rule select_ready_nodes_micros [OF live_wf [OF l(2)]])
  have r4: "stabilize_ordinary ports r = r4"
    using l(1) by (simp add: stabilize_ordinary_def r1_def r2_def r3_def r4_def evaluate_live live_def)
  have len: "length (events r4) = length (events r)"
    using assms(3) r4 by simp
  note b1 = silent_between [OF rtranclp_trans [OF m(1,2)] rtranclp_trans [OF m3 m(3)] len]
  note b2 = silent_between [OF m3 m(3) b1(2)]
  have r3: "r3 = r2" and idle: "idle (state r2) RoleStep"
    using select_silent [of RoleStep r2] b2(1) by (simp_all add: r3_def)
  have w: "workflow (state r2) = Executing gate"
    using silent_view [OF rtranclp_trans [OF m(1,2)] b1(1)] assms(2) by (simp add: same_view_def)
  note stop = enter_silent [OF w, of ports]
  have r4_eq: "r4 = r2" and open_end: "\<not> (all_terminal (state r2) (ordinary_ids (definition_of (state r2))) \<and>
      (finalizer_ids (definition_of (state r2)) = [] \<longrightarrow> derive_exports (state r2) \<noteq> None))"
    using stop b2(2) by (simp_all add: r4_def r3)
  have "0 < active_count (state r2)"
  proof (rule ccontr)
    assume "\<not> 0 < active_count (state r2)"
    then have none: "active_count (state r2) = 0"
      by simp
    have settled: "all_terminal (state r2) (ordinary_ids (definition_of (state r2)))"
    proof (rule ordinary_settled [OF _ _ w none _ idle])
      show "next_ordinary_pending_disposition (state r2) = None"
        unfolding r2_def by (rule propagate_exit)
      show "\<not> state_in (state r2) s is_pending" if "gate = GateCancelling reason prior"
          "s \<in> set (ordinary_ids (definition_of (state r2)))" for reason prior s
        using l(2) w that by (auto simp: live_def cancelled_settled_def cancel_phase_def condition_ids_def)
    qed (use l(2) in \<open>simp_all add: live_def\<close>)
    moreover have "finalizer_ids (definition_of (state r2)) = [] \<Longrightarrow> derive_exports (state r2) \<noteq> None"
      using exports_ready [OF l(2) settled] by simp
    ultimately show False
      using open_end by blast
  qed
  then show ?thesis
    by (simp add: r4 r4_eq moving_def)
qed

lemma triggers_silent:
  assumes "live r" and "finalization (state r) = Some fin"
    and "length (events (propagate_finalizer_trigger_dispositions r)) = length (events r)"
    and "s \<in> set (finalizer_ids (definition_of (state r)))" and "state_in (state r) s is_pending"
    and "map_of (def_steps (definition_of (state r))) s = Some d"
  shows "bs_contains (when_triggers d) (fin_trigger fin)"
proof (rule ccontr)
  define ids where "ids = filter (\<lambda>step. state_in (state r) step is_pending \<and>
      (case map_of (def_steps (definition_of (state r))) step of
         None \<Rightarrow> False
       | Some def \<Rightarrow> \<not> bs_contains (when_triggers def) (fin_trigger fin)))
    (finalizer_ids (definition_of (state r)))"
  assume "\<not> bs_contains (when_triggers d) (fin_trigger fin)"
  then have "s \<in> set ids"
    using assms by (simp add: ids_def)
  moreover have "ids = []"
  proof (rule dispose_silent)
    show "length (events (fold (\<lambda>step r.
        snd (transition_step step (NotRun finalizer_trigger_not_selected) None r)) ids r)) = length (events r)"
      using assms(2,3) by (simp add: propagate_finalizer_trigger_dispositions_def ids_def Let_def)
  qed (auto simp: ids_def state_in_def split: option.splits)
  ultimately show False
    by simp
qed

lemma cancel_pending_silent:
  assumes "live r" and "length (events (cancel_pending_nodes the_role reason r)) = length (events r)"
    and "s \<in> set (condition_ids (state r) the_role)"
  shows "\<not> state_in (state r) s is_pending"
proof
  define ids where "ids = filter (\<lambda>step. state_in (state r) step is_pending) (nodes_with_role (state r) the_role)"
  assume "state_in (state r) s is_pending"
  then have "s \<in> set ids"
    using assms nodes_with_role_ids [OF live_wf [OF assms(1)]] by (simp add: ids_def)
  moreover have "ids = []"
  proof (rule dispose_silent)
    show "length (events (fold (\<lambda>step r.
        snd (transition_step step (Cancelled (CancellationDetail reason)) None r)) ids r)) = length (events r)"
      using assms(2) by (simp add: cancel_pending_nodes_def ids_def)
  qed (auto simp: ids_def state_in_def split: option.splits)
  ultimately show False
    by simp
qed

lemma finalizers_moving:
  assumes "live r" and "workflow (state r) = Finalizing trigger gate issue" and "finalization (state r) = Some fin"
    and "length (events (finish_finalization_if_terminal (select_ready_nodes RoleFinalizer r))) = length (events r)"
    and "\<And>s d. s \<in> set (finalizer_ids (definition_of (state r))) \<Longrightarrow> state_in (state r) s is_pending \<Longrightarrow>
      map_of (def_steps (definition_of (state r))) s = Some d \<Longrightarrow>
      gate = FgOpen \<and> bs_contains (when_triggers d) (fin_trigger fin)"
    and "gate = FgOpen \<Longrightarrow> next_input_unavailable (state r) = None"
  shows "moving (state (finish_finalization_if_terminal (select_ready_nodes RoleFinalizer r)))"
proof -
  define r1 where "r1 = select_ready_nodes RoleFinalizer r"
  have m: "micros r r1" "micros r1 (finish_finalization_if_terminal r1)"
    unfolding r1_def using select_ready_nodes_micros [OF live_wf [OF assms(1)]] finish_finalization_micros
    by blast+
  note b = silent_between [OF m assms(4) [folded r1_def]]
  have r1: "r1 = r" and idle: "idle (state r) RoleFinalizer"
    using select_silent [of RoleFinalizer r] b(1) by (simp_all add: r1_def)
  note stop = finish_silent [OF assms(2,3)]
  have finish: "finish_finalization_if_terminal r = r"
    and open_end: "\<not> (all_terminal (state r) (finalizer_ids (definition_of (state r))) \<and> derive_exports (state r) \<noteq> None)"
    using stop b(2) by (simp_all add: r1)
  have ordinary: "all_terminal (state r) (ordinary_ids (definition_of (state r)))"
    using assms(1,2) by (simp add: live_def phases_ok_def)
  have "0 < active_count (state r)"
  proof (rule ccontr)
    assume "\<not> 0 < active_count (state r)"
    then have "all_terminal (state r) (finalizer_ids (definition_of (state r)))"
      using assms(1) by (intro finalizers_settled [OF _ _ assms(2) _ assms(3,5,6) idle]) (simp_all add: live_def)
    then show False
      using open_end exports_ready [OF assms(1) ordinary] by blast
  qed
  then show ?thesis
    using finish by (simp add: r1_def [symmetric] r1 moving_def)
qed

lemma view_force_abort: "same_view st st' \<Longrightarrow> ordinary_force_abort st' = ordinary_force_abort st"
  by (simp add: same_view_def ordinary_force_abort_def)

lemma aborted_finalizers_moving:
  assumes "live r" and "workflow (state r) = Finalizing trigger gate issue" and "ordinary_force_abort (state r)"
    and "stabilize_finalizers ports r = Some r'" and "length (events r') = length (events r)"
  shows "moving (state r')"
proof -
  define r1 where "r1 = propagate_finalizer_trigger_dispositions r"
  define r2 where "r2 = cancel_pending_nodes RoleFinalizer ForceAbort r1"
  have m1: "micros r r1"
    unfolding r1_def by (rule propagate_triggers_micros [OF live_wf [OF assms(1)]])
  have l1: "live r1"
    using live_calm [OF assms(1) m1] calm_triggers unfolding r1_def by blast
  have m2: "micros r1 r2"
    unfolding r2_def by (rule cancel_pending_nodes_micros [OF live_wf [OF l1]])
  have l2: "live r2"
    using live_calm [OF l1 m2] calm_cancel_pending unfolding r2_def by blast
  have r': "r' = finish_finalization_if_terminal (select_ready_nodes RoleFinalizer r2)"
    using assms(3,4) l2 evaluate_live [of r2 ports RoleFinalizer]
    by (simp add: stabilize_finalizers_def Let_def r1_def r2_def live_def)
  have m3: "micros r2 r'"
    unfolding r' using select_ready_nodes_micros [OF live_wf [OF l2]] finish_finalization_micros rtranclp_trans
    by metis
  note b1 = silent_between [OF rtranclp_trans [OF m1 m2] m3 assms(5)]
  note b2 = silent_between [OF m1 m2 b1(1)]
  have view: "same_view (state r) (state r2)" "same_view (state r1) (state r2)"
    using silent_view [OF rtranclp_trans [OF m1 m2] b1(1)] silent_view [OF m2 b2(2)] by simp_all
  have w: "workflow (state r2) = Finalizing trigger gate issue"
    using view(1) assms(2) by (simp add: same_view_def)
  obtain fin where fin: "finalization (state r2) = Some fin"
    using l2 w by (auto simp: live_def phases_ok_def)
  have settled: "\<not> state_in (state r2) s is_pending" if "s \<in> set (finalizer_ids (definition_of (state r2)))" for s
  proof -
    have "s \<in> set (condition_ids (state r1) RoleFinalizer)"
      using that micros_definition [OF m2] by (simp add: condition_ids_def)
    then have "\<not> state_in (state r1) s is_pending"
      using cancel_pending_silent [OF l1] b2(2) unfolding r2_def by blast
    then show ?thesis
      using same_view_state_in [OF view(2)] by simp
  qed
  then have "next_input_unavailable (state r2) = None"
    by (simp add: next_input_unavailable_def find_map_None_iff finalizer_input_unavailable_def finalizer_ready_def
        split: option.split)
  then show ?thesis
    unfolding r' using l2 w fin settled b1(2) r' by (intro finalizers_moving) auto
qed

lemma selected_finalizers_moving:
  assumes "live r" and "workflow (state r) = Finalizing trigger gate issue" and "\<not> ordinary_force_abort (state r)"
    and "stabilize_finalizers ports r = Some r'" and "length (events r') = length (events r)"
  shows "moving (state r')"
proof -
  obtain r1 where r1: "propagate_finalizer_dispositions r = Some r1"
    using assms(3,4) by (auto simp: stabilize_finalizers_def split: option.splits)
  have m1: "micros r r1"
    by (rule propagate_finalizer_micros [OF live_wf [OF assms(1)] r1])
  have l1: "live r1"
    by (rule live_calm [OF assms(1) m1 calm_propagate_finalizers [OF r1]])
  obtain r2 where r2: "propagate_finalizer_dispositions r1 = Some r2"
    and r': "r' = finish_finalization_if_terminal (select_ready_nodes RoleFinalizer r2)"
    using assms(3,4) r1 l1 evaluate_live [of r1 ports RoleFinalizer]
    by (auto simp: stabilize_finalizers_def live_def split: option.splits)
  define t where "t = propagate_finalizer_trigger_dispositions r1"
  have mt: "micros r1 t"
    unfolding t_def by (rule propagate_triggers_micros [OF live_wf [OF l1]])
  have lt: "live t"
    using live_calm [OF l1 mt] calm_triggers unfolding t_def by blast
  have r2': "block_finalizer_inputs t = Some r2"
    using r2 lt block_conditions_live [of t] by (simp add: propagate_finalizer_dispositions_def t_def live_def)
  have m2: "micros t r2"
    by (rule block_finalizer_inputs_micros [OF r2'])
  have l2: "live r2"
    by (rule live_calm [OF lt m2 calm_block_inputs [OF r2']])
  have m3: "micros r2 r'"
    unfolding r' using select_ready_nodes_micros [OF live_wf [OF l2]] finish_finalization_micros rtranclp_trans
    by metis
  note m12 = rtranclp_trans [OF mt m2]
  note b1 = silent_between [OF rtranclp_trans [OF m1 m12] m3 assms(5)]
  note b2 = silent_between [OF m1 m12 b1(1)]
  note b3 = silent_between [OF mt m2 b2(2)]
  note view = silent_view [OF rtranclp_trans [OF m1 m12] b1(1)]
  note view1 = silent_view [OF m12 b2(2)]
  have w: "workflow (state r2) = Finalizing trigger gate issue"
    using view assms(2) by (simp add: same_view_def)
  obtain fin where fin: "finalization (state r2) = Some fin"
    using l2 w by (auto simp: live_def phases_ok_def)
  have no_abort: "\<not> ordinary_force_abort (state r2)"
    using view_force_abort [OF view] assms(3) by simp
  show ?thesis
    unfolding r'
  proof (rule finalizers_moving [OF l2 w fin])
    fix s d
    assume s: "s \<in> set (finalizer_ids (definition_of (state r2)))" "state_in (state r2) s is_pending"
      "map_of (def_steps (definition_of (state r2))) s = Some d"
    have "gate = FgOpen"
    proof (cases gate)
      case (FgCancelling reason deadline aborted)
      then show ?thesis
        using live_settled [OF l2] w no_abort s
        by (auto simp: cancelled_settled_def cancel_phase_def condition_ids_def)
    qed
    moreover have "bs_contains (when_triggers d) (fin_trigger fin)"
      using view1 fin s b3(1) same_view_state_in [OF view1]
      by (intro triggers_silent [OF l1, of fin s d]) (simp_all add: same_view_def t_def)
    ultimately show "gate = FgOpen \<and> bs_contains (when_triggers d) (fin_trigger fin)"
      by blast
  qed (use b1(2) r' block_inputs_exit [OF r2'] in simp_all)
qed

lemma pass_moving:
  assumes "live r" and "stabilize_pass ports r = Some r'" and "length (events r') = length (events r)"
  shows "moving (state r')"
proof (cases "workflow (state r)")
  case (Executing gate)
  then show ?thesis
    using assms ordinary_pass_moving [OF assms(1) Executing, of ports] by (simp add: stabilize_pass_def)
next
  case (Finalizing trigger gate issue)
  then show ?thesis
    using assms aborted_finalizers_moving [OF assms(1) Finalizing] selected_finalizers_moving [OF assms(1) Finalizing]
    by (auto simp: stabilize_pass_def)
qed (use assms in \<open>auto simp: stabilize_pass_def moving_def workflow_terminal_def\<close>)

lemma stabilize_moving:
  fixes r :: "('p, 'c, 'o, 'd) reduction"
  assumes "stabilize ports r = Some r'" and "live r" and "events_numbered b r"
  shows "live r' \<and> moving (state r')"
proof -
  have pass: "live r' \<and> events_numbered b r'"
    if "live r \<and> events_numbered b r" "stabilize_pass ports r = Some r'" for r r' :: "('p, 'c, 'o, 'd) reduction"
  proof -
    have "micros r r'" "cancelled_settled (state r')"
      using that live_wf [of r] live_settled [of r] stabilize_pass_micros [of r ports r']
        stabilize_pass_settled [of r ports r'] by blast+
    then show ?thesis
      using that live_micros numbers.micros_keep by blast
  qed
  obtain r0 where r0: "live r0" "events_numbered b r0" "stabilize_pass ports r0 = Some r'"
    and seq: "last_transition_sequence (state r') = last_transition_sequence (state r0)"
    using stabilize_last_pass [OF assms(1), of "\<lambda>r. live r \<and> events_numbered b r"] assms pass by blast
  have "micros r0 r'"
    using stabilize_pass_micros [OF live_wf [OF r0(1)] r0(3)] .
  from numbered_length [OF r0(2,1) this] have "length (events r') = length (events r0)"
    using seq by simp
  then show ?thesis
    using pass_moving [OF r0(1,3)] pass [of r0 r'] r0 by blast
qed

section \<open>Every reduction leaves the run moving\<close>

lemma live_fresh: "live r \<Longrightarrow> live (fresh_reduction accepted (state r))"
  by (rule live_cong) simp_all

lemma fresh_numbered:
  "unat (maximum_transitions (definition_of st)) < 2 ^ 64 - 1 \<Longrightarrow>
   events_numbered (last_transition_sequence st) (fresh_reduction accepted st)"
  by (simp add: events_numbered_def)

lemma live_numbered: "live r \<Longrightarrow> events_numbered (last_transition_sequence (state r)) (fresh_reduction accepted (state r))"
  by (rule fresh_numbered) (simp add: live_def)

lemma same_view_moving: "same_view st st' \<Longrightarrow> moving st' = moving st"
  using same_view_active_count [of st st'] by (simp add: moving_def same_view_def)

lemma reduce_moving:
  fixes r r' :: "('p, 'c, 'o, 'd) reduction"
  assumes "live r" and "moving (state r)" and r': "reduce ports (state r) occurrence = Some r'"
  shows "live r' \<and> moving (state r')"
proof (cases "workflow_terminal (workflow (state r))")
  case True
  then have "state r' = state r"
    using r' by (auto simp: reduce_def discard_occurrence_def)
  then show ?thesis
    using assms(2) live_cong [OF assms(1)] by simp
next
  case False
  define r0 :: "('p, 'c, 'o, 'd) reduction" where "r0 = fresh_reduction False (state r)"
  obtain accepted r1 where r1: "apply_occurrence ports occurrence r0 = (accepted, r1)"
    by (cases "apply_occurrence ports occurrence r0")
  have l0: "live r0"
    unfolding r0_def by (rule live_fresh [OF assms(1)])
  note wf = live_wf [OF l0]
  have running: "\<not> workflow_terminal (workflow (state r0))"
    using False by (simp add: r0_def)
  have m1: "micros r0 r1"
    by (rule apply_occurrence_micros [OF wf running r1])
  have l1: "live r1"
    by (rule live_micros [OF l0 m1 apply_occurrence_settled [OF wf running live_settled [OF l0] r1]])
  show ?thesis
  proof (cases accepted)
    case True
    have "stabilize ports (r1\<lparr>occurrence_accepted := True\<rparr>) = Some r'"
      using r' r1 True False by (simp add: reduce_def r0_def fresh_reduction_def)
    moreover have "live (r1\<lparr>occurrence_accepted := True\<rparr>)"
      by (rule live_cong [OF l1]) simp
    moreover have "events_numbered (last_transition_sequence (state r)) r1"
      using numbers.micros_keep [OF m1] live_numbered [OF assms(1)] unfolding r0_def by blast
    then have "events_numbered (last_transition_sequence (state r)) (r1\<lparr>occurrence_accepted := True\<rparr>)"
      by (simp add: events_numbered_def)
    ultimately show ?thesis
      by (rule stabilize_moving)
  next
    case rejected: False
    then have "r' = r1"
      using r' r1 False by (simp add: reduce_def r0_def fresh_reduction_def)
    moreover have "same_view (state r0) (state r1)"
      using silent_view [OF m1] rejected_events [OF wf running, of ports occurrence r1] r1 rejected by simp
    ultimately show ?thesis
      using l1 same_view_moving [of "state r0" "state r1"] assms(2) by (simp add: r0_def)
  qed
qed

lemma initialize_moving:
  fixes r :: "('p, 'c, 'o, 'd) reduction"
  assumes "live (fresh_reduction True (initial_state def seed) :: ('p, 'c, 'o, 'd) reduction)"
    and r: "initialize_seeded_definition ports def cancellation seed = Some r"
  shows "live r \<and> moving (state r)"
proof -
  define r0 :: "('p, 'c, 'o, 'd) reduction" where "r0 = fresh_reduction True (initial_state def seed)"
  define r1 where "r1 = (case cancellation of
       None \<Rightarrow> r0
     | Some (InitialGraceful request operation) \<Rightarrow> snd (apply_cancellation request operation r0)
     | Some (InitialForceAbort operation deadline) \<Rightarrow> snd (apply_force_abort operation deadline r0))"
  have l0: "live r0"
    using assms(1) by (simp add: r0_def)
  note wf = live_wf [OF l0]
  have m1: "micros r0 r1"
    using apply_cancellation_refines [OF wf] apply_force_abort_refines [OF wf]
    by (auto simp: r1_def split: option.split initial_cancellation.split) (metis prod.collapse)+
  have "cancelled_settled (state r1)"
    using cancellation_settled [OF wf live_settled [OF l0]] force_abort_settled [OF wf live_settled [OF l0]]
      live_settled [OF l0]
    by (auto simp: r1_def split: option.split initial_cancellation.split) (metis prod.collapse)+
  then have l1: "live r1"
    by (rule live_micros [OF l0 m1])
  have "events_numbered (last_transition_sequence (state r0)) r1"
    using numbers.micros_keep [OF m1] live_numbered [OF l0, of True] by (simp add: r0_def)
  moreover have "stabilize ports r1 = Some r"
    using r unfolding initialize_seeded_definition_def Let_def r1_def r0_def fresh_reduction_def .
  ultimately show ?thesis
    using l1 by (intro stabilize_moving)
qed

lemma run_moving:
  assumes "live (fresh_reduction True (initial_state def seed) :: ('p, 'c, 'o, 'd) reduction)"
    and "run ports def cancellation seed (r :: ('p, 'c, 'o, 'd) reduction)"
  shows "live r \<and> moving (state r)"
  using assms(2)
proof (induction rule: run.induct)
  case (initialize r)
  then show ?case
    by (rule initialize_moving [OF assms(1)])
next
  case (reduce r occurrence r')
  then have "live r' \<and> moving (state r')"
    by (intro reduce_moving [of r]) auto
  then show ?case
    using live_cong [of r' "prepend (events r) (actions r) r'"] by simp
qed

section \<open>The outcome of an active node is accepted and recorded\<close>

text \<open>The reports of a node's own progress, as opposed to requests to cancel the run.\<close>

fun node_outcome :: "('p, 'c, 'o, 'd) occurrence \<Rightarrow> bool" where
  "node_outcome (CancellationOperationRequested operation reason deadline) = False"
| "node_outcome (OrdinaryCancellationOperationRequested operation reason deadline) = False"
| "node_outcome (ForceAbortRequested operation deadline) = False"
| "node_outcome _ = True"

lemma mark_recovered_events [simp]: "events (mark_recovered step r) = events r"
  by (simp add: mark_recovered_def split: option.split)

lemma transition_events_le: "length (events r) \<le> length (events (snd (transition_step step to a r)))"
  by (simp add: transition_events)

lemma commit_issue_events_le: "length (events r) \<le> length (events (commit_required_issue def issue r))"
  by (auto simp: commit_required_issue_def close_ordinary_gate_for_failure_def select_finalizer_primary_issue_def
      push_workflow_event_def Let_def split_beta
      split: workflow_node_role.split workflow_state.split scheduling_gate.split finalization_gate.split option.split)

lemma settle_failure_events:
  "map_of (steps (state r)) step \<noteq> None \<Longrightarrow> length (events r) < length (events (settle_target_failure step def detail r))"
  unfolding settle_target_failure_def Let_def
  by (rule less_le_trans [OF _ commit_issue_events_le]) (simp add: transition_events)

lemma complete_recorded:
  assumes "map_of (steps (state r)) s = Some n" and "srs_state n = Running" and "current_action n = Some action"
  shows "\<exists>r'. complete_execution ports s action provisional r = (True, r') \<and> length (events r) < length (events r')"
proof -
  define r1 where "r1 = snd (transition_step s CapturingOutputs None r)"
  have "length (events r) < length (events r1)"
    using assms(1) by (simp add: r1_def transition_events)
  moreover have "length (events r1) \<le> length (events (snd (transition_step s (Succeeded []) None (mark_recovered s r1))))"
    using transition_events_le [of "mark_recovered s r1" s "Succeeded []" None] by simp
  ultimately show ?thesis
    using assms by (auto simp: complete_execution_def step_accepts_def split_beta Let_def r1_def [symmetric] push_action_def)
qed

lemma capture_recorded:
  fixes r :: "('p, 'c, 'o, 'd) reduction"
  assumes "map_of (steps (state r)) s = Some n" and "srs_state n = CapturingOutputs"
    and "current_action n = Some action" and "map_of (def_steps (definition_of (state r))) s = Some d"
  shows "\<exists>outs r'. capture_outputs s action outs r = (True, r') \<and> length (events r) < length (events r')"
proof -
  define outs where "outs = map (\<lambda>name. (name, undefined :: 'o)) (declared_outputs d)"
  have "outputs_match_declaration (state r) s outs"
    using assms(4) by (simp add: outputs_match_declaration_def outs_def bt_keys_def comp_def)
  moreover have "map_of (steps (state (mark_recovered s r))) s \<noteq> None"
    using assms(1) by (simp add: mark_recovered_def set_recovery_disposition_def modify_recovery_def map_of_bt_modify
        split: option.split)
  ultimately show ?thesis
    using assms by (intro exI [of _ outs]) (auto simp: capture_outputs_def step_accepts_def Let_def transition_events)
qed

lemma handler_started_recorded:
  assumes "map_of (steps (state r)) s = Some n" and "srs_state n = Recovering round HandlerStarting"
    and "current_action n = Some action" and "active_invocation n = Some (ActiveRecoveryHandler round)"
  shows "\<exists>r'. start_handler s round action r = (True, r') \<and> length (events r) < length (events r')"
  using assms
  by (simp add: start_handler_def handler_accepts_def Let_def transition_events set_handler_outcome_def
      modify_recovery_def map_of_bt_modify)

lemma handler_failure_recorded:
  assumes "map_of (steps (state r)) s = Some n" and "srs_state n = Recovering round HandlerRunning"
    and "current_action n = Some action" and "active_invocation n = Some (ActiveRecoveryHandler round)"
    and "rounds_shape n \<noteq> []" and "map_of (def_steps (definition_of (state r))) s = Some d"
  shows "\<exists>r'. apply_handler_failure s round action HandlerRunning phase cause r = (True, r') \<and>
    length (events r) < length (events r')"
proof -
  obtain rec where rec: "recovery n = Some rec" "rec_rounds rec \<noteq> []"
    using assms(5) by (cases "recovery n") (auto simp: rounds_shape_def recovery_shape_def)
  define r1 where "r1 = r\<lparr>state := set_recovery_disposition s (RtHandlerFailed round phase)
    (set_handler_outcome s round (HoFailed phase cause) (state r))\<rparr>"
  have node: "map_of (steps (state r1)) s \<noteq> None"
    and failure: "latest_target_failure (state r1) s \<noteq> None"
    and d: "map_of (def_steps (definition_of (state r1))) s = Some d"
    using assms(1,6) rec
    by (simp_all add: r1_def set_recovery_disposition_def set_handler_outcome_def modify_recovery_def
        map_of_bt_modify latest_target_failure_def map_last_def)
  have "length (events r1) < length (events (settle_latest_target_failure s r1))"
    using failure d settle_failure_events [OF node] by (auto simp: settle_latest_target_failure_def)
  moreover have "apply_handler_failure s round action HandlerRunning phase cause r =
      (True, settle_latest_target_failure s r1)"
    using assms by (simp add: apply_handler_failure_def handler_accepts_def Let_def r1_def)
  ultimately show ?thesis
    by (simp add: r1_def)
qed

lemma quiesce_recorded:
  assumes "map_of (steps (state r)) s = Some n" and "srs_state n = Cancelling detail"
    and "current_action n = Some action" and "active_invocation n = Some active"
  shows "\<exists>r'. quiesce_step s action r = (True, r') \<and> length (events r) < length (events r')"
proof -
  have "map_of (steps (mark_recovery_cancelled s active (state r))) s \<noteq> None"
    using assms(1) by (simp add: mark_recovery_cancelled_def set_recovery_disposition_def modify_recovery_def
        map_of_bt_modify split: option.split)
  then show ?thesis
    using assms by (simp add: quiesce_step_def cancelling_step_def Let_def transition_events)
qed

lemma active_outcome:
  fixes r :: "('p, 'c, 'o, 'd) reduction" and ports :: "('p, 'c, 'o) runtime_ports"
  assumes "live r" and "0 < active_count (state r)"
  shows "\<exists>occurrence r'. node_outcome occurrence \<and> apply_occurrence ports occurrence r = (True, r') \<and>
    length (events r) < length (events r')"
proof -
  obtain s n where active: "(s, n) \<in> set (steps (state r))" "is_active (srs_state n)"
    using assms(2) by (auto simp: active_count_def bt_values_def filter_empty_conv)
  have wf: "state_wf (state r)"
    using assms(1) by (simp add: live_def)
  have n: "map_of (steps (state r)) s = Some n"
    using active(1) wf by (simp add: state_wf_def definition_wf_def)
  obtain d where d: "map_of (def_steps (definition_of (state r))) s = Some d"
    using state_wf_lookup [OF wf, of s] n by fastforce
  have ok: "node_ok n"
    using assms(1) n by (auto simp: live_def nodes_ok_def)
  then obtain action where action: "current_action n = Some action"
    using active(2) by (cases "srs_state n") (auto simp: node_ok_def)
  show ?thesis
  proof (cases "srs_state n")
    case Starting
    then show ?thesis
      using n action
      by (intro exI [of _ "StepStarted s action"]) (simp add: step_accepts_def transition_events)
  next
    case Running
    then show ?thesis
      using complete_recorded [OF n Running action, of ports undefined]
      by (intro exI [of _ "StepExecutionCompleted s action undefined"]) simp
  next
    case CapturingOutputs
    then obtain outs where "\<exists>r'. capture_outputs s action outs r = (True, r') \<and> length (events r) < length (events r')"
      using capture_recorded [OF n CapturingOutputs action d] by blast
    then show ?thesis
      by (intro exI [of _ "OutputsCaptured s action outs"]) simp
  next
    case (Recovering round h)
    then have inv: "active_invocation n = Some (ActiveRecoveryHandler round)" "rounds_shape n \<noteq> []"
      using ok by (simp_all add: node_ok_def)
    show ?thesis
    proof (cases h)
      case HandlerStarting
      then show ?thesis
        using handler_started_recorded [OF n _ action inv(1)] Recovering
        by (intro exI [of _ "RecoveryHandlerStarted s round action"]) simp
    next
      case HandlerRunning
      then show ?thesis
        using handler_failure_recorded [OF n _ action inv d] Recovering
        by (intro exI [of _ "RecoveryHandlerExecutionFailed s round action undefined"]) simp
    qed
  next
    case (Cancelling detail)
    then obtain invocation where "active_invocation n = Some invocation"
      using ok by (auto simp: node_ok_def)
    then show ?thesis
      using quiesce_recorded [OF n Cancelling action]
      by (intro exI [of _ "StepQuiesced s action"]) simp
  qed (use active(2) in auto)
qed

section \<open>Completion\<close>

lemma live_references: "definition_live def \<Longrightarrow> definition_references_ok def"
  by (auto simp: definition_live_def definition_wf_def settles_def definition_references_ok_def list_all_iff)

lemma active_running:
  assumes "live r" and "0 < active_count (state r)"
  shows "\<not> workflow_terminal (workflow (state r))"
proof
  assume "workflow_terminal (workflow (state r))"
  then have terminal: "state_in (state r) s is_terminal"
    if "map_of (def_steps (definition_of (state r))) s = Some d" for s d
    using all_nodes_terminal [OF live_wf [OF assms(1)] _ _ that] assms(1)
    by (auto simp: live_def phases_ok_def elim!: workflow_terminal_cases)
  obtain s n where active: "(s, n) \<in> set (steps (state r))" "is_active (srs_state n)"
    using assms(2) by (auto simp: active_count_def bt_values_def filter_empty_conv)
  have wf: "state_wf (state r)"
    using assms(1) by (simp add: live_def)
  then have "map_of (steps (state r)) s = Some n"
    using active(1) by (simp add: state_wf_def definition_wf_def)
  moreover from this obtain d where "map_of (def_steps (definition_of (state r))) s = Some d"
    using state_wf_lookup [OF wf, of s] by fastforce
  ultimately have "is_terminal (srs_state n)"
    using terminal [of s d] by (simp add: state_in_def)
  then show False
    using active(2) by (cases "srs_state n") auto
qed

lemma outcome_reduced:
  fixes r :: "('p, 'c, 'o, 'd) reduction" and ports :: "('p, 'c, 'o) runtime_ports"
  assumes "live r" and "0 < active_count (state r)"
  shows "\<exists>occurrence r'. node_outcome occurrence \<and> reduce ports (state r) occurrence = Some r' \<and>
    unat (last_transition_sequence (state r)) < unat (last_transition_sequence (state r'))"
proof -
  define r0 :: "('p, 'c, 'o, 'd) reduction" where "r0 = fresh_reduction False (state r)"
  have l0: "live r0"
    unfolding r0_def by (rule live_fresh [OF assms(1)])
  note wf = live_wf [OF l0]
  obtain occurrence r1 where "node_outcome occurrence"
    and r1: "apply_occurrence ports occurrence r0 = (True, r1)" "length (events r0) < length (events r1)"
    using active_outcome [OF l0, of ports] assms(2) by (auto simp: r0_def)
  have running: "\<not> workflow_terminal (workflow (state r))"
    by (rule active_running [OF assms])
  obtain r' where r': "reduce ports (state r) occurrence = Some r'"
    using reduce_total [of "state r" ports occurrence] wf live_references [of "definition_of (state r)"] assms(1)
    by (auto simp: r0_def live_def)
  have m1: "micros r0 r1"
    by (rule apply_occurrence_micros [OF wf _ r1(1)]) (simp add: r0_def running)
  have "stabilize ports (r1\<lparr>occurrence_accepted := True\<rparr>) = Some r'"
    using r' r1(1) running by (simp add: reduce_def r0_def fresh_reduction_def)
  then have m2: "micros (r1\<lparr>occurrence_accepted := True\<rparr>) r'"
    using wf micros_definition [OF m1] by (intro stabilize_micros [of _ ports]) simp_all
  then have "length (events r1) \<le> length (events r')"
    using micros_events [OF m2] by auto
  moreover have "micros r0 r'"
    using reduce_micros [OF _ r'] wf by (simp add: r0_def)
  then have "unat (last_transition_sequence (state r')) = unat (last_transition_sequence (state r)) + length (events r')"
    using numbered_length [OF live_numbered [OF assms(1)], of False r'] l0 by (simp add: r0_def)
  ultimately show ?thesis
    using \<open>node_outcome occurrence\<close> r' r1(2) by (intro exI [of _ occurrence] exI [of _ r']) auto
qed

lemma live_completes:
  assumes "live r" and "moving (state r)"
  shows "\<exists>occurrences r'. list_all node_outcome occurrences \<and> reduce_all ports r occurrences = Some r' \<and>
    workflow_terminal (workflow (state r'))"
  using assms
proof (induction "unat (maximum_transitions (definition_of (state r))) - unat (last_transition_sequence (state r))"
    arbitrary: r rule: less_induct)
  case less
  show ?case
  proof (cases "workflow_terminal (workflow (state r))")
    case True
    then show ?thesis
      by (intro exI [of _ "[]"]) simp
  next
    case False
    then obtain occurrence r1 where r1: "node_outcome occurrence" "reduce ports (state r) occurrence = Some r1"
      "unat (last_transition_sequence (state r)) < unat (last_transition_sequence (state r1))"
      using outcome_reduced [OF less.prems(1), of ports] less.prems(2) by (auto simp: moving_def)
    define r2 where "r2 = prepend (events r) (actions r) r1"
    have l1: "live r1 \<and> moving (state r1)"
      by (rule reduce_moving [OF less.prems r1(2)])
    then have "live r2" "moving (state r2)"
      using live_cong [of r1 r2] by (simp_all add: r2_def)
    moreover have "unat (last_transition_sequence (state r1)) \<le> unat (maximum_transitions (definition_of (state r1)))"
      using l1 by (simp add: live_def capacity_left_def)
    moreover have "definition_of (state r1) = definition_of (state r)"
      using micros_definition [OF reduce_micros [OF live_wf [OF less.prems(1)] r1(2)]] by simp
    ultimately have "unat (maximum_transitions (definition_of (state r2))) - unat (last_transition_sequence (state r2)) <
        unat (maximum_transitions (definition_of (state r))) - unat (last_transition_sequence (state r))"
      using r1(3) by (simp add: r2_def)
    from less.hyps [OF this \<open>live r2\<close> \<open>moving (state r2)\<close>]
    obtain occurrences r' where "list_all node_outcome occurrences"
      "reduce_all ports r2 occurrences = Some r'" "workflow_terminal (workflow (state r'))"
      by blast
    then show ?thesis
      using r1 by (intro exI [of _ "occurrence # occurrences"] exI [of _ r']) (simp add: r2_def)
  qed
qed

end
