(* ===== verification/Validation_Live.thy ===== *)
theory Validation_Live
  imports Validation_Samples Runtime_Progress
begin

text \<open>
  Validated workflows without conditions give live definitions: every prerequisite of a node that can
  fail has a recorded blocker, producers come before their consumers, and exports name declared outputs.
\<close>

section \<open>Names and conditions of a document\<close>

text \<open>
  The names of nodes and outputs have the form that evidence requires of them; the schema of workflow
  documents (\<^verbatim>\<open>workflow-v1.schema.json\<close>) restricts them to it.
\<close>

definition named_node :: "string \<Rightarrow> node_body \<Rightarrow> bool" where
  "named_node name body \<longleftrightarrow>
     is_workflow_node_identifier name \<and>
     list_all is_workflow_value_identifier (bt_keys (cn_outputs (body_common body)))"

definition document_named :: "workflow_document \<Rightarrow> bool" where
  "document_named document \<longleftrightarrow>
     list_all (\<lambda>(name, step). named_node name (sdef_body step)) (doc_steps document) \<and>
     list_all (\<lambda>(name, finalizer). named_node name (fdef_body finalizer)) (doc_finalizers document)"

definition condition_free :: "workflow_document \<Rightarrow> bool" where
  "condition_free document \<longleftrightarrow>
     list_all (\<lambda>(_, step). cn_condition (body_common (sdef_body step)) = None) (doc_steps document) \<and>
     list_all (\<lambda>(_, finalizer). cn_condition (body_common (fdef_body finalizer)) = None) (doc_finalizers document)"

lemma document_body_facts:
  assumes "document_body document the_role name = Some body"
  shows "document_named document \<Longrightarrow> named_node name body"
    and "condition_free document \<Longrightarrow> cn_condition (body_common body) = None"
  using assms
  by (auto simp: document_body_def document_named_def condition_free_def list_all_iff dest!: map_of_SomeD
      split: workflow_node_role.splits)

lemma alphanumeric_no_dot: "ascii_alphanumeric c \<Longrightarrow> c \<noteq> CHR ''.''"
  by (auto simp: ascii_alphanumeric_def ascii_alphabetic_def ascii_lowercase_def ascii_uppercase_def
      ascii_digit_def less_eq_char_def)

lemma identifier_no_dot:
  "is_workflow_node_identifier s \<Longrightarrow> CHR ''.'' \<notin> set s"
  "is_workflow_value_identifier s \<Longrightarrow> CHR ''.'' \<notin> set s"
  using alphanumeric_no_dot
  by (auto simp: is_workflow_node_identifier_def is_workflow_value_identifier_def ascii_alphanumeric_def
      ascii_alphabetic_def list_all_iff split: list.splits)

lemma document_reference_parts:
  assumes "is_workflow_node_identifier (or_node out)" and "is_workflow_value_identifier (or_output out)"
  shows "is_output_reference (document_output_reference out)"
    and "output_reference_producer (document_output_reference out) = Some (or_node out)"
proof -
  have "document_output_reference out = ''outputs'' @ CHR ''.'' # or_node out @ CHR ''.'' # or_output out"
    by (simp add: document_output_reference_def)
  then have "str_split (CHR ''.'') (document_output_reference out) = [''outputs'', or_node out, or_output out]"
    using identifier_no_dot assms by (simp only: str_split_append str_split_no_sep) (simp add: str_split_append str_split_no_sep)
  then show "is_output_reference (document_output_reference out)"
    and "output_reference_producer (document_output_reference out) = Some (or_node out)"
    using assms by (simp_all add: is_output_reference_def output_reference_producer_def)
qed

section \<open>Data prerequisites come from references\<close>

definition refers :: "workflow_document \<Rightarrow> value_reference list \<Rightarrow> string \<Rightarrow> bool" where
  "refers document refs name \<longleftrightarrow>
     (\<exists>out location declared. OutputReference out \<in> set refs \<and> or_node out = name \<and>
        declared_output document out location = Inr declared)"

definition table_backed ::
  "workflow_document \<Rightarrow> value_reference list \<Rightarrow> prerequisite_table \<Rightarrow> bool" where
  "table_backed document refs table \<longleftrightarrow>
     bt_wf table \<and>
     (\<forall>k p. map_of table k = Some p \<longrightarrow> producer p = k \<and> (data p \<longrightarrow> refers document refs k))"

lemma refersI:
  "OutputReference out \<in> set refs \<Longrightarrow> declared_output document out location = Inr declared \<Longrightarrow>
   refers document refs (or_node out)"
  unfolding refers_def by blast

lemma table_backed_mark:
  assumes "table_backed document refs table" and "refers document refs name"
  shows "table_backed document refs (mark_data_prerequisite name False table)"
  using assms
  by (auto simp: table_backed_def mark_data_prerequisite_def map_of_bt_insert map_of_bt_modify bt_wf_insert
      bt_wf_modify split: option.splits if_splits)

lemma reference_backed:
  assumes "infer_reference_prerequisite consumer the_role document reference location allowed table = Inr table'"
    and "reference \<in> set refs" and "table_backed document refs table"
  shows "table_backed document refs table'"
  using assms
  by (auto simp: infer_reference_prerequisite_def reject_def
      split: value_reference.splits if_splits intro!: table_backed_mark refersI)

lemma message_backed:
  assumes "infer_message_prerequisite consumer the_role document source location allowed table = Inr table'"
    and "\<And>reference. source = MsgReference reference \<Longrightarrow> reference \<in> set refs"
    and "table_backed document refs table"
  shows "table_backed document refs table'"
  using assms by (auto simp: infer_message_prerequisite_def split: message_source.splits dest: reference_backed)

lemma messages_backed:
  assumes "try_fold (\<lambda>(index, source). infer_message_prerequisite consumer the_role document source
      (location index) allowed) (enumerate 0 sources) table = Inr table'"
    and "\<And>reference. MsgReference reference \<in> set sources \<Longrightarrow> reference \<in> set refs"
    and "table_backed document refs table"
  shows "table_backed document refs table'"
proof (rule try_fold_keeps [OF assms(1), where P = "table_backed document refs"])
  fix x s t
  assume "x \<in> set (enumerate 0 sources)" and s: "table_backed document refs s"
    and t: "(case x of (index, source) \<Rightarrow> infer_message_prerequisite consumer the_role document source
      (location index) allowed) s = Inr t"
  then have source: "snd x \<in> set sources"
    by (metis enumerate_eq_zip prod.collapse set_zip_rightD)
  show "table_backed document refs t"
  proof (rule message_backed [OF _ _ s])
    show "infer_message_prerequisite consumer the_role document (snd x) (location (fst x)) allowed s = Inr t"
      using t by (simp add: split_beta)
    show "reference \<in> set refs" if "snd x = MsgReference reference" for reference
      using assms(2) source that by simp
  qed
qed (rule assms(3))

lemma body_backed:
  assumes "infer_body_prerequisites consumer the_role body document table = Inr table'"
    and "table_backed document (body_references body) table"
  shows "table_backed document (body_references body) table'"
proof (cases body)
  case (CommandBody command)
  then have fold: "try_fold (\<lambda>(input, reference). infer_reference_prerequisite consumer the_role document reference
      (node_input_location consumer the_role input) (the_role = RoleFinalizer)) (cmd_inputs command) table = Inr table'"
    using assms(1) by (simp add: infer_body_prerequisites_def)
  show ?thesis
  proof (rule try_fold_keeps [OF fold, where P = "table_backed document (body_references body)"])
    fix x s t
    assume "x \<in> set (cmd_inputs command)" and "table_backed document (body_references body) s"
      and "(case x of (input, reference) \<Rightarrow> infer_reference_prerequisite consumer the_role document reference
        (node_input_location consumer the_role input) (the_role = RoleFinalizer)) s = Inr t"
    then show "table_backed document (body_references body) t"
      using reference_backed [of consumer the_role document "snd x" _ _ s t "body_references body"] CommandBody
      by (force simp: split_beta body_references_def bt_values_def)
  qed (rule assms(2))
next
  case (AgentBody agent)
  then obtain middle where texts:
    "try_fold (\<lambda>(index, source). infer_message_prerequisite consumer the_role document source
       (node_message_location consumer the_role index False) False)
       (enumerate 0 (am_text (ad_message (agn_agent agent)))) table = Inr middle"
    and attachments: "try_fold (\<lambda>(index, source). infer_message_prerequisite consumer the_role document source
       (node_message_location consumer the_role index True) (the_role = RoleFinalizer))
       (enumerate 0 (am_attachments (ad_message (agn_agent agent)))) middle = Inr table'"
    using assms(1) by (auto simp: infer_body_prerequisites_def)
  have refs: "reference \<in> set (body_references body)"
    if "MsgReference reference \<in> set (am_text (ad_message (agn_agent agent))) \<union>
      set (am_attachments (ad_message (agn_agent agent)))" for reference
    using that AgentBody by (force simp: body_references_def List.map_filter_def)
  show ?thesis
    by (rule messages_backed [OF attachments _ messages_backed [OF texts _ assms(2)]]) (use refs in auto)
qed

lemma controls_backed:
  assumes "try_fold (\<lambda>(index, dependency). insert_control_prerequisite consumer dependency
      (known dependency) failure (location index)) xs ([], []) = Inr (seen', table')"
  shows "table_backed document refs table'"
proof -
  have "case (seen', table') of (_, t) \<Rightarrow> table_backed document refs t"
    by (rule try_fold_keeps [OF assms])
      (auto simp: insert_control_prerequisite_def reject_def table_backed_def map_of_bt_insert bt_wf_insert
        split: if_splits)
  then show ?thesis
    by simp
qed

lemma node_backed:
  assumes "infer_node_prerequisites name the_role body document table = Inr ps"
    and "cn_condition (body_common body) = None" and "table_backed document (body_references body) table"
    and "p \<in> set ps" and "data p"
  shows "refers document (body_references body) (producer p)"
proof -
  obtain table' where "infer_body_prerequisites name the_role body document table = Inr table'"
    and ps: "ps = bt_values table'"
    using assms(1,2) by (auto simp: infer_node_prerequisites_def)
  from body_backed [OF this(1) assms(3)] show ?thesis
    using assms(4,5) by (auto simp: table_backed_def ps bt_values_def dest!: bt_wf_distinct)
qed

lemma step_backed:
  assumes "resolve_step_prerequisites name step document = Inr ps"
    and "cn_condition (body_common (sdef_body step)) = None" and "p \<in> set ps" and "data p"
  shows "refers document (body_references (sdef_body step)) (producer p)"
proof -
  obtain seen table where controls:
    "try_fold (\<lambda>(index, dependency). insert_control_prerequisite name dependency
       (bt_contains_key (doc_steps document) dependency) MissingDependency (LocStepDependency name index))
       (enumerate 0 (sdef_control_dependencies step)) ([], []) = Inr (seen, table)"
    and ps: "infer_node_prerequisites name RoleStep (sdef_body step) document table = Inr ps"
    using assms(1) by (auto simp: resolve_step_prerequisites_def)
  show ?thesis
    by (rule node_backed [OF ps assms(2) controls_backed [OF controls] assms(3,4)])
qed

lemma finalizer_backed:
  assumes "resolve_finalizer_prerequisites name finalizer document = Inr ps"
    and "cn_condition (body_common (fdef_body finalizer)) = None" and "p \<in> set ps" and "data p"
  shows "refers document (body_references (fdef_body finalizer)) (producer p)"
proof -
  obtain seen table where controls:
    "try_fold (\<lambda>(index, dependency). insert_control_prerequisite name dependency
       (bt_contains_key (doc_finalizers document) dependency) InvalidFinalizerAfterTarget
       (LocFinalizerAfter name index))
       (enumerate 0 (fdef_after finalizer)) ([], []) = Inr (seen, table)"
    and ps: "infer_node_prerequisites name RoleFinalizer (fdef_body finalizer) document table = Inr ps"
    using assms(1) by (auto simp: resolve_finalizer_prerequisites_def reject_def split: if_splits)
  show ?thesis
    by (rule node_backed [OF ps assms(2) controls_backed [OF controls] assms(3,4)])
qed

lemma step_graph_backed:
  assumes "validate_step_graph document = Inr graph"
    and "map_of (vg_direct_prerequisites graph) name = Some ps"
    and "document_body document RoleStep name = Some body" and "cn_condition (body_common body) = None"
    and "p \<in> set ps" and "data p"
  shows "refers document (body_references body) (producer p)"
proof -
  have "list_all2 (\<lambda>(name, step) d. (\<exists>ps. resolve_step_prerequisites name step document = Inr ps \<and> d = (name, ps)))
      (doc_steps document) (vg_direct_prerequisites graph)"
    using assms(1) by (auto simp: validate_step_graph_def try_map_Inr validate_graph_def reject_def Let_def
        split_beta split: if_splits elim!: list_all2_mono)
  from list_all2_map_of [OF this _ assms(2)] show ?thesis
    using assms(3-6) step_backed by (auto simp: document_body_def)
qed

lemma finalizer_graph_backed:
  assumes "validate_finalizer_graph document = Inr graph"
    and "map_of (vg_direct_prerequisites graph) name = Some ps"
    and "document_body document RoleFinalizer name = Some body" and "cn_condition (body_common body) = None"
    and "p \<in> set ps" and "data p"
  shows "refers document (body_references body) (producer p)"
proof -
  have "list_all2 (\<lambda>(name, finalizer) d.
        (\<exists>ps. resolve_finalizer_prerequisites name finalizer document = Inr ps \<and> d = (name, ps)))
      (doc_finalizers document) (vg_direct_prerequisites graph)"
    using assms(1) by (auto simp: validate_finalizer_graph_def try_map_Inr validate_graph_def reject_def
        Let_def split_beta split: if_splits elim!: list_all2_mono)
  from list_all2_map_of [OF this _ assms(2)] show ?thesis
    using assms(3-6) finalizer_backed by (auto simp: document_body_def)
qed

section \<open>Validated nodes settle\<close>

lemma validated_node_source:
  assumes "document_wf document" and "condition_free document" and "validate document = Inr vw"
    and "validated_node vw the_role name = Some common"
  obtains body where "document_body document the_role name = Some body" and "vc_condition common = None"
    and "evidence_prerequisites_of body (vc_prerequisites common) = Inr (vc_evidence_prerequisites common)"
    and "\<And>p. p \<in> set (vc_prerequisites common) \<Longrightarrow> data p \<Longrightarrow> refers document (body_references body) (producer p)"
    and "bt_keys (vc_outputs common) = bt_keys (cn_outputs (body_common body))"
  using assms(3)
proof (rule validate_unpacked)
  fix profiles sg fg
  assume v: "validate_node_namespace document = Inr ()"
    "validate_step_graph document = Inr sg" "validate_finalizer_graph document = Inr fg"
    and steps: "list_all2 (\<lambda>(name, step) (name', body). name' = name \<and>
       validate_body name RoleStep (sdef_body step) (the (map_of (vg_direct_prerequisites sg) name))
         document profiles (vw_required_inputs vw) = Inr body) (doc_steps document) (vw_steps vw)"
    and finalizers: "list_all2 (\<lambda>(name, finalizer) (name', validated). name' = name \<and>
       validate_body name RoleFinalizer (fdef_body finalizer)
         (the (map_of (vg_direct_prerequisites fg) name))
         document profiles (vw_required_inputs vw) = Inr (vf_body validated) \<and>
       vf_when validated = fdef_when finalizer) (doc_finalizers document) (vw_finalizers vw)"
  have sources: "validate_source_order (doc_steps document) (doc_step_order document) = Inr ()"
    "validate_source_order (doc_finalizers document) (doc_finalizer_order document) = Inr ()"
    using v(1) by (auto simp: validate_node_namespace_def split: if_splits)
  note step_keys = step_graph_ordered [OF assms(1) sources(1) v(2), unfolded ordered_graph_def, THEN conjunct1]
  note finalizer_keys =
    finalizer_graph_ordered [OF assms(1) sources(2) v(3), unfolded ordered_graph_def, THEN conjunct1]
  define graph where "graph = (case the_role of RoleStep \<Rightarrow> sg | RoleFinalizer \<Rightarrow> fg)"
  have "node_validated document vw the_role graph"
    using step_nodes_validated [OF steps step_keys] finalizer_nodes_validated [OF finalizers finalizer_keys]
    by (cases the_role) (simp_all add: graph_def)
  then obtain body profiles validated ps where body: "document_body document the_role name = Some body"
    and ps: "map_of (vg_direct_prerequisites graph) name = Some ps"
    and valid: "validate_body name the_role body ps document profiles (vw_required_inputs vw) = Inr validated"
    and common: "common = common_step validated"
    using assms(4) unfolding node_validated_def by metis
  note facts = validate_body_common [OF valid, folded common]
  note plain = document_body_facts(2) [OF body assms(2)]
  have "vc_condition common = None"
    using validate_body_condition [OF valid] plain common by (cases "vc_condition common") auto
  moreover have "refers document (body_references body) (producer p)" if "p \<in> set (vc_prerequisites common)" "data p" for p
    using that facts(1) ps body plain step_graph_backed [OF v(2)] finalizer_graph_backed [OF v(3)]
    by (cases the_role) (auto simp: graph_def)
  moreover have "bt_keys (vc_outputs common) = bt_keys (cn_outputs (body_common body))"
    using valid common
    by (auto simp: validate_body_def common_step_def validate_common_def body_common_def bt_keys_def split_beta comp_def
        split: node_body.splits)
  ultimately show thesis
    using that body facts(1,2) by simp
qed

lemma refers_evidence:
  assumes "document_named document" and "refers document (body_references body) name"
    and "evidence_prerequisites_of body direct = Inr evidence"
  shows "\<exists>r. PBody r \<in> set evidence \<and> output_reference_producer r = Some name"
proof -
  obtain out location declared where out: "OutputReference out \<in> set (body_references body)" "or_node out = name"
    and declared: "declared_output document out location = Inr declared"
    using assms(2) by (auto simp: refers_def)
  obtain the_role source where source: "node_body_named document (or_node out) = Some (the_role, source)"
    "map_of (cn_outputs (body_common source)) (or_output out) \<noteq> None"
    using declared by (auto simp: declared_output_def reject_def split: option.splits)
  then have "document_body document the_role (or_node out) = Some source"
    by (auto simp: node_body_named_def document_body_def split: option.splits)
  from document_body_facts(1) [OF this assms(1)]
  have names: "is_workflow_node_identifier (or_node out)" "is_workflow_value_identifier (or_output out)"
    using source(2) by (auto simp: named_node_def list_all_iff map_of_in_keys)
  note parts = document_reference_parts [OF names]
  have "PBody (document_output_reference out) \<in> set evidence"
    using assms(3) out(1) parts(1)
    by (force simp: evidence_prerequisites_of_def reject_def Let_def result_ok_def prerequisite_body_def
        split: if_splits)
  then show ?thesis
    using parts(2) out(2) by blast
qed

lemma control_evidence:
  assumes "evidence_prerequisites_of body direct = Inr evidence" and "p \<in> set direct" and "control p"
    and "producer p \<noteq> []"
  shows "PControl (producer p) \<in> set evidence"
  using assms
  by (force simp: evidence_prerequisites_of_def reject_def Let_def result_ok_def prerequisite_control_def
      split: if_splits)

section \<open>The definition of a validated workflow\<close>

lemma admitted_entries:
  assumes "workflow_wf vw"
  shows "map_of (def_steps (from_admitted vw parallel transitions vs)) s = Some d \<longleftrightarrow> (s, d) \<in> set (workflow_nodes vw)"
  using workflow_nodes_distinct [OF assms] by (simp add: map_of_bt_collect)

lemma admitted_node:
  assumes "workflow_wf vw" and "map_of (def_steps (from_admitted vw parallel transitions vs)) s = Some d"
  shows "\<exists>common. validated_node vw (role d) s = Some common \<and> prerequisites d = vc_prerequisites common \<and>
    evidence_prerequisites d = vc_evidence_prerequisites common \<and> condition d = vc_condition common \<and>
    declared_outputs d = bt_keys (vc_outputs common)"
proof -
  have "distinct (map fst (vw_steps vw))" "distinct (map fst (vw_finalizers vw))"
    using assms(1) by (simp_all add: workflow_wf_def bt_wf_distinct)
  then show ?thesis
    using assms(2)
    by (auto simp: admitted_entries [OF assms(1)] workflow_nodes_def runtime_finalizer_def runtime_step_def
        Let_def validated_node_def simp del: from_admitted_fields(1))
qed

lemma admitted_node_exists:
  assumes "workflow_wf vw" and "validated_node vw the_role s = Some common"
  shows "\<exists>d. map_of (def_steps (from_admitted vw parallel transitions vs)) s = Some d \<and> role d = the_role \<and>
    declared_outputs d = bt_keys (vc_outputs common)"
  using assms(2)
  by (cases the_role)
    (force simp: admitted_entries [OF assms(1)] workflow_nodes_def runtime_finalizer_def runtime_step_def
      Let_def validated_node_def simp del: from_admitted_fields(1) dest!: map_of_SomeD)+

lemma validated_node_settles:
  assumes "document_wf document" and "document_named document" and "condition_free document"
    and "validate document = Inr vw" and "workflow_wf vw"
    and "map_of (def_steps (from_admitted vw parallel transitions vs)) s = Some d"
  shows "settles d"
proof -
  obtain common where common: "validated_node vw (role d) s = Some common" "prerequisites d = vc_prerequisites common"
    "evidence_prerequisites d = vc_evidence_prerequisites common" "condition d = vc_condition common"
    using admitted_node [OF assms(5,6)] by blast
  obtain graph where graph: "role_graph document vw (role d) graph"
    using validated_role_graph [OF assms(1,4)] .
  note node = role_graph_node(3,5) [OF graph common(1)]
  obtain body where plain: "vc_condition common = None"
    and evidence: "evidence_prerequisites_of body (vc_prerequisites common) = Inr (vc_evidence_prerequisites common)"
    and refers: "\<And>p. p \<in> set (vc_prerequisites common) \<Longrightarrow> data p \<Longrightarrow>
      refers document (body_references body) (producer p)"
    using validated_node_source [OF assms(1,3,4) common(1)] by metis
  have "producer p \<noteq> []" if "p \<in> set (vc_prerequisites common)" for p
  proof -
    have "producer p \<in> set (role_keys document (role d))"
      using node(1) that by (simp add: prerequisite_ok_def)
    then have "is_workflow_node_identifier (producer p)"
      using assms(2) by (auto simp: role_keys_def bt_keys_def document_named_def named_node_def list_all_iff
          split: workflow_node_role.splits)
    then show ?thesis
      by (auto simp: is_workflow_node_identifier_def)
  qed
  moreover have "references_ok d"
    using node(2) common(3) by (auto simp: references_ok_def list_all_iff split: prerequisite.splits)
  ultimately show ?thesis
    using plain common(2-4) control_evidence [OF evidence] refers_evidence [OF assms(2) refers evidence]
    by (simp add: settles_def)
qed

definition position :: "string list \<Rightarrow> string \<Rightarrow> nat" where
  "position order s = length (takeWhile (\<lambda>x. x \<noteq> s) order)"

lemma position_Cons: "position (x # xs) s = (if x = s then 0 else Suc (position xs s))"
  by (simp add: position_def)

lemma position_nth: "distinct order \<Longrightarrow> i < length order \<Longrightarrow> position order (order ! i) = i"
proof (induction order arbitrary: i)
  case (Cons x xs)
  then show ?case
    by (cases i) (auto simp: position_Cons)
qed simp

lemma position_take: "distinct order \<Longrightarrow> p \<in> set (take i order) \<Longrightarrow> position order p < i"
  by (auto simp: in_set_conv_nth position_nth)

lemma role_graph_order:
  "role_graph document vw the_role graph \<Longrightarrow>
   s \<in> set (validated_order vw the_role) \<longleftrightarrow> validated_node vw the_role s \<noteq> None"
  unfolding role_graph_def by metis

lemma validated_order_position:
  assumes "document_wf document" and "validate document = Inr vw"
    and "validated_node vw the_role s = Some common" and "p \<in> set (vc_prerequisites common)"
  shows "\<exists>i. i < length (validated_order vw the_role) \<and> validated_order vw the_role ! i = s \<and>
    producer p \<in> set (take i (validated_order vw the_role)) \<and> validated_node vw the_role (producer p) \<noteq> None"
proof -
  obtain graph where graph: "role_graph document vw the_role graph"
    using validated_role_graph [OF assms(1,2)] .
  have "s \<in> set (validated_order vw the_role)"
    using role_graph_order [OF graph] assms(3) by simp
  then obtain i where i: "i < length (validated_order vw the_role)" "validated_order vw the_role ! i = s"
    by (auto simp: in_set_conv_nth)
  moreover have "producer p \<in> set (node_producers (vg_direct_prerequisites graph) s)"
    using role_graph_node(2) [OF graph assms(3)] assms(4) by auto
  then have "producer p \<in> set (take i (validated_order vw the_role))"
    using graph i by (auto simp: role_graph_def producers_first_def)
  moreover have "validated_node vw the_role (producer p) \<noteq> None"
    using graph role_graph_node(3) [OF graph assms(3)] assms(4) by (auto simp: role_graph_def prerequisite_ok_def)
  ultimately show ?thesis
    by blast
qed

lemma validated_node_roles:
  assumes "workflow_wf vw" and "validated_node vw RoleStep s \<noteq> None"
  shows "validated_node vw RoleFinalizer s = None"
proof -
  have "s \<in> set (bt_keys (vw_steps vw))"
    using assms(2) map_of_in_keys by (fastforce simp: validated_node_def)
  then show ?thesis
    using assms(1) by (simp add: workflow_wf_def list_all_iff bt_contains_key_def validated_node_def)
qed

lemma validated_ranked:
  assumes "document_wf document" and "validate document = Inr vw" and wf: "workflow_wf vw"
  shows "\<exists>rank. producers_ranked (from_admitted vw parallel transitions vs) rank"
proof -
  define order where "order = validated_order vw RoleStep @ validated_order vw RoleFinalizer"
  obtain sg fg where graphs: "role_graph document vw RoleStep sg" "role_graph document vw RoleFinalizer fg"
    using validated_role_graph [OF assms(1,2)] by metis
  have "set (validated_order vw RoleStep) \<inter> set (validated_order vw RoleFinalizer) = {}"
    using validated_node_roles [OF wf] role_graph_order [OF graphs(1)] role_graph_order [OF graphs(2)]
    by (auto simp del: not_None_eq)
  then have distinct: "distinct order"
    using graphs by (simp add: order_def role_graph_def)
  have "(\<exists>d'. map_of (def_steps (from_admitted vw parallel transitions vs)) (producer p) = Some d' \<and> role d' = role d) \<and>
      position order (producer p) < position order s"
    if d: "map_of (def_steps (from_admitted vw parallel transitions vs)) s = Some d" and p: "p \<in> set (prerequisites d)"
    for s d p
  proof -
    obtain common where common: "validated_node vw (role d) s = Some common" "p \<in> set (vc_prerequisites common)"
      using admitted_node [OF wf d] p by auto
    obtain i where i: "i < length (validated_order vw (role d))" "validated_order vw (role d) ! i = s"
      "producer p \<in> set (take i (validated_order vw (role d)))" "validated_node vw (role d) (producer p) \<noteq> None"
      using validated_order_position [OF assms(1,2) common] by blast
    define j where "j = (case role d of RoleStep \<Rightarrow> i | RoleFinalizer \<Rightarrow> length (validated_order vw RoleStep) + i)"
    have "j < length order" "order ! j = s" "producer p \<in> set (take j order)"
      using i by (auto simp: j_def order_def nth_append split: workflow_node_role.splits)
    then have "position order (producer p) < position order s"
      using position_take [OF distinct, of "producer p" j] position_nth [OF distinct, of j] by auto
    then show ?thesis
      using admitted_node_exists [OF wf, of "role d" "producer p"] i(4) by blast
  qed
  then show ?thesis
    unfolding producers_ranked_def by blast
qed

lemma list_all2_second: "list_all2 P xs ys \<Longrightarrow> y \<in> set ys \<Longrightarrow> \<exists>x\<in>set xs. P x y"
  by (induction rule: list_all2_induct) auto

lemma validated_exports_declared:
  assumes "document_wf document" and "condition_free document" and "validate document = Inr vw" and wf: "workflow_wf vw"
  shows "exports_declared (from_admitted vw parallel transitions vs)"
proof -
  have "\<exists>d. map_of (def_steps (from_admitted vw parallel transitions vs)) (node_id (ros_node source)) = Some d \<and>
      ros_output source \<in> set (declared_outputs d)"
    if "(name, source) \<in> set (vw_exports vw)" for name source
  proof -
    have "list_all2 (\<lambda>(name, reference) e. \<exists>source. resolve_export name reference document = Inr source \<and>
        e = (name, source)) (doc_exports document) (vw_exports vw)"
      using assms(3)
      by (auto simp: validate_def Let_def try_map_Inr split_beta elim!: list_all2_mono)
    from list_all2_second [OF this that] obtain reference where
      export: "resolve_export name reference document = Inr source"
      by auto
    define the_role where "the_role = node_role (ros_node source)"
    obtain body where body: "document_body document the_role (node_id (ros_node source)) = Some body"
      and out: "ros_output source \<in> set (bt_keys (cn_outputs (body_common body)))"
      using export
      by (auto simp: the_role_def resolve_export_def node_body_named_def reject_def document_body_def map_of_in_keys
          split: option.splits if_splits)
    obtain graph where graph: "role_graph document vw the_role graph"
      using validated_role_graph [OF assms(1,3)] .
    have "node_id (ros_node source) \<in> set (role_keys document the_role)"
      using body by (auto simp: document_body_def role_keys_def map_of_in_keys split: workflow_node_role.splits)
    then obtain common where common: "validated_node vw the_role (node_id (ros_node source)) = Some common"
      using graph unfolding role_graph_def by fastforce
    have "bt_keys (vc_outputs common) = bt_keys (cn_outputs (body_common body))"
      by (rule validated_node_source [OF assms(1-3) common]) (use body in simp)
    then show ?thesis
      using admitted_node_exists [OF wf common, of parallel transitions vs] out by auto
  qed
  then show ?thesis
    by (auto simp: exports_declared_def from_admitted_def from_workflow_def workflow_nodes_def)
qed

lemma validated_live:
  assumes "document_wf document" and "document_named document" and "condition_free document"
    and "validate document = Inr vw" and wf: "workflow_wf vw" and "0 < parallel"
  shows "definition_live (from_admitted vw parallel transitions vs)"
  using from_admitted_wf [OF wf] validated_ranked [OF assms(1,4) wf] validated_node_settles [OF assms(1-4) wf]
    validated_exports_declared [OF assms(1,3,4) wf] assms(6)
  unfolding definition_live_def by (simp del: from_admitted_fields(1))

end
