(* ===== verification/Liveness_Properties.thy ===== *)
theory Liveness_Properties
  imports Runtime_Liveness Validation_Live Runtime_Properties Validation_Properties
begin

text \<open>
  Liveness of the whole program: a workflow that validation accepts and that capacity admits runs to
  its end, unless its conditions keep it waiting.
\<close>

section \<open>The start of a run\<close>

lemma initial_settled: "cancelled_settled (initial_state def seed)"
  by (simp add: cancelled_settled_def cancel_phase_def initial_state_def)

lemma initial_definition: "definition_of (initial_state def seed) = def"
  by (simp add: initial_state_def)

lemma initial_pending:
  assumes "map_of (steps (initial_state def execution_seed_empty)) s = Some n"
  shows "srs_state n = Pending"
  using map_of_SomeD [OF assms]
  by (auto simp: initial_state_def initial_step_state_def execution_seed_empty_def Let_def)

lemma initial_outputs: "outputs_ok (fresh_reduction accepted (initial_state def execution_seed_empty))"
  unfolding outputs_ok_def using initial_pending by (force simp: outputs_declared_def)

lemma initial_wf: "definition_wf def \<Longrightarrow> state_wf (initial_state def seed)"
  by (simp add: state_wf_def initial_state_def split_beta)

lemma initial_live:
  assumes "definition_live def" and "r = fresh_reduction True (initial_state def execution_seed_empty)"
    and "capacity_left r" and "unat (maximum_transitions def) < 2 ^ 64 - 1"
  shows "live r"
  using assms
  by (simp add: live_def initial_definition definition_live_def initial_wf initial_phases initial_outputs
      initial_nodes_ok initial_settled)

section \<open>Completion\<close>

text \<open>
  C3: A run of a validated workflow without conditions, admitted under the general contract and started
  with no inherited results, never stalls: until it has ended a node of it is active, whatever was
  reported, cancelled or aborted so far.  And it can always be completed by reports of its own nodes,
  with no cancellation.
\<close>

theorem validated_run_completes:
  fixes r :: "('p, 'c, 'o, 'd) reduction" and ports :: "('p, 'c, 'o) runtime_ports"
  assumes "document_wf document" and "document_named document" and "condition_free document"
    and "validate document = Inr vw" and "resolve_workflow_capacity vw digest bytes = Inr cap"
    and "admit_capacity digested content_digest cap budget General = Inr admitted" and "0 < parallel"
    and "run ports (from_admitted vw parallel (ac_maximum_transitions admitted) vs) cancellation
      execution_seed_empty r"
  shows "(workflow_terminal (workflow (state r)) \<or> 0 < active_count (state r)) \<and>
    (\<exists>occurrences r'. list_all node_outcome occurrences \<and> reduce_all ports r occurrences = Some r' \<and>
       workflow_terminal (workflow (state r')))"
proof -
  let ?def = "from_admitted vw parallel (ac_maximum_transitions admitted) vs"
  note wf = validated_references(1) [OF assms(1,4)]
  have "unat (ac_maximum_transitions admitted) < 2 ^ 64 - 1"
    using admit_capacity_selects [OF assms(6)] resolved_capacity_bounds(1,2) [OF assms(5)]
    by (simp split: if_splits)
  then have "live (fresh_reduction True (initial_state ?def execution_seed_empty) :: ('p, 'c, 'o, 'd) reduction)"
    using validated_live [OF assms(1-4) wf assms(7)] admitted_capacity_left [OF wf assms(5,6) refl]
    by (intro initial_live [OF _ refl]) simp_all
  from run_moving [OF this assms(8)] show ?thesis
    using live_completes by (auto simp: moving_def)
qed

text \<open>The sample document with the condition of its second step removed.\<close>

definition plain_document :: workflow_document where
  "plain_document = sample_document
     \<lparr>doc_steps :=
        [(''a'', \<lparr>sdef_body = CommandBody
            \<lparr>cmd_common = sample_node None [(''t'', TextPath ''out.txt'')], cmd_inputs = [],
             cmd_argv = [''true'']\<rparr>,
            sdef_control_dependencies = [], sdef_recovery = None\<rparr>),
         (''b'', \<lparr>sdef_body = CommandBody
            \<lparr>cmd_common = sample_node None [],
             cmd_inputs = [(''i'', OutputReference \<lparr>or_node = ''a'', or_output = ''t''\<rparr>)],
             cmd_argv = [''true'']\<rparr>,
            sdef_control_dependencies = [''a''], sdef_recovery = None\<rparr>)]\<rparr>"

definition plain_validated :: validated_workflow where
  "plain_validated = projr (validate plain_document)"

lemma plain_document_ok: "document_wf plain_document \<and> document_named plain_document \<and> condition_free plain_document"
  by code_simp

lemma plain_admitted:
  "case validate plain_document of
     Inl _ \<Rightarrow> False
   | Inr vw \<Rightarrow>
       (case resolve_workflow_capacity vw sample_digest 100 of
          Inl _ \<Rightarrow> False
        | Inr cap \<Rightarrow>
            (case admit_capacity (Some sample_digest) sample_digest cap supported_maximum General of
               Inl _ \<Rightarrow> False
             | Inr admitted \<Rightarrow> ac_maximum_transitions admitted = 21))"
  by code_simp

theorem validated_run_completes_witness:
  "\<exists>r :: (unit, unit, string, nat) reduction.
     initialize_seeded_definition sample_ports (from_admitted plain_validated 1 21 []) None
       execution_seed_empty = Some r \<and>
     (\<exists>occurrences r'. list_all node_outcome occurrences \<and> reduce_all sample_ports r occurrences = Some r' \<and>
        workflow_terminal (workflow (state r')))"
proof -
  have valid: "validate plain_document = Inr plain_validated"
    using plain_admitted by (auto simp: plain_validated_def split: sum.splits)
  obtain cap admitted where cap: "resolve_workflow_capacity plain_validated sample_digest 100 = Inr cap"
    and admitted: "admit_capacity (Some sample_digest) sample_digest cap supported_maximum General = Inr admitted"
      "ac_maximum_transitions admitted = 21"
    using plain_admitted by (auto simp: valid split: sum.splits)
  note ok = plain_document_ok [THEN conjunct1] plain_document_ok [THEN conjunct2, THEN conjunct1]
    plain_document_ok [THEN conjunct2, THEN conjunct2]
  obtain r :: "(unit, unit, string, nat) reduction" where
    r: "initialize_seeded_definition sample_ports (from_admitted plain_validated 1 21 []) None
       execution_seed_empty = Some r"
    using initialize_total [OF from_admitted_wf [OF validated_references(1) [OF ok(1) valid]]
        validated_references(2) [OF ok(1) valid]] by metis
  then show ?thesis
    using validated_run_completes [OF ok valid cap admitted(1), of 1 sample_ports "[]" None r] run.initialize [OF r]
    by (auto simp: admitted(2))
qed

end
