(* ===== verification/Spec2Isabelle.thy ===== *)
theory Spec2Isabelle
  imports Language_Properties Runtime_Properties Validation_Properties Continuation_Properties Runtime_Findings Liveness_Properties
begin

text \<open>
  Verification of the workflow engine of \<^verbatim>\<open>scherzo-cloud-cli\<close>.

  \<^bold>\<open>The program.\<close>  The repository is a command-line client and a runner that execute declarative
  workflows.  A workflow document names steps, finalizers, their conditions, inputs, outputs and
  exports.  The engine under \<^verbatim>\<open>src/crates/execution/src/workflow\<close> decodes it (\<^verbatim>\<open>schema.rs\<close>), validates it
  (\<^verbatim>\<open>validation.rs\<close>), computes what a run may cost (\<^verbatim>\<open>capacity.rs\<close>), admits it against the budget of an
  executor (\<^verbatim>\<open>admission.rs\<close>), and runs it with a pure reducer (\<^verbatim>\<open>runtime.rs\<close>): the coordinator
  (\<^verbatim>\<open>coordinator.rs\<close>) hands the reducer one occurrence at a time (a process started, an execution
  ended, outputs were captured, a cancellation was requested) and performs the actions it returns.
  Conditions are evaluated by \<^verbatim>\<open>condition.rs\<close>, what happened to a node is recorded as evidence
  (\<^verbatim>\<open>evidence.rs\<close>), and a run can be continued with a changed definition (\<^verbatim>\<open>continuation.rs\<close>).

  \<^bold>\<open>The model.\<close>  Every function of the modelled files is one definition with the name it has in the
  source, apart from suffixes where the name is taken in HOL.  Structures are records, enumerations
  are datatypes, \<^verbatim>\<open>u8\<close> to \<^verbatim>\<open>u64\<close> are words, strings are byte lists, \<^verbatim>\<open>BTreeMap\<close> and \<^verbatim>\<open>BTreeSet\<close> are ascending
  lists, \<^verbatim>\<open>Option\<close> is \<open>option\<close> and \<^verbatim>\<open>Result\<close> is a sum whose left side is the error.

  \<^item> \<open>Prelude\<close>: checked and saturating integer operations, byte strings, ordered maps and sets behind
    the interface \<open>ordered_map\<close>, and the error-passing combinators.
  \<^item> \<open>Condition\<close> (\<^verbatim>\<open>condition.rs\<close>): JSON values and pointers, predicates, the traced evaluator, and the
    decimal arithmetic that compares JSON numbers exactly.
  \<^item> \<open>Evidence\<close> (\<^verbatim>\<open>evidence.rs\<close>): details of failed, blocked, skipped, cancelled and inherited nodes with
    their constructors, validators and readers, and the translation of failure causes.
  \<^item> \<open>Harness_Config\<close> (\<^verbatim>\<open>pi.rs\<close>, \<^verbatim>\<open>claude_code.rs\<close>, \<^verbatim>\<open>codex.rs\<close>) and \<open>Workflow_Types\<close> (\<^verbatim>\<open>document.rs\<close>,
    \<^verbatim>\<open>validated.rs\<close>, \<^verbatim>\<open>finalization_context.rs\<close>): documents, validated workflows and their parts.
  \<^item> \<open>Validation\<close> (\<^verbatim>\<open>validation.rs\<close>): the whole of \<open>validate\<close> with its inference of prerequisites, both
    dependency graphs, condition bounds, output rules, and the resolution of references and exports.
  \<^item> \<open>Runtime_Types\<close>, \<open>Runtime_Ops\<close>, \<open>Runtime_Reduce\<close>, \<open>Runtime_Machine\<close> (\<^verbatim>\<open>runtime.rs\<close>): the state of a run
    (\<open>runtime_state\<close>), the reduction that a call builds (\<open>reduction\<close>: state, events, actions), the
    primitive writes and queries, settlement, recovery, cancellation and force abort, and the
    stabilizing loop with the entry points \<open>initialize_seeded_definition\<close> and \<open>reduce\<close>.
  \<^item> \<open>Capacity\<close> (\<^verbatim>\<open>capacity.rs\<close> and the checks of \<^verbatim>\<open>admission.rs\<close>): transitions, invocations and bytes.
  \<^item> \<open>Continuation\<close> (\<^verbatim>\<open>continuation.rs\<close>): partitions, projected inputs, and admitted inheritance.

  What the reducer asks of code outside the model is the record \<open>runtime_ports\<close>: whether provisional
  resources need a release, the detail of a failure cause, the text or JSON of a captured output, and
  the \<^verbatim>\<open>serde_json\<close> writer and reader.  No property assumes anything of these functions.

  \<^bold>\<open>The proofs.\<close>

  \<^item> \<open>Condition_Semantics\<close>, \<open>Condition_Numbers\<close>, \<open>Evidence_Checks\<close> lead to \<open>Language_Properties\<close>: the
    evaluator computes the boolean reading of a predicate, JSON equality is equality of denotations,
    where numbers denote rationals by an inductive reading of the grammar of RFC 8259, pointers and details survive being written and read back, with one
    exception that is a defect of the reader.
  \<^item> \<open>Runtime_Steps\<close> states what the reducer may do as guarded steps of nodes and workflow (\<open>micro\<close>);
    \<open>Runtime_Commits\<close>, \<open>Runtime_Refinement\<close> and \<open>Runtime_Stabilize\<close> show that every entry point is a
    sequence of such steps.  The interface \<open>reducer_invariant\<close> of \<open>Runtime_Invariants\<close> turns a property
    kept by \<open>micro\<close> into a property of every run; it is interpreted for terminal nodes, legal events
    and parallelism (\<open>Runtime_Invariants\<close>), consistent nodes and numbered events (\<open>Runtime_Safety\<close>),
    phases and the single end of a run (\<open>Runtime_Runs\<close>), justified dispatch, closed gates and ordered
    requests (\<open>Runtime_Dispatch\<close>), the remaining capacity (\<open>Runtime_Capacity\<close>) and the growth of
    sequence numbers (\<open>Runtime_Termination\<close>).
  \<^item> \<open>Runtime_Progress\<close>, \<open>Runtime_Calm\<close> and \<open>Runtime_Cancelled\<close> hold what stands between a run and a stall: in
    a workflow without conditions an idle phase is settled, events are the only trace of a change,
    and a cancelled phase has nothing pending.  \<open>Runtime_Liveness\<close> concludes that such a run never
    stalls and can be completed, \<open>Validation_Live\<close> that validated workflows without conditions meet
    the assumptions, and \<open>Liveness_Properties\<close> states it from the document to the end of the run.
  \<^item> \<open>Capacity_Checks\<close> and \<open>Run_Capacity\<close> connect the computed capacity with the runs it admits.
    \<open>Runtime_Properties\<close> states the properties of runs.
  \<^item> \<open>Validation_Graph\<close> relates the worklist that orders a graph to a reference order and to acyclicity;
    \<open>Validation_Checks\<close> derives what a validated workflow guarantees, \<open>Validation_Data\<close> what it guarantees
    of the outputs its nodes read within and across phases, and \<open>Validation_Properties\<close> states it, up to
    the reducer that runs the workflow.
  \<^item> \<open>Continuation_Checks\<close> shows that the queue of a partition computes a transitive closure and reads
    the checks of inputs and outputs as comparisons of types and contracts;
    \<open>Continuation_Properties\<close> states what a continuation executes, inherits and refuses.
  \<^item> \<open>Runtime_Findings\<close> holds closed runs in which the engine departs from its documentation or from
    the promise of its admission: a run that stalls, a step started against its condition, a
    condition failure that cannot be recorded, and a cloud run that outgrows its capacity.
  \<^item> \<open>Runtime_Samples\<close> and \<open>Validation_Samples\<close> hold the concrete workflows of the witnesses.

  \<^bold>\<open>Loops and bounds.\<close>  No definition uses fuel.  The loops over pending dispositions and conditions
  terminate because each iteration settles a pending node or passes a condition; the worklist of a
  graph because the open prerequisites decrease; the queue of a partition because the visited set
  grows.  Two loops, \<open>stabilize\<close> and \<open>block_finalizer_inputs\<close>, need not return for an arbitrary
  definition and are partial functions; that they return is proved for every definition whose body
  references can be recorded, and for every definition obtained from a validated workflow.  Sequence
  numbers are 64-bit words, and a run that reaches its capacity sets a flag, as in the source.
  \<^verbatim>\<open>usize\<close> values are natural numbers, and \<^verbatim>\<open>usize::MAX\<close>, used as a sort key, is that of a 64-bit target.
  The tables of a document are assumed to be ascending and to agree with its source orders
  (\<open>document_wf\<close>), as the decoder builds them; liveness also assumes that names have the form the
  document schema gives them (\<open>document_named\<close>).

  \<^bold>\<open>Not modelled.\<close>  Decoding of YAML and the text of diagnostics (\<^verbatim>\<open>schema.rs\<close>, \<^verbatim>\<open>strict_yaml.rs\<close>,
  \<^verbatim>\<open>diagnostic.rs\<close>), which rest on a third-party parser; the resolution of sources, inputs and Git
  objects, the staging of artifacts and the launch of processes, which are operating-system calls;
  the asynchronous coordinator around the reducer, the protocols of the agent harnesses, and the
  publication, archiving and presentation of results; the runner service, the generated protocol
  bindings, the API client, authentication and the command line, which are network and terminal
  input and output.  Of these only the failure causes that reach the reducer are modelled.
\<close>

end
